(* ===== verification/Prelude.thy ===== *)
theory Prelude
  imports Main "HOL-Library.Word" "HOL-Library.Signed_Division"
begin

text \<open>
  What every component shares: Go's \<open>int64\<close>/\<open>uint64\<close> arithmetic on \<open>int\<close> with
  the wrap-around written out, the state-and-error monad in which the operations are
  written (a Go function that returns \<open>(T, error)\<close> and touches a store), the list lemmas
  about rows updated by key, and the collections the component proofs use.
\<close>

section \<open>Collections\<close>

named_theorems io_inv \<open>inversions of a successful or failed run of a monadic operation\<close>
named_theorems i64_simps \<open>int64 arithmetic that stays in range\<close>
named_theorems row_simps \<open>keyed updates and lookups of table rows\<close>


section \<open>Machine integers\<close>

text \<open>
  An \<open>int64\<close> is an \<open>int\<close> in \<open>[-2^63, 2^63)\<close>; \<open>i64\<close> is what Go's
  operators do to an out-of-range result. \<open>u64\<close> is the conversion to \<open>uint64\<close>.
\<close>

definition int64_min :: int where "int64_min = - 9223372036854775808"

definition int64_max :: int where "int64_max = 9223372036854775807"

definition in_int64 :: "int \<Rightarrow> bool" where
  "in_int64 x \<longleftrightarrow> int64_min \<le> x \<and> x \<le> int64_max"

definition i64 :: "int \<Rightarrow> int" where
  "i64 x = (x + 9223372036854775808) mod 18446744073709551616 - 9223372036854775808"

definition u64 :: "int \<Rightarrow> int" where
  "u64 x = x mod 18446744073709551616"

text \<open>Go's \<open>/\<close> on \<open>int64\<close>: truncation towards zero, wrapped.\<close>

definition go_div :: "int \<Rightarrow> int \<Rightarrow> int" where
  "go_div a b = i64 (a sdiv b)"

lemma i64_range: "in_int64 (i64 x)"
  by (simp add: in_int64_def i64_def int64_min_def int64_max_def)

lemma i64_id [i64_simps]: "in_int64 x \<Longrightarrow> i64 x = x"
  by (simp add: in_int64_def i64_def int64_min_def int64_max_def)

lemma i64_bounded: "0 \<le> x \<Longrightarrow> x \<le> 9223372036854775807 \<Longrightarrow> i64 x = x"
  by (rule i64_id) (simp add: in_int64_def int64_min_def int64_max_def)

lemma i64_idem [simp]: "i64 (i64 x) = i64 x"
  by (rule i64_id) (rule i64_range)

lemma i64_zero [simp]: "i64 0 = 0"
  by (simp add: i64_def)

text \<open>The definition is two's complement: the signed reading of a 64-bit word.\<close>

lemma i64_sint: "i64 x = sint (word_of_int x :: 64 word)"
proof -
  have "sint (word_of_int x :: 64 word) = signed_take_bit 63 x"
    by (simp add: sint_sbintrunc')
  also have "\<dots> = i64 x"
    by (simp add: signed_take_bit_eq_take_bit_shift take_bit_eq_mod i64_def)
  finally show ?thesis by simp
qed

lemma u64_uint: "u64 x = uint (word_of_int x :: 64 word)"
  by (simp add: u64_def uint_word_of_int)

lemma i64_mod: "i64 x mod 18446744073709551616 = x mod 18446744073709551616"
  by (simp add: i64_def mod_simps)

lemma i64_add_left [simp]: "i64 (i64 x + y) = i64 (x + y)"
  by (simp add: i64_def mod_simps algebra_simps)

lemma i64_add_right [simp]: "i64 (x + i64 y) = i64 (x + y)"
  by (simp add: add.commute [of x])

lemma i64_diff_right [simp]: "i64 (x - i64 y) = i64 (x - y)"
  by (simp add: i64_def mod_simps algebra_simps)

lemma sdiv_nonneg: "0 \<le> a \<Longrightarrow> 0 < b \<Longrightarrow> (a::int) sdiv b = a div b"
  by (cases "a = 0") (simp_all add: signed_divide_int_def sgn_if)

lemma go_div_nonneg:
  assumes "0 \<le> a" and "a \<le> 9223372036854775807" and "0 < b"
  shows "go_div a b = a div b"
proof -
  have "0 \<le> a div b" using assms by (simp add: pos_imp_zdiv_nonneg_iff)
  moreover have "a div b \<le> a"
    using zdiv_mono2 [of a 1 b] assms by simp
  ultimately show ?thesis
    using assms by (simp add: go_div_def sdiv_nonneg i64_bounded)
qed


section \<open>Operations with a store and errors\<close>

text \<open>
  \<open>('w, 'e, 'a) io\<close> is a Go function that reads and changes a world \<open>'w\<close> and returns
  \<open>(value, error)\<close>: \<open>Inl\<close> is the early return with an error, \<open>Inr\<close> the normal
  return. The world survives an error, as it does in Go.
\<close>

type_synonym ('w, 'e, 'a) io = "'w \<Rightarrow> ('e + 'a) \<times> 'w"

definition ret :: "'a \<Rightarrow> ('w, 'e, 'a) io" where
  "ret x = (\<lambda>w. (Inr x, w))"

definition throw :: "'e \<Rightarrow> ('w, 'e, 'a) io" where
  "throw e = (\<lambda>w. (Inl e, w))"

definition bindE :: "('w, 'e, 'a) io \<Rightarrow> ('a \<Rightarrow> ('w, 'e, 'b) io) \<Rightarrow> ('w, 'e, 'b) io" where
  "bindE m f = (\<lambda>w. case m w of (Inl e, w') \<Rightarrow> (Inl e, w') | (Inr x, w') \<Rightarrow> f x w')"

definition seqE :: "('w, 'e, 'a) io \<Rightarrow> ('w, 'e, 'b) io \<Rightarrow> ('w, 'e, 'b) io" where
  "seqE m k = bindE m (\<lambda>_. k)"

text \<open>\<open>if err != nil { ... }\<close>: the handler sees the error in the world it left behind.\<close>

definition on_error :: "('w, 'e, 'a) io \<Rightarrow> ('e \<Rightarrow> ('w, 'e, 'a) io) \<Rightarrow> ('w, 'e, 'a) io" where
  "on_error m h = (\<lambda>w. case m w of (Inl e, w') \<Rightarrow> h e w' | (Inr x, w') \<Rightarrow> (Inr x, w'))"

lemma ret_Inr [io_inv]: "ret x w = (Inr y, w') \<longleftrightarrow> y = x \<and> w' = w"
  by (auto simp: ret_def)

lemma ret_Inl [io_inv]: "ret x w = (Inl e, w') \<longleftrightarrow> False"
  by (simp add: ret_def)

lemma throw_Inr [io_inv]: "throw e w = (Inr y, w') \<longleftrightarrow> False"
  by (simp add: throw_def)

lemma throw_Inl [io_inv]: "throw e w = (Inl e', w') \<longleftrightarrow> e' = e \<and> w' = w"
  by (auto simp: throw_def)

lemma bindE_Inr [io_inv]:
  "bindE m f w = (Inr y, w') \<longleftrightarrow> (\<exists>x w1. m w = (Inr x, w1) \<and> f x w1 = (Inr y, w'))"
  by (auto simp: bindE_def split: prod.splits sum.splits)

lemma bindE_Inl [io_inv]:
  "bindE m f w = (Inl e, w') \<longleftrightarrow>
     m w = (Inl e, w') \<or> (\<exists>x w1. m w = (Inr x, w1) \<and> f x w1 = (Inl e, w'))"
  by (auto simp: bindE_def split: prod.splits sum.splits)

lemma seqE_Inr [io_inv]:
  "seqE m k w = (Inr y, w') \<longleftrightarrow> (\<exists>x w1. m w = (Inr x, w1) \<and> k w1 = (Inr y, w'))"
  by (simp add: seqE_def bindE_Inr)

lemma seqE_Inl [io_inv]:
  "seqE m k w = (Inl e, w') \<longleftrightarrow>
     m w = (Inl e, w') \<or> (\<exists>x w1. m w = (Inr x, w1) \<and> k w1 = (Inl e, w'))"
  by (simp add: seqE_def bindE_Inl)

lemma bindE_ret [simp]: "bindE (ret x) f = f x"
  by (simp add: bindE_def ret_def)

lemma bindE_throw [simp]: "bindE (throw e) f = throw e"
  by (simp add: bindE_def throw_def)

lemma bindE_assoc: "bindE (bindE m f) g = bindE m (\<lambda>x. bindE (f x) g)"
  by (auto simp: bindE_def fun_eq_iff split: prod.splits sum.splits)

text \<open>
  \<open>keeps P m\<close>: whatever \<open>m\<close> returns, \<open>P\<close> of the world survives. The rules
  below push it through the combinators, so a frame property of an operation is one
  \<open>intro\<close>.
\<close>

definition keeps :: "('w \<Rightarrow> bool) \<Rightarrow> ('w, 'e, 'a) io \<Rightarrow> bool" where
  "keeps P m \<longleftrightarrow> (\<forall>w. P w \<longrightarrow> P (snd (m w)))"

named_theorems keeps_intro \<open>rules that push a frame property through an operation\<close>

lemma keeps_ret [keeps_intro]: "keeps P (ret x)"
  by (simp add: keeps_def ret_def)

lemma keeps_throw [keeps_intro]: "keeps P (throw e)"
  by (simp add: keeps_def throw_def)

lemma keeps_bindE [keeps_intro]:
  "keeps P m \<Longrightarrow> (\<And>x. keeps P (f x)) \<Longrightarrow> keeps P (bindE m f)"
  unfolding keeps_def bindE_def by (auto split: prod.splits sum.splits)

lemma keeps_seqE [keeps_intro]: "keeps P m \<Longrightarrow> keeps P k \<Longrightarrow> keeps P (seqE m k)"
  unfolding seqE_def by (rule keeps_bindE)

lemma keeps_on_error [keeps_intro]:
  "keeps P m \<Longrightarrow> (\<And>e. keeps P (h e)) \<Longrightarrow> keeps P (on_error m h)"
  unfolding keeps_def on_error_def by (auto split: prod.splits sum.splits)

lemma keeps_if [keeps_intro]:
  "(b \<Longrightarrow> keeps P m) \<Longrightarrow> (\<not> b \<Longrightarrow> keeps P k) \<Longrightarrow> keeps P (if b then m else k)"
  by simp

lemma keepsD: "keeps P m \<Longrightarrow> m w = (r, w') \<Longrightarrow> P w \<Longrightarrow> P w'"
  unfolding keeps_def by (metis snd_conv)


section \<open>Rows\<close>

text \<open>
  A table is the list of its rows in storage order. \<open>upd_rows\<close> is SQL's
  \<open>UPDATE t SET ... WHERE p\<close>; a \<open>SELECT\<close> by key is \<open>find\<close>.
\<close>

definition upd_rows :: "('r \<Rightarrow> bool) \<Rightarrow> ('r \<Rightarrow> 'r) \<Rightarrow> 'r list \<Rightarrow> 'r list" where
  "upd_rows p f rs = map (\<lambda>r. if p r then f r else r) rs"

lemma upd_rows_Nil [simp]: "upd_rows p f [] = []"
  by (simp add: upd_rows_def)

lemma upd_rows_Cons [simp]:
  "upd_rows p f (r # rs) = (if p r then f r else r) # upd_rows p f rs"
  by (simp add: upd_rows_def)

lemma map_upd_rows [row_simps]:
  "(\<And>r. k (f r) = k r) \<Longrightarrow> map k (upd_rows p f rs) = map k rs"
  by (induction rs) auto

lemma set_upd_rows: "set (upd_rows p f rs) = (\<lambda>r. if p r then f r else r) ` set rs"
  by (simp add: upd_rows_def)

lemma upd_rows_none: "\<forall>r \<in> set rs. \<not> p r \<Longrightarrow> upd_rows p f rs = rs"
  by (induction rs) auto

lemma sum_upd_rows_none:
  "k \<notin> key ` set rs \<Longrightarrow>
     sum_list (map v (upd_rows (\<lambda>r. key r = k) f rs)) = sum_list (map v rs)"
  by (induction rs) auto

text \<open>Updating the one row that has the key changes a column's sum by that row's change.\<close>

lemma sum_upd_rows:
  fixes v :: "'r \<Rightarrow> int"
  assumes "distinct (map key rs)" and "find (\<lambda>r. key r = k) rs = Some r"
  shows "sum_list (map v (upd_rows (\<lambda>r. key r = k) f rs)) = sum_list (map v rs) + v (f r) - v r"
  using assms
proof (induction rs)
  case Nil
  then show ?case by simp
next
  case (Cons a rs)
  then show ?case
    by (cases "key a = k") (auto simp: sum_upd_rows_none)
qed

lemma find_key_Some:
  "find (\<lambda>r. key r = k) rs = Some r \<Longrightarrow> r \<in> set rs \<and> key r = k"
  by (auto simp: find_Some_iff in_set_conv_nth)

lemma find_key_None:
  "find (\<lambda>r. key r = k) rs = None \<longleftrightarrow> k \<notin> key ` set rs"
  by (auto simp: find_None_iff)

lemma find_key_unique:
  "distinct (map key rs) \<Longrightarrow> r \<in> set rs \<Longrightarrow> key r = k \<Longrightarrow>
     find (\<lambda>r. key r = k) rs = Some r"
  by (induction rs) auto

lemma find_upd_rows [row_simps]:
  "(\<And>r. key (f r) = key r) \<Longrightarrow>
     find (\<lambda>r. key r = k) (upd_rows (\<lambda>r. key r = k') f rs) =
     (if k = k' then map_option f (find (\<lambda>r. key r = k) rs) else find (\<lambda>r. key r = k) rs)"
  by (induction rs) auto

lemma find_append: "find p (xs @ ys) = (case find p xs of None \<Rightarrow> find p ys | Some x \<Rightarrow> Some x)"
  by (induction xs) auto

lemma in_set_upd_rows:
  "r \<in> set (upd_rows p f rs) \<longleftrightarrow> (\<exists>x \<in> set rs. r = (if p x then f x else x))"
  by (auto simp: set_upd_rows)

lemma ball_upd_rows:
  "(\<forall>r \<in> set (upd_rows p f rs). Q r) \<longleftrightarrow> (\<forall>r \<in> set rs. Q (if p r then f r else r))"
  by (induction rs) auto

text \<open>Grouping by a key that covers every element does not change the sum.\<close>

lemma sum_by_key:
  fixes v :: "'b \<Rightarrow> int"
  assumes "distinct ks" and "\<forall>b \<in> set bs. key b \<in> set ks"
  shows "sum_list (map (\<lambda>k. sum_list (map v (filter (\<lambda>b. key b = k) bs))) ks) = sum_list (map v bs)"
  using assms(2)
proof (induction bs)
  case Nil
  then show ?case by (induction ks) auto
next
  case (Cons b bs)
  have one: "sum_list (map (\<lambda>k. if key b = k then v b else 0) ks) = v b"
    using assms(1) Cons.prems by (subst sum_list_distinct_conv_sum_set) auto
  have "sum_list (map (\<lambda>k. sum_list (map v (filter (\<lambda>b. key b = k) (b # bs)))) ks) =
        sum_list (map (\<lambda>k. (if key b = k then v b else 0) +
                            sum_list (map v (filter (\<lambda>b. key b = k) bs))) ks)"
    by (intro arg_cong [where f = sum_list] map_cong) auto
  also have "\<dots> = v b + sum_list (map v bs)"
    using Cons by (simp add: sum_list_addf one)
  finally show ?case by simp
qed

lemma sum_list_split:
  fixes v :: "'b \<Rightarrow> int"
  shows "sum_list (map v bs) =
    sum_list (map v (filter p bs)) + sum_list (map v (filter (\<lambda>b. \<not> p b) bs))"
  by (induction bs) auto


section \<open>Decimal text\<close>

text \<open>\<open>strconv.Itoa\<close> and \<open>%d\<close>: decimal digits, most significant first.\<close>

definition digit_char :: "nat \<Rightarrow> char" where
  "digit_char n = char_of (48 + n)"

fun nat_text :: "nat \<Rightarrow> string" where
  "nat_text n = (if n < 10 then [digit_char n] else nat_text (n div 10) @ [digit_char (n mod 10)])"

declare nat_text.simps [simp del]

definition int_text :: "int \<Rightarrow> string" where
  "int_text i = (if i < 0 then ''-'' @ nat_text (nat (- i)) else nat_text (nat i))"

end
