(* ===== verification/Float64.thy ===== *)
theory Float64
  imports Complex_Main "HOL-Library.Log_Nat" Prelude
begin

text \<open>
  Go's \<open>float64\<close> where the program divides pool totals: IEEE binary64 with
  round-to-nearest-even on a 53-bit significand. The values here lie between \<open>2^-63\<close>
  and \<open>2^63\<close>, so the exponent range (subnormals, infinities) is never reached and is
  left out; a float is the rational it denotes.
\<close>

type_synonym float64 = rat

definition round_half_even :: "rat \<Rightarrow> int" where
  "round_half_even x =
     (let n = \<lfloor>x\<rfloor>; r = x - of_int n
      in if r < 1 / 2 then n else if 1 / 2 < r then n + 1 else if even n then n else n + 1)"

text \<open>The exponent of a positive rational: the \<open>e\<close> with \<open>2^e \<le> x < 2^(e+1)\<close>.\<close>

definition f64_exponent :: "rat \<Rightarrow> int" where
  "f64_exponent x =
     (case quotient_of x of (p, q) \<Rightarrow>
        let k = bitlen p - bitlen q in if 2 powi k \<le> x then k else k - 1)"

definition f64_round :: "rat \<Rightarrow> float64" where
  "f64_round x =
     (if x = 0 then 0
      else let a = \<bar>x\<bar>; e = f64_exponent a
           in sgn x * (of_int (round_half_even (a * 2 powi (52 - e))) * 2 powi (e - 52)))"

text \<open>\<open>float64(n)\<close> of an integer, and \<open>float64(a) / float64(b)\<close>.\<close>

definition f64_of_int :: "int \<Rightarrow> float64" where
  "f64_of_int n = f64_round (of_int n)"

definition f64_div :: "float64 \<Rightarrow> float64 \<Rightarrow> float64" where
  "f64_div a b = f64_round (a / b)"

lemma round_half_even_int [simp]: "round_half_even (of_int n) = n"
  by (simp add: round_half_even_def)

lemma round_half_even_error: "\<bar>of_int (round_half_even x) - x\<bar> \<le> 1 / 2"
proof -
  let ?n = "\<lfloor>x\<rfloor>"
  have "of_int ?n \<le> x" and "x < of_int ?n + 1" by linarith+
  then show ?thesis by (auto simp: round_half_even_def Let_def abs_le_iff)
qed

lemma round_half_even_ge:
  assumes "of_int n \<le> x"
  shows "n \<le> round_half_even x"
proof -
  have "n \<le> \<lfloor>x\<rfloor>" using assms by (simp add: le_floor_iff)
  then show ?thesis by (simp add: round_half_even_def Let_def)
qed

lemma rat_quotient_pos:
  assumes "0 < (x::rat)" and "quotient_of x = (p, q)"
  shows "0 < p" and "0 < q" and "x = of_int p / of_int q"
proof -
  show q: "0 < q" using assms(2) by (rule quotient_of_denom_pos)
  show x: "x = of_int p / of_int q" using assms(2) by (rule quotient_of_div)
  show "0 < p" using assms(1) q by (simp add: x zero_less_divide_iff)
qed

text \<open>A positive integer lies between two powers of two given by its bit length.\<close>

lemma bitlen_rat_bounds:
  assumes "0 < n"
  shows "2 powi (bitlen n - 1) \<le> (of_int n :: rat)" and "(of_int n :: rat) < 2 powi bitlen n"
proof -
  have b: "0 \<le> bitlen n - 1" using assms bitlen_eq_zero_iff [of n] bitlen_nonneg [of n] by linarith
  have "2 ^ nat (bitlen n - 1) \<le> n" and "n < 2 ^ nat (bitlen n)"
    using bitlen_bounds [OF assms] by auto
  then have "(2::rat) ^ nat (bitlen n - 1) \<le> of_int n" and "(of_int n :: rat) < 2 ^ nat (bitlen n)"
    by (metis of_int_le_iff of_int_numeral of_int_power)
       (metis \<open>n < 2 ^ nat (bitlen n)\<close> of_int_less_iff of_int_numeral of_int_power)
  then show "2 powi (bitlen n - 1) \<le> (of_int n :: rat)" and "(of_int n :: rat) < 2 powi bitlen n"
    using b by (simp_all add: power_int_def)
qed

lemma f64_exponent_bounds:
  assumes "0 < x"
  shows "2 powi (f64_exponent x) \<le> x" and "x < 2 powi (f64_exponent x + 1)"
proof -
  obtain p q where pq: "quotient_of x = (p, q)" by force
  note x = rat_quotient_pos [OF assms pq]
  let ?k = "bitlen p - bitlen q"
  have "2 powi (?k - 1) = (2::rat) powi (bitlen p - 1) / 2 powi (bitlen q)"
    by (simp flip: power_int_diff add: algebra_simps)
  also have "\<dots> \<le> x"
    unfolding x(3) using bitlen_rat_bounds(1) [OF x(1)] bitlen_rat_bounds(2) [OF x(2)] x(1,2)
    by (intro frac_le) auto
  finally have lo: "2 powi (?k - 1) \<le> x" .
  have "x < 2 powi bitlen p / 2 powi (bitlen q - 1)"
    unfolding x(3) using bitlen_rat_bounds(2) [OF x(1)] bitlen_rat_bounds(1) [OF x(2)] x(1,2)
    by (intro frac_less) auto
  also have "\<dots> = 2 powi (?k + 1)"
    by (simp flip: power_int_diff add: algebra_simps)
  finally have hi: "x < 2 powi (?k + 1)" .
  show "2 powi (f64_exponent x) \<le> x" and "x < 2 powi (f64_exponent x + 1)"
    using lo hi by (auto simp: f64_exponent_def pq Let_def)
qed

lemma f64_exponent_nonneg:
  assumes "1 \<le> x"
  shows "0 \<le> f64_exponent x"
proof (rule ccontr)
  assume "\<not> 0 \<le> f64_exponent x"
  then have "f64_exponent x + 1 \<le> 0" by simp
  then have "(2::rat) powi (f64_exponent x + 1) \<le> 2 powi 0"
    by (intro power_int_increasing) auto
  then show False using f64_exponent_bounds(2) [of x] assms by simp
qed

text \<open>Rounding never takes a value at or above one below it.\<close>

lemma f64_round_ge_one:
  assumes "1 \<le> x"
  shows "1 \<le> f64_round x"
proof -
  let ?e = "f64_exponent x"
  have "2 powi 52 \<le> x * 2 powi (52 - ?e)"
  proof -
    have "2 powi 52 = (2::rat) powi ?e * 2 powi (52 - ?e)"
      by (simp flip: power_int_add)
    also have "\<dots> \<le> x * 2 powi (52 - ?e)"
      using f64_exponent_bounds(1) [of x] assms by (intro mult_right_mono) auto
    finally show ?thesis .
  qed
  then have "of_int (2 ^ 52) \<le> x * 2 powi (52 - ?e)" by (simp add: power_int_def)
  then have "2 ^ 52 \<le> round_half_even (x * 2 powi (52 - ?e))" by (rule round_half_even_ge)
  then have "(2::rat) powi 52 \<le> of_int (round_half_even (x * 2 powi (52 - ?e)))"
    by (simp add: power_int_def)
  then have "2 powi 52 * 2 powi (?e - 52) \<le> f64_round x"
    using assms by (simp add: f64_round_def Let_def)
  moreover have "(2::rat) powi 52 * 2 powi (?e - 52) = 2 powi ?e"
    by (simp add: power_int_diff)
  moreover have "(1::rat) \<le> 2 powi ?e"
    using f64_exponent_nonneg [OF assms] by (simp add: one_le_power_int)
  ultimately show ?thesis by linarith
qed

text \<open>The relative rounding error is at most \<open>2^-53\<close>.\<close>

lemma f64_round_error:
  assumes "0 < x"
  shows "\<bar>f64_round x - x\<bar> \<le> x / 2 ^ 53"
proof -
  let ?e = "f64_exponent x" and ?s = "2 powi (52 - f64_exponent x) :: rat"
  have s: "?s * 2 powi (?e - 52) = 1" by (simp flip: power_int_add)
  have "f64_round x - x = (of_int (round_half_even (x * ?s)) - x * ?s) * 2 powi (?e - 52)"
    using assms s by (simp add: f64_round_def Let_def left_diff_distrib mult.assoc)
  then have "\<bar>f64_round x - x\<bar> = \<bar>of_int (round_half_even (x * ?s)) - x * ?s\<bar> * 2 powi (?e - 52)"
    by (simp add: abs_mult)
  also have "\<dots> \<le> 1 / 2 * 2 powi (?e - 52)"
    by (intro mult_right_mono round_half_even_error) simp
  also have "\<dots> = 2 powi ?e / 2 ^ 53"
    by (simp add: power_int_diff)
  also have "\<dots> \<le> x / 2 ^ 53"
    using f64_exponent_bounds(1) [OF assms] by (simp add: divide_right_mono)
  finally show ?thesis .
qed


text \<open>Integers below \<open>2^53\<close> are floats.\<close>

lemma f64_of_int_exact:
  assumes "0 < n" and "n < 9007199254740992"
  shows "f64_of_int n = of_int n"
proof -
  let ?x = "of_int n :: rat" and ?e = "f64_exponent (of_int n)"
  have b: "2 powi ?e \<le> ?x" and e0: "0 \<le> ?e"
    using f64_exponent_bounds(1) [of ?x] f64_exponent_nonneg [of ?x] assms(1) by simp_all
  have "?x < 2 powi 53"
  proof -
    have "?x < of_int 9007199254740992" using assms(2) by (simp only: of_int_less_iff)
    then show ?thesis by (simp add: power_int_def)
  qed
  have "?e \<le> 52"
  proof (rule ccontr)
    assume "\<not> ?e \<le> 52"
    then have "(2::rat) powi 53 \<le> 2 powi ?e" by (intro power_int_increasing) auto
    then show False using b \<open>?x < 2 powi 53\<close> by linarith
  qed
  then have s: "?x * 2 powi (52 - ?e) = of_int (n * 2 ^ nat (52 - ?e))"
    by (simp add: power_int_def)
  have "f64_round ?x = of_int (n * 2 ^ nat (52 - ?e)) * 2 powi (?e - 52)"
  proof -
    have a: "\<bar>?x\<bar> = ?x" "sgn ?x = 1" "(?x = 0) = False" using assms(1) by simp_all
    show ?thesis unfolding f64_round_def Let_def a s round_half_even_int by simp
  qed
  also have "\<dots> = ?x * (2 powi (52 - ?e) * 2 powi (?e - 52))"
    by (simp only: s [symmetric] mult.assoc)
  also have "2 powi (52 - ?e) * 2 powi (?e - 52) = (1::rat)" by (simp flip: power_int_add)
  finally show ?thesis by (simp add: f64_of_int_def)
qed

end
