(* ===== verification/Bet_Models.thy ===== *)
theory Bet_Models
  imports Float64 "HOL-Library.AList"
begin

text \<open>
  \<open>bet-backend/models\<close>: the rows of the engine's tables and the structs it returns. A
  field \<open>F\<close> of a struct \<open>T\<close> is \<open>T_F\<close> here; a \<open>*string\<close> or
  \<open>*time.Time\<close> is an option; a time is a count of microseconds.
\<close>

type_synonym uuid = string
type_synonym time = int

datatype MarketStatus = StatusOpen | StatusLocked | StatusResolved | StatusCancelled

datatype BetListingStatus = ListingStatusListed | ListingStatusSold | ListingStatusCancelled

record User =
  User_ID :: uuid
  User_Balance :: int
  User_CreatedAt :: time

record Market =
  Market_ID :: uuid
  Market_Question :: string
  Market_Outcomes :: "string list"
  Market_Status :: MarketStatus
  Market_Seed :: int
  Market_WinningOutcome :: "string option"
  Market_CreatedAt :: time

record Pool =
  Pool_MarketID :: uuid
  Pool_Outcome :: string
  Pool_Total :: int

record Bet =
  Bet_ID :: uuid
  Bet_MarketID :: uuid
  Bet_UserID :: uuid
  Bet_OriginalUserID :: uuid
  Bet_Outcome :: string
  Bet_Stake :: int
  Bet_CreatedAt :: time

record BetListing =
  Listing_ID :: uuid
  Listing_BetID :: uuid
  Listing_MarketID :: uuid
  Listing_SellerID :: uuid
  Listing_BuyerID :: "uuid option"
  Listing_AskingPrice :: int
  Listing_Status :: BetListingStatus
  Listing_CreatedAt :: time
  Listing_SoldAt :: "time option"
  Listing_CancelledAt :: "time option"

text \<open>The struct embeds \<open>BetListing\<close>; so does the record.\<close>

record BetListingDetails = BetListing +
  Details_Outcome :: string
  Details_Stake :: int

text \<open>A Go map is an association list, written through \<open>AList.update\<close>.\<close>

record MarketDetails =
  MD_ID :: uuid
  MD_Question :: string
  MD_Outcomes :: "string list"
  MD_Status :: MarketStatus
  MD_Seed :: int
  MD_WinningOutcome :: "string option"
  MD_Pools :: "(string \<times> int) list"
  MD_TotalPool :: int
  MD_LiveOdds :: "(string \<times> float64) list"
  MD_CreatedAt :: time

text \<open>The text each status has in the database and in JSON.\<close>

fun MarketStatus_text :: "MarketStatus \<Rightarrow> string" where
  "MarketStatus_text StatusOpen = ''OPEN''"
| "MarketStatus_text StatusLocked = ''LOCKED''"
| "MarketStatus_text StatusResolved = ''RESOLVED''"
| "MarketStatus_text StatusCancelled = ''CANCELLED''"

fun BetListingStatus_text :: "BetListingStatus \<Rightarrow> string" where
  "BetListingStatus_text ListingStatusListed = ''LISTED''"
| "BetListingStatus_text ListingStatusSold = ''SOLD''"
| "BetListingStatus_text ListingStatusCancelled = ''CANCELLED''"

lemma MarketStatus_text_inject: "MarketStatus_text s = MarketStatus_text t \<longleftrightarrow> s = t"
  by (cases s; cases t) simp_all

end
