(* ===== verification/Bet_Db.thy ===== *)
theory Bet_Db
  imports Bet_Models
begin

text \<open>
  The engine's database (\<open>bet-backend/db/db.go\<close>) and the SQL statements its services
  issue. A statement is a function on the tables that fails where the schema's constraints
  make Postgres fail; the world around the tables holds what else the code reads: the driver
  faults to come, the UUID source, the clock and Redis.
\<close>

section \<open>Errors\<close>

datatype sql_error = NoRows | DriverError | OutOfRange | ValueTooLong
  | UniqueViolation | CheckViolation | ForeignKeyViolation

text \<open>The sentinels of both service files, and the errors built where they are returned.\<close>

datatype bet_error =
    ErrMarketNotOpen | ErrMarketNotLocked | ErrInsufficientBalance | ErrInvalidOutcome
  | ErrMarketAlreadyResolved | ErrMarketAlreadyCancelled | ErrInvalidStateTransition
  | ErrBetNotFound | ErrListingNotFound | ErrNotBetOwner | ErrNotListingOwner
  | ErrCannotListHouseBet | ErrBetAlreadyListed | ErrListingNotActive
  | ErrCannotBuyOwnListing | ErrListingMarketNoLongerOpen
  | ErrNew string
  | ErrHouseBalance int int
  | ErrCurrentStatus bet_error MarketStatus
  | ErrWrap string bet_error
  | ErrSql sql_error

text \<open>\<open>errors.Is\<close>: the error itself or one it wraps with \<open>%w\<close>.\<close>

fun errors_is :: "bet_error \<Rightarrow> bet_error \<Rightarrow> bool" where
  "errors_is (ErrWrap m e) t \<longleftrightarrow> ErrWrap m e = t \<or> errors_is e t"
| "errors_is (ErrCurrentStatus e s) t \<longleftrightarrow> ErrCurrentStatus e s = t \<or> errors_is e t"
| "errors_is e t \<longleftrightarrow> e = t"


section \<open>Tables and the world\<close>

record db =
  users :: "User list"
  markets :: "Market list"
  pools :: "Pool list"
  bets :: "Bet list"
  bet_listings :: "BetListing list"

text \<open>The rows a transaction locks, by \<open>FOR SHARE\<close>, \<open>FOR UPDATE\<close> or an \<open>UPDATE\<close>.\<close>

datatype lock = LMarket uuid | LListing uuid | LBet uuid | LUser uuid | LPool uuid string

datatype event_payload =
    PDetails MarketDetails
  | PBetPlaced Bet MarketDetails
  | PResolved string int int MarketDetails
  | PSold uuid uuid uuid uuid MarketDetails

record event =
  ev_market_id :: uuid
  ev_event_type :: string
  ev_timestamp :: int
  ev_data :: event_payload

record redis =
  published :: "event list"
  odds_keys :: "(string \<times> (string \<times> float64) list \<times> time) list"

text \<open>
  \<open>faults\<close> says of the next database and Redis calls whether the call fails in the driver
  (an exhausted list means no more failures). \<open>uuid_src\<close> is \<open>uuid.New\<close>'s sequence of
  values: nothing is assumed of it here. \<open>RDB\<close> is \<open>None\<close> while the Redis client is nil;
  a Redis key carries the time at which it expires.
\<close>

record bet_world =
  tabs :: db
  faults :: "bool list"
  uuid_src :: "nat \<Rightarrow> uuid"
  uuid_ctr :: nat
  locks :: "lock list"
  clock :: time
  RDB :: "redis option"

type_synonym 'a bet_io = "(bet_world, bet_error, 'a) io"

definition uuid_New :: "uuid bet_io" where
  "uuid_New = (\<lambda>w. (Inr (uuid_src w (uuid_ctr w)), w\<lparr>uuid_ctr := Suc (uuid_ctr w)\<rparr>))"

definition timeNow :: "time bet_io" where
  "timeNow = (\<lambda>w. (Inr (clock w), w))"


section \<open>Statements and transactions\<close>

text \<open>One call to the driver: it fails if the fault plan says so, else it does its work.\<close>

definition stmt :: "'a bet_io \<Rightarrow> 'a bet_io" where
  "stmt m = (\<lambda>w.
     let w' = w\<lparr>faults := tl (faults w)\<rparr>
     in if faults w \<noteq> [] \<and> hd (faults w) then (Inl (ErrSql DriverError), w') else m w')"

definition query :: "(db \<Rightarrow> 'a) \<Rightarrow> 'a bet_io" where
  "query f = stmt (\<lambda>w. (Inr (f (tabs w)), w))"

definition query_row :: "(db \<Rightarrow> 'a option) \<Rightarrow> 'a bet_io" where
  "query_row f = stmt (\<lambda>w. case f (tabs w) of
       None \<Rightarrow> (Inl (ErrSql NoRows), w)
     | Some x \<Rightarrow> (Inr x, w))"

text \<open>Row locks in the order they are first taken.\<close>

definition add_locks :: "lock list \<Rightarrow> bet_world \<Rightarrow> bet_world" where
  "add_locks ls w = w\<lparr>locks := locks w @ remdups (filter (\<lambda>l. l \<notin> set (locks w)) ls)\<rparr>"

definition query_row_for :: "(db \<Rightarrow> 'a option) \<Rightarrow> lock \<Rightarrow> 'a bet_io" where
  "query_row_for f l = stmt (\<lambda>w. case f (tabs w) of
       None \<Rightarrow> (Inl (ErrSql NoRows), w)
     | Some x \<Rightarrow> (Inr x, add_locks [l] w))"

definition exec :: "(db \<Rightarrow> lock list) \<Rightarrow> (db \<Rightarrow> sql_error + db) \<Rightarrow> unit bet_io" where
  "exec ls u = stmt (\<lambda>w. case u (tabs w) of
       Inl e \<Rightarrow> (Inl (ErrSql e), w)
     | Inr d \<Rightarrow> (Inr (), add_locks (ls (tabs w)) (w\<lparr>tabs := d\<rparr>)))"

text \<open>
  \<open>BeginTx ... defer tx.Rollback() ... Commit\<close>: the body works on the tables; an error
  from it, or from the commit, leaves them as they were when the transaction began. Two
  functions also call \<open>tx.Rollback()\<close> and go on: the results for which they do not
  commit are those outside \<open>commits\<close>.
\<close>

definition run_tx_gen :: "('a \<Rightarrow> bool) \<Rightarrow> 'a bet_io \<Rightarrow> 'a bet_io" where
  "run_tx_gen commits body = (\<lambda>w.
     case stmt (ret ()) w of
       (Inl e, w1) \<Rightarrow> (Inl e, w1)
     | (Inr _, w1) \<Rightarrow>
        (case body (w1\<lparr>locks := []\<rparr>) of
           (Inl e, w2) \<Rightarrow> (Inl e, w2\<lparr>tabs := tabs w\<rparr>)
         | (Inr x, w2) \<Rightarrow>
            if commits x
            then (case stmt (ret ()) w2 of
                    (Inl e, w3) \<Rightarrow> (Inl e, w3\<lparr>tabs := tabs w\<rparr>)
                  | (Inr _, w3) \<Rightarrow> (Inr x, w3))
            else (Inr x, w2\<lparr>tabs := tabs w\<rparr>)))"

definition run_tx :: "'a bet_io \<Rightarrow> 'a bet_io" where
  "run_tx body = run_tx_gen (\<lambda>_. True) body"

text \<open>\<open>if err == nil { k(x) }\<close>, with the error dropped.\<close>

definition if_ok :: "'a bet_io \<Rightarrow> ('a \<Rightarrow> unit bet_io) \<Rightarrow> unit bet_io" where
  "if_ok m k = (\<lambda>w. case m w of (Inl _, w') \<Rightarrow> (Inr (), w') | (Inr x, w') \<Rightarrow> k x w')"


section \<open>The statements\<close>

text \<open>
  Postgres checks a new row version in this order: the column type (range, \<open>VARCHAR\<close>
  length), the \<open>CHECK\<close>, the unique indexes, the foreign keys. \<open>VARCHAR(100)\<close>
  counts characters, so the continuation bytes of UTF-8 do not count.
\<close>

definition char_count :: "string \<Rightarrow> nat" where
  "char_count s = length (filter (\<lambda>c. \<not> (128 \<le> (of_char c :: nat) \<and> (of_char c :: nat) < 192)) s)"

definition user_exists :: "db \<Rightarrow> uuid \<Rightarrow> bool" where
  "user_exists d i \<longleftrightarrow> list_ex (\<lambda>u. User_ID u = i) (users d)"

definition market_exists :: "db \<Rightarrow> uuid \<Rightarrow> bool" where
  "market_exists d i \<longleftrightarrow> list_ex (\<lambda>m. Market_ID m = i) (markets d)"

definition bet_exists :: "db \<Rightarrow> uuid \<Rightarrow> bool" where
  "bet_exists d i \<longleftrightarrow> list_ex (\<lambda>b. Bet_ID b = i) (bets d)"

definition select_user :: "uuid \<Rightarrow> db \<Rightarrow> User option" where
  "select_user i d = find (\<lambda>u. User_ID u = i) (users d)"

definition select_market :: "uuid \<Rightarrow> db \<Rightarrow> Market option" where
  "select_market i d = find (\<lambda>m. Market_ID m = i) (markets d)"

definition select_bet :: "uuid \<Rightarrow> db \<Rightarrow> Bet option" where
  "select_bet i d = find (\<lambda>b. Bet_ID b = i) (bets d)"

definition select_listing :: "uuid \<Rightarrow> db \<Rightarrow> BetListing option" where
  "select_listing i d = find (\<lambda>l. Listing_ID l = i) (bet_listings d)"

text \<open>\<open>UPDATE users SET balance = g(balance) WHERE id = i\<close>: no row, no error.\<close>

definition update_balance :: "(int \<Rightarrow> int) \<Rightarrow> uuid \<Rightarrow> db \<Rightarrow> sql_error + db" where
  "update_balance g i d =
     (if list_ex (\<lambda>u. User_ID u = i \<and> \<not> in_int64 (g (User_Balance u))) (users d) then Inl OutOfRange
      else if list_ex (\<lambda>u. User_ID u = i \<and> g (User_Balance u) < 0) (users d) then Inl CheckViolation
      else Inr (d\<lparr>users := upd_rows (\<lambda>u. User_ID u = i)
                              (\<lambda>u. u\<lparr>User_Balance := g (User_Balance u)\<rparr>) (users d)\<rparr>))"

text \<open>\<open>INSERT INTO users ... ON CONFLICT (id) DO UPDATE SET balance = EXCLUDED.balance\<close>.\<close>

definition upsert_user :: "uuid \<Rightarrow> int \<Rightarrow> time \<Rightarrow> db \<Rightarrow> sql_error + db" where
  "upsert_user i b t d =
     (if \<not> in_int64 b then Inl OutOfRange
      else if b < 0 then Inl CheckViolation
      else if user_exists d i then update_balance (\<lambda>_. b) i d
      else Inr (d\<lparr>users := users d @ [\<lparr>User_ID = i, User_Balance = b, User_CreatedAt = t\<rparr>]\<rparr>))"

definition insert_market :: "Market \<Rightarrow> db \<Rightarrow> sql_error + db" where
  "insert_market m d =
     (if \<not> in_int64 (Market_Seed m) then Inl OutOfRange
      else if Market_Seed m < 0 then Inl CheckViolation
      else if market_exists d (Market_ID m) then Inl UniqueViolation
      else Inr (d\<lparr>markets := markets d @ [m]\<rparr>))"

definition insert_pool :: "Pool \<Rightarrow> db \<Rightarrow> sql_error + db" where
  "insert_pool p d =
     (if 100 < char_count (Pool_Outcome p) then Inl ValueTooLong
      else if \<not> in_int64 (Pool_Total p) then Inl OutOfRange
      else if Pool_Total p < 0 then Inl CheckViolation
      else if list_ex (\<lambda>q. Pool_MarketID q = Pool_MarketID p \<and> Pool_Outcome q = Pool_Outcome p) (pools d)
        then Inl UniqueViolation
      else if \<not> market_exists d (Pool_MarketID p) then Inl ForeignKeyViolation
      else Inr (d\<lparr>pools := pools d @ [p]\<rparr>))"

definition insert_bet :: "Bet \<Rightarrow> db \<Rightarrow> sql_error + db" where
  "insert_bet b d =
     (if 100 < char_count (Bet_Outcome b) then Inl ValueTooLong
      else if \<not> in_int64 (Bet_Stake b) then Inl OutOfRange
      else if Bet_Stake b \<le> 0 then Inl CheckViolation
      else if bet_exists d (Bet_ID b) then Inl UniqueViolation
      else if \<not> market_exists d (Bet_MarketID b) \<or> \<not> user_exists d (Bet_UserID b)
              \<or> \<not> user_exists d (Bet_OriginalUserID b) then Inl ForeignKeyViolation
      else Inr (d\<lparr>bets := bets d @ [b]\<rparr>))"

definition update_pool :: "int \<Rightarrow> uuid \<Rightarrow> string \<Rightarrow> db \<Rightarrow> sql_error + db" where
  "update_pool amt mid out d =
     (let hit = (\<lambda>p. Pool_MarketID p = mid \<and> Pool_Outcome p = out)
      in if list_ex (\<lambda>p. hit p \<and> \<not> in_int64 (Pool_Total p + amt)) (pools d) then Inl OutOfRange
         else if list_ex (\<lambda>p. hit p \<and> Pool_Total p + amt < 0) (pools d) then Inl CheckViolation
         else Inr (d\<lparr>pools := upd_rows hit (\<lambda>p. p\<lparr>Pool_Total := Pool_Total p + amt\<rparr>) (pools d)\<rparr>))"

definition update_market :: "(Market \<Rightarrow> Market) \<Rightarrow> uuid \<Rightarrow> db \<Rightarrow> sql_error + db" where
  "update_market f i d = Inr (d\<lparr>markets := upd_rows (\<lambda>m. Market_ID m = i) f (markets d)\<rparr>)"

text \<open>
  The bulk \<open>UPDATE bet_listings SET status = 'CANCELLED', cancelled_at = NOW() WHERE
  market_id = $1 AND status = 'LISTED'\<close>.
\<close>

definition cancel_market_listings :: "uuid \<Rightarrow> time \<Rightarrow> db \<Rightarrow> sql_error + db" where
  "cancel_market_listings mid t d =
     Inr (d\<lparr>bet_listings :=
       upd_rows (\<lambda>l. Listing_MarketID l = mid \<and> Listing_Status l = ListingStatusListed)
         (\<lambda>l. l\<lparr>Listing_Status := ListingStatusCancelled, Listing_CancelledAt := Some t\<rparr>)
         (bet_listings d)\<rparr>)"

definition listed_locks :: "uuid \<Rightarrow> db \<Rightarrow> lock list" where
  "listed_locks mid d = map (\<lambda>l. LListing (Listing_ID l))
     (filter (\<lambda>l. Listing_MarketID l = mid \<and> Listing_Status l = ListingStatusListed) (bet_listings d))"

text \<open>
  The insert under the partial unique index \<open>bet_listings(bet_id) WHERE status = 'LISTED'\<close>.
\<close>

definition insert_listing :: "BetListing \<Rightarrow> db \<Rightarrow> sql_error + db" where
  "insert_listing l d =
     (if \<not> in_int64 (Listing_AskingPrice l) then Inl OutOfRange
      else if Listing_AskingPrice l \<le> 0 then Inl CheckViolation
      else if list_ex (\<lambda>k. Listing_ID k = Listing_ID l) (bet_listings d)
           \<or> list_ex (\<lambda>k. Listing_BetID k = Listing_BetID l \<and> Listing_Status k = ListingStatusListed)
               (bet_listings d)
        then Inl UniqueViolation
      else if \<not> bet_exists d (Listing_BetID l) \<or> \<not> market_exists d (Listing_MarketID l)
           \<or> \<not> user_exists d (Listing_SellerID l) then Inl ForeignKeyViolation
      else Inr (d\<lparr>bet_listings := bet_listings d @ [l]\<rparr>))"

definition cancel_listing :: "uuid \<Rightarrow> time \<Rightarrow> db \<Rightarrow> sql_error + db" where
  "cancel_listing i t d =
     Inr (d\<lparr>bet_listings := upd_rows (\<lambda>l. Listing_ID l = i)
       (\<lambda>l. l\<lparr>Listing_Status := ListingStatusCancelled, Listing_CancelledAt := Some t\<rparr>)
       (bet_listings d)\<rparr>)"

definition sell_listing :: "uuid \<Rightarrow> uuid \<Rightarrow> time \<Rightarrow> db \<Rightarrow> sql_error + db" where
  "sell_listing i buyer t d =
     (if list_ex (\<lambda>l. Listing_ID l = i) (bet_listings d) \<and> \<not> user_exists d buyer
        then Inl ForeignKeyViolation
      else Inr (d\<lparr>bet_listings := upd_rows (\<lambda>l. Listing_ID l = i)
        (\<lambda>l. l\<lparr>Listing_Status := ListingStatusSold, Listing_BuyerID := Some buyer,
               Listing_SoldAt := Some t\<rparr>)
        (bet_listings d)\<rparr>))"

definition reassign_bet :: "uuid \<Rightarrow> uuid \<Rightarrow> db \<Rightarrow> sql_error + db" where
  "reassign_bet i buyer d =
     (if bet_exists d i \<and> \<not> user_exists d buyer then Inl ForeignKeyViolation
      else Inr (d\<lparr>bets := upd_rows (\<lambda>b. Bet_ID b = i) (\<lambda>b. b\<lparr>Bet_UserID := buyer\<rparr>) (bets d)\<rparr>))"


section \<open>What a successful call did\<close>

lemma stmt_Inr [io_inv]:
  "stmt m w = (Inr x, w') \<longleftrightarrow>
     \<not> (faults w \<noteq> [] \<and> hd (faults w)) \<and> m (w\<lparr>faults := tl (faults w)\<rparr>) = (Inr x, w')"
  by (auto simp: stmt_def Let_def)

lemma tabs_add_locks [simp]: "tabs (add_locks ls w) = tabs w" "clock (add_locks ls w) = clock w"
  "uuid_src (add_locks ls w) = uuid_src w" "uuid_ctr (add_locks ls w) = uuid_ctr w"
  "faults (add_locks ls w) = faults w" "RDB (add_locks ls w) = RDB w"
  by (simp_all add: add_locks_def)

lemma query_InrD: "query f w = (Inr x, w') \<Longrightarrow> x = f (tabs w) \<and> tabs w' = tabs w"
  by (auto simp: query_def io_inv)

lemma query_row_InrD: "query_row f w = (Inr x, w') \<Longrightarrow> f (tabs w) = Some x \<and> tabs w' = tabs w"
  by (auto simp: query_row_def io_inv split: option.splits)

lemma query_row_for_InrD:
  "query_row_for f l w = (Inr x, w') \<Longrightarrow> f (tabs w) = Some x \<and> tabs w' = tabs w"
  by (auto simp: query_row_for_def io_inv split: option.splits)

lemma exec_InrD: "exec ls u w = (Inr x, w') \<Longrightarrow> u (tabs w) = Inr (tabs w')"
  by (auto simp: exec_def io_inv split: sum.splits)

lemma on_error_throw_InrD:
  "on_error m (\<lambda>e. throw (h e)) w = (Inr x, w') \<Longrightarrow> m w = (Inr x, w')"
  by (auto simp: on_error_def throw_def split: prod.splits sum.splits)

lemma timeNow_InrD: "timeNow w = (Inr t, w') \<Longrightarrow> t = clock w \<and> w' = w"
  by (auto simp: timeNow_def)

lemma uuid_New_InrD: "uuid_New w = (Inr i, w') \<Longrightarrow> tabs w' = tabs w"
  by (auto simp: uuid_New_def)

text \<open>A transaction is atomic: an error leaves the tables as they were.\<close>

lemma run_tx_gen_InlD: "run_tx_gen c body w = (Inl e, w') \<Longrightarrow> tabs w' = tabs w"
  by (auto simp: run_tx_gen_def stmt_def Let_def ret_def split: prod.splits sum.splits if_splits)

lemma run_tx_gen_InrD:
  assumes "run_tx_gen c body w = (Inr x, w')"
  shows "\<exists>w1 w2. tabs w1 = tabs w \<and> body w1 = (Inr x, w2) \<and>
                 tabs w' = (if c x then tabs w2 else tabs w)"
proof -
  define w1 where "w1 = w\<lparr>faults := tl (faults w), locks := []\<rparr>"
  have "\<exists>w2. body w1 = (Inr x, w2) \<and> tabs w' = (if c x then tabs w2 else tabs w)"
    using assms
    by (cases "body w1")
       (auto simp: run_tx_gen_def stmt_def Let_def ret_def w1_def
             split: prod.splits sum.splits if_splits)
  moreover have "tabs w1 = tabs w" by (simp add: w1_def)
  ultimately show ?thesis by blast
qed

lemma run_tx_InlD: "run_tx body w = (Inl e, w') \<Longrightarrow> tabs w' = tabs w"
  unfolding run_tx_def by (rule run_tx_gen_InlD)

lemma run_tx_InrD:
  "run_tx body w = (Inr x, w') \<Longrightarrow>
     \<exists>w1 w2. tabs w1 = tabs w \<and> body w1 = (Inr x, w2) \<and> tabs w' = tabs w2"
  unfolding run_tx_def by (drule run_tx_gen_InrD) simp

lemmas tx_dest = query_InrD query_row_InrD query_row_for_InrD exec_InrD on_error_throw_InrD
  timeNow_InrD uuid_New_InrD

end
