(* ===== verification/Bet_Cache.thy ===== *)
theory Bet_Cache
  imports Bet_Db
begin

text \<open>
  \<open>bet-backend/cache/redis.go\<close>: the odds cache and the market events. A nil client makes
  every write a no-op; a failed publish is logged and dropped, a failed \<open>Set\<close> is not even
  read. None of them returns an error, and none touches the tables.
\<close>

definition redis_call :: "(redis \<Rightarrow> redis) \<Rightarrow> unit bet_io" where
  "redis_call f = (\<lambda>w. case RDB w of
       None \<Rightarrow> (Inr (), w)
     | Some r \<Rightarrow> (Inr (), snd (stmt (\<lambda>w. (Inr (), w\<lparr>RDB := Some (f r)\<rparr>)) w)))"

definition PublishMarketUpdate :: "uuid \<Rightarrow> string \<Rightarrow> event_payload \<Rightarrow> unit bet_io" where
  "PublishMarketUpdate marketID eventType payload = (\<lambda>w.
     redis_call (\<lambda>r. r\<lparr>published := published r @
         [\<lparr>ev_market_id = marketID, ev_event_type = eventType,
           ev_timestamp = clock w div 1000000, ev_data = payload\<rparr>]\<rparr>) w)"

definition odds_key :: "uuid \<Rightarrow> string" where
  "odds_key marketID = ''market:'' @ marketID @ '':odds''"

text \<open>24 hours in microseconds.\<close>

definition odds_ttl :: time where "odds_ttl = 24 * 3600 * 1000000"

definition CacheOdds :: "uuid \<Rightarrow> (string \<times> float64) list \<Rightarrow> unit bet_io" where
  "CacheOdds marketID odds = (\<lambda>w.
     redis_call (\<lambda>r. r\<lparr>odds_keys :=
       AList.update (odds_key marketID) (odds, clock w + odds_ttl) (odds_keys r)\<rparr>) w)"

definition GetCachedOdds :: "uuid \<Rightarrow> (string \<times> float64) list bet_io" where
  "GetCachedOdds marketID = (\<lambda>w. case RDB w of
       None \<Rightarrow> (Inl (ErrNew ''redis client not initialized''), w)
     | Some r \<Rightarrow> stmt (\<lambda>w. case map_of (odds_keys r) (odds_key marketID) of
           None \<Rightarrow> (Inl (ErrNew ''redis: nil''), w)
         | Some (odds, expiry) \<Rightarrow>
             if clock w < expiry then (Inr odds, w) else (Inl (ErrNew ''redis: nil''), w)) w)"

text \<open>The cache never fails its caller and never changes the tables.\<close>

lemma redis_call_tabs: "fst (redis_call f w) = Inr ()" "tabs (snd (redis_call f w)) = tabs w"
  by (auto simp: redis_call_def stmt_def Let_def split: option.splits)

lemma PublishMarketUpdate_tabs [simp]:
  "fst (PublishMarketUpdate i t p w) = Inr ()" "tabs (snd (PublishMarketUpdate i t p w)) = tabs w"
  by (simp_all add: PublishMarketUpdate_def redis_call_tabs)

lemma CacheOdds_tabs [simp]:
  "fst (CacheOdds i o' w) = Inr ()" "tabs (snd (CacheOdds i o' w)) = tabs w"
  by (simp_all add: CacheOdds_def redis_call_tabs)

text \<open>What is cached is what is read back until it expires.\<close>

lemma cache_roundtrip:
  assumes "RDB w = Some r" and "faults w = []"
  shows "fst (GetCachedOdds i (snd (CacheOdds i odds w))) = Inr odds"
  using assms
  by (simp add: CacheOdds_def redis_call_def GetCachedOdds_def stmt_def Let_def odds_ttl_def update_conv)

end
