(* ===== verification/Bet_Market.thy ===== *)
theory Bet_Market
  imports Bet_Cache
begin

text \<open>
  \<open>bet-backend/service/market_service.go\<close>: the pari-mutuel engine's operations, each as
  the code has it: the guards in their order, the statements of its transaction, the commit,
  then the odds recomputed for the cache and the event. A transaction is one step: its row
  locks keep every other transaction off the rows it reads for writing.
\<close>

definition HouseUserID :: uuid where
  "HouseUserID = ''00000000-0000-0000-0000-000000000000''"

text \<open>\<open>if errors.Is(err, sql.ErrNoRows) { return e }; return err\<close>\<close>

definition no_rows :: "'a bet_io \<Rightarrow> bet_error \<Rightarrow> 'a bet_io" where
  "no_rows m e = on_error m (\<lambda>err. if errors_is err (ErrSql NoRows) then throw e else throw err)"


section \<open>Reads\<close>

fun pool_loop :: "Pool list \<Rightarrow> (string \<times> int) list \<Rightarrow> int \<Rightarrow> (string \<times> int) list \<times> int" where
  "pool_loop [] ps tot = (ps, tot)"
| "pool_loop (r # rs) ps tot =
     pool_loop rs (AList.update (Pool_Outcome r) (Pool_Total r) ps) (i64 (tot + Pool_Total r))"

definition live_odds :: "int \<Rightarrow> (string \<times> int) list \<Rightarrow> (string \<times> float64) list" where
  "live_odds totalPool ps = map (\<lambda>(outcome, tot).
     (outcome, if 0 < totalPool \<and> 0 < tot
               then f64_div (f64_of_int totalPool) (f64_of_int tot) else 0)) ps"

definition pools_of :: "uuid \<Rightarrow> db \<Rightarrow> Pool list" where
  "pools_of mid d = filter (\<lambda>p. Pool_MarketID p = mid) (pools d)"

definition bets_of :: "uuid \<Rightarrow> db \<Rightarrow> Bet list" where
  "bets_of mid d = filter (\<lambda>b. Bet_MarketID b = mid) (bets d)"

definition GetMarketDetails :: "uuid \<Rightarrow> MarketDetails bet_io" where
  "GetMarketDetails marketID =
     bindE (no_rows (query_row (select_market marketID)) (ErrNew ''market not found'')) (\<lambda>m.
     bindE (query (pools_of marketID)) (\<lambda>rows.
     let init = fold (\<lambda>outcome ps. AList.update outcome 0 ps) (Market_Outcomes m) [];
         (ps, totalPool) = pool_loop rows init 0
     in ret \<lparr>MD_ID = Market_ID m, MD_Question = Market_Question m,
             MD_Outcomes = Market_Outcomes m, MD_Status = Market_Status m,
             MD_Seed = Market_Seed m, MD_WinningOutcome = Market_WinningOutcome m,
             MD_Pools = ps, MD_TotalPool = totalPool,
             MD_LiveOdds = live_odds totalPool ps, MD_CreatedAt = Market_CreatedAt m\<rparr>))"

definition CalculateAndCacheOdds :: "uuid \<Rightarrow> MarketDetails bet_io" where
  "CalculateAndCacheOdds marketID =
     bindE (GetMarketDetails marketID) (\<lambda>details.
     seqE (CacheOdds marketID (MD_LiveOdds details)) (ret details))"

definition GetUser :: "uuid \<Rightarrow> User bet_io" where
  "GetUser userID = no_rows (query_row (select_user userID)) (ErrNew ''user not found'')"

fun details_loop :: "uuid list \<Rightarrow> MarketDetails list \<Rightarrow> MarketDetails list bet_io" where
  "details_loop [] acc = ret acc"
| "details_loop (i # is) acc = bindE (GetMarketDetails i) (\<lambda>d. details_loop is (acc @ [d]))"

text \<open>\<open>ORDER BY created_at\<close> leaves ties open; here they keep the storage order.\<close>

definition ListMarkets :: "MarketDetails list bet_io" where
  "ListMarkets =
     bindE (query (\<lambda>d. map Market_ID (sort_key (\<lambda>m. - Market_CreatedAt m) (markets d)))) (\<lambda>ids.
     details_loop ids [])"

text \<open>Both queries leave \<open>original_user_id\<close> out, so the field keeps Go's zero value.\<close>

definition ListMarketBets :: "uuid \<Rightarrow> Bet list bet_io" where
  "ListMarketBets marketID = query (\<lambda>d.
     map (\<lambda>b. b\<lparr>Bet_OriginalUserID := ''''\<rparr>) (sort_key Bet_CreatedAt (bets_of marketID d)))"

definition ListUserBets :: "uuid \<Rightarrow> Bet list bet_io" where
  "ListUserBets userID = query (\<lambda>d.
     map (\<lambda>b. b\<lparr>Bet_OriginalUserID := ''''\<rparr>)
       (sort_key (\<lambda>b. - Bet_CreatedAt b) (filter (\<lambda>b. Bet_UserID b = userID) (bets d))))"


section \<open>Creating a market\<close>

text \<open>The loop over the outcomes: a pool each, and the house's seed bet when there is a seed.\<close>

fun create_pools :: "uuid \<Rightarrow> int \<Rightarrow> string list \<Rightarrow> unit bet_io" where
  "create_pools marketID seed [] = ret ()"
| "create_pools marketID seed (outcome # outcomes) =
     seqE (exec (\<lambda>_. []) (insert_pool \<lparr>Pool_MarketID = marketID, Pool_Outcome = outcome, Pool_Total = seed\<rparr>))
     (seqE (if 0 < seed
            then bindE uuid_New (\<lambda>betID. bindE timeNow (\<lambda>now.
              exec (\<lambda>_. []) (insert_bet \<lparr>Bet_ID = betID, Bet_MarketID = marketID,
                 Bet_UserID = HouseUserID, Bet_OriginalUserID = HouseUserID, Bet_Outcome = outcome,
                 Bet_Stake = seed, Bet_CreatedAt = now\<rparr>)))
            else ret ())
     (create_pools marketID seed outcomes))"

definition CreateMarket_tx :: "string \<Rightarrow> string list \<Rightarrow> int \<Rightarrow> uuid bet_io" where
  "CreateMarket_tx question outcomes seed =
     bindE uuid_New (\<lambda>marketID. bindE timeNow (\<lambda>now.
     seqE (exec (\<lambda>_. []) (insert_market \<lparr>Market_ID = marketID, Market_Question = question,
             Market_Outcomes = outcomes, Market_Status = StatusOpen, Market_Seed = seed,
             Market_WinningOutcome = None, Market_CreatedAt = now\<rparr>))
     (let totalSeedRequired = i64 (seed * int (length outcomes)) in
      seqE (if 0 < totalSeedRequired
            then bindE (on_error (query_row_for (select_user HouseUserID) (LUser HouseUserID))
                          (\<lambda>e. throw (ErrWrap ''failed to lock house user'' e))) (\<lambda>house.
              if User_Balance house < totalSeedRequired
              then throw (ErrHouseBalance totalSeedRequired (User_Balance house))
              else exec (\<lambda>_. [LUser HouseUserID])
                     (update_balance (\<lambda>b. b - totalSeedRequired) HouseUserID))
            else ret ())
      (seqE (create_pools marketID seed outcomes)
      (ret marketID)))))"

definition CreateMarket :: "string \<Rightarrow> string list \<Rightarrow> int \<Rightarrow> Market bet_io" where
  "CreateMarket question outcomes seed =
     (if length outcomes < 2 then throw (ErrNew ''a market must have at least 2 outcomes'')
      else if seed < 0 then throw (ErrNew ''seed must be non-negative'')
      else bindE (run_tx (CreateMarket_tx question outcomes seed)) (\<lambda>marketID.
           bindE timeNow (\<lambda>now.
           seqE (if_ok (CalculateAndCacheOdds marketID) (\<lambda>details.
                   PublishMarketUpdate marketID ''market_created'' (PDetails details)))
           (ret \<lparr>Market_ID = marketID, Market_Question = question, Market_Outcomes = outcomes,
                 Market_Status = StatusOpen, Market_Seed = seed, Market_WinningOutcome = None,
                 Market_CreatedAt = now\<rparr>))))"


section \<open>Betting, locking\<close>

definition PlaceBet_tx :: "uuid \<Rightarrow> uuid \<Rightarrow> string \<Rightarrow> int \<Rightarrow> uuid bet_io" where
  "PlaceBet_tx userID marketID outcome stake =
     bindE (no_rows (query_row_for (select_market marketID) (LMarket marketID))
              (ErrNew ''market not found'')) (\<lambda>m.
     if Market_Status m \<noteq> StatusOpen then throw ErrMarketNotOpen
     else if outcome \<notin> set (Market_Outcomes m) then throw ErrInvalidOutcome
     else bindE (no_rows (query_row_for (select_user userID) (LUser userID))
                   (ErrNew ''user not found'')) (\<lambda>u.
     if User_Balance u < stake then throw ErrInsufficientBalance
     else seqE (exec (\<lambda>_. [LUser userID]) (update_balance (\<lambda>b. b - stake) userID))
     (seqE (exec (\<lambda>_. [LPool marketID outcome]) (update_pool stake marketID outcome))
     (bindE uuid_New (\<lambda>betID. bindE timeNow (\<lambda>now.
      seqE (exec (\<lambda>_. []) (insert_bet \<lparr>Bet_ID = betID, Bet_MarketID = marketID,
              Bet_UserID = userID, Bet_OriginalUserID = userID, Bet_Outcome = outcome,
              Bet_Stake = stake, Bet_CreatedAt = now\<rparr>))
      (ret betID)))))))"

definition PlaceBet :: "uuid \<Rightarrow> uuid \<Rightarrow> string \<Rightarrow> int \<Rightarrow> Bet bet_io" where
  "PlaceBet userID marketID outcome stake =
     (if stake \<le> 0 then throw (ErrNew ''stake must be greater than 0'')
      else bindE (run_tx (PlaceBet_tx userID marketID outcome stake)) (\<lambda>betID.
           bindE timeNow (\<lambda>now.
           let bet = \<lparr>Bet_ID = betID, Bet_MarketID = marketID, Bet_UserID = userID,
                      Bet_OriginalUserID = '''', Bet_Outcome = outcome, Bet_Stake = stake,
                      Bet_CreatedAt = now\<rparr>
           in seqE (if_ok (CalculateAndCacheOdds marketID) (\<lambda>details.
                      PublishMarketUpdate marketID ''bet_placed'' (PBetPlaced bet details)))
              (ret bet))))"

definition LockMarket_tx :: "uuid \<Rightarrow> unit bet_io" where
  "LockMarket_tx marketID =
     bindE (no_rows (query_row_for (select_market marketID) (LMarket marketID))
              (ErrNew ''market not found'')) (\<lambda>m.
     if Market_Status m \<noteq> StatusOpen
     then throw (ErrCurrentStatus ErrInvalidStateTransition (Market_Status m))
     else bindE timeNow (\<lambda>now.
       seqE (exec (listed_locks marketID) (cancel_market_listings marketID now))
            (exec (\<lambda>_. [LMarket marketID])
               (update_market (\<lambda>m. m\<lparr>Market_Status := StatusLocked\<rparr>) marketID))))"

definition LockMarket :: "uuid \<Rightarrow> unit bet_io" where
  "LockMarket marketID =
     seqE (run_tx (LockMarket_tx marketID))
          (if_ok (GetMarketDetails marketID) (\<lambda>details.
             PublishMarketUpdate marketID ''market_locked'' (PDetails details)))"


section \<open>Refunds\<close>

fun refund_bets :: "(uuid \<times> int) list \<Rightarrow> unit bet_io" where
  "refund_bets [] = ret ()"
| "refund_bets ((u, s) # bs) =
     seqE (on_error (exec (\<lambda>_. [LUser u]) (update_balance (\<lambda>b. b + s) u))
             (\<lambda>e. throw (ErrWrap (''failed to refund user '' @ u) e)))
          (refund_bets bs)"

definition RefundMarketInternal_tx :: "uuid \<Rightarrow> unit bet_io" where
  "RefundMarketInternal_tx marketID =
     bindE (no_rows (query_row_for (select_market marketID) (LMarket marketID))
              (ErrNew ''market not found'')) (\<lambda>m.
     if Market_Status m = StatusResolved then throw ErrMarketAlreadyResolved
     else if Market_Status m = StatusCancelled then throw ErrMarketAlreadyCancelled
     else bindE timeNow (\<lambda>now.
       seqE (exec (listed_locks marketID) (cancel_market_listings marketID now))
       (bindE (query (\<lambda>d. map (\<lambda>b. (Bet_UserID b, Bet_Stake b)) (bets_of marketID d))) (\<lambda>bs.
        seqE (refund_bets bs)
             (exec (\<lambda>_. [LMarket marketID])
                (update_market (\<lambda>m. m\<lparr>Market_Status := StatusCancelled\<rparr>) marketID))))))"

definition RefundMarketInternal :: "uuid \<Rightarrow> unit bet_io" where
  "RefundMarketInternal marketID =
     seqE (run_tx (RefundMarketInternal_tx marketID))
          (if_ok (GetMarketDetails marketID) (\<lambda>details.
             PublishMarketUpdate marketID ''market_cancelled'' (PDetails details)))"

definition CancelMarket :: "uuid \<Rightarrow> unit bet_io" where
  "CancelMarket marketID = RefundMarketInternal marketID"


section \<open>Resolution\<close>

text \<open>The loop over the pools: their total, and the winning outcome's.\<close>

fun resolve_pools :: "Pool list \<Rightarrow> string \<Rightarrow> int \<Rightarrow> int \<Rightarrow> int \<times> int" where
  "resolve_pools [] winningOutcome totalPool poolVencedor = (totalPool, poolVencedor)"
| "resolve_pools (p # ps) winningOutcome totalPool poolVencedor =
     resolve_pools ps winningOutcome (i64 (totalPool + Pool_Total p))
       (if Pool_Outcome p = winningOutcome then Pool_Total p else poolVencedor)"

definition commission_of :: "int \<Rightarrow> int" where
  "commission_of totalPool = go_div (i64 (totalPool * 3)) 100"

definition payout_of :: "int \<Rightarrow> int \<Rightarrow> int \<Rightarrow> int" where
  "payout_of stake poolDistributable poolVencedor =
     go_div (i64 (stake * poolDistributable)) poolVencedor"

fun pay_winners :: "(uuid \<times> int) list \<Rightarrow> int \<Rightarrow> int \<Rightarrow> int \<Rightarrow> int bet_io" where
  "pay_winners [] poolDistributable poolVencedor paid = ret paid"
| "pay_winners ((u, s) # wbs) poolDistributable poolVencedor paid =
     (let payout = payout_of s poolDistributable poolVencedor in
      seqE (on_error (exec (\<lambda>_. [LUser u]) (update_balance (\<lambda>b. b + payout) u))
              (\<lambda>e. throw (ErrWrap (''failed to credit user '' @ u) e)))
           (pay_winners wbs poolDistributable poolVencedor (i64 (paid + payout))))"

text \<open>
  The paying half of the transaction: the winning bets, the house's commission and what
  flooring left, the final status.
\<close>

definition ResolveMarket_pay :: "uuid \<Rightarrow> string \<Rightarrow> int \<Rightarrow> int \<Rightarrow> (int \<times> int) option bet_io" where
  "ResolveMarket_pay marketID winningOutcome totalPool poolVencedor =
     (let commission = commission_of totalPool;
          poolDistributable = i64 (totalPool - commission) in
      bindE (query (\<lambda>d. map (\<lambda>b. (Bet_UserID b, Bet_Stake b))
               (filter (\<lambda>b. Bet_Outcome b = winningOutcome) (bets_of marketID d)))) (\<lambda>winningBets.
      bindE (pay_winners winningBets poolDistributable poolVencedor 0) (\<lambda>paid.
      let remainder = i64 (poolDistributable - paid);
          totalHouseGain = i64 (commission + remainder) in
      seqE (if 0 < totalHouseGain
            then on_error (exec (\<lambda>_. [LUser HouseUserID])
                     (update_balance (\<lambda>b. b + totalHouseGain) HouseUserID))
                   (\<lambda>e. throw (ErrWrap ''failed to credit house'' e))
            else ret ())
      (seqE (exec (\<lambda>_. [LMarket marketID])
               (update_market (\<lambda>m. m\<lparr>Market_Status := StatusResolved,
                   Market_WinningOutcome := Some winningOutcome\<rparr>) marketID))
      (ret (Some (commission, remainder)))))))"

text \<open>
  The transaction ends in one of two ways: rolled back because nobody staked on the winner
  (\<open>None\<close>), or paid out with this commission and remainder.
\<close>

definition ResolveMarket_tx :: "uuid \<Rightarrow> string \<Rightarrow> (int \<times> int) option bet_io" where
  "ResolveMarket_tx marketID winningOutcome =
     bindE (no_rows (query_row_for (select_market marketID) (LMarket marketID))
              (ErrNew ''market not found'')) (\<lambda>m.
     if Market_Status m = StatusResolved then throw ErrMarketAlreadyResolved
     else if Market_Status m = StatusCancelled then throw ErrMarketAlreadyCancelled
     else if Market_Status m \<noteq> StatusLocked then throw ErrMarketNotLocked
     else bindE timeNow (\<lambda>now.
     seqE (exec (listed_locks marketID) (cancel_market_listings marketID now))
     (if winningOutcome \<notin> set (Market_Outcomes m) then throw ErrInvalidOutcome
      else bindE (query (pools_of marketID)) (\<lambda>rows.
      let (totalPool, poolVencedor) = resolve_pools rows winningOutcome 0 0 in
      if poolVencedor = 0 then ret None
      else ResolveMarket_pay marketID winningOutcome totalPool poolVencedor))))"

definition ResolveMarket :: "uuid \<Rightarrow> string \<Rightarrow> unit bet_io" where
  "ResolveMarket marketID winningOutcome =
     bindE (run_tx_gen (\<lambda>r. r \<noteq> None) (ResolveMarket_tx marketID winningOutcome)) (\<lambda>r.
     case r of
       None \<Rightarrow> RefundMarketInternal marketID
     | Some (commission, remainder) \<Rightarrow>
         if_ok (GetMarketDetails marketID) (\<lambda>details.
           PublishMarketUpdate marketID ''market_resolved''
             (PResolved winningOutcome commission remainder details)))"


section \<open>Balances\<close>

definition AdjustBalance_tx :: "uuid \<Rightarrow> int \<Rightarrow> int bet_io" where
  "AdjustBalance_tx userID delta =
     bindE (no_rows (query_row_for (select_user userID) (LUser userID))
              (ErrNew ''user not found'')) (\<lambda>u.
     let newBalance = i64 (User_Balance u + delta) in
     if newBalance < 0 then throw ErrInsufficientBalance
     else seqE (exec (\<lambda>_. [LUser userID]) (update_balance (\<lambda>_. newBalance) userID))
               (ret newBalance))"

definition AdjustBalance :: "uuid \<Rightarrow> int \<Rightarrow> int bet_io" where
  "AdjustBalance userID delta = run_tx (AdjustBalance_tx userID delta)"

end
