(* ===== verification/Bet_Listing.thy ===== *)
theory Bet_Listing
  imports Bet_Market "HOL-Library.Char_ord" "HOL-Library.List_Lexorder"
begin

text \<open>
  \<open>bet-backend/service/listing_service.go\<close>: the resale of bets. \<open><\<close> on ids is Go's
  order of strings, byte by byte.
\<close>

text \<open>\<open>isUniqueViolation\<close>: SQLSTATE 23505, through any wrapping.\<close>

definition isUniqueViolation :: "bet_error \<Rightarrow> bool" where
  "isUniqueViolation err = errors_is err (ErrSql UniqueViolation)"

text \<open>Go's zero \<open>time.Time\<close>, 1 January of the year 1, in microseconds from 1970.\<close>

definition zero_time :: time where "zero_time = - 62135596800000000"

definition ListBetForSale_tx :: "uuid \<Rightarrow> uuid \<Rightarrow> int \<Rightarrow> (uuid \<times> uuid \<times> string \<times> int) bet_io" where
  "ListBetForSale_tx betID sellerID askingPrice =
     bindE (no_rows (query_row (\<lambda>d. map_option Bet_MarketID (select_bet betID d))) ErrBetNotFound)
       (\<lambda>marketID.
     bindE (query_row_for (\<lambda>d. map_option Market_Status (select_market marketID d)) (LMarket marketID))
       (\<lambda>marketStatus.
     if marketStatus \<noteq> StatusOpen then throw ErrMarketNotOpen
     else bindE (no_rows (query_row_for (select_bet betID) (LBet betID)) ErrBetNotFound) (\<lambda>b.
     if Bet_UserID b \<noteq> sellerID then throw ErrNotBetOwner
     else if sellerID = HouseUserID then throw ErrCannotListHouseBet
     else bindE uuid_New (\<lambda>listingID. bindE timeNow (\<lambda>now.
     seqE (on_error (exec (\<lambda>_. []) (insert_listing \<lparr>Listing_ID = listingID, Listing_BetID = betID,
             Listing_MarketID = marketID, Listing_SellerID = sellerID, Listing_BuyerID = None,
             Listing_AskingPrice = askingPrice, Listing_Status = ListingStatusListed,
             Listing_CreatedAt = now, Listing_SoldAt = None, Listing_CancelledAt = None\<rparr>))
           (\<lambda>err. if isUniqueViolation err then throw ErrBetAlreadyListed else throw err))
     (ret (listingID, marketID, Bet_Outcome b, Bet_Stake b)))))))"

definition ListBetForSale :: "uuid \<Rightarrow> uuid \<Rightarrow> int \<Rightarrow> BetListingDetails bet_io" where
  "ListBetForSale betID sellerID askingPrice =
     (if askingPrice \<le> 0 then throw (ErrNew ''asking price must be greater than 0'')
      else bindE (run_tx (ListBetForSale_tx betID sellerID askingPrice))
        (\<lambda>(listingID, marketID, outcome, stake). bindE timeNow (\<lambda>now.
        ret \<lparr>Listing_ID = listingID, Listing_BetID = betID, Listing_MarketID = marketID,
             Listing_SellerID = sellerID, Listing_BuyerID = None, Listing_AskingPrice = askingPrice,
             Listing_Status = ListingStatusListed, Listing_CreatedAt = now, Listing_SoldAt = None,
             Listing_CancelledAt = None, Details_Outcome = outcome, Details_Stake = stake\<rparr>)))"

definition CancelListing_tx :: "uuid \<Rightarrow> uuid \<Rightarrow> unit bet_io" where
  "CancelListing_tx listingID sellerID =
     bindE (no_rows (query_row_for (select_listing listingID) (LListing listingID)) ErrListingNotFound)
       (\<lambda>l.
     if Listing_SellerID l \<noteq> sellerID then throw ErrNotListingOwner
     else if Listing_Status l \<noteq> ListingStatusListed then throw ErrListingNotActive
     else bindE timeNow (\<lambda>now. exec (\<lambda>_. [LListing listingID]) (cancel_listing listingID now)))"

definition CancelListing :: "uuid \<Rightarrow> uuid \<Rightarrow> unit bet_io" where
  "CancelListing listingID sellerID = run_tx (CancelListing_tx listingID sellerID)"

definition invalidateStaleListing_tx :: "uuid \<Rightarrow> unit bet_io" where
  "invalidateStaleListing_tx listingID =
     bindE (query_row_for (\<lambda>d. map_option Listing_Status (select_listing listingID d))
              (LListing listingID)) (\<lambda>status.
     if status = ListingStatusListed
     then bindE timeNow (\<lambda>now. exec (\<lambda>_. [LListing listingID]) (cancel_listing listingID now))
     else ret ())"

definition invalidateStaleListing :: "uuid \<Rightarrow> unit bet_io" where
  "invalidateStaleListing listingID = run_tx (invalidateStaleListing_tx listingID)"


section \<open>The purchase\<close>

text \<open>
  \<open>sale\<close> is what the function still knows of the listing after its transaction: the
  market, the bet, the seller, the price, and the bet's outcome and stake.
\<close>

record sale =
  sale_marketID :: uuid
  sale_betID :: uuid
  sale_sellerID :: uuid
  sale_askingPrice :: int
  sale_outcome :: string
  sale_stake :: int

text \<open>The paying half: both users locked in ascending order of their ids, then the transfer.\<close>

definition BuyListedBet_pay :: "uuid \<Rightarrow> uuid \<Rightarrow> uuid \<Rightarrow> uuid \<Rightarrow> int \<Rightarrow> unit bet_io" where
  "BuyListedBet_pay listingID betID sellerID buyerID askingPrice =
     (let (firstID, secondID) = (if sellerID < buyerID then (sellerID, buyerID) else (buyerID, sellerID)) in
      bindE (query_row_for (\<lambda>d. map_option User_Balance (select_user firstID d)) (LUser firstID))
        (\<lambda>firstBalance.
      bindE (query_row_for (\<lambda>d. map_option User_Balance (select_user secondID d)) (LUser secondID))
        (\<lambda>secondBalance.
      let buyerBalance = (if firstID = buyerID then firstBalance else secondBalance) in
      if buyerBalance < askingPrice then throw ErrInsufficientBalance
      else seqE (exec (\<lambda>_. [LUser buyerID]) (update_balance (\<lambda>b. b - askingPrice) buyerID))
      (seqE (exec (\<lambda>_. [LUser sellerID]) (update_balance (\<lambda>b. b + askingPrice) sellerID))
      (seqE (exec (\<lambda>_. [LBet betID]) (reassign_bet betID buyerID))
      (bindE timeNow (\<lambda>now.
       exec (\<lambda>_. [LListing listingID]) (sell_listing listingID buyerID now))))))))"

text \<open>\<open>None\<close>: the market is no longer open, and the transaction is rolled back.\<close>

definition BuyListedBet_tx :: "uuid \<Rightarrow> uuid \<Rightarrow> sale option bet_io" where
  "BuyListedBet_tx listingID buyerID =
     bindE (no_rows (query_row (\<lambda>d. map_option Listing_MarketID (select_listing listingID d)))
              ErrListingNotFound) (\<lambda>marketID.
     bindE (query_row_for (\<lambda>d. map_option Market_Status (select_market marketID d)) (LMarket marketID))
       (\<lambda>marketStatus.
     bindE (no_rows (query_row_for (select_listing listingID) (LListing listingID)) ErrListingNotFound)
       (\<lambda>l.
     if marketStatus \<noteq> StatusOpen then ret None
     else if Listing_Status l \<noteq> ListingStatusListed then throw ErrListingNotActive
     else if Listing_SellerID l = buyerID then throw ErrCannotBuyOwnListing
     else bindE (query_row_for (select_bet (Listing_BetID l)) (LBet (Listing_BetID l))) (\<lambda>b.
     if Bet_UserID b \<noteq> Listing_SellerID l
     then throw (ErrNew (''listing '' @ listingID @ [CHR 0x27] @
            ''s bet owner does not match its seller''))
     else seqE (BuyListedBet_pay listingID (Listing_BetID l) (Listing_SellerID l) buyerID
                  (Listing_AskingPrice l))
     (ret (Some \<lparr>sale_marketID = marketID, sale_betID = Listing_BetID l,
                 sale_sellerID = Listing_SellerID l, sale_askingPrice = Listing_AskingPrice l,
                 sale_outcome = Bet_Outcome b, sale_stake = Bet_Stake b\<rparr>))))))"

definition BuyListedBet :: "uuid \<Rightarrow> uuid \<Rightarrow> BetListingDetails bet_io" where
  "BuyListedBet listingID buyerID =
     bindE (run_tx_gen (\<lambda>r. r \<noteq> None) (BuyListedBet_tx listingID buyerID)) (\<lambda>r.
     case r of
       None \<Rightarrow> seqE (invalidateStaleListing listingID) (throw ErrListingMarketNoLongerOpen)
     | Some s \<Rightarrow>
         seqE (if_ok (CalculateAndCacheOdds (sale_marketID s)) (\<lambda>details.
                 PublishMarketUpdate (sale_marketID s) ''bet_sold''
                   (PSold listingID (sale_betID s) buyerID (sale_sellerID s) details)))
         (bindE timeNow (\<lambda>now.
          ret \<lparr>Listing_ID = listingID, Listing_BetID = sale_betID s,
               Listing_MarketID = sale_marketID s, Listing_SellerID = sale_sellerID s,
               Listing_BuyerID = Some buyerID, Listing_AskingPrice = sale_askingPrice s,
               Listing_Status = ListingStatusSold, Listing_CreatedAt = zero_time,
               Listing_SoldAt = Some now, Listing_CancelledAt = None,
               Details_Outcome = sale_outcome s, Details_Stake = sale_stake s\<rparr>)))"


section \<open>Reads\<close>

text \<open>The join of a listing with its bet; a listing without a bet is not in it.\<close>

definition join_bet :: "db \<Rightarrow> BetListing \<Rightarrow> BetListingDetails option" where
  "join_bet d l = map_option (\<lambda>b. BetListing.extend l (BetListingDetails.fields (Bet_Outcome b) (Bet_Stake b)))
     (select_bet (Listing_BetID l) d)"

definition queryListingDetails :: "(BetListing \<Rightarrow> bool) \<Rightarrow> BetListingDetails list bet_io" where
  "queryListingDetails p = query (\<lambda>d.
     List.map_filter (join_bet d) (sort_key Listing_CreatedAt (filter p (bet_listings d))))"

definition ListActiveListingsForMarket :: "uuid \<Rightarrow> BetListingDetails list bet_io" where
  "ListActiveListingsForMarket marketID = queryListingDetails
     (\<lambda>l. Listing_MarketID l = marketID \<and> Listing_Status l = ListingStatusListed)"

definition ListActiveListingsForSeller :: "uuid \<Rightarrow> BetListingDetails list bet_io" where
  "ListActiveListingsForSeller sellerID = queryListingDetails
     (\<lambda>l. Listing_SellerID l = sellerID \<and> Listing_Status l = ListingStatusListed)"

end
