(* ===== verification/Bet_Handlers.thy ===== *)
theory Bet_Handlers
  imports Bet_Listing
begin

text \<open>
  \<open>bet-backend/handlers\<close>: the HTTP surface. A handler takes the path parameter and the
  bound request, \<open>None\<close> where gin could not decode the body, and returns a status and a
  body. \<open>is_uuid\<close> is the validator's \<open>uuid\<close> tag and \<open>drv\<close> the driver's
  error texts: library code, so parameters.
\<close>

section \<open>Error texts\<close>

fun error_text :: "(sql_error \<Rightarrow> string) \<Rightarrow> bet_error \<Rightarrow> string" where
  "error_text drv ErrMarketNotOpen = ''market is not open for betting''"
| "error_text drv ErrMarketNotLocked = ''market must be locked before resolution''"
| "error_text drv ErrInsufficientBalance = ''insufficient user balance''"
| "error_text drv ErrInvalidOutcome = ''invalid outcome for this market''"
| "error_text drv ErrMarketAlreadyResolved = ''market already resolved''"
| "error_text drv ErrMarketAlreadyCancelled = ''market already cancelled''"
| "error_text drv ErrInvalidStateTransition = ''invalid market status transition''"
| "error_text drv ErrBetNotFound = ''bet not found''"
| "error_text drv ErrListingNotFound = ''listing not found''"
| "error_text drv ErrNotBetOwner = ''you do not own this bet''"
| "error_text drv ErrNotListingOwner = ''you do not own this listing''"
| "error_text drv ErrCannotListHouseBet = ''house seed bets cannot be listed for sale''"
| "error_text drv ErrBetAlreadyListed = ''this bet already has an active listing''"
| "error_text drv ErrListingNotActive = ''this listing is no longer active''"
| "error_text drv ErrCannotBuyOwnListing = ''you cannot buy your own listing''"
| "error_text drv ErrListingMarketNoLongerOpen = ''the market for this listing is no longer open''"
| "error_text drv (ErrNew s) = s"
| "error_text drv (ErrHouseBalance needs has) =
     ''house has insufficient balance to seed market (needs '' @ int_text needs @ '', has '' @
     int_text has @ '')''"
| "error_text drv (ErrCurrentStatus e s) =
     error_text drv e @ '': current status is '' @ MarketStatus_text s"
| "error_text drv (ErrWrap m e) = m @ '': '' @ error_text drv e"
| "error_text drv (ErrSql e) = drv e"


section \<open>Responses\<close>

datatype bet_body =
    BBind
  | BError string
  | BSynced uuid int
  | BAdjusted uuid int
  | BMessage string
  | BUser User
  | BMarket Market
  | BDetails MarketDetails
  | BMarkets "MarketDetails list"
  | BBet Bet
  | BBets "Bet list"
  | BListing BetListingDetails
  | BListings "BetListingDetails list"

type_synonym bet_response = "nat \<times> bet_body"

type_synonym bet_handler = "bet_world \<Rightarrow> bet_response \<times> bet_world"

definition handle :: "'a bet_io \<Rightarrow> ('a \<Rightarrow> bet_response) \<Rightarrow> (bet_error \<Rightarrow> bet_response) \<Rightarrow> bet_handler" where
  "handle m ok err = (\<lambda>w. case m w of (Inr x, w') \<Rightarrow> (ok x, w') | (Inl e, w') \<Rightarrow> (err e, w'))"

definition bad_request :: bet_handler where
  "bad_request = (\<lambda>w. ((400, BBind), w))"

definition status_error :: "(sql_error \<Rightarrow> string) \<Rightarrow> nat \<Rightarrow> bet_error \<Rightarrow> bet_response" where
  "status_error drv code e = (code, BError (error_text drv e))"


section \<open>Users\<close>

record SyncUserRequest =
  Sync_ID :: string
  Sync_Balance :: int

text \<open>The handler's one statement: it sets the balance, whether or not the user exists.\<close>

definition SyncUser_exec :: "uuid \<Rightarrow> int \<Rightarrow> unit bet_io" where
  "SyncUser_exec userID balance =
     bindE timeNow (\<lambda>now. exec (\<lambda>_. []) (upsert_user userID balance now))"

definition SyncUser :: "(string \<Rightarrow> bool) \<Rightarrow> (sql_error \<Rightarrow> string) \<Rightarrow> SyncUserRequest option \<Rightarrow> bet_handler" where
  "SyncUser is_uuid drv req = (case req of
     None \<Rightarrow> bad_request
   | Some r \<Rightarrow>
       if Sync_ID r = '''' \<or> \<not> is_uuid (Sync_ID r) \<or> Sync_Balance r < 0 then bad_request
       else handle (SyncUser_exec (Sync_ID r) (Sync_Balance r))
              (\<lambda>_. (200, BSynced (Sync_ID r) (Sync_Balance r)))
              (\<lambda>e. (500, BError (''failed to sync user: '' @ error_text drv e))))"

definition GetUser_handler :: "(sql_error \<Rightarrow> string) \<Rightarrow> uuid \<Rightarrow> bet_handler" where
  "GetUser_handler drv pathID = handle (GetUser pathID) (\<lambda>u. (200, BUser u)) (status_error drv 404)"

definition AdjustBalance_error :: "(sql_error \<Rightarrow> string) \<Rightarrow> bet_error \<Rightarrow> bet_response" where
  "AdjustBalance_error drv e =
     (if errors_is e ErrInsufficientBalance then status_error drv 402 e
      else if error_text drv e = ''user not found'' then status_error drv 404 e
      else status_error drv 500 e)"

definition AdjustBalance_handler :: "(sql_error \<Rightarrow> string) \<Rightarrow> uuid \<Rightarrow> int option \<Rightarrow> bet_handler" where
  "AdjustBalance_handler drv pathID req = (case req of
     None \<Rightarrow> bad_request
   | Some delta \<Rightarrow> handle (AdjustBalance pathID delta) (\<lambda>b. (200, BAdjusted pathID b)) (AdjustBalance_error drv))"


section \<open>Markets\<close>

record CreateMarketRequest =
  Create_Question :: string
  Create_Outcomes :: "string list"
  Create_Seed :: int

definition CreateMarket_handler :: "(sql_error \<Rightarrow> string) \<Rightarrow> CreateMarketRequest option \<Rightarrow> bet_handler" where
  "CreateMarket_handler drv req = (case req of
     None \<Rightarrow> bad_request
   | Some r \<Rightarrow>
       if Create_Question r = '''' \<or> length (Create_Outcomes r) < 2 \<or> Create_Seed r < 0 then bad_request
       else handle (CreateMarket (Create_Question r) (Create_Outcomes r) (Create_Seed r))
              (\<lambda>m. (201, BMarket m)) (status_error drv 500))"

definition GetMarket :: "(sql_error \<Rightarrow> string) \<Rightarrow> uuid \<Rightarrow> bet_handler" where
  "GetMarket drv pathID = handle (GetMarketDetails pathID) (\<lambda>d. (200, BDetails d)) (status_error drv 404)"

definition ListMarkets_handler :: "(sql_error \<Rightarrow> string) \<Rightarrow> bet_handler" where
  "ListMarkets_handler drv = handle ListMarkets (\<lambda>ms. (200, BMarkets ms)) (status_error drv 500)"

definition ListMarketBets_handler :: "(sql_error \<Rightarrow> string) \<Rightarrow> uuid \<Rightarrow> bet_handler" where
  "ListMarketBets_handler drv marketID =
     handle (ListMarketBets marketID) (\<lambda>bs. (200, BBets bs)) (status_error drv 500)"

record PlaceBetRequest =
  Place_UserID :: string
  Place_Outcome :: string
  Place_Stake :: int

definition PlaceBet_error :: "(sql_error \<Rightarrow> string) \<Rightarrow> bet_error \<Rightarrow> bet_response" where
  "PlaceBet_error drv e =
     (if errors_is e ErrInsufficientBalance then status_error drv 402 e
      else if errors_is e ErrMarketNotOpen \<or> errors_is e ErrInvalidOutcome then status_error drv 400 e
      else status_error drv 500 e)"

definition PlaceBet_handler ::
  "(string \<Rightarrow> bool) \<Rightarrow> (sql_error \<Rightarrow> string) \<Rightarrow> uuid \<Rightarrow> PlaceBetRequest option \<Rightarrow> bet_handler" where
  "PlaceBet_handler is_uuid drv marketID req = (case req of
     None \<Rightarrow> bad_request
   | Some r \<Rightarrow>
       if Place_UserID r = '''' \<or> \<not> is_uuid (Place_UserID r) \<or> Place_Outcome r = '''' \<or> Place_Stake r \<le> 0
       then bad_request
       else handle (PlaceBet (Place_UserID r) marketID (Place_Outcome r) (Place_Stake r))
              (\<lambda>b. (201, BBet b)) (PlaceBet_error drv))"

definition LockMarket_handler :: "(sql_error \<Rightarrow> string) \<Rightarrow> uuid \<Rightarrow> bet_handler" where
  "LockMarket_handler drv pathID =
     handle (LockMarket pathID) (\<lambda>_. (200, BMessage ''market locked'')) (status_error drv 500)"

definition ResolveMarket_handler :: "(sql_error \<Rightarrow> string) \<Rightarrow> uuid \<Rightarrow> string option \<Rightarrow> bet_handler" where
  "ResolveMarket_handler drv pathID req = (case req of
     None \<Rightarrow> bad_request
   | Some winner \<Rightarrow>
       if winner = '''' then bad_request
       else handle (ResolveMarket pathID winner) (\<lambda>_. (200, BMessage ''market resolved''))
              (status_error drv 500))"

definition CancelMarket_handler :: "(sql_error \<Rightarrow> string) \<Rightarrow> uuid \<Rightarrow> bet_handler" where
  "CancelMarket_handler drv pathID =
     handle (CancelMarket pathID) (\<lambda>_. (200, BMessage ''market cancelled'')) (status_error drv 500)"

definition ListUserBets_handler :: "(sql_error \<Rightarrow> string) \<Rightarrow> uuid \<Rightarrow> bet_handler" where
  "ListUserBets_handler drv userID =
     handle (ListUserBets userID) (\<lambda>bs. (200, BBets bs)) (status_error drv 500)"


section \<open>Listings\<close>

definition listing_error_code :: "bet_error \<Rightarrow> nat" where
  "listing_error_code e =
     (if errors_is e ErrBetNotFound \<or> errors_is e ErrListingNotFound then 404
      else if errors_is e ErrNotBetOwner \<or> errors_is e ErrNotListingOwner then 403
      else if errors_is e ErrCannotListHouseBet \<or> errors_is e ErrCannotBuyOwnListing
           \<or> errors_is e ErrMarketNotOpen then 400
      else if errors_is e ErrInsufficientBalance then 402
      else if errors_is e ErrBetAlreadyListed \<or> errors_is e ErrListingNotActive
           \<or> errors_is e ErrListingMarketNoLongerOpen then 409
      else 500)"

definition writeListingError :: "(sql_error \<Rightarrow> string) \<Rightarrow> bet_error \<Rightarrow> bet_response" where
  "writeListingError drv e = status_error drv (listing_error_code e) e"

definition CreateListing ::
  "(string \<Rightarrow> bool) \<Rightarrow> (sql_error \<Rightarrow> string) \<Rightarrow> uuid \<Rightarrow> (string \<times> int) option \<Rightarrow> bet_handler" where
  "CreateListing is_uuid drv betID req = (case req of
     None \<Rightarrow> bad_request
   | Some (sellerID, askingPrice) \<Rightarrow>
       if sellerID = '''' \<or> \<not> is_uuid sellerID \<or> askingPrice \<le> 0 then bad_request
       else handle (ListBetForSale betID sellerID askingPrice) (\<lambda>l. (201, BListing l))
              (writeListingError drv))"

definition CancelListing_handler ::
  "(string \<Rightarrow> bool) \<Rightarrow> (sql_error \<Rightarrow> string) \<Rightarrow> uuid \<Rightarrow> string option \<Rightarrow> bet_handler" where
  "CancelListing_handler is_uuid drv listingID req = (case req of
     None \<Rightarrow> bad_request
   | Some sellerID \<Rightarrow>
       if sellerID = '''' \<or> \<not> is_uuid sellerID then bad_request
       else handle (CancelListing listingID sellerID) (\<lambda>_. (200, BMessage ''listing cancelled''))
              (writeListingError drv))"

definition BuyListing ::
  "(string \<Rightarrow> bool) \<Rightarrow> (sql_error \<Rightarrow> string) \<Rightarrow> uuid \<Rightarrow> string option \<Rightarrow> bet_handler" where
  "BuyListing is_uuid drv listingID req = (case req of
     None \<Rightarrow> bad_request
   | Some buyerID \<Rightarrow>
       if buyerID = '''' \<or> \<not> is_uuid buyerID then bad_request
       else handle (BuyListedBet listingID buyerID) (\<lambda>l. (200, BListing l)) (writeListingError drv))"

definition ListMarketListings :: "(sql_error \<Rightarrow> string) \<Rightarrow> uuid \<Rightarrow> bet_handler" where
  "ListMarketListings drv marketID = handle (ListActiveListingsForMarket marketID)
     (\<lambda>ls. (200, BListings ls)) (status_error drv 500)"

definition ListUserListings :: "(sql_error \<Rightarrow> string) \<Rightarrow> uuid \<Rightarrow> bet_handler" where
  "ListUserListings drv userID = handle (ListActiveListingsForSeller userID)
     (\<lambda>ls. (200, BListings ls)) (status_error drv 500)"


section \<open>The database at start\<close>

text \<open>
  \<open>runMigrations\<close> on tables that exist: the house user, created once. (The column
  \<open>original_user_id\<close> it adds and fills is part of every bet here from the start.)
\<close>

definition runMigrations :: "time \<Rightarrow> db \<Rightarrow> db" where
  "runMigrations now d =
     (if user_exists d HouseUserID then d
      else d\<lparr>users := users d @ [\<lparr>User_ID = HouseUserID, User_Balance = 1000000000000,
                                User_CreatedAt = now\<rparr>]\<rparr>)"

definition empty_db :: db where
  "empty_db = \<lparr>users = [], markets = [], pools = [], bets = [], bet_listings = []\<rparr>"

lemma error_text_user_not_found:
  "error_text drv (ErrNew ''user not found'') = ''user not found''" by simp

lemma handle_world: "snd (handle m ok err w) = snd (m w)"
  by (auto simp: handle_def split: prod.splits sum.splits)

end
