(* ===== verification/Bet_Inv.thy ===== *)
theory Bet_Inv
  imports Bet_Market
begin

text \<open>
  What the engine keeps true of its tables, and the money it accounts for. The first half
  is the invariant and, for every SQL statement, what it does to the invariant's parts; the
  operations are taken up in \<open>Bet_Market_Correct\<close> and \<open>Bet_Listing_Correct\<close>.
\<close>

section \<open>The invariant\<close>

definition user_ids :: "db \<Rightarrow> uuid list" where "user_ids d = map User_ID (users d)"

definition market_ids :: "db \<Rightarrow> uuid list" where "market_ids d = map Market_ID (markets d)"

definition bet_ids :: "db \<Rightarrow> uuid list" where "bet_ids d = map Bet_ID (bets d)"

definition pool_keys :: "db \<Rightarrow> (uuid \<times> string) list" where
  "pool_keys d = map (\<lambda>p. (Pool_MarketID p, Pool_Outcome p)) (pools d)"

definition listed_bets :: "db \<Rightarrow> uuid list" where
  "listed_bets d = map Listing_BetID
     (filter (\<lambda>l. Listing_Status l = ListingStatusListed) (bet_listings d))"

text \<open>The stakes on one outcome of a market, and on the whole market.\<close>

definition staked :: "db \<Rightarrow> uuid \<Rightarrow> string \<Rightarrow> int" where
  "staked d mid out = sum_list (map Bet_Stake
     (filter (\<lambda>b. (Bet_MarketID b, Bet_Outcome b) = (mid, out)) (bets d)))"

definition staked_market :: "db \<Rightarrow> uuid \<Rightarrow> int" where
  "staked_market d mid = sum_list (map Bet_Stake (bets_of mid d))"

definition wf_users :: "db \<Rightarrow> bool" where
  "wf_users d \<longleftrightarrow> distinct (user_ids d) \<and> HouseUserID \<in> set (user_ids d) \<and>
     (\<forall>u \<in> set (users d). 0 \<le> User_Balance u \<and> in_int64 (User_Balance u))"

definition wf_markets :: "db \<Rightarrow> bool" where
  "wf_markets d \<longleftrightarrow> distinct (market_ids d) \<and>
     (\<forall>m \<in> set (markets d). 0 \<le> Market_Seed m \<and>
        (Market_WinningOutcome m \<noteq> None \<longleftrightarrow> Market_Status m = StatusResolved) \<and>
        (\<forall>out. Market_WinningOutcome m = Some out \<longrightarrow> out \<in> set (Market_Outcomes m)))"

definition wf_pools :: "db \<Rightarrow> bool" where
  "wf_pools d \<longleftrightarrow> distinct (pool_keys d) \<and>
     (\<forall>p \<in> set (pools d). 0 \<le> Pool_Total p \<and> in_int64 (Pool_Total p)) \<and>
     fst ` set (pool_keys d) \<subseteq> set (market_ids d) \<and>
     (\<forall>m \<in> set (markets d). \<forall>out.
        (Market_ID m, out) \<in> set (pool_keys d) \<longleftrightarrow> out \<in> set (Market_Outcomes m))"

definition wf_bets :: "db \<Rightarrow> bool" where
  "wf_bets d \<longleftrightarrow> distinct (bet_ids d) \<and>
     (\<forall>b \<in> set (bets d). 0 < Bet_Stake b \<and> in_int64 (Bet_Stake b) \<and>
        Bet_UserID b \<in> set (user_ids d) \<and>
        (Bet_MarketID b, Bet_Outcome b) \<in> set (pool_keys d))"

text \<open>Every pool's total is the sum of the stakes behind it.\<close>

definition books :: "db \<Rightarrow> bool" where
  "books d \<longleftrightarrow>
     (\<forall>p \<in> set (pools d). Pool_Total p = staked d (Pool_MarketID p) (Pool_Outcome p))"

text \<open>
  A listing on offer belongs to a bet its seller owns, on the same market, and that market
  is still open; the house never sells; a bet has at most one listing on offer.
\<close>

definition wf_listing :: "db \<Rightarrow> BetListing \<Rightarrow> bool" where
  "wf_listing d l \<longleftrightarrow> 0 < Listing_AskingPrice l \<and> in_int64 (Listing_AskingPrice l) \<and>
     Listing_SellerID l \<noteq> HouseUserID \<and> Listing_SellerID l \<in> set (user_ids d) \<and>
     (Listing_Status l = ListingStatusListed \<longrightarrow>
        (\<exists>b \<in> set (bets d). Bet_ID b = Listing_BetID l \<and> Bet_MarketID b = Listing_MarketID l \<and>
           Bet_UserID b = Listing_SellerID l) \<and>
        (\<exists>m \<in> set (markets d). Market_ID m = Listing_MarketID l \<and> Market_Status m = StatusOpen))"

definition wf_listings :: "db \<Rightarrow> bool" where
  "wf_listings d \<longleftrightarrow> distinct (map Listing_ID (bet_listings d)) \<and> distinct (listed_bets d) \<and>
     (\<forall>l \<in> set (bet_listings d). wf_listing d l)"

definition inv :: "db \<Rightarrow> bool" where
  "inv d \<longleftrightarrow> wf_users d \<and> wf_markets d \<and> wf_pools d \<and> wf_bets d \<and> books d \<and> wf_listings d"

lemmas inv_parts = wf_users_def wf_markets_def wf_pools_def wf_bets_def books_def wf_listings_def


section \<open>Money\<close>

text \<open>
  A market is live while its stakes are held: open or locked. The engine's money is what
  the users hold plus what live markets hold.
\<close>

definition live :: "db \<Rightarrow> uuid \<Rightarrow> bool" where
  "live d mid \<longleftrightarrow> list_ex (\<lambda>m. Market_ID m = mid \<and>
     (Market_Status m = StatusOpen \<or> Market_Status m = StatusLocked)) (markets d)"

definition users_total :: "db \<Rightarrow> int" where
  "users_total d = sum_list (map User_Balance (users d))"

definition escrow :: "db \<Rightarrow> int" where
  "escrow d = sum_list (map (\<lambda>b. if live d (Bet_MarketID b) then Bet_Stake b else 0) (bets d))"

definition total_money :: "db \<Rightarrow> int" where
  "total_money d = users_total d + escrow d"

definition balance_of :: "db \<Rightarrow> uuid \<Rightarrow> int option" where
  "balance_of d i = map_option User_Balance (select_user i d)"

lemma frames [simp]:
  "user_ids (d\<lparr>markets := ms\<rparr>) = user_ids d" "user_ids (d\<lparr>pools := ps\<rparr>) = user_ids d"
  "user_ids (d\<lparr>bets := bs\<rparr>) = user_ids d" "user_ids (d\<lparr>bet_listings := ls\<rparr>) = user_ids d"
  "market_ids (d\<lparr>users := us\<rparr>) = market_ids d" "market_ids (d\<lparr>pools := ps\<rparr>) = market_ids d"
  "market_ids (d\<lparr>bets := bs\<rparr>) = market_ids d" "market_ids (d\<lparr>bet_listings := ls\<rparr>) = market_ids d"
  "pool_keys (d\<lparr>users := us\<rparr>) = pool_keys d" "pool_keys (d\<lparr>markets := ms\<rparr>) = pool_keys d"
  "pool_keys (d\<lparr>bets := bs\<rparr>) = pool_keys d" "pool_keys (d\<lparr>bet_listings := ls\<rparr>) = pool_keys d"
  "bet_ids (d\<lparr>users := us\<rparr>) = bet_ids d" "bet_ids (d\<lparr>markets := ms\<rparr>) = bet_ids d"
  "bet_ids (d\<lparr>pools := ps\<rparr>) = bet_ids d" "bet_ids (d\<lparr>bet_listings := ls\<rparr>) = bet_ids d"
  by (simp_all add: user_ids_def market_ids_def pool_keys_def bet_ids_def)

lemma money_frames [simp]:
  "live (d\<lparr>users := us\<rparr>) = live d" "live (d\<lparr>pools := ps\<rparr>) = live d"
  "live (d\<lparr>bets := bs\<rparr>) = live d" "live (d\<lparr>bet_listings := ls\<rparr>) = live d"
  "users_total (d\<lparr>markets := ms\<rparr>) = users_total d" "users_total (d\<lparr>pools := ps\<rparr>) = users_total d"
  "users_total (d\<lparr>bets := bs\<rparr>) = users_total d"
  "users_total (d\<lparr>bet_listings := ls\<rparr>) = users_total d"
  "escrow (d\<lparr>users := us\<rparr>) = escrow d" "escrow (d\<lparr>pools := ps\<rparr>) = escrow d"
  "escrow (d\<lparr>bet_listings := ls\<rparr>) = escrow d"
  by (simp_all add: fun_eq_iff live_def users_total_def escrow_def)

lemma staked_frames [simp]:
  "staked (d\<lparr>users := us\<rparr>) = staked d" "staked (d\<lparr>markets := ms\<rparr>) = staked d"
  "staked (d\<lparr>pools := ps\<rparr>) = staked d" "staked (d\<lparr>bet_listings := ls\<rparr>) = staked d"
  "listed_bets (d\<lparr>users := us\<rparr>) = listed_bets d" "listed_bets (d\<lparr>markets := ms\<rparr>) = listed_bets d"
  "listed_bets (d\<lparr>pools := ps\<rparr>) = listed_bets d" "listed_bets (d\<lparr>bets := bs\<rparr>) = listed_bets d"
  by (simp_all add: fun_eq_iff staked_def listed_bets_def)

lemma exists_ids:
  "user_exists d i \<longleftrightarrow> i \<in> set (user_ids d)" "market_exists d i \<longleftrightarrow> i \<in> set (market_ids d)"
  "bet_exists d i \<longleftrightarrow> i \<in> set (bet_ids d)"
  by (auto simp: user_exists_def market_exists_def bet_exists_def user_ids_def market_ids_def
      bet_ids_def list_ex_iff)

text \<open>The stakes of a market, by outcome: what its pools hold.\<close>

lemma pools_sum_staked:
  assumes "wf_pools d" and "wf_bets d" and "books d"
  shows "sum_list (map Pool_Total (pools_of mid d)) = staked_market d mid"
proof -
  let ?key = "\<lambda>p. (Pool_MarketID p, Pool_Outcome p)"
  let ?on = "\<lambda>k. sum_list (map Bet_Stake
      (filter (\<lambda>b. (Bet_MarketID b, Bet_Outcome b) = k) (bets_of mid d)))"
  have "distinct (map ?key (pools_of mid d))"
    using assms(1) unfolding wf_pools_def pool_keys_def pools_of_def
    by (metis distinct_map_filter)
  moreover have "\<forall>b \<in> set (bets_of mid d).
      (Bet_MarketID b, Bet_Outcome b) \<in> set (map ?key (pools_of mid d))"
    using assms(2) by (auto simp: wf_bets_def bets_of_def pools_of_def pool_keys_def)
  ultimately have "sum_list (map ?on (map ?key (pools_of mid d))) = staked_market d mid"
    unfolding staked_market_def by (rule sum_by_key)
  moreover have "Pool_Total p = ?on (?key p)" if "p \<in> set (pools_of mid d)" for p
    using assms(3) that
    by (auto simp: books_def pools_of_def staked_def bets_of_def
        intro!: arg_cong [where f = sum_list] arg_cong [where f = "map Bet_Stake"] filter_cong)
  then have "map Pool_Total (pools_of mid d) = map ?on (map ?key (pools_of mid d))"
    by (simp del: split_paired_All)
  ultimately show ?thesis by (simp only:)
qed

end
