(* ===== verification/Bet_Steps.thy ===== *)
theory Bet_Steps
  imports Bet_Inv
begin

text \<open>
  What each SQL statement of the engine does to the invariant and to the money. The
  operations are sequences of these, so their proofs are sequences of these lemmas.
\<close>

section \<open>Balances\<close>

text \<open>Only users' balances changed.\<close>

definition only_users :: "db \<Rightarrow> db \<Rightarrow> bool" where
  "only_users d d' \<longleftrightarrow> user_ids d' = user_ids d \<and> markets d' = markets d \<and> pools d' = pools d \<and>
     bets d' = bets d \<and> bet_listings d' = bet_listings d"

lemma only_users_refl [simp]: "only_users d d"
  by (simp add: only_users_def)

lemma only_users_trans: "only_users d d1 \<Longrightarrow> only_users d1 d2 \<Longrightarrow> only_users d d2"
  by (simp add: only_users_def)

lemma only_users_inv: "only_users d d' \<Longrightarrow> inv d \<Longrightarrow> wf_users d' \<Longrightarrow> inv d'"
  by (auto simp: only_users_def inv_def inv_parts wf_listing_def staked_def
      user_ids_def market_ids_def pool_keys_def bet_ids_def listed_bets_def)

lemma only_users_eqs:
  assumes "only_users d d'"
  shows "live d' = live d" "escrow d' = escrow d" "staked d' = staked d"
    "select_market i d' = select_market i d" "bets_of i d' = bets_of i d"
    "pools_of i d' = pools_of i d" "select_bet i d' = select_bet i d"
    "select_listing i d' = select_listing i d" "staked_market d' = staked_market d"
  using assms by (simp_all add: only_users_def fun_eq_iff live_def escrow_def staked_def
      select_market_def bets_of_def pools_of_def select_bet_def select_listing_def staked_market_def)

lemma update_balance_Inr:
  assumes "update_balance g i d = Inr d'"
  shows "d' = d\<lparr>users := upd_rows (\<lambda>u. User_ID u = i)
             (\<lambda>u. u\<lparr>User_Balance := g (User_Balance u)\<rparr>) (users d)\<rparr>"
    and "\<forall>u \<in> set (users d). User_ID u = i \<longrightarrow>
           in_int64 (g (User_Balance u)) \<and> 0 \<le> g (User_Balance u)"
  using assms by (auto simp: update_balance_def list_ex_iff split: if_splits)

lemma balance_of_users: "balance_of (d\<lparr>users := us\<rparr>) i = map_option User_Balance (find (\<lambda>u. User_ID u = i) us)"
  by (simp add: balance_of_def select_user_def)

lemma balance_of_None: "balance_of d i = None \<longleftrightarrow> i \<notin> set (user_ids d)"
  by (simp add: balance_of_def select_user_def find_key_None user_ids_def)

lemma select_user_balance: "select_user i d = Some u \<Longrightarrow> balance_of d i = Some (User_Balance u)"
  by (simp add: balance_of_def)

lemma update_balance_step:
  assumes "update_balance g i d = Inr d'" and "wf_users d"
  shows "only_users d d'" and "wf_users d'"
    and "balance_of d' j = (if j = i then map_option g (balance_of d j) else balance_of d j)"
proof -
  note e = update_balance_Inr [OF assms(1)]
  have ids: "user_ids d' = user_ids d"
    by (simp add: e(1) user_ids_def map_upd_rows)
  then show "only_users d d'" by (simp add: only_users_def e(1))
  show "wf_users d'"
    using assms(2) e(2) ids
    by (auto simp: wf_users_def) (auto simp: e(1) in_set_upd_rows split: if_splits)
  show "balance_of d' j = (if j = i then map_option g (balance_of d j) else balance_of d j)"
    by (simp add: e(1) balance_of_users find_upd_rows option.map_comp o_def)
       (simp add: balance_of_def select_user_def option.map_comp o_def)
qed

lemma update_balance_total:
  assumes "update_balance g i d = Inr d'" and "wf_users d" and "balance_of d i = Some b"
  shows "users_total d' = users_total d + g b - b"
proof -
  obtain u where u: "find (\<lambda>u. User_ID u = i) (users d) = Some u" "b = User_Balance u"
    using assms(3) by (auto simp: balance_of_def select_user_def)
  have "distinct (map User_ID (users d))" using assms(2) by (simp add: wf_users_def user_ids_def)
  from sum_upd_rows [OF this u(1)] show ?thesis
    by (simp add: update_balance_Inr(1) [OF assms(1)] users_total_def u(2))
qed

text \<open>What a list of credits adds up to for one user.\<close>

definition credits :: "(uuid \<times> int) list \<Rightarrow> uuid \<Rightarrow> int" where
  "credits bs i = sum_list (map snd (filter (\<lambda>b. fst b = i) bs))"

lemma credits_simps [simp]:
  "credits [] i = 0" "credits ((u, s) # bs) i = (if u = i then s else 0) + credits bs i"
  by (simp_all add: credits_def)

definition credited :: "(uuid \<times> int) list \<Rightarrow> db \<Rightarrow> db \<Rightarrow> bool" where
  "credited bs d d' \<longleftrightarrow> only_users d d' \<and> wf_users d' \<and>
     (\<forall>i. balance_of d' i = map_option (\<lambda>b. b + credits bs i) (balance_of d i)) \<and>
     users_total d' = users_total d + sum_list (map snd bs)"

lemma credited_Nil: "wf_users d \<Longrightarrow> credited [] d d"
  by (simp add: credited_def option.map_ident)

lemma credited_Cons:
  assumes "update_balance (\<lambda>b. b + s) u d = Inr d1" and "wf_users d"
    and "u \<in> set (user_ids d)" and "credited bs d1 d2"
  shows "credited ((u, s) # bs) d d2"
proof -
  note s = update_balance_step [OF assms(1,2)]
  obtain b where b: "balance_of d u = Some b"
    using assms(3) balance_of_None [of d u] by fastforce
  have "users_total d1 = users_total d + s"
    using update_balance_total [OF assms(1,2) b] by simp
  then show ?thesis
    using assms(4) s only_users_trans [OF s(1)]
    by (auto simp: credited_def s(3) option.map_comp o_def algebra_simps intro!: option.map_cong)
qed

lemma credited_ids: "credited bs d d' \<Longrightarrow> user_ids d' = user_ids d"
  by (simp add: credited_def only_users_def)

lemma credited_append:
  "credited bs d d1 \<Longrightarrow> credited cs d1 d2 \<Longrightarrow> credited (bs @ cs) d d2"
  by (auto simp: credited_def credits_def option.map_comp o_def algebra_simps
      intro!: option.map_cong elim: only_users_trans)

lemma refund_bets_credited:
  assumes "refund_bets bs w = (Inr x, w')" and "wf_users (tabs w)"
    and "fst ` set bs \<subseteq> set (user_ids (tabs w))"
  shows "credited bs (tabs w) (tabs w')"
  using assms
proof (induction bs arbitrary: w)
  case Nil
  then show ?case by (simp add: io_inv credited_Nil)
next
  case (Cons b bs)
  obtain u s where b: "b = (u, s)" by force
  obtain w1 where w1: "update_balance (\<lambda>b. b + s) u (tabs w) = Inr (tabs w1)"
      "refund_bets bs w1 = (Inr x, w')"
    using Cons.prems(1) by (auto simp: b io_inv dest!: tx_dest)
  note s = update_balance_step [OF w1(1) Cons.prems(2)]
  have "credited bs (tabs w1) (tabs w')"
    using Cons.IH [OF w1(2) s(2)] Cons.prems(3) s(1) by (simp add: only_users_def)
  then show ?case
    using credited_Cons [OF w1(1) Cons.prems(2)] Cons.prems(3) by (simp add: b)
qed

definition payouts :: "int \<Rightarrow> int \<Rightarrow> (uuid \<times> int) list \<Rightarrow> (uuid \<times> int) list" where
  "payouts pd pv wbs = map (\<lambda>(u, s). (u, payout_of s pd pv)) wbs"

lemma payouts_simps [simp]:
  "payouts pd pv [] = []" "payouts pd pv ((u, s) # bs) = (u, payout_of s pd pv) # payouts pd pv bs"
  "fst ` set (payouts pd pv bs) = fst ` set bs"
  by (auto simp: payouts_def image_iff) force+

lemma pay_winners_credited:
  assumes "pay_winners bs pd pv paid w = (Inr x, w')" and "wf_users (tabs w)"
    and "fst ` set bs \<subseteq> set (user_ids (tabs w))"
  shows "credited (payouts pd pv bs) (tabs w) (tabs w') \<and>
         i64 x = i64 (paid + sum_list (map snd (payouts pd pv bs)))"
  using assms
proof (induction bs arbitrary: w paid)
  case Nil
  then show ?case by (simp add: io_inv credited_Nil)
next
  case (Cons b bs)
  obtain u s where b: "b = (u, s)" by force
  let ?p = "payout_of s pd pv"
  obtain w1 where w1: "update_balance (\<lambda>b. b + ?p) u (tabs w) = Inr (tabs w1)"
      "pay_winners bs pd pv (i64 (paid + ?p)) w1 = (Inr x, w')"
    using Cons.prems(1) by (auto simp: b io_inv Let_def dest!: tx_dest)
  note s = update_balance_step [OF w1(1) Cons.prems(2)]
  have "fst ` set bs \<subseteq> set (user_ids (tabs w1))"
    using Cons.prems(3) s(1) by (simp add: only_users_def)
  note ih = Cons.IH [OF w1(2) s(2) this]
  show ?case
    using credited_Cons [OF w1(1) Cons.prems(2)] ih Cons.prems(3)
    by (simp add: b algebra_simps)
qed


section \<open>Listings and markets\<close>

lemma cancel_market_listings_step:
  assumes "cancel_market_listings mid t d = Inr d'" and "inv d"
  shows "inv d'" and "\<forall>l \<in> set (bet_listings d'). Listing_MarketID l = mid \<longrightarrow>
                         Listing_Status l \<noteq> ListingStatusListed"
    and "users d' = users d" "markets d' = markets d" "pools d' = pools d" "bets d' = bets d"
proof -
  have d': "d' = d\<lparr>bet_listings := upd_rows
      (\<lambda>l. Listing_MarketID l = mid \<and> Listing_Status l = ListingStatusListed)
      (\<lambda>l. l\<lparr>Listing_Status := ListingStatusCancelled, Listing_CancelledAt := Some t\<rparr>) (bet_listings d)\<rparr>"
    using assms(1) by (simp add: cancel_market_listings_def)
  have "distinct (map Listing_BetID (filter (\<lambda>l. Listing_Status l = ListingStatusListed)
      (upd_rows p (\<lambda>l. l\<lparr>Listing_Status := ListingStatusCancelled, Listing_CancelledAt := Some t\<rparr>) ls)))"
    if "distinct (map Listing_BetID (filter (\<lambda>l. Listing_Status l = ListingStatusListed) ls))" for p and ls :: "BetListing list"
    using that by (induction ls) (auto simp: in_set_upd_rows split: if_splits)
  then have "wf_listings d'"
    using assms(2)
    by (auto simp: inv_def wf_listings_def d' listed_bets_def map_upd_rows in_set_upd_rows wf_listing_def
        split: if_splits)
  then show "inv d'" using assms(2) by (auto simp: inv_def wf_users_def wf_markets_def wf_pools_def
        wf_bets_def books_def d')
  show "\<forall>l \<in> set (bet_listings d'). Listing_MarketID l = mid \<longrightarrow>
          Listing_Status l \<noteq> ListingStatusListed"
    by (simp add: d' ball_upd_rows)
qed (use assms in \<open>auto simp: cancel_market_listings_def\<close>)

text \<open>The status a market may be given: the winner goes with resolution, and only with it.\<close>

definition closes :: "(Market \<Rightarrow> Market) \<Rightarrow> db \<Rightarrow> uuid \<Rightarrow> bool" where
  "closes f d mid \<longleftrightarrow> (\<forall>m. Market_ID (f m) = Market_ID m \<and> Market_Seed (f m) = Market_Seed m \<and>
       Market_Outcomes (f m) = Market_Outcomes m) \<and>
     (\<forall>m \<in> set (markets d). Market_ID m = mid \<longrightarrow>
       (Market_WinningOutcome (f m) \<noteq> None \<longleftrightarrow> Market_Status (f m) = StatusResolved) \<and>
       (\<forall>out. Market_WinningOutcome (f m) = Some out \<longrightarrow> out \<in> set (Market_Outcomes m)))"

lemma update_market_step:
  assumes "update_market f mid d = Inr d'" and "inv d" and "closes f d mid"
    and "\<forall>l \<in> set (bet_listings d). Listing_MarketID l = mid \<longrightarrow>
           Listing_Status l \<noteq> ListingStatusListed"
  shows "inv d'" and "users d' = users d" and "pools d' = pools d" and "bets d' = bets d"
    and "bet_listings d' = bet_listings d" and "market_ids d' = market_ids d"
    and "select_market i d' =
      (if i = mid then map_option f (select_market i d) else select_market i d)"
proof -
  have d': "d' = d\<lparr>markets := upd_rows (\<lambda>m. Market_ID m = mid) f (markets d)\<rparr>"
    using assms(1) by (simp add: update_market_def)
  have ids: "market_ids d' = market_ids d"
    using assms(3) by (simp add: d' market_ids_def map_upd_rows closes_def)
  have "wf_markets d'"
    using assms(2,3) ids by (auto simp: inv_def wf_markets_def closes_def)
      (auto simp: d' in_set_upd_rows closes_def split: if_splits)
  moreover have "wf_pools d'"
    using assms(2,3) ids by (auto simp: inv_def wf_pools_def closes_def)
      (auto simp: d' in_set_upd_rows closes_def split: if_splits)
  moreover have "wf_listing d' l" if "l \<in> set (bet_listings d)" "wf_listing d l" for l
  proof -
    have "m \<in> set (markets d')" if "m \<in> set (markets d)" "Market_ID m \<noteq> mid" for m
      using that by (auto simp: d' in_set_upd_rows)
    moreover have "user_ids d' = user_ids d" "bets d' = bets d" by (simp_all add: d')
    ultimately show ?thesis
      using that assms(4) unfolding wf_listing_def by metis
  qed
  ultimately show "inv d'"
    using assms(2) by (auto simp: inv_def wf_users_def wf_bets_def books_def wf_listings_def
        d' listed_bets_def)
  show "market_ids d' = market_ids d" by (rule ids)
  show "select_market i d' = (if i = mid then map_option f (select_market i d) else select_market i d)"
    using assms(3) by (simp add: d' select_market_def find_upd_rows closes_def)
qed (use assms in \<open>auto simp: update_market_def\<close>)

lemma live_select:
  assumes "distinct (market_ids d)"
  shows "live d mid \<longleftrightarrow> (\<exists>m. select_market mid d = Some m \<and>
           (Market_Status m = StatusOpen \<or> Market_Status m = StatusLocked))"
proof -
  have "m \<in> set (markets d) \<and> Market_ID m = mid \<longleftrightarrow> select_market mid d = Some m" for m
    using assms find_key_unique [of Market_ID "markets d" m mid] find_key_Some [of Market_ID mid "markets d" m]
    by (auto simp: select_market_def market_ids_def)
  then show ?thesis by (auto simp: live_def list_ex_iff)
qed

lemma inv_distinct_markets: "inv d \<Longrightarrow> distinct (market_ids d)"
  by (simp add: inv_def wf_markets_def)

text \<open>Ending a live market takes its stakes out of escrow.\<close>

lemma escrow_end:
  assumes "bets d' = bets d" and "live d mid" and "\<not> live d' mid"
    and "\<And>i. i \<noteq> mid \<Longrightarrow> live d' i = live d i"
  shows "escrow d' = escrow d - staked_market d mid"
proof -
  have "sum_list (map (\<lambda>b. if live d' (Bet_MarketID b) then Bet_Stake b else 0) bs) =
        sum_list (map (\<lambda>b. if live d (Bet_MarketID b) then Bet_Stake b else 0) bs) -
        sum_list (map Bet_Stake (filter (\<lambda>b. Bet_MarketID b = mid) bs))" for bs :: "Bet list"
    using assms(2-4) by (induction bs) auto
  then show ?thesis by (simp add: escrow_def staked_market_def bets_of_def assms(1))
qed

lemma escrow_same:
  "bets d' = bets d \<Longrightarrow> (\<And>i. live d' i = live d i) \<Longrightarrow> escrow d' = escrow d"
  by (simp add: escrow_def)


section \<open>Bets and pools\<close>

lemma wf_pools_key_market: "wf_pools d \<Longrightarrow> (mid, out) \<in> set (pool_keys d) \<Longrightarrow> mid \<in> set (market_ids d)"
  unfolding wf_pools_def by force

lemma update_pool_Inr:
  assumes "update_pool amt mid out d = Inr d'"
  shows "d' = d\<lparr>pools := upd_rows (\<lambda>p. Pool_MarketID p = mid \<and> Pool_Outcome p = out)
            (\<lambda>p. p\<lparr>Pool_Total := Pool_Total p + amt\<rparr>) (pools d)\<rparr>"
    and "\<forall>p \<in> set (pools d). Pool_MarketID p = mid \<and> Pool_Outcome p = out \<longrightarrow>
           in_int64 (Pool_Total p + amt) \<and> 0 \<le> Pool_Total p + amt"
  using assms by (auto simp: update_pool_def Let_def list_ex_iff split: if_splits)

lemma insert_bet_Inr:
  assumes "insert_bet b d = Inr d'"
  shows "d' = d\<lparr>bets := bets d @ [b]\<rparr>" and "in_int64 (Bet_Stake b)" and "0 < Bet_Stake b"
    and "Bet_ID b \<notin> set (bet_ids d)" and "Bet_MarketID b \<in> set (market_ids d)"
    and "Bet_UserID b \<in> set (user_ids d)" and "Bet_OriginalUserID b \<in> set (user_ids d)"
  using assms by (auto simp: insert_bet_def exists_ids split: if_splits)

lemma staked_append: "staked (d\<lparr>bets := bets d @ bs\<rparr>) mid out =
    staked d mid out + sum_list (map Bet_Stake
      (filter (\<lambda>b. (Bet_MarketID b, Bet_Outcome b) = (mid, out)) bs))"
  by (simp add: staked_def)

text \<open>A stake entering a pool and its bet keep the books.\<close>

lemma stake_step:
  assumes "update_pool s mid out d = Inr d1" and "insert_bet b d1 = Inr d2" and "inv d"
    and "Bet_MarketID b = mid" "Bet_Outcome b = out" "Bet_Stake b = s"
    and "(mid, out) \<in> set (pool_keys d)" and "live d mid"
  shows "inv d2" and "users d2 = users d" and "markets d2 = markets d"
    and "bets d2 = bets d @ [b]" and "bet_listings d2 = bet_listings d"
    and "pools d2 = upd_rows (\<lambda>p. Pool_MarketID p = mid \<and> Pool_Outcome p = out)
            (\<lambda>p. p\<lparr>Pool_Total := Pool_Total p + s\<rparr>) (pools d)"
    and "escrow d2 = escrow d + s"
proof -
  note p = update_pool_Inr [OF assms(1)] and b = insert_bet_Inr [OF assms(2)]
  show eqs: "users d2 = users d" "markets d2 = markets d" "bets d2 = bets d @ [b]"
    "bet_listings d2 = bet_listings d"
    "pools d2 = upd_rows (\<lambda>p. Pool_MarketID p = mid \<and> Pool_Outcome p = out)
            (\<lambda>p. p\<lparr>Pool_Total := Pool_Total p + s\<rparr>) (pools d)"
    by (simp_all add: b(1) p(1))
  have ids: "user_ids d2 = user_ids d" "market_ids d2 = market_ids d" "pool_keys d2 = pool_keys d"
    "bet_ids d2 = bet_ids d @ [Bet_ID b]" "bet_ids d1 = bet_ids d" "user_ids d1 = user_ids d"
    "listed_bets d2 = listed_bets d"
    by (simp_all add: b(1) p(1) user_ids_def market_ids_def pool_keys_def bet_ids_def listed_bets_def
        map_upd_rows)
  have "wf_pools d2"
    using assms(3) p(2) by (auto simp: inv_def wf_pools_def ids eqs ball_upd_rows)
  moreover have "wf_bets d2"
    using assms(3) b(2-) assms(4,5,7) by (auto simp: inv_def wf_bets_def ids eqs)
  moreover have "books d2"
  proof -
    have "staked d2 i k = staked d i k + (if i = mid \<and> k = out then s else 0)" for i k
      using assms(4-6) by (auto simp: staked_def eqs)
    then show ?thesis
      using assms(3) by (auto simp: inv_def books_def eqs ball_upd_rows)
  qed
  moreover have "wf_listings d2"
    using assms(3) by (auto simp: inv_def wf_listings_def wf_listing_def ids eqs)
  ultimately show "inv d2"
    using assms(3) by (auto simp: inv_def wf_users_def wf_markets_def ids eqs)
  have "live d2 = live d" by (simp add: fun_eq_iff live_def eqs)
  then show "escrow d2 = escrow d + s"
    using assms(4,6,8) by (simp add: escrow_def eqs)
qed

text \<open>The rows \<open>CreateMarket\<close>'s loop writes: a pool per outcome and the house's bets.\<close>

lemma insert_pool_Inr:
  assumes "insert_pool p d = Inr d'"
  shows "d' = d\<lparr>pools := pools d @ [p]\<rparr>" and "in_int64 (Pool_Total p)" and "0 \<le> Pool_Total p"
    and "(Pool_MarketID p, Pool_Outcome p) \<notin> set (pool_keys d)"
  using assms by (auto simp: insert_pool_def list_ex_iff pool_keys_def split: if_splits)

definition bet_sig :: "Bet \<Rightarrow> uuid \<times> uuid \<times> uuid \<times> string \<times> int" where
  "bet_sig b = (Bet_MarketID b, Bet_UserID b, Bet_OriginalUserID b, Bet_Outcome b, Bet_Stake b)"

definition seeded :: "uuid \<Rightarrow> int \<Rightarrow> string list \<Rightarrow> db \<Rightarrow> Bet list \<Rightarrow> db \<Rightarrow> bool" where
  "seeded mid seed outs d bs d' \<longleftrightarrow>
     d' = d\<lparr>pools := pools d @ map (\<lambda>out. \<lparr>Pool_MarketID = mid, Pool_Outcome = out, Pool_Total = seed\<rparr>) outs,
            bets := bets d @ bs\<rparr> \<and>
     map bet_sig bs = (if 0 < seed then map (\<lambda>out. (mid, HouseUserID, HouseUserID, out, seed)) outs else []) \<and>
     (distinct (pool_keys d) \<longrightarrow> distinct (pool_keys d')) \<and>
     (distinct (bet_ids d) \<longrightarrow> distinct (bet_ids d')) \<and>
     (outs \<noteq> [] \<longrightarrow> in_int64 seed \<and> 0 \<le> seed)"

lemma create_pools_seeded:
  assumes "create_pools mid seed outs w = (Inr x, w')"
  shows "\<exists>bs. seeded mid seed outs (tabs w) bs (tabs w')"
  using assms
proof (induction outs arbitrary: w)
  case Nil
  then show ?case by (auto simp: io_inv seeded_def)
next
  case (Cons out outs)
  let ?p = "\<lparr>Pool_MarketID = mid, Pool_Outcome = out, Pool_Total = seed\<rparr>"
  obtain d1 w2 where w1: "insert_pool ?p (tabs w) = Inr d1"
    and w2: "create_pools mid seed outs w2 = (Inr x, w')"
    and b: "if 0 < seed then \<exists>b. insert_bet b d1 = Inr (tabs w2) \<and>
              bet_sig b = (mid, HouseUserID, HouseUserID, out, seed)
            else tabs w2 = d1"
    using Cons.prems
    by (cases "0 < seed") (auto simp: io_inv bet_sig_def dest!: tx_dest, force+)
  note p = insert_pool_Inr [OF w1, simplified]
  obtain bs where bs: "seeded mid seed outs (tabs w2) bs (tabs w')"
    using Cons.IH [OF w2] by blast
  note bs' = bs [unfolded seeded_def, THEN conjunct2]
  show ?case
  proof (cases "0 < seed")
    case True
    then obtain b where b: "insert_bet b d1 = Inr (tabs w2)"
        "bet_sig b = (mid, HouseUserID, HouseUserID, out, seed)"
      using b by auto
    note i = insert_bet_Inr [OF b(1)]
    have ids: "pool_keys (tabs w2) = pool_keys (tabs w) @ [(mid, out)]"
        "bet_ids (tabs w2) = bet_ids (tabs w) @ [Bet_ID b]" "bet_ids d1 = bet_ids (tabs w)"
      by (simp_all add: i(1) p(1) pool_keys_def bet_ids_def)
    have "seeded mid seed (out # outs) (tabs w) (b # bs) (tabs w')"
      unfolding seeded_def
    proof (intro conjI)
      show "tabs w' = (tabs w)\<lparr>pools := pools (tabs w) @ map (\<lambda>out. \<lparr>Pool_MarketID = mid,
          Pool_Outcome = out, Pool_Total = seed\<rparr>) (out # outs), bets := bets (tabs w) @ b # bs\<rparr>"
        using bs by (simp add: seeded_def i(1) p(1))
    qed (use bs' True b(2) p(2-) i(4) ids in \<open>simp_all\<close>)
    then show ?thesis by blast
  next
    case False
    have ids: "tabs w2 = d1" "pool_keys d1 = pool_keys (tabs w) @ [(mid, out)]"
        "bet_ids d1 = bet_ids (tabs w)"
      using False b by (simp_all add: p(1) pool_keys_def bet_ids_def)
    have "seeded mid seed (out # outs) (tabs w) bs (tabs w')"
      unfolding seeded_def
    proof (intro conjI)
      show "tabs w' = (tabs w)\<lparr>pools := pools (tabs w) @ map (\<lambda>out. \<lparr>Pool_MarketID = mid,
          Pool_Outcome = out, Pool_Total = seed\<rparr>) (out # outs), bets := bets (tabs w) @ bs\<rparr>"
        using bs by (simp add: seeded_def ids(1) p(1))
    qed (use bs' False p(2-) ids in \<open>simp_all\<close>)
    then show ?thesis by blast
  qed
qed

end
