(* ===== verification/Bet_Frames.thy ===== *)
theory Bet_Frames
  imports Bet_Steps
begin

text \<open>
  The frame of the engine's reads: whatever they return, the tables stay. With it, an
  operation's effect is its transaction's effect, since what follows the commit only reads,
  caches and publishes.
\<close>

lemma keeps_stmt:
  assumes "\<And>w. P (tabs w) \<Longrightarrow> P (tabs (snd (m w)))"
  shows "keeps (\<lambda>w. P (tabs w)) (stmt m)"
  using assms by (auto simp: keeps_def stmt_def Let_def)

lemma keeps_query [keeps_intro]: "keeps (\<lambda>w. P (tabs w)) (query f)"
  unfolding query_def by (rule keeps_stmt) simp

lemma keeps_query_row [keeps_intro]: "keeps (\<lambda>w. P (tabs w)) (query_row f)"
  unfolding query_row_def by (rule keeps_stmt) (simp split: option.splits)

lemma keeps_query_row_for [keeps_intro]: "keeps (\<lambda>w. P (tabs w)) (query_row_for f l)"
  unfolding query_row_for_def by (rule keeps_stmt) (simp split: option.splits)

lemma keeps_timeNow [keeps_intro]: "keeps P timeNow"
  by (simp add: keeps_def timeNow_def)

lemma keeps_uuid_New [keeps_intro]: "keeps (\<lambda>w. P (tabs w)) uuid_New"
  by (simp add: keeps_def uuid_New_def)

lemma keeps_no_rows [keeps_intro]: "keeps P m \<Longrightarrow> keeps P (no_rows m e)"
  unfolding no_rows_def by (intro keeps_intro)

lemma keeps_CacheOdds [keeps_intro]: "keeps (\<lambda>w. P (tabs w)) (CacheOdds i odds)"
  by (simp add: keeps_def)

lemma keeps_Publish [keeps_intro]: "keeps (\<lambda>w. P (tabs w)) (PublishMarketUpdate i t p)"
  by (simp add: keeps_def)

lemma keeps_if_ok [keeps_intro]:
  "keeps P m \<Longrightarrow> (\<And>x. keeps P (k x)) \<Longrightarrow> keeps P (if_ok m k)"
  unfolding keeps_def if_ok_def by (auto split: prod.splits sum.splits)

lemma keeps_GetMarketDetails [keeps_intro]: "keeps (\<lambda>w. P (tabs w)) (GetMarketDetails i)"
  unfolding GetMarketDetails_def Let_def case_prod_beta by (intro keeps_intro)

lemma keeps_CalculateAndCacheOdds [keeps_intro]:
  "keeps (\<lambda>w. P (tabs w)) (CalculateAndCacheOdds i)"
  unfolding CalculateAndCacheOdds_def by (intro keeps_intro)

text \<open>What follows a commit never fails the operation.\<close>

lemma if_ok_Inr: "(\<And>x w. \<exists>w'. k x w = (Inr (), w')) \<Longrightarrow> \<exists>w'. if_ok m k w = (Inr (), w')"
  by (auto simp: if_ok_def split: prod.splits sum.splits)

lemma Publish_Inr: "\<exists>w'. PublishMarketUpdate i t p w = (Inr (), w')"
  by (metis PublishMarketUpdate_tabs(1) prod.collapse)

lemma if_ok_never_fails:
  "if_ok m (\<lambda>d. PublishMarketUpdate i t (p d)) w = (Inl e, w') \<longleftrightarrow> False"
  using if_ok_Inr [of "\<lambda>d. PublishMarketUpdate i t (p d)" m w] Publish_Inr by fastforce

lemma after_details_tabs:
  assumes "if_ok (GetMarketDetails j) (\<lambda>d. PublishMarketUpdate i t (p d)) w = (r, w')"
  shows "tabs w' = tabs w"
proof -
  have "keeps (\<lambda>v. tabs v = tabs w) (if_ok (GetMarketDetails j) (\<lambda>d. PublishMarketUpdate i t (p d)))"
    by (intro keeps_intro)
  from keepsD [OF this assms] show ?thesis by simp
qed

lemma after_odds_tabs:
  assumes "if_ok (CalculateAndCacheOdds j) (\<lambda>d. PublishMarketUpdate i t (p d)) w = (r, w')"
  shows "tabs w' = tabs w"
proof -
  have "keeps (\<lambda>v. tabs v = tabs w) (if_ok (CalculateAndCacheOdds j) (\<lambda>d. PublishMarketUpdate i t (p d)))"
    by (intro keeps_intro)
  from keepsD [OF this assms] show ?thesis by simp
qed

lemma no_rows_InrD: "no_rows m e w = (Inr x, w') \<Longrightarrow> m w = (Inr x, w')"
  by (auto simp: no_rows_def on_error_def throw_def split: prod.splits sum.splits if_splits)

lemmas op_dest = tx_dest no_rows_InrD after_details_tabs after_odds_tabs

text \<open>The reads of the service change nothing.\<close>

lemma keeps_GetUser [keeps_intro]: "keeps (\<lambda>w. P (tabs w)) (GetUser i)"
  unfolding GetUser_def by (intro keeps_intro)

lemma keeps_details_loop [keeps_intro]: "keeps (\<lambda>w. P (tabs w)) (details_loop is acc)"
proof (induction "is" arbitrary: acc)
  case Nil
  then show ?case by (simp add: keeps_ret)
next
  case (Cons i "is")
  then show ?case by (simp, intro keeps_intro)
qed

lemma keeps_lists [keeps_intro]: "keeps (\<lambda>w. P (tabs w)) ListMarkets"
  "keeps (\<lambda>w. P (tabs w)) (ListMarketBets i)" "keeps (\<lambda>w. P (tabs w)) (ListUserBets i)"
  unfolding ListMarkets_def ListMarketBets_def ListUserBets_def by (intro keeps_intro)+

end
