(* ===== verification/Bet_Market_Correct.thy ===== *)
theory Bet_Market_Correct
  imports Bet_Frames
begin

text \<open>
  The engine's operations against its invariant and its accounts: what each does on success,
  that an error changes no table, and that money only moves.
\<close>

section \<open>Betting\<close>

lemma pool_key_exists:
  assumes "inv d" and "select_market mid d = Some m" and "out \<in> set (Market_Outcomes m)"
  shows "(mid, out) \<in> set (pool_keys d)"
  using assms find_key_Some [of Market_ID mid "markets d" m]
  by (auto simp: inv_def wf_pools_def select_market_def)

lemma select_market_unique:
  "inv d \<Longrightarrow> m \<in> set (markets d) \<Longrightarrow> Market_ID m = mid \<Longrightarrow> select_market mid d = Some m"
  unfolding select_market_def
  by (rule find_key_unique) (auto simp: inv_def wf_markets_def market_ids_def)

lemma user_id_of: "select_user i d = Some u \<Longrightarrow> i \<in> set (user_ids d)"
  using balance_of_None [of d i] by (simp add: balance_of_def)

text \<open>What the transaction of a placed bet did.\<close>

definition bet_placed :: "uuid \<Rightarrow> uuid \<Rightarrow> string \<Rightarrow> int \<Rightarrow> uuid \<Rightarrow> db \<Rightarrow> db \<Rightarrow> bool" where
  "bet_placed userID mid out stake betID d d' \<longleftrightarrow>
     (\<exists>m bal b. select_market mid d = Some m \<and> Market_Status m = StatusOpen \<and>
        out \<in> set (Market_Outcomes m) \<and> balance_of d userID = Some bal \<and> stake \<le> bal \<and>
        bets d' = bets d @ [b] \<and> Bet_ID b = betID \<and> Bet_MarketID b = mid \<and>
        Bet_UserID b = userID \<and> Bet_OriginalUserID b = userID \<and> Bet_Outcome b = out \<and>
        Bet_Stake b = stake) \<and>
     markets d' = markets d \<and> bet_listings d' = bet_listings d \<and>
     (\<forall>i. balance_of d' i = map_option (\<lambda>x. if i = userID then x - stake else x) (balance_of d i))"

lemma PlaceBet_tx_effect:
  assumes "PlaceBet_tx userID mid out stake w = (Inr betID, w')" and "inv (tabs w)" and "0 < stake"
  shows "bet_placed userID mid out stake betID (tabs w) (tabs w')"
    and "inv (tabs w')" and "total_money (tabs w') = total_money (tabs w)"
proof -
  let ?d = "tabs w"
  obtain m u d1 d2 now where m: "select_market mid ?d = Some m" "Market_Status m = StatusOpen"
      "out \<in> set (Market_Outcomes m)"
    and u: "select_user userID ?d = Some u" "stake \<le> User_Balance u"
    and d1: "update_balance (\<lambda>b. b - stake) userID ?d = Inr d1"
    and d2: "update_pool stake mid out d1 = Inr d2"
    and d3: "insert_bet \<lparr>Bet_ID = betID, Bet_MarketID = mid, Bet_UserID = userID,
               Bet_OriginalUserID = userID, Bet_Outcome = out, Bet_Stake = stake,
               Bet_CreatedAt = now\<rparr> d2 = Inr (tabs w')"
    using assms(1)
    by (auto simp: PlaceBet_tx_def io_inv not_less split: if_splits dest!: op_dest)
  note u_bal = select_user_balance [OF u(1)]
  have wf: "wf_users ?d" using assms(2) by (simp add: inv_def)
  note s = update_balance_step [OF d1 wf]
  have inv1: "inv d1" using only_users_inv [OF s(1) assms(2) s(2)] .
  have key: "(mid, out) \<in> set (pool_keys d1)"
    using pool_key_exists [OF assms(2) m(1,3)] s(1) by (simp add: only_users_def pool_keys_def)
  have "live ?d mid"
    using live_select [OF inv_distinct_markets [OF assms(2)]] m by auto
  then have live: "live d1 mid" by (simp add: only_users_eqs [OF s(1)])
  note t = stake_step [OF d2 d3 inv1, simplified, OF key live]
  show "inv (tabs w')" by (rule t(1))
  have "users_total d1 = users_total ?d - stake"
    using update_balance_total [OF d1 wf u_bal] by simp
  then show "total_money (tabs w') = total_money ?d"
    using t(2,7) only_users_eqs(2) [OF s(1)]
    by (simp add: total_money_def users_total_def)
  have "balance_of (tabs w') i = balance_of d1 i" for i
    by (simp add: balance_of_def select_user_def t(2))
  then show "bet_placed userID mid out stake betID ?d (tabs w')"
    using m u u_bal s(1) t by (auto simp: bet_placed_def only_users_def s(3) option.map_ident)
qed

lemma PlaceBet_Inr:
  assumes "PlaceBet userID mid out stake w = (Inr b, w')"
  shows "0 < stake" and "\<exists>w1 w2. tabs w1 = tabs w \<and>
    PlaceBet_tx userID mid out stake w1 = (Inr (Bet_ID b), w2) \<and> tabs w' = tabs w2"
  using assms
  by (auto simp: PlaceBet_def io_inv Let_def split: if_splits dest!: op_dest run_tx_InrD)

lemma PlaceBet_Inl: "PlaceBet userID mid out stake w = (Inl e, w') \<Longrightarrow> tabs w' = tabs w"
  by (auto simp: PlaceBet_def io_inv Let_def if_ok_never_fails timeNow_def
      split: if_splits dest!: run_tx_InlD)

section \<open>Balances\<close>

lemma AdjustBalance_tx_effect:
  assumes "AdjustBalance_tx userID delta w = (Inr nb, w')" and "inv (tabs w)"
  shows "inv (tabs w')" and "only_users (tabs w) (tabs w')"
    and "\<exists>b. balance_of (tabs w) userID = Some b \<and> nb = i64 (b + delta) \<and> 0 \<le> nb \<and>
          users_total (tabs w') = users_total (tabs w) + nb - b"
    and "balance_of (tabs w') i = (if i = userID then Some nb else balance_of (tabs w) i)"
proof -
  let ?d = "tabs w"
  obtain u where u: "select_user userID ?d = Some u" "nb = i64 (User_Balance u + delta)" "0 \<le> nb"
    and d1: "update_balance (\<lambda>_. nb) userID ?d = Inr (tabs w')"
    using assms(1)
    by (auto simp: AdjustBalance_tx_def io_inv not_less Let_def split: if_splits dest!: op_dest)
  have wf: "wf_users ?d" using assms(2) by (simp add: inv_def)
  note s = update_balance_step [OF d1 wf] and ub = select_user_balance [OF u(1)]
  show "inv (tabs w')" using only_users_inv [OF s(1) assms(2) s(2)] .
  show "only_users ?d (tabs w')" by (rule s(1))
  show "\<exists>b. balance_of ?d userID = Some b \<and> nb = i64 (b + delta) \<and> 0 \<le> nb \<and>
          users_total (tabs w') = users_total ?d + nb - b"
    using u ub update_balance_total [OF d1 wf ub] by auto
  show "balance_of (tabs w') i = (if i = userID then Some nb else balance_of ?d i)"
    using ub by (simp add: s(3))
qed

lemma AdjustBalance_Inr:
  assumes "AdjustBalance userID delta w = (Inr nb, w')"
  shows "\<exists>w1 w2. tabs w1 = tabs w \<and> AdjustBalance_tx userID delta w1 = (Inr nb, w2) \<and> tabs w' = tabs w2"
  using run_tx_InrD [of "AdjustBalance_tx userID delta" w nb w'] assms by (simp add: AdjustBalance_def)

lemma AdjustBalance_Inl: "AdjustBalance userID delta w = (Inl e, w') \<Longrightarrow> tabs w' = tabs w"
  unfolding AdjustBalance_def by (rule run_tx_InlD)


section \<open>Locking\<close>

lemma LockMarket_tx_effect:
  assumes "LockMarket_tx mid w = (Inr x, w')" and "inv (tabs w)"
  shows "inv (tabs w')" and "total_money (tabs w') = total_money (tabs w)"
    and "\<exists>m. select_market mid (tabs w) = Some m \<and> Market_Status m = StatusOpen \<and>
           select_market mid (tabs w') = Some (m\<lparr>Market_Status := StatusLocked\<rparr>)"
    and "users (tabs w') = users (tabs w)" and "bets (tabs w') = bets (tabs w)"
    and "pools (tabs w') = pools (tabs w)"
    and "\<forall>l \<in> set (bet_listings (tabs w')). Listing_MarketID l = mid \<longrightarrow>
           Listing_Status l \<noteq> ListingStatusListed"
proof -
  let ?d = "tabs w" and ?f = "\<lambda>m. m\<lparr>Market_Status := StatusLocked\<rparr>"
  obtain m d1 now where m: "select_market mid ?d = Some m" "Market_Status m = StatusOpen"
    and d1: "cancel_market_listings mid now ?d = Inr d1"
    and d2: "update_market ?f mid d1 = Inr (tabs w')"
    using assms(1) by (auto simp: LockMarket_tx_def io_inv split: if_splits dest!: op_dest)
  note c = cancel_market_listings_step [OF d1 assms(2)]
  have sel: "select_market i d1 = select_market i ?d" for i by (simp add: select_market_def c(4))
  have only: "k = m" if "k \<in> set (markets d1)" "Market_ID k = mid" for k
    using select_market_unique [OF c(1) that] m(1) by (simp add: sel)
  have "Market_WinningOutcome m = None"
    using m assms(2) find_key_Some [of Market_ID mid "markets ?d" m]
    by (auto simp: inv_def wf_markets_def select_market_def)
  then have "closes ?f d1 mid" by (auto simp: closes_def dest: only)
  note u = update_market_step [OF d2 c(1) this c(2)]
  show "inv (tabs w')" by (rule u(1))
  show eqs: "users (tabs w') = users ?d" "bets (tabs w') = bets ?d" "pools (tabs w') = pools ?d"
    using u(2-4) c(3,5,6) by simp_all
  show "\<exists>m. select_market mid ?d = Some m \<and> Market_Status m = StatusOpen \<and>
           select_market mid (tabs w') = Some (?f m)"
    using m u(7) by (simp add: sel)
  have "live (tabs w') i = live ?d i" for i
    using m u(7) [of i] live_select [OF inv_distinct_markets [OF assms(2)], of i]
      live_select [OF inv_distinct_markets [OF u(1)], of i]
    by (cases "i = mid") (simp_all add: sel)
  then have "escrow (tabs w') = escrow ?d" by (intro escrow_same eqs)
  then show "total_money (tabs w') = total_money ?d"
    using eqs by (simp add: total_money_def users_total_def)
  show "\<forall>l \<in> set (bet_listings (tabs w')). Listing_MarketID l = mid \<longrightarrow>
           Listing_Status l \<noteq> ListingStatusListed"
    using c(2) u(5) by simp
qed

lemma LockMarket_Inr:
  assumes "LockMarket mid w = (Inr x, w')"
  shows "\<exists>w1 w2. tabs w1 = tabs w \<and> LockMarket_tx mid w1 = (Inr (), w2) \<and> tabs w' = tabs w2"
  using assms by (auto simp: LockMarket_def io_inv dest!: op_dest run_tx_InrD)

lemma LockMarket_Inl: "LockMarket mid w = (Inl e, w') \<Longrightarrow> tabs w' = tabs w"
  by (auto simp: LockMarket_def io_inv if_ok_never_fails dest!: run_tx_InlD)

end
