(* ===== verification/Bet_Settlement.thy ===== *)
theory Bet_Settlement
  imports Bet_Market_Correct
begin

text \<open>
  What a market owes when it ends, stated over unbounded integers and without a database:
  the credits of a settlement. Then the engine's \<open>int64\<close> arithmetic against it, and the
  refund and resolution transactions as refinements of it.
\<close>

section \<open>The specification\<close>

definition bet_credit :: "Bet \<Rightarrow> uuid \<times> int" where
  "bet_credit b = (Bet_UserID b, Bet_Stake b)"

definition stakes :: "Bet list \<Rightarrow> int" where
  "stakes bs = sum_list (map Bet_Stake bs)"

definition winners :: "string \<Rightarrow> Bet list \<Rightarrow> Bet list" where
  "winners out bs = filter (\<lambda>b. Bet_Outcome b = out) bs"

text \<open>3% of the pot, rounded down, is the house's; the rest is shared by stake.\<close>

definition house_cut :: "int \<Rightarrow> int" where
  "house_cut t = t * 3 div 100"

definition shares :: "int \<Rightarrow> int \<Rightarrow> Bet list \<Rightarrow> (uuid \<times> int) list" where
  "shares payable pot bs = map (\<lambda>b. (Bet_UserID b, Bet_Stake b * payable div pot)) bs"

definition settlement :: "string \<Rightarrow> Bet list \<Rightarrow> (uuid \<times> int) list" where
  "settlement out bs =
     (let total = stakes bs; won = winners out bs in
      if stakes won = 0 then map bet_credit bs
      else let pays = shares (total - house_cut total) (stakes won) won
           in pays @ [(HouseUserID, total - sum_list (map snd pays))])"

text \<open>Whatever the outcome, the settlement pays out exactly what was staked.\<close>

lemma settlement_sum: "sum_list (map snd (settlement out bs)) = stakes bs"
  by (simp add: settlement_def Let_def stakes_def bet_credit_def o_def)

lemma floor_share:
  assumes "0 < (pot::int)"
  shows "x div pot * pot \<le> x" and "x < (x div pot + 1) * pot"
  using div_mult_mod_eq [of x pot] pos_mod_bound [OF assms, of x] pos_mod_sign [OF assms, of x]
  by (simp_all only: distrib_right mult_1)

lemma shares_bounds:
  assumes "0 \<le> payable" and "0 < pot" and "\<forall>b \<in> set bs. 0 \<le> Bet_Stake b"
  shows "sum_list (map snd (shares payable pot bs)) * pot \<le> stakes bs * payable"
    and "stakes bs * payable \<le> (sum_list (map snd (shares payable pot bs)) + int (length bs)) * pot -
           int (length bs)"
    and "0 \<le> sum_list (map snd (shares payable pot bs))"
  using assms(3)
proof (induction bs)
  case Nil
  { case 1 then show ?case by (simp add: shares_def stakes_def) }
  { case 2 then show ?case by (simp add: shares_def stakes_def) }
  { case 3 then show ?case by (simp add: shares_def) }
next
  case (Cons b bs)
  note f = floor_share [OF assms(2), of "Bet_Stake b * payable"]
  { case 1 then show ?case using Cons f by (simp add: shares_def stakes_def algebra_simps) }
  { case 2 then show ?case using Cons f by (simp add: shares_def stakes_def algebra_simps) }
  { case 3 then show ?case
      using Cons assms(1,2) by (simp add: shares_def pos_imp_zdiv_nonneg_iff) }
qed

text \<open>
  The winners share at most what is distributable, and flooring keeps back less than one
  unit per winning bet.
\<close>

lemma shares_total:
  assumes "0 \<le> payable" and "0 < stakes bs" and "\<forall>b \<in> set bs. 0 \<le> Bet_Stake b"
  shows "sum_list (map snd (shares payable (stakes bs) bs)) \<le> payable"
    and "payable - sum_list (map snd (shares payable (stakes bs) bs)) < int (length bs)"
proof -
  let ?s = "sum_list (map snd (shares payable (stakes bs) bs))"
  note b = shares_bounds [OF assms]
  show "?s \<le> payable"
    using b(1) assms(2) by (metis mult.commute mult_le_cancel_left_pos)
  have "bs \<noteq> []" using assms(2) by (auto simp: stakes_def)
  then have "0 < int (length bs)" by simp
  then have "stakes bs * payable < (?s + int (length bs)) * stakes bs" using b(2) by linarith
  then have "payable < ?s + int (length bs)"
    using assms(2) by (metis mult.commute mult_less_cancel_left_pos)
  then show "payable - ?s < int (length bs)" by simp
qed

lemma house_cut_bounds: "0 \<le> t \<Longrightarrow> 0 \<le> house_cut t \<and> house_cut t \<le> t"
  unfolding house_cut_def by (intro conjI) linarith+

lemma stakes_filter_le:
  "\<forall>b \<in> set bs. 0 \<le> Bet_Stake b \<Longrightarrow> 0 \<le> stakes (filter p bs) \<and> stakes (filter p bs) \<le> stakes bs"
  by (induction bs) (auto simp: stakes_def)

lemma stake_le_stakes:
  "\<forall>b \<in> set bs. 0 \<le> Bet_Stake b \<Longrightarrow> b \<in> set bs \<Longrightarrow> Bet_Stake b \<le> stakes bs"
proof (induction bs)
  case (Cons a bs)
  then show ?case using stakes_filter_le [of bs "\<lambda>_. True"] by (auto simp: stakes_def)
qed simp

text \<open>No credit of a settlement is negative, the house's least of all.\<close>

lemma settlement_nonneg:
  assumes "\<forall>b \<in> set bs. 0 \<le> Bet_Stake b" and "c \<in> set (settlement out bs)"
  shows "0 \<le> snd c"
proof (cases "stakes (winners out bs) = 0")
  case True
  then show ?thesis using assms by (auto simp: settlement_def bet_credit_def)
next
  case False
  let ?won = "winners out bs"
  have won: "\<forall>b \<in> set ?won. 0 \<le> Bet_Stake b" using assms(1) by (simp add: winners_def)
  have pot: "0 < stakes ?won" and t: "0 \<le> stakes bs"
    using stakes_filter_le [OF assms(1), of "\<lambda>b. Bet_Outcome b = out"] False
    by (auto simp: winners_def)
  then have d: "0 \<le> stakes bs - house_cut (stakes bs)" using house_cut_bounds by simp
  have "sum_list (map snd (shares (stakes bs - house_cut (stakes bs)) (stakes ?won) ?won)) \<le> stakes bs"
    using shares_total(1) [OF d pot won] house_cut_bounds [OF t] by linarith
  moreover have "0 \<le> Bet_Stake b * (stakes bs - house_cut (stakes bs)) div stakes ?won"
    if "b \<in> set ?won" for b
    using won that pot d by (simp add: pos_imp_zdiv_nonneg_iff)
  ultimately show ?thesis
    using assms(2) False by (auto simp: settlement_def Let_def shares_def)
qed


section \<open>The code's arithmetic\<close>

text \<open>
  The pots for which no product of the resolution overflows: their square fits an
  \<open>int64\<close>, which a pot of up to 3,037,000,499 satisfies.
\<close>

definition fits :: "int \<Rightarrow> bool" where
  "fits t \<longleftrightarrow> 0 \<le> t \<and> t * t \<le> 9223372036854775807"

lemma fits_prod:
  assumes "fits t" and "0 \<le> a" "a \<le> t" "0 \<le> b" "b \<le> t"
  shows "0 \<le> a * b" and "a * b \<le> 9223372036854775807"
proof -
  show "0 \<le> a * b" using assms by simp
  have "a * b \<le> t * t" using assms by (intro mult_mono) auto
  then show "a * b \<le> 9223372036854775807" using assms(1) by (simp add: fits_def)
qed

lemma fits_triple:
  assumes "fits t"
  shows "0 \<le> t * 3" and "t * 3 \<le> 9223372036854775807" and "t \<le> 9223372036854775807"
proof -
  show "0 \<le> t * 3" using assms by (simp add: fits_def)
  show "t * 3 \<le> 9223372036854775807"
  proof (cases "t \<le> 3")
    case False
    then have "t * 3 \<le> t * t" by (intro mult_left_mono) auto
    then show ?thesis using assms by (simp add: fits_def)
  qed simp
  then show "t \<le> 9223372036854775807" using assms by (simp add: fits_def)
qed

lemma commission_exact: "fits t \<Longrightarrow> commission_of t = house_cut t"
  using fits_triple [of t] by (simp add: commission_of_def house_cut_def i64_bounded go_div_nonneg)

lemma payout_exact:
  assumes "fits t" and "0 \<le> s" "s \<le> t" "0 \<le> payable" "payable \<le> t" "0 < pot"
  shows "payout_of s payable pot = s * payable div pot"
  using fits_prod [OF assms(1-5)] assms(6)
  by (simp add: payout_of_def i64_bounded go_div_nonneg)

lemma payouts_exact:
  assumes "fits t" and "\<forall>b \<in> set bs. 0 \<le> Bet_Stake b \<and> Bet_Stake b \<le> t"
    and "0 \<le> payable" "payable \<le> t" "0 < pot"
  shows "payouts payable pot (map bet_credit bs) = shares payable pot bs"
  using assms by (auto simp: payouts_def shares_def bet_credit_def payout_exact)

lemma resolve_pools_exact:
  assumes "\<forall>p \<in> set ps. 0 \<le> Pool_Total p" and "0 \<le> t"
    and "t + sum_list (map Pool_Total ps) \<le> 9223372036854775807"
  shows "resolve_pools ps out t v =
    (t + sum_list (map Pool_Total ps),
     fold (\<lambda>p v. if Pool_Outcome p = out then Pool_Total p else v) ps v)"
  using assms
proof (induction ps arbitrary: t v)
  case (Cons p ps)
  have "0 \<le> sum_list (map Pool_Total ps)"
    using Cons.prems(1) by (intro sum_list_nonneg) auto
  then show ?case using Cons by (simp add: i64_bounded)
qed simp

lemma fold_pool_absent:
  "out \<notin> Pool_Outcome ` set ps \<Longrightarrow>
     fold (\<lambda>p v. if Pool_Outcome p = out then Pool_Total p else v) ps v = v"
  by (induction ps arbitrary: v) auto

lemma fold_pool_present:
  "distinct (map Pool_Outcome ps) \<Longrightarrow> p \<in> set ps \<Longrightarrow> Pool_Outcome p = out \<Longrightarrow>
     fold (\<lambda>p v. if Pool_Outcome p = out then Pool_Total p else v) ps v = Pool_Total p"
  by (induction ps arbitrary: v) (auto simp: fold_pool_absent)


section \<open>Refund and resolution refine the specification\<close>

text \<open>
  \<open>settled cs mid f d d'\<close>: market \<open>mid\<close> was ended by \<open>f\<close>, the credits
  \<open>cs\<close> were paid, and nothing else but that market's listings changed.
\<close>

definition settled :: "(uuid \<times> int) list \<Rightarrow> uuid \<Rightarrow> (Market \<Rightarrow> Market) \<Rightarrow> db \<Rightarrow> db \<Rightarrow> bool" where
  "settled cs mid f d d' \<longleftrightarrow>
     (\<forall>i. balance_of d' i = map_option (\<lambda>b. b + credits cs i) (balance_of d i)) \<and>
     (\<forall>i. select_market i d' = (if i = mid then map_option f (select_market i d) else select_market i d)) \<and>
     bets d' = bets d \<and> pools d' = pools d \<and> user_ids d' = user_ids d \<and>
     (\<forall>l \<in> set (bet_listings d'). Listing_MarketID l = mid \<longrightarrow> Listing_Status l \<noteq> ListingStatusListed)"

lemma end_market:
  assumes "cancel_market_listings mid t d = Inr d1" and "credited cs d1 d2"
    and "update_market f mid d2 = Inr d3" and "inv d"
    and "select_market mid d = Some m"
    and "Market_Status m = StatusOpen \<or> Market_Status m = StatusLocked"
    and "\<forall>m. Market_ID (f m) = Market_ID m \<and> Market_Seed (f m) = Market_Seed m \<and>
           Market_Outcomes (f m) = Market_Outcomes m"
    and "Market_Status (f m) \<in> {StatusResolved, StatusCancelled}"
    and "Market_WinningOutcome (f m) \<noteq> None \<longleftrightarrow> Market_Status (f m) = StatusResolved"
    and "\<forall>out. Market_WinningOutcome (f m) = Some out \<longrightarrow> out \<in> set (Market_Outcomes m)"
  shows "inv d3" and "settled cs mid f d d3"
    and "total_money d3 = total_money d + sum_list (map snd cs) - staked_market d mid"
proof -
  note c = cancel_market_listings_step [OF assms(1,4)]
  have o: "only_users d1 d2" and wf: "wf_users d2" using assms(2) by (simp_all add: credited_def)
  have inv2: "inv d2" using only_users_inv [OF o c(1) wf] .
  have sel: "select_market i d2 = select_market i d" for i
    using only_users_eqs(4) [OF o] by (simp add: select_market_def c(4))
  have only: "k = m" if "k \<in> set (markets d2)" "Market_ID k = mid" for k
    using select_market_unique [OF inv2 that] assms(5) by (simp add: sel)
  have cl: "closes f d2 mid" using assms(7,9,10) unfolding closes_def by (metis only)
  have l: "\<forall>l \<in> set (bet_listings d2). Listing_MarketID l = mid \<longrightarrow>
      Listing_Status l \<noteq> ListingStatusListed"
    using c(2) o by (simp add: only_users_def)
  note u = update_market_step [OF assms(3) inv2 cl l]
  show inv3: "inv d3" by (rule u(1))
  have bal: "balance_of d1 i = balance_of d i" "balance_of d3 i = balance_of d2 i" for i
    by (simp_all add: balance_of_def select_user_def c(3) u(2))
  have ids: "user_ids d3 = user_ids d" "bets d3 = bets d" "pools d3 = pools d"
    using u(2,3,4) o c(3,5,6) by (simp_all add: only_users_def user_ids_def)
  have credit: "balance_of d2 i = map_option (\<lambda>b. b + credits cs i) (balance_of d i)" for i
    using assms(2) by (simp add: credited_def bal)
  show "settled cs mid f d d3"
    using l u(5,7) sel ids credit by (simp add: settled_def bal)
  have li: "live d mid" "\<not> live d3 mid" "\<And>i. i \<noteq> mid \<Longrightarrow> live d3 i = live d i"
    using assms(5,6,8) u(7) live_select [OF inv_distinct_markets [OF assms(4)]]
      live_select [OF inv_distinct_markets [OF inv3]] by (auto simp: sel)
  have "escrow d3 = escrow d - staked_market d mid" by (rule escrow_end [OF ids(2) li])
  moreover have "users_total d3 = users_total d + sum_list (map snd cs)"
    using assms(2) by (simp add: credited_def users_total_def u(2) c(3))
  ultimately show "total_money d3 = total_money d + sum_list (map snd cs) - staked_market d mid"
    by (simp add: total_money_def)
qed

lemma bets_of_users:
  "inv d \<Longrightarrow> fst ` set (map bet_credit (filter p (bets_of mid d))) \<subseteq> set (user_ids d)"
  by (auto simp: inv_def wf_bets_def bets_of_def bet_credit_def)

lemma RefundMarketInternal_tx_effect:
  assumes "RefundMarketInternal_tx mid w = (Inr x, w')" and "inv (tabs w)"
  shows "inv (tabs w')" and "total_money (tabs w') = total_money (tabs w)"
    and "settled (map bet_credit (bets_of mid (tabs w))) mid
           (\<lambda>m. m\<lparr>Market_Status := StatusCancelled\<rparr>) (tabs w) (tabs w')"
    and "live (tabs w) mid"
proof -
  let ?d = "tabs w" and ?f = "\<lambda>m. m\<lparr>Market_Status := StatusCancelled\<rparr>"
  obtain m d1 w1 w2 t where m: "select_market mid ?d = Some m"
      "Market_Status m \<noteq> StatusResolved" "Market_Status m \<noteq> StatusCancelled"
    and d1: "cancel_market_listings mid t ?d = Inr d1" and w1: "tabs w1 = d1"
    and rb: "refund_bets (map bet_credit (bets_of mid d1)) w1 = (Inr (), w2)"
    and d3: "update_market ?f mid (tabs w2) = Inr (tabs w')"
    using assms(1)
    by (auto simp: RefundMarketInternal_tx_def bet_credit_def [abs_def] io_inv
        split: if_splits dest!: op_dest)
  note c = cancel_market_listings_step [OF d1 assms(2)]
  have bs: "bets_of mid d1 = bets_of mid ?d" by (simp add: bets_of_def c(6))
  have cr: "credited (map bet_credit (bets_of mid ?d)) d1 (tabs w2)"
    using refund_bets_credited [OF rb] c(1) bets_of_users [OF c(1), of "\<lambda>_. True" mid]
    by (simp add: bs inv_def w1)
  have st: "Market_Status m = StatusOpen \<or> Market_Status m = StatusLocked"
    using m by (cases "Market_Status m") auto
  have "Market_WinningOutcome m = None"
    using m assms(2) find_key_Some [of Market_ID mid "markets ?d" m]
    by (auto simp: inv_def wf_markets_def select_market_def)
  moreover have "sum_list (map snd (map bet_credit (bets_of mid ?d))) = staked_market ?d mid"
    by (simp add: bet_credit_def staked_market_def o_def)
  ultimately have "inv (tabs w') \<and> settled (map bet_credit (bets_of mid ?d)) mid ?f ?d (tabs w') \<and>
      total_money (tabs w') = total_money ?d"
    using end_market [OF d1 cr d3 assms(2) m(1) st] by simp
  then show "inv (tabs w')" and "total_money (tabs w') = total_money ?d"
    and "settled (map bet_credit (bets_of mid ?d)) mid ?f ?d (tabs w')" by simp_all
  show "live ?d mid" using live_select [OF inv_distinct_markets [OF assms(2)]] m(1) st by auto
qed

lemma RefundMarketInternal_Inr:
  assumes "RefundMarketInternal mid w = (Inr x, w')"
  shows "\<exists>w1 w2. tabs w1 = tabs w \<and> RefundMarketInternal_tx mid w1 = (Inr (), w2) \<and> tabs w' = tabs w2"
  using assms by (auto simp: RefundMarketInternal_def io_inv dest!: op_dest run_tx_InrD)

lemma RefundMarketInternal_Inl: "RefundMarketInternal mid w = (Inl e, w') \<Longrightarrow> tabs w' = tabs w"
  by (auto simp: RefundMarketInternal_def io_inv if_ok_never_fails dest!: run_tx_InlD)


text \<open>The pools of a market as the resolution reads them: the pot, and the winner's side.\<close>

lemma staked_stakes: "staked d mid out = stakes (winners out (bets_of mid d))"
  by (simp add: staked_def stakes_def winners_def bets_of_def conj_commute)

lemma stakes_of_market: "staked_market d mid = stakes (bets_of mid d)"
  by (simp add: staked_market_def stakes_def)

lemma bets_of_pos: "inv d \<Longrightarrow> \<forall>b \<in> set (bets_of mid d). 0 \<le> Bet_Stake b"
  by (auto simp: inv_def wf_bets_def bets_of_def)

lemma pools_of_distinct: "wf_pools d \<Longrightarrow> distinct (map Pool_Outcome (pools_of mid d))"
  unfolding wf_pools_def pool_keys_def pools_of_def
  by (auto simp: distinct_map inj_on_def)

lemma resolve_pools_staked:
  assumes "inv d" and "staked_market d mid \<le> 9223372036854775807"
  shows "resolve_pools (pools_of mid d) out 0 0 = (staked_market d mid, staked d mid out)"
proof -
  let ?ps = "pools_of mid d"
  have wf: "wf_pools d" "wf_bets d" "books d" using assms(1) by (simp_all add: inv_def)
  note sum = pools_sum_staked [OF wf, of mid]
  have "\<forall>p \<in> set ?ps. 0 \<le> Pool_Total p" using wf(1) by (auto simp: wf_pools_def pools_of_def)
  then have *: "resolve_pools ?ps out 0 0 = (staked_market d mid,
      fold (\<lambda>p v. if Pool_Outcome p = out then Pool_Total p else v) ?ps 0)"
    using resolve_pools_exact [of ?ps 0 out 0] assms(2) sum by simp
  show ?thesis
  proof (cases "out \<in> Pool_Outcome ` set ?ps")
    case True
    then obtain p where p: "p \<in> set ?ps" "Pool_Outcome p = out" by auto
    moreover from p have "Pool_Total p = staked d mid out"
      using wf(3) by (auto simp: books_def pools_of_def)
    ultimately show ?thesis using * fold_pool_present [OF pools_of_distinct [OF wf(1)] p] by simp
  next
    case False
    then have "\<forall>b \<in> set (bets_of mid d). Bet_Outcome b \<noteq> out"
      using wf(2) by (auto simp: wf_bets_def bets_of_def pools_of_def pool_keys_def)
    then have "staked d mid out = 0"
      by (auto simp: staked_stakes winners_def stakes_def filter_empty_conv)
    then show ?thesis using * fold_pool_absent [OF False] by simp
  qed
qed

lemma credited_house:
  assumes "credited cs d d1" and "HouseUserID \<in> set (user_ids d)"
    and "if 0 < g then update_balance (\<lambda>b. b + g) HouseUserID d1 = Inr d2 else d2 = d1 \<and> g = 0"
  shows "credited (cs @ [(HouseUserID, g)]) d d2"
proof -
  have wf: "wf_users d1" using assms(1) by (simp add: credited_def)
  have h: "HouseUserID \<in> set (user_ids d1)" using assms(2) credited_ids [OF assms(1)] by simp
  have "credited [(HouseUserID, g)] d1 d2"
  proof (cases "0 < g")
    case True
    then have u: "update_balance (\<lambda>b. b + g) HouseUserID d1 = Inr d2" using assms(3) by simp
    show ?thesis
      using credited_Cons [OF u wf h] credited_Nil [OF update_balance_step(2) [OF u wf]] by simp
  next
    case False
    then show ?thesis using assms(3) wf by (simp add: credited_def option.map_ident)
  qed
  then show ?thesis by (rule credited_append [OF assms(1)])
qed

text \<open>The house's gain in the code is what the specification leaves it.\<close>

lemma gain_exact:
  assumes "fits t" and "0 \<le> paid" "paid \<le> t - house_cut t"
  shows "i64 (house_cut t + (t - house_cut t - paid)) = t - paid"
proof -
  have b: "0 \<le> house_cut t" "house_cut t \<le> t" "t \<le> 9223372036854775807"
    using house_cut_bounds [of t] fits_triple [OF assms(1)] assms(1) by (auto simp: fits_def)
  then show ?thesis using assms(2,3) by (simp add: i64_bounded)
qed


lemma ResolveMarket_tx_run:
  assumes "ResolveMarket_tx mid out w = (Inr (Some cr), w')"
  shows "\<exists>m t d1 w1. select_market mid (tabs w) = Some m \<and> Market_Status m = StatusLocked \<and>
    out \<in> set (Market_Outcomes m) \<and> cancel_market_listings mid t (tabs w) = Inr d1 \<and> tabs w1 = d1 \<and>
    snd (resolve_pools (pools_of mid d1) out 0 0) \<noteq> 0 \<and>
    ResolveMarket_pay mid out (fst (resolve_pools (pools_of mid d1) out 0 0))
      (snd (resolve_pools (pools_of mid d1) out 0 0)) w1 = (Inr (Some cr), w')"
  using assms unfolding ResolveMarket_tx_def Let_def case_prod_beta
  by (auto simp: io_inv split: if_splits dest!: op_dest) metis

lemma ResolveMarket_pay_run:
  assumes "ResolveMarket_pay mid out p v w = (Inr r, w')"
  shows "\<exists>paid w1 w2 d3 g. tabs w1 = tabs w \<and>
    pay_winners (map bet_credit (winners out (bets_of mid (tabs w))))
      (i64 (p - commission_of p)) v 0 w1 = (Inr paid, w2) \<and>
    g = i64 (commission_of p + i64 (i64 (p - commission_of p) - paid)) \<and>
    (if 0 < g then update_balance (\<lambda>b. b + g) HouseUserID (tabs w2) = Inr d3 else d3 = tabs w2) \<and>
    update_market (\<lambda>m. m\<lparr>Market_Status := StatusResolved, Market_WinningOutcome := Some out\<rparr>) mid d3
      = Inr (tabs w')"
  using assms unfolding ResolveMarket_pay_def Let_def
  by (simp only: bindE_Inr seqE_Inr ret_Inr, clarify dest!: op_dest)
     (rule exI, rule exI, rule exI, rule exI, rule exI, intro conjI, assumption,
       simp only: winners_def bet_credit_def [abs_def], rule refl,
      auto simp: io_inv split: if_splits dest!: op_dest)

lemma ResolveMarket_tx_effect:
  assumes "ResolveMarket_tx mid out w = (Inr (Some cr), w')" and "inv (tabs w)"
    and "fits (staked_market (tabs w) mid)"
  shows "inv (tabs w')" and "total_money (tabs w') = total_money (tabs w)"
    and "settled (settlement out (bets_of mid (tabs w))) mid
           (\<lambda>m. m\<lparr>Market_Status := StatusResolved, Market_WinningOutcome := Some out\<rparr>) (tabs w) (tabs w')"
    and "0 < staked (tabs w) mid out"
proof -
  let ?d = "tabs w" and ?bs = "bets_of mid (tabs w)"
    and ?f = "\<lambda>m. m\<lparr>Market_Status := StatusResolved, Market_WinningOutcome := Some out\<rparr>"
  let ?won = "winners out ?bs" and ?T = "stakes ?bs"
  let ?pays = "shares (?T - house_cut ?T) (stakes ?won) ?won"
  have T: "staked_market ?d mid = ?T" by (rule stakes_of_market)
  have fits: "fits ?T" using assms(3) by (simp add: T)
  obtain m t d1 w0 where m: "select_market mid ?d = Some m"
      "Market_Status m = StatusLocked" "out \<in> set (Market_Outcomes m)"
    and d1: "cancel_market_listings mid t ?d = Inr d1" and w0: "tabs w0 = d1"
    and V: "snd (resolve_pools (pools_of mid d1) out 0 0) \<noteq> 0"
    and pay: "ResolveMarket_pay mid out (fst (resolve_pools (pools_of mid d1) out 0 0))
      (snd (resolve_pools (pools_of mid d1) out 0 0)) w0 = (Inr (Some cr), w')"
    using ResolveMarket_tx_run [OF assms(1)] by blast
  note c = cancel_market_listings_step [OF d1 assms(2)]
  have eqs: "bets_of mid d1 = ?bs" "staked_market d1 mid = ?T" "staked d1 mid out = stakes ?won"
    by (simp_all add: bets_of_def c(6) staked_market_def stakes_def staked_def winners_def conj_commute)
  have rp: "resolve_pools (pools_of mid d1) out 0 0 = (?T, stakes ?won)"
    using resolve_pools_staked [OF c(1), of mid out] fits_triple(3) [OF fits] by (simp add: eqs)
  have cut: "0 \<le> house_cut ?T" "house_cut ?T \<le> ?T"
    using house_cut_bounds fits by (auto simp: fits_def)
  have pos: "\<forall>b \<in> set ?bs. 0 \<le> Bet_Stake b" by (rule bets_of_pos [OF assms(2)])
  have won: "\<forall>b \<in> set ?won. 0 \<le> Bet_Stake b \<and> Bet_Stake b \<le> ?T"
    using pos stake_le_stakes [OF pos] by (auto simp: winners_def)
  have pot: "0 < stakes ?won"
    using V stakes_filter_le [OF pos, of "\<lambda>b. Bet_Outcome b = out"] by (simp add: rp winners_def)
  have left: "i64 (?T - commission_of ?T) = ?T - house_cut ?T"
    using commission_exact [OF fits] cut fits_triple(3) [OF fits] by (simp add: i64_bounded)
  obtain paid w1 w2 d3 g where w1: "tabs w1 = d1"
    and pw: "pay_winners (map bet_credit ?won) (?T - house_cut ?T) (stakes ?won) 0 w1 = (Inr paid, w2)"
    and g: "g = i64 (house_cut ?T + i64 (?T - house_cut ?T - paid))"
    and d3: "if 0 < g then update_balance (\<lambda>b. b + g) HouseUserID (tabs w2) = Inr d3 else d3 = tabs w2"
    and d4: "update_market ?f mid d3 = Inr (tabs w')"
    using ResolveMarket_pay_run [OF pay]
    unfolding rp fst_conv snd_conv w0 eqs(1) left by (auto simp: commission_exact [OF fits])
  have "wf_users (tabs w1)" using c(1) by (simp add: inv_def w1)
  moreover have "fst ` set (map bet_credit ?won) \<subseteq> set (user_ids (tabs w1))"
    using bets_of_users [OF c(1), of "\<lambda>b. Bet_Outcome b = out" mid] by (simp add: w1 winners_def eqs(1))
  ultimately have pays: "credited ?pays d1 (tabs w2)" "i64 paid = i64 (sum_list (map snd ?pays))"
    using pay_winners_credited [OF pw] payouts_exact [OF fits won _ _ pot, of "?T - house_cut ?T"] cut
    by (simp_all add: w1)
  have sum: "0 \<le> sum_list (map snd ?pays)" "sum_list (map snd ?pays) \<le> ?T - house_cut ?T"
    using shares_bounds(3) [of "?T - house_cut ?T" "stakes ?won" ?won] won cut pot
      shares_total(1) [of "?T - house_cut ?T" ?won] by auto
  have gain: "g = ?T - sum_list (map snd ?pays)"
    using gain_exact [OF fits sum] i64_diff_right [of "?T - house_cut ?T" paid] pays(2)
    unfolding g by (metis i64_add_right i64_diff_right)
  have "if 0 < g then update_balance (\<lambda>b. b + g) HouseUserID (tabs w2) = Inr d3
        else d3 = tabs w2 \<and> g = 0"
    using d3 gain sum cut by (auto split: if_splits)
  moreover have "HouseUserID \<in> set (user_ids d1)" using c(1) by (simp add: inv_def wf_users_def)
  ultimately have cr: "credited (?pays @ [(HouseUserID, g)]) d1 d3"
    using credited_house [OF pays(1)] by blast
  have se: "?pays @ [(HouseUserID, g)] = settlement out ?bs"
    using pot by (simp add: settlement_def Let_def gain)
  have "inv (tabs w') \<and> settled (settlement out ?bs) mid ?f ?d (tabs w') \<and>
      total_money (tabs w') = total_money ?d"
    using end_market [OF d1 cr [unfolded se] d4 assms(2) m(1)] m(2,3)
    by (simp add: settlement_sum T)
  then show "inv (tabs w')" and "total_money (tabs w') = total_money ?d"
    and "settled (settlement out ?bs) mid ?f ?d (tabs w')" by simp_all
  show "0 < staked ?d mid out" using pot by (simp add: staked_stakes)
qed


text \<open>Even where the products overflow, the invariant survives: the schema's checks see to it.\<close>

lemma ResolveMarket_tx_inv:
  assumes "ResolveMarket_tx mid out w = (Inr (Some cr), w')" and "inv (tabs w)"
  shows "inv (tabs w')"
proof -
  let ?f = "\<lambda>m. m\<lparr>Market_Status := StatusResolved, Market_WinningOutcome := Some out\<rparr>"
  obtain m t d1 w0 p v where m: "select_market mid (tabs w) = Some m"
      "Market_Status m = StatusLocked" "out \<in> set (Market_Outcomes m)"
    and d1: "cancel_market_listings mid t (tabs w) = Inr d1" and w0: "tabs w0 = d1"
    and pay: "ResolveMarket_pay mid out p v w0 = (Inr (Some cr), w')"
    using ResolveMarket_tx_run [OF assms(1)] by blast
  note c = cancel_market_listings_step [OF d1 assms(2)]
  obtain dd paid w1 w2 d3 g where w1: "tabs w1 = d1"
    and pw: "pay_winners (map bet_credit (winners out (bets_of mid d1))) dd v 0 w1 = (Inr paid, w2)"
    and d3: "if 0 < g then update_balance (\<lambda>b. b + g) HouseUserID (tabs w2) = Inr d3 else d3 = tabs w2"
    and d4: "update_market ?f mid d3 = Inr (tabs w')"
    using ResolveMarket_pay_run [OF pay] unfolding w0 by blast
  have cr: "credited (payouts dd v (map bet_credit (winners out (bets_of mid d1)))) d1 (tabs w2)"
    using pay_winners_credited [OF pw] c(1) bets_of_users [OF c(1), of "\<lambda>b. Bet_Outcome b = out" mid]
    by (simp add: w1 winners_def inv_def)
  have "if 0 < max g 0 then update_balance (\<lambda>b. b + max g 0) HouseUserID (tabs w2) = Inr d3
        else d3 = tabs w2 \<and> max g 0 = 0"
    using d3 by (auto simp: max_def split: if_splits)
  moreover have "HouseUserID \<in> set (user_ids d1)" using c(1) by (simp add: inv_def wf_users_def)
  ultimately show ?thesis
    using end_market(1) [OF d1 credited_house [OF cr] d4 assms(2) m(1)] m(2,3) by simp
qed

section \<open>The operation\<close>

lemma ResolveMarket_tx_None:
  assumes "ResolveMarket_tx mid out w = (Inr None, w')" and "inv (tabs w)"
    and "fits (staked_market (tabs w) mid)"
  shows "staked (tabs w) mid out = 0"
proof -
  obtain t d1 where d1: "cancel_market_listings mid t (tabs w) = Inr d1"
    and v: "snd (resolve_pools (pools_of mid d1) out 0 0) = 0"
    using assms(1) unfolding ResolveMarket_tx_def Let_def case_prod_beta
    by (auto simp: io_inv split: if_splits dest!: op_dest) (auto simp: ResolveMarket_pay_def Let_def io_inv)
  note c = cancel_market_listings_step [OF d1 assms(2)]
  have "staked_market d1 mid = staked_market (tabs w) mid" "staked d1 mid out = staked (tabs w) mid out"
    by (simp_all add: staked_market_def staked_def bets_of_def c(6))
  then show ?thesis
    using resolve_pools_staked [OF c(1), of mid out] v fits_triple(3) [OF assms(3)] by simp
qed

lemma ResolveMarket_Inr:
  assumes "ResolveMarket mid out w = (Inr x, w')"
  shows "\<exists>w1 w2. tabs w1 = tabs w \<and>
    ((\<exists>cr. ResolveMarket_tx mid out w1 = (Inr (Some cr), w2) \<and> tabs w' = tabs w2) \<or>
     ResolveMarket_tx mid out w1 = (Inr None, w2) \<and>
     (\<exists>w3. tabs w3 = tabs w \<and> RefundMarketInternal mid w3 = (Inr (), w')))"
proof -
  obtain r w3 where tx: "run_tx_gen (\<lambda>r. r \<noteq> None) (ResolveMarket_tx mid out) w = (Inr r, w3)"
    and k: "(case r of None \<Rightarrow> RefundMarketInternal mid
        | Some (commission, remainder) \<Rightarrow> if_ok (GetMarketDetails mid) (\<lambda>details.
            PublishMarketUpdate mid ''market_resolved''
              (PResolved out commission remainder details))) w3 = (Inr x, w')"
    using assms by (auto simp: ResolveMarket_def io_inv)
  obtain w1 w2 where w: "tabs w1 = tabs w" "ResolveMarket_tx mid out w1 = (Inr r, w2)"
      "tabs w3 = (if r \<noteq> None then tabs w2 else tabs w)"
    using run_tx_gen_InrD [OF tx] by blast
  show ?thesis
  proof (cases r)
    case None
    then show ?thesis using w k by auto
  next
    case (Some cr)
    then have "tabs w' = tabs w3" using k by (auto split: prod.splits dest!: after_details_tabs)
    then show ?thesis using w Some by auto
  qed
qed

lemma ResolveMarket_Inl:
  assumes "ResolveMarket mid out w = (Inl e, w')"
  shows "tabs w' = tabs w"
proof -
  consider "run_tx_gen (\<lambda>r. r \<noteq> None) (ResolveMarket_tx mid out) w = (Inl e, w')"
    | w3 where "run_tx_gen (\<lambda>r. r \<noteq> None) (ResolveMarket_tx mid out) w = (Inr None, w3)"
        "RefundMarketInternal mid w3 = (Inl e, w')"
    using assms by (auto simp: ResolveMarket_def bindE_Inl if_ok_never_fails split: option.split_asm
        simp del: not_None_eq)
  then show ?thesis
  proof cases
    case 1
    then show ?thesis by (rule run_tx_gen_InlD)
  next
    case (2 w3)
    then show ?thesis
      using run_tx_gen_InrD [OF 2(1)] RefundMarketInternal_Inl [OF 2(2)] by auto
  qed
qed

definition ended :: "string \<Rightarrow> int \<Rightarrow> Market \<Rightarrow> Market" where
  "ended out won m = (if won = 0 then m\<lparr>Market_Status := StatusCancelled\<rparr>
     else m\<lparr>Market_Status := StatusResolved, Market_WinningOutcome := Some out\<rparr>)"

lemma ResolveMarket_effect:
  assumes "ResolveMarket mid out w = (Inr x, w')" and "inv (tabs w)"
  shows "inv (tabs w')"
    and "fits (staked_market (tabs w) mid) \<Longrightarrow> total_money (tabs w') = total_money (tabs w)"
    and "fits (staked_market (tabs w) mid) \<Longrightarrow> settled (settlement out (bets_of mid (tabs w))) mid
           (ended out (staked (tabs w) mid out)) (tabs w) (tabs w')"
proof -
  let ?G = "inv (tabs w') \<and> (fits (staked_market (tabs w) mid) \<longrightarrow>
      total_money (tabs w') = total_money (tabs w) \<and>
      settled (settlement out (bets_of mid (tabs w))) mid (ended out (staked (tabs w) mid out))
        (tabs w) (tabs w'))"
  obtain w1 w2 where w1: "tabs w1 = tabs w" and disj:
    "(\<exists>cr. ResolveMarket_tx mid out w1 = (Inr (Some cr), w2) \<and> tabs w' = tabs w2) \<or>
     ResolveMarket_tx mid out w1 = (Inr None, w2) \<and>
     (\<exists>w3. tabs w3 = tabs w \<and> RefundMarketInternal mid w3 = (Inr (), w'))"
    using ResolveMarket_Inr [OF assms(1)] by blast
  from disj have ?G
  proof
    assume "\<exists>cr. ResolveMarket_tx mid out w1 = (Inr (Some cr), w2) \<and> tabs w' = tabs w2"
    then obtain cr where tx: "ResolveMarket_tx mid out w1 = (Inr (Some cr), w2)" "tabs w' = tabs w2"
      by blast
    show ?G
      using ResolveMarket_tx_effect [OF tx(1)] ResolveMarket_tx_inv [OF tx(1)] assms(2)
      by (auto simp: w1 tx(2) ended_def [abs_def])
  next
    assume b: "ResolveMarket_tx mid out w1 = (Inr None, w2) \<and>
     (\<exists>w3. tabs w3 = tabs w \<and> RefundMarketInternal mid w3 = (Inr (), w'))"
    then obtain w4 w5 where r: "tabs w4 = tabs w" "RefundMarketInternal_tx mid w4 = (Inr (), w5)"
        "tabs w' = tabs w5"
      using RefundMarketInternal_Inr by metis
    have z: "staked (tabs w) mid out = 0" if "fits (staked_market (tabs w) mid)"
      using ResolveMarket_tx_None [of mid out w1 w2] b that assms(2) by (simp add: w1)
    show ?G
      using RefundMarketInternal_tx_effect [OF r(2)] assms(2) z
      by (auto simp: r(1,3) ended_def [abs_def] settlement_def Let_def staked_stakes)
  qed
  then show "inv (tabs w')"
    and "fits (staked_market (tabs w) mid) \<Longrightarrow> total_money (tabs w') = total_money (tabs w)"
    and "fits (staked_market (tabs w) mid) \<Longrightarrow> settled (settlement out (bets_of mid (tabs w))) mid
           (ended out (staked (tabs w) mid out)) (tabs w) (tabs w')" by simp_all
qed

end
