(* ===== verification/Bet_Creation.thy ===== *)
theory Bet_Creation
  imports Bet_Settlement
begin

text \<open>
  \<open>CreateMarket\<close>: the new market, its pools and the house's seed bets, and what the house
  paid for them. The debit is computed as a product of \<open>int64\<close>s, the bets are not; the
  two agree when the product does not wrap.
\<close>

text \<open>The inserted market.\<close>

lemma insert_market_Inr:
  assumes "insert_market m d = Inr d'"
  shows "d' = d\<lparr>markets := markets d @ [m]\<rparr>" and "0 \<le> Market_Seed m"
    and "Market_ID m \<notin> set (market_ids d)"
  using assms by (auto simp: insert_market_def exists_ids split: if_splits)

text \<open>The whole set of rows a new market consists of.\<close>

definition new_market :: "Market \<Rightarrow> Bet list \<Rightarrow> db \<Rightarrow> db" where
  "new_market m bs d = d\<lparr>markets := markets d @ [m],
     pools := pools d @ map (\<lambda>out. \<lparr>Pool_MarketID = Market_ID m, Pool_Outcome = out,
                                 Pool_Total = Market_Seed m\<rparr>) (Market_Outcomes m),
     bets := bets d @ bs\<rparr>"

definition seed_bets :: "Market \<Rightarrow> Bet list \<Rightarrow> bool" where
  "seed_bets m bs \<longleftrightarrow> map bet_sig bs = (if 0 < Market_Seed m
     then map (\<lambda>out. (Market_ID m, HouseUserID, HouseUserID, out, Market_Seed m)) (Market_Outcomes m)
     else [])"

lemma seed_bets_staked:
  assumes "map bet_sig bs = map (\<lambda>out. (mid, HouseUserID, HouseUserID, out, s)) outs"
  shows "sum_list (map Bet_Stake (filter (\<lambda>b. (Bet_MarketID b, Bet_Outcome b) = (i, k)) bs)) =
    (if i = mid then s * int (length (filter (\<lambda>out. out = k) outs)) else 0)"
  using assms
proof (induction bs arbitrary: outs)
  case (Cons b bs)
  then obtain out os where o: "outs = out # os" by (cases outs) auto
  have "map bet_sig bs = map (\<lambda>out. (mid, HouseUserID, HouseUserID, out, s)) os"
    using Cons.prems by (simp add: o)
  note ih = Cons.IH [OF this]
  have "Bet_MarketID b = mid" "Bet_Outcome b = out" "Bet_Stake b = s"
    using Cons.prems by (simp_all add: o bet_sig_def)
  then show ?case using ih by (cases "i = mid") (auto simp: o algebra_simps)
qed simp

lemma length_filter_eq:
  "distinct xs \<Longrightarrow> length (filter (\<lambda>x. x = k) xs) = (if k \<in> set xs then 1 else 0)"
  by (induction xs) (auto simp: filter_empty_conv)

lemma seed_bets_total:
  "seed_bets m bs \<Longrightarrow> 0 \<le> Market_Seed m \<Longrightarrow>
     stakes bs = Market_Seed m * int (length (Market_Outcomes m))"
proof -
  assume "seed_bets m bs" "0 \<le> Market_Seed m"
  then have "map (\<lambda>(_, _, _, _, s). s) (map bet_sig bs) =
      (if 0 < Market_Seed m then replicate (length (Market_Outcomes m)) (Market_Seed m) else [])"
    by (simp add: seed_bets_def o_def map_replicate_const)
  moreover have "map (\<lambda>(_, _, _, _, s). s) (map bet_sig bs) = map Bet_Stake bs"
    by (simp add: bet_sig_def)
  ultimately have m: "map Bet_Stake bs =
      (if 0 < Market_Seed m then replicate (length (Market_Outcomes m)) (Market_Seed m) else [])"
    by (rule back_subst [of "\<lambda>x. x = _"])
  show ?thesis
    unfolding stakes_def m using \<open>0 \<le> Market_Seed m\<close> by (simp add: sum_list_replicate)
qed

lemma new_market_inv:
  assumes "inv d" and "seed_bets m bs" and "in_int64 (Market_Seed m)" "0 \<le> Market_Seed m"
    and "Market_ID m \<notin> set (market_ids d)" and "Market_Status m = StatusOpen"
    and "Market_WinningOutcome m = None"
    and "distinct (pool_keys (new_market m bs d))" and "distinct (bet_ids (new_market m bs d))"
  shows "inv (new_market m bs d)" and "escrow (new_market m bs d) = escrow d + stakes bs"
proof -
  let ?d = "new_market m bs d" and ?mid = "Market_ID m" and ?outs = "Market_Outcomes m"
  have ids: "user_ids ?d = user_ids d" "market_ids ?d = market_ids d @ [?mid]"
    "pool_keys ?d = pool_keys d @ map (\<lambda>out. (?mid, out)) ?outs"
    "listed_bets ?d = listed_bets d" "bets ?d = bets d @ bs" "markets ?d = markets d @ [m]"
    "bet_listings ?d = bet_listings d" "users ?d = users d"
    "pools ?d = pools d @ map (\<lambda>out. \<lparr>Pool_MarketID = ?mid, Pool_Outcome = out,
        Pool_Total = Market_Seed m\<rparr>) ?outs"
    by (simp_all add: new_market_def user_ids_def market_ids_def pool_keys_def listed_bets_def o_def)
  have outs: "distinct ?outs" using assms(8) by (simp add: ids distinct_map)
  have bs: "Bet_MarketID b = ?mid" "Bet_UserID b = HouseUserID" "Bet_Outcome b \<in> set ?outs"
    "Bet_Stake b = Market_Seed m" "0 < Market_Seed m" if "b \<in> set bs" for b
  proof -
    have "bet_sig b \<in> set (map bet_sig bs)" using that by simp
    then show "Bet_MarketID b = ?mid" "Bet_UserID b = HouseUserID" "Bet_Outcome b \<in> set ?outs"
      "Bet_Stake b = Market_Seed m" "0 < Market_Seed m"
      using assms(2) unfolding seed_bets_def by (auto simp: bet_sig_def split: if_splits)
  qed
  have no_old: "mid \<noteq> ?mid" if "(mid, out) \<in> set (pool_keys d)" for mid out
    using wf_pools_key_market [of d mid out] that assms(1,5) by (auto simp: inv_def)
  have "wf_users ?d" using assms(1) by (simp add: inv_def wf_users_def ids)
  moreover have "wf_markets ?d"
    using assms(1,4-7) by (auto simp: inv_def wf_markets_def ids)
  moreover have "wf_pools ?d"
  proof -
    have "distinct (pool_keys ?d)" by (rule assms(8))
    moreover have "\<forall>p \<in> set (pools ?d). 0 \<le> Pool_Total p \<and> in_int64 (Pool_Total p)"
      using assms(1,3,4) by (auto simp: inv_def wf_pools_def ids)
    moreover have "fst ` set (pool_keys ?d) \<subseteq> set (market_ids ?d)"
      using assms(1) by (auto simp: inv_def wf_pools_def ids)
    moreover have "Market_ID k \<noteq> ?mid" if "k \<in> set (markets d)" for k
      using assms(5) that unfolding market_ids_def by (metis image_eqI set_map)
    then have "\<forall>k \<in> set (markets ?d). \<forall>out.
        (Market_ID k, out) \<in> set (pool_keys ?d) \<longleftrightarrow> out \<in> set (Market_Outcomes k)"
      using assms(1) no_old by (auto simp: inv_def wf_pools_def ids)
    ultimately show ?thesis by (simp add: wf_pools_def)
  qed
  moreover have "wf_bets ?d"
    using assms(1,3,9) bs by (auto simp: inv_def wf_bets_def ids wf_users_def)
  moreover have "books ?d"
  proof -
    have new: "sum_list (map Bet_Stake (filter (\<lambda>b. (Bet_MarketID b, Bet_Outcome b) = (i, k)) bs)) =
        (if i = ?mid \<and> k \<in> set ?outs then Market_Seed m else 0)" for i k
    proof (cases "0 < Market_Seed m")
      case True
      have "length (filter (\<lambda>out. out = k) ?outs) = (if k \<in> set ?outs then 1 else 0)"
        using outs by (rule length_filter_eq)
      then show ?thesis
        using seed_bets_staked [of bs ?mid "Market_Seed m" ?outs i k] assms(2) True
        by (simp add: seed_bets_def)
    next
      case False
      then show ?thesis using assms(2,4) by (auto simp: seed_bets_def)
    qed
    have old: "staked d ?mid k = 0" for k
    proof -
      have "filter (\<lambda>b. (Bet_MarketID b, Bet_Outcome b) = (?mid, k)) (bets d) = []"
        using assms(1) no_old by (auto simp: filter_empty_conv inv_def wf_bets_def)
      then show ?thesis by (simp add: staked_def)
    qed
    have st: "staked ?d i k = staked d i k + (if i = ?mid \<and> k \<in> set ?outs then Market_Seed m else 0)"
      for i k using new [of i k] by (simp add: staked_def ids)
    have "Pool_MarketID p \<noteq> ?mid" if "p \<in> set (pools d)" for p
      using that no_old [of "Pool_MarketID p" "Pool_Outcome p"] by (auto simp: pool_keys_def)
    then show ?thesis
      using assms(1) old st by (auto simp: inv_def books_def ids(9))
  qed
  moreover have "wf_listings ?d"
    using assms(1) unfolding inv_def wf_listings_def wf_listing_def ids by fastforce
  ultimately show inv: "inv ?d" by (simp add: inv_def)
  have "live ?d i \<longleftrightarrow> live d i \<or> i = ?mid" for i
    using assms(6) by (auto simp: live_def ids)
  moreover have "Bet_MarketID b \<noteq> ?mid" if "b \<in> set (bets d)" for b
    using that assms(1) no_old by (auto simp: inv_def wf_bets_def)
  ultimately have sum: "map (\<lambda>b. if live ?d (Bet_MarketID b) then Bet_Stake b else 0) (bets d @ bs) =
      map (\<lambda>b. if live d (Bet_MarketID b) then Bet_Stake b else 0) (bets d) @ map Bet_Stake bs"
    using bs by simp
  show "escrow ?d = escrow d + stakes bs"
    unfolding escrow_def stakes_def ids(5) sum by simp
qed


text \<open>What the transaction debits the house, and what it puts on the books for it.\<close>

definition seed_debit :: "int \<Rightarrow> string list \<Rightarrow> int" where
  "seed_debit seed outs = max 0 (i64 (seed * int (length outs)))"

lemma CreateMarket_tx_run:
  assumes "CreateMarket_tx q outs seed w = (Inr mid, w')"
  shows "\<exists>t d1 d2 w3 x. insert_market \<lparr>Market_ID = mid, Market_Question = q, Market_Outcomes = outs,
       Market_Status = StatusOpen, Market_Seed = seed, Market_WinningOutcome = None,
       Market_CreatedAt = t\<rparr> (tabs w) = Inr d1 \<and>
     (if 0 < i64 (seed * int (length outs))
      then (\<exists>h. select_user HouseUserID d1 = Some h) \<and>
           update_balance (\<lambda>b. b - i64 (seed * int (length outs))) HouseUserID d1 = Inr d2
      else d2 = d1) \<and>
     create_pools mid seed outs w3 = (Inr x, w') \<and> tabs w3 = d2"
  using assms unfolding CreateMarket_tx_def Let_def
  apply (simp only: bindE_Inr seqE_Inr ret_Inr)
  apply (clarify dest!: op_dest)
  apply (simp only:)
  apply (rule exI, rule exI, rule exI, rule exI, rule exI, intro conjI)
     apply assumption
    prefer 2 apply assumption
   prefer 2 apply (rule refl)
  by (auto simp: io_inv split: if_splits dest!: op_dest)

lemma CreateMarket_tx_effect:
  assumes "CreateMarket_tx q outs seed w = (Inr mid, w')" and "inv (tabs w)" and "outs \<noteq> []"
  shows "inv (tabs w')"
    and "total_money (tabs w') = total_money (tabs w) + seed * int (length outs) - seed_debit seed outs"
    and "\<exists>m. select_market mid (tabs w') = Some m \<and> Market_Status m = StatusOpen \<and>
           Market_Outcomes m = outs \<and> Market_Seed m = seed \<and> Market_Question m = q"
    and "balance_of (tabs w') i = map_option
           (\<lambda>b. if i = HouseUserID then b - seed_debit seed outs else b) (balance_of (tabs w) i)"
proof -
  let ?d = "tabs w" and ?deb = "i64 (seed * int (length outs))"
  obtain t d1 d2 w3 x where
    i1: "insert_market \<lparr>Market_ID = mid, Market_Question = q, Market_Outcomes = outs,
       Market_Status = StatusOpen, Market_Seed = seed, Market_WinningOutcome = None,
       Market_CreatedAt = t\<rparr> ?d = Inr d1"
    and i2: "if 0 < ?deb then (\<exists>h. select_user HouseUserID d1 = Some h) \<and>
           update_balance (\<lambda>b. b - ?deb) HouseUserID d1 = Inr d2
      else d2 = d1"
    and cp: "create_pools mid seed outs w3 = (Inr x, w')" "tabs w3 = d2"
    using CreateMarket_tx_run [OF assms(1)] by blast
  let ?m = "\<lparr>Market_ID = mid, Market_Question = q, Market_Outcomes = outs, Market_Status = StatusOpen,
       Market_Seed = seed, Market_WinningOutcome = None, Market_CreatedAt = t\<rparr>"
  note im = insert_market_Inr [OF i1]
  obtain bs where sd: "seeded mid seed outs d2 bs (tabs w')"
    using create_pools_seeded [OF cp(1)] cp(2) by auto
  have wf: "wf_users d1" using assms(2) by (simp add: im(1) inv_def wf_users_def)
  define u where "u = users d2"
  have "d2 = d1\<lparr>users := u\<rparr>"
    using i2 update_balance_Inr(1) [of "\<lambda>b. b - ?deb" HouseUserID d1 d2]
    by (auto simp: u_def split: if_splits)
  then have w2: "d2 = ?d\<lparr>users := u, markets := markets ?d @ [?m]\<rparr>" by (simp add: im(1))
  let ?du = "?d\<lparr>users := u\<rparr>"
  have ids: "user_ids ?du = user_ids ?d" and wfu: "wf_users ?du"
    and tot: "users_total ?du = users_total ?d - seed_debit seed outs"
    and bal: "\<And>i. balance_of ?du i = map_option
       (\<lambda>b. if i = HouseUserID then b - seed_debit seed outs else b) (balance_of ?d i)"
  proof -
    have "user_ids d2 = user_ids d1 \<and> wf_users d2 \<and>
        users_total d2 = users_total d1 - seed_debit seed outs \<and>
        (\<forall>i. balance_of d2 i = map_option
           (\<lambda>b. if i = HouseUserID then b - seed_debit seed outs else b) (balance_of d1 i))"
    proof (cases "0 < ?deb")
      case True
      then obtain h where h: "select_user HouseUserID d1 = Some h"
          "update_balance (\<lambda>b. b - ?deb) HouseUserID d1 = Inr d2"
        using i2 by auto
      note s = update_balance_step [OF h(2) wf]
      show ?thesis
        using s(1,2) True update_balance_total [OF h(2) wf select_user_balance [OF h(1)]]
        by (auto simp: seed_debit_def only_users_def s(3) option.map_ident)
    next
      case False
      then have "seed_debit seed outs = 0" by (simp add: seed_debit_def)
      then show ?thesis using False i2 wf by (simp add: option.map_ident cong del: if_weak_cong)
    qed
    moreover have "users ?du = users d2" "users d1 = users ?d" by (simp_all add: u_def im(1))
    then have "user_ids ?du = user_ids d2" "user_ids d1 = user_ids ?d" "wf_users ?du = wf_users d2"
        "users_total ?du = users_total d2" "users_total d1 = users_total ?d"
        "\<And>i. balance_of ?du i = balance_of d2 i" "\<And>i. balance_of d1 i = balance_of ?d i"
      by (simp_all only: user_ids_def wf_users_def users_total_def balance_of_def select_user_def)
    ultimately show "user_ids ?du = user_ids ?d" "wf_users ?du"
      "users_total ?du = users_total ?d - seed_debit seed outs"
      "\<And>i. balance_of ?du i = map_option
         (\<lambda>b. if i = HouseUserID then b - seed_debit seed outs else b) (balance_of ?d i)"
      by simp_all
  qed
  have "only_users ?d ?du" using ids by (simp add: only_users_def)
  then have inv0: "inv ?du" using only_users_inv assms(2) wfu by blast
  have new: "tabs w' = new_market ?m bs ?du"
    using sd by (simp add: seeded_def new_market_def w2)
  have sb: "seed_bets ?m bs" using sd by (simp add: seeded_def seed_bets_def)
  have "pool_keys d2 = pool_keys ?d" "bet_ids d2 = bet_ids ?d"
    by (simp_all add: w2 pool_keys_def bet_ids_def)
  then have "distinct (pool_keys (tabs w'))" "distinct (bet_ids (tabs w'))"
    using sd [unfolded seeded_def, THEN conjunct2] assms(2)
    by (simp_all add: inv_def wf_pools_def wf_bets_def)
  then have n: "inv (tabs w')" "escrow (tabs w') = escrow ?du + stakes bs"
    using new_market_inv [OF inv0 sb] sd assms(3) im(3) unfolding new
    by (simp_all add: seeded_def)
  show "inv (tabs w')" by (rule n(1))
  have "users_total (tabs w') = users_total ?du" by (simp add: new new_market_def users_total_def)
  then show "total_money (tabs w') = total_money ?d + seed * int (length outs) - seed_debit seed outs"
    using n(2) tot seed_bets_total [OF sb] im(2) by (simp add: total_money_def)
  have "?m \<in> set (markets (tabs w'))" by (simp add: new new_market_def)
  then have "select_market mid (tabs w') = Some ?m"
    using select_market_unique [OF n(1), of ?m mid] by simp
  then show "\<exists>m. select_market mid (tabs w') = Some m \<and> Market_Status m = StatusOpen \<and>
           Market_Outcomes m = outs \<and> Market_Seed m = seed \<and> Market_Question m = q" by simp
  show "balance_of (tabs w') i = map_option
           (\<lambda>b. if i = HouseUserID then b - seed_debit seed outs else b) (balance_of ?d i)"
    using bal [of i] by (simp add: new new_market_def balance_of_def select_user_def)
qed

lemma CreateMarket_Inr:
  assumes "CreateMarket q outs seed w = (Inr m, w')"
  shows "2 \<le> length outs" and "0 \<le> seed"
    and "\<exists>w1 w2. tabs w1 = tabs w \<and> CreateMarket_tx q outs seed w1 = (Inr (Market_ID m), w2) \<and>
           tabs w' = tabs w2"
  using assms
  by (auto simp: CreateMarket_def io_inv split: if_splits dest!: op_dest run_tx_InrD)

lemma CreateMarket_Inl: "CreateMarket q outs seed w = (Inl e, w') \<Longrightarrow> tabs w' = tabs w"
  by (auto simp: CreateMarket_def io_inv if_ok_never_fails timeNow_def
      split: if_splits dest!: run_tx_InlD)

end
