(* ===== verification/Bet_Listing_Correct.thy ===== *)
theory Bet_Listing_Correct
  imports Bet_Listing Bet_Creation
begin

text \<open>
  The resale of bets against the engine's invariant: a sale moves the price from buyer to
  seller and the bet from seller to buyer, nothing else; the house is not part of it.
\<close>

section \<open>Statements\<close>

lemma insert_listing_step:
  assumes "insert_listing l d = Inr d'" and "inv d" and "Listing_SellerID l \<noteq> HouseUserID"
    and "b \<in> set (bets d)" "Bet_ID b = Listing_BetID l" "Bet_MarketID b = Listing_MarketID l"
    "Bet_UserID b = Listing_SellerID l"
    and "m \<in> set (markets d)" "Market_ID m = Listing_MarketID l" "Market_Status m = StatusOpen"
  shows "d' = d\<lparr>bet_listings := bet_listings d @ [l]\<rparr>" and "inv d'"
    and "Listing_Status l = ListingStatusListed \<longrightarrow> Listing_BetID l \<notin> set (listed_bets d)"
proof -
  show d': "d' = d\<lparr>bet_listings := bet_listings d @ [l]\<rparr>"
    using assms(1) by (auto simp: insert_listing_def split: if_splits)
  have l: "0 < Listing_AskingPrice l" "in_int64 (Listing_AskingPrice l)"
    "Listing_ID l \<notin> Listing_ID ` set (bet_listings d)" "Listing_BetID l \<notin> set (listed_bets d)"
    "Listing_SellerID l \<in> set (user_ids d)"
    using assms(1) by (auto simp: insert_listing_def list_ex_iff listed_bets_def exists_ids split: if_splits)
  then show "Listing_Status l = ListingStatusListed \<longrightarrow> Listing_BetID l \<notin> set (listed_bets d)" by simp
  have old: "wf_listing d' k" if "k \<in> set (bet_listings d)" for k
    using assms(2) that by (simp add: inv_def wf_listings_def wf_listing_def d')
  have "wf_listing d' l" using l assms(3-10) by (auto simp: wf_listing_def d')
  moreover have "distinct (listed_bets d')"
    using assms(2) l(4) by (simp add: inv_def wf_listings_def listed_bets_def d')
  ultimately have "wf_listings d'"
    using assms(2) l(3) old by (auto simp: inv_def wf_listings_def d')
  then show "inv d'" using assms(2)
    by (auto simp: inv_def wf_users_def wf_markets_def wf_pools_def wf_bets_def books_def d')
qed

text \<open>Taking listings off offer, and leaving the rest of the tables alone.\<close>

lemma distinct_filter_upd:
  assumes "distinct (map k (filter p rs))" and "\<And>r. k (f r) = k r" and "\<And>r. p (f r) \<longrightarrow> p r"
  shows "distinct (map k (filter p (upd_rows q f rs)))"
proof -
  have "k ` set (filter p (upd_rows q f rs)) \<subseteq> k ` set (filter p rs)" for rs
    using assms(2,3) by (induction rs) auto
  note sub = this
  show ?thesis using assms(1)
  proof (induction rs)
    case (Cons r rs)
    let ?r = "if q r then f r else r"
    have r: "k ?r = k r" "p ?r \<Longrightarrow> p r" using assms(2,3) by (auto split: if_splits)
    have "distinct (map k (filter p (upd_rows q f rs)))" using Cons by (auto split: if_splits)
    moreover have "k r \<notin> k ` set (filter p (upd_rows q f rs))" if "p r"
      using sub [of rs] Cons.prems that by auto
    ultimately show ?case using r unfolding upd_rows_Cons by simp
  qed simp
qed

lemma off_offer_inv:
  assumes "inv d" and "d' = d\<lparr>bet_listings := upd_rows q f (bet_listings d)\<rparr>"
    and "\<And>l. Listing_ID (f l) = Listing_ID l \<and> Listing_BetID (f l) = Listing_BetID l \<and>
           Listing_SellerID (f l) = Listing_SellerID l \<and> Listing_AskingPrice (f l) = Listing_AskingPrice l \<and>
           Listing_Status (f l) \<noteq> ListingStatusListed"
  shows "inv d'"
proof -
  have "distinct (listed_bets d')"
    using assms by (simp add: listed_bets_def inv_def wf_listings_def distinct_filter_upd)
  moreover have "distinct (map Listing_ID (bet_listings d'))"
    using assms by (simp add: map_upd_rows inv_def wf_listings_def)
  moreover have "\<forall>l \<in> set (bet_listings d'). wf_listing d' l"
    using assms by (simp add: ball_upd_rows inv_def wf_listings_def wf_listing_def)
  ultimately have "wf_listings d'" by (simp add: wf_listings_def)
  then show ?thesis using assms(1)
    by (auto simp: inv_def wf_users_def wf_markets_def wf_pools_def wf_bets_def books_def assms(2))
qed

lemma cancel_listing_step:
  assumes "cancel_listing i t d = Inr d'" and "inv d"
  shows "inv d'" "users d' = users d" "markets d' = markets d" "pools d' = pools d" "bets d' = bets d"
    and "select_listing k d' = (if k = i then map_option (\<lambda>l. l\<lparr>Listing_Status := ListingStatusCancelled,
           Listing_CancelledAt := Some t\<rparr>) (select_listing k d) else select_listing k d)"
proof -
  have d': "d' = d\<lparr>bet_listings := upd_rows (\<lambda>l. Listing_ID l = i)
      (\<lambda>l. l\<lparr>Listing_Status := ListingStatusCancelled, Listing_CancelledAt := Some t\<rparr>) (bet_listings d)\<rparr>"
    using assms(1) by (simp add: cancel_listing_def)
  show "inv d'" by (rule off_offer_inv [OF assms(2) d']) simp
  show "users d' = users d" "markets d' = markets d" "pools d' = pools d" "bets d' = bets d"
    by (simp_all add: d')
  show "select_listing k d' = (if k = i then map_option (\<lambda>l. l\<lparr>Listing_Status := ListingStatusCancelled,
           Listing_CancelledAt := Some t\<rparr>) (select_listing k d) else select_listing k d)"
    by (simp add: d' select_listing_def find_upd_rows)
qed

lemma total_money_same:
  assumes "users d' = users d" and "markets d' = markets d" and "bets d' = bets d"
  shows "total_money d' = total_money d"
  using assms by (simp add: total_money_def users_total_def escrow_def live_def)

text \<open>The two updates of a sale: the bet's owner, the listing's status.\<close>

lemma transfer_step:
  assumes "reassign_bet bid buyer d = Inr d1" and "sell_listing i buyer t d1 = Inr d2" and "inv d"
    and "select_listing i d = Some l" "Listing_BetID l = bid" "Listing_Status l = ListingStatusListed"
  shows "inv d2" and "users d2 = users d" "markets d2 = markets d" "pools d2 = pools d"
    and "bets d2 = upd_rows (\<lambda>b. Bet_ID b = bid) (\<lambda>b. b\<lparr>Bet_UserID := buyer\<rparr>) (bets d)"
    and "select_listing k d2 = (if k = i then map_option (\<lambda>l. l\<lparr>Listing_Status := ListingStatusSold,
           Listing_BuyerID := Some buyer, Listing_SoldAt := Some t\<rparr>) (select_listing k d)
         else select_listing k d)"
    and "escrow d2 = escrow d"
proof -
  let ?fb = "\<lambda>b. b\<lparr>Bet_UserID := buyer\<rparr>" and ?fl = "\<lambda>l. l\<lparr>Listing_Status := ListingStatusSold,
           Listing_BuyerID := Some buyer, Listing_SoldAt := Some t\<rparr>"
  have l: "l \<in> set (bet_listings d)" "Listing_ID l = i"
    using find_key_Some [of Listing_ID i "bet_listings d" l] assms(4) by (auto simp: select_listing_def)
  then obtain b where b: "b \<in> set (bets d)" "Bet_ID b = bid"
    using assms(3,5,6) by (fastforce simp: inv_def wf_listings_def wf_listing_def)
  have buyer: "buyer \<in> set (user_ids d)"
    using assms(1) b by (auto simp: reassign_bet_def exists_ids bet_ids_def split: if_splits)
  have d1: "d1 = d\<lparr>bets := upd_rows (\<lambda>b. Bet_ID b = bid) ?fb (bets d)\<rparr>"
    using assms(1) by (auto simp: reassign_bet_def split: if_splits)
  have d2: "d2 = d1\<lparr>bet_listings := upd_rows (\<lambda>l. Listing_ID l = i) ?fl (bet_listings d1)\<rparr>"
    using assms(2) by (auto simp: sell_listing_def split: if_splits)
  show eqs: "users d2 = users d" "markets d2 = markets d" "pools d2 = pools d"
    "bets d2 = upd_rows (\<lambda>b. Bet_ID b = bid) ?fb (bets d)"
    by (simp_all add: d2 d1)
  show "select_listing k d2 = (if k = i then map_option ?fl (select_listing k d) else select_listing k d)"
    by (simp add: d2 d1 select_listing_def find_upd_rows)
  have bl: "bet_listings d2 = upd_rows (\<lambda>l. Listing_ID l = i) ?fl (bet_listings d)"
    by (simp add: d2 d1)
  have ids: "bet_ids d2 = bet_ids d" "user_ids d2 = user_ids d" "market_ids d2 = market_ids d"
    "pool_keys d2 = pool_keys d"
    by (simp_all add: bet_ids_def user_ids_def market_ids_def pool_keys_def eqs map_upd_rows)
  have "distinct (listed_bets d2)"
    using assms(3) by (simp add: listed_bets_def bl inv_def wf_listings_def distinct_filter_upd)
  moreover have "distinct (map Listing_ID (bet_listings d2))"
    using assms(3) by (simp add: bl map_upd_rows inv_def wf_listings_def)
  moreover have "wf_listing d2 k" if k: "k \<in> set (bet_listings d)" "Listing_ID k \<noteq> i" for k
  proof -
    have wf: "wf_listing d k" using assms(3) k by (simp add: inv_def wf_listings_def)
    have "Listing_BetID k \<noteq> bid" if "Listing_Status k = ListingStatusListed"
    proof
      assume "Listing_BetID k = bid"
      moreover have "distinct (map Listing_BetID (filter (\<lambda>l. Listing_Status l = ListingStatusListed)
          (bet_listings d)))"
        using assms(3) by (simp add: inv_def wf_listings_def listed_bets_def)
      ultimately have "k = l" using l(1) k(1) that assms(5,6) by (auto simp: distinct_map inj_on_def)
      then show False using k(2) l(2) by simp
    qed
    moreover have "b \<in> set (bets d2)" if "b \<in> set (bets d)" "Bet_ID b \<noteq> bid" for b
      using that by (auto simp: eqs in_set_upd_rows)
    ultimately show ?thesis using wf unfolding wf_listing_def ids eqs by metis
  qed
  moreover have "wf_listing d2 (?fl k)" if "k \<in> set (bet_listings d)" for k
    using assms(3) that by (auto simp: inv_def wf_listings_def wf_listing_def ids)
  ultimately have "wf_listings d2" by (simp add: wf_listings_def bl ball_upd_rows)
  moreover have st: "staked d2 = staked d"
  proof -
    have "sum_list (map Bet_Stake (filter p (upd_rows q ?fb bs))) = sum_list (map Bet_Stake (filter p bs))"
      if "\<And>b. p (?fb b) = p b" for p q and bs :: "Bet list"
      using that by (induction bs) auto
    then show ?thesis by (simp add: fun_eq_iff staked_def eqs)
  qed
  moreover have "wf_bets d2"
    using assms(3) buyer by (simp add: inv_def wf_bets_def ids eqs ball_upd_rows)
  moreover have "wf_pools d2" using assms(3) unfolding inv_def wf_pools_def ids eqs by blast
  ultimately show "inv d2"
    using assms(3) by (simp add: inv_def wf_users_def wf_markets_def books_def ids eqs)
  have "live d2 = live d" by (simp add: fun_eq_iff live_def eqs)
  moreover have "sum_list (map (\<lambda>b. if live d (Bet_MarketID b) then Bet_Stake b else 0) (upd_rows q ?fb bs)) =
      sum_list (map (\<lambda>b. if live d (Bet_MarketID b) then Bet_Stake b else 0) bs)" for q and bs :: "Bet list"
    by (induction bs) auto
  ultimately show "escrow d2 = escrow d" by (simp add: escrow_def eqs)
qed


section \<open>Operations\<close>

lemma on_error_if_InrD:
  "on_error m (\<lambda>e. if p e then throw (f e) else throw (g e)) w = (Inr x, w') \<Longrightarrow> m w = (Inr x, w')"
  by (auto simp: on_error_def throw_def split: prod.splits sum.splits if_splits)

lemma ListBetForSale_tx_effect:
  assumes "ListBetForSale_tx bid seller price w = (Inr (lid, mid, out, st), w')" and "inv (tabs w)"
  shows "inv (tabs w')" and "total_money (tabs w') = total_money (tabs w)"
    and "\<exists>l b. bet_listings (tabs w') = bet_listings (tabs w) @ [l] \<and> Listing_ID l = lid \<and>
           Listing_BetID l = bid \<and> Listing_SellerID l = seller \<and> Listing_AskingPrice l = price \<and>
           Listing_Status l = ListingStatusListed \<and> Listing_MarketID l = mid \<and>
           select_bet bid (tabs w) = Some b \<and> Bet_UserID b = seller \<and> Bet_MarketID b = mid \<and>
           bid \<notin> set (listed_bets (tabs w))"
    and "live (tabs w) mid" and "seller \<noteq> HouseUserID"
proof -
  let ?d = "tabs w"
  obtain b m now where b: "select_bet bid ?d = Some b" "Bet_MarketID b = mid" "Bet_UserID b = seller"
    and h: "seller \<noteq> HouseUserID"
    and m: "select_market mid ?d = Some m" "Market_Status m = StatusOpen"
    and i: "insert_listing \<lparr>Listing_ID = lid, Listing_BetID = bid, Listing_MarketID = mid,
        Listing_SellerID = seller, Listing_BuyerID = None, Listing_AskingPrice = price,
        Listing_Status = ListingStatusListed, Listing_CreatedAt = now, Listing_SoldAt = None,
        Listing_CancelledAt = None\<rparr> ?d = Inr (tabs w')"
    using assms(1) unfolding ListBetForSale_tx_def
    by (auto simp: io_inv split: if_splits dest!: op_dest dest: on_error_if_InrD [THEN exec_InrD])
  let ?l = "\<lparr>Listing_ID = lid, Listing_BetID = bid, Listing_MarketID = mid,
        Listing_SellerID = seller, Listing_BuyerID = None, Listing_AskingPrice = price,
        Listing_Status = ListingStatusListed, Listing_CreatedAt = now, Listing_SoldAt = None,
        Listing_CancelledAt = None\<rparr>"
  have rows: "b \<in> set (bets ?d)" "Bet_ID b = bid" "m \<in> set (markets ?d)" "Market_ID m = mid"
    using find_key_Some [of Bet_ID bid "bets ?d" b] find_key_Some [of Market_ID mid "markets ?d" m] b m
    by (auto simp: select_bet_def select_market_def)
  note s = insert_listing_step [OF i assms(2), of b m, simplified, OF h rows(1,2) b(2,3) rows(3,4) m(2)]
  show "inv (tabs w')" by (rule s(2))
  show "total_money (tabs w') = total_money ?d" by (rule total_money_same) (simp_all add: s(1))
  show "\<exists>l b. bet_listings (tabs w') = bet_listings ?d @ [l] \<and> Listing_ID l = lid \<and>
           Listing_BetID l = bid \<and> Listing_SellerID l = seller \<and> Listing_AskingPrice l = price \<and>
           Listing_Status l = ListingStatusListed \<and> Listing_MarketID l = mid \<and>
           select_bet bid ?d = Some b \<and> Bet_UserID b = seller \<and> Bet_MarketID b = mid \<and>
           bid \<notin> set (listed_bets ?d)"
    by (intro exI [of _ ?l] exI [of _ b]) (simp add: s(1,3) b)
  show "live ?d mid" using live_select [OF inv_distinct_markets [OF assms(2)]] m by auto
  show "seller \<noteq> HouseUserID" by (rule h)
qed

lemma CancelListing_tx_effect:
  assumes "CancelListing_tx lid seller w = (Inr x, w')" and "inv (tabs w)"
  shows "inv (tabs w')" and "total_money (tabs w') = total_money (tabs w)"
    and "\<exists>l t. select_listing lid (tabs w) = Some l \<and> Listing_SellerID l = seller \<and>
           Listing_Status l = ListingStatusListed \<and>
           select_listing lid (tabs w') = Some (l\<lparr>Listing_Status := ListingStatusCancelled,
             Listing_CancelledAt := Some t\<rparr>)"
proof -
  obtain l t where l: "select_listing lid (tabs w) = Some l" "Listing_SellerID l = seller"
      "Listing_Status l = ListingStatusListed"
    and c: "cancel_listing lid t (tabs w) = Inr (tabs w')"
    using assms(1) by (auto simp: CancelListing_tx_def io_inv split: if_splits dest!: op_dest)
  note s = cancel_listing_step [OF c assms(2)]
  show "inv (tabs w')" by (rule s(1))
  show "total_money (tabs w') = total_money (tabs w)" by (intro total_money_same s)
  show "\<exists>l t. select_listing lid (tabs w) = Some l \<and> Listing_SellerID l = seller \<and>
           Listing_Status l = ListingStatusListed \<and>
           select_listing lid (tabs w') = Some (l\<lparr>Listing_Status := ListingStatusCancelled,
             Listing_CancelledAt := Some t\<rparr>)"
    using l by (simp add: s(6)) blast
qed

lemma ListBetForSale_Inr:
  assumes "ListBetForSale bid seller price w = (Inr x, w')"
  shows "0 < price \<and> (\<exists>w1 w2 lid mid out st. tabs w1 = tabs w \<and>
    ListBetForSale_tx bid seller price w1 = (Inr (lid, mid, out, st), w2) \<and> tabs w' = tabs w2 \<and>
    Listing_ID (BetListing.truncate x) = lid \<and> Listing_MarketID (BetListing.truncate x) = mid)"
  using assms
  by (auto simp: ListBetForSale_def BetListing.defs io_inv split: if_splits prod.splits
      dest!: op_dest run_tx_InrD)

lemma ListBetForSale_Inl:
  "ListBetForSale bid seller price w = (Inl e, w') \<Longrightarrow> tabs w' = tabs w"
  by (auto simp: ListBetForSale_def io_inv timeNow_def split: if_splits prod.splits dest!: run_tx_InlD)

lemma CancelListing_Inr:
  assumes "CancelListing lid seller w = (Inr x, w')"
  shows "\<exists>w1 w2. tabs w1 = tabs w \<and> CancelListing_tx lid seller w1 = (Inr (), w2) \<and> tabs w' = tabs w2"
  using run_tx_InrD [of "CancelListing_tx lid seller" w x w'] assms by (simp add: CancelListing_def)

lemma CancelListing_Inl: "CancelListing lid seller w = (Inl e, w') \<Longrightarrow> tabs w' = tabs w"
  unfolding CancelListing_def by (rule run_tx_InlD)


section \<open>The sale\<close>

definition sold :: "uuid \<Rightarrow> uuid \<Rightarrow> sale \<Rightarrow> db \<Rightarrow> db \<Rightarrow> bool" where
  "sold lid buyer s d d' \<longleftrightarrow>
     (\<exists>l b t. select_listing lid d = Some l \<and> Listing_Status l = ListingStatusListed \<and>
        Listing_BetID l = sale_betID s \<and> Listing_SellerID l = sale_sellerID s \<and>
        Listing_AskingPrice l = sale_askingPrice s \<and> sale_sellerID s \<noteq> buyer \<and>
        select_bet (sale_betID s) d = Some b \<and> Bet_UserID b = sale_sellerID s \<and>
        select_listing lid d' = Some (l\<lparr>Listing_Status := ListingStatusSold,
          Listing_BuyerID := Some buyer, Listing_SoldAt := Some t\<rparr>)) \<and>
     markets d' = markets d \<and> pools d' = pools d \<and>
     bets d' = upd_rows (\<lambda>b. Bet_ID b = sale_betID s) (\<lambda>b. b\<lparr>Bet_UserID := buyer\<rparr>) (bets d) \<and>
     (\<forall>i. balance_of d' i = map_option (\<lambda>x. if i = buyer then x - sale_askingPrice s
            else if i = sale_sellerID s then x + sale_askingPrice s else x) (balance_of d i))"

lemma BuyListedBet_pay_run:
  assumes "BuyListedBet_pay lid bid seller buyer price w = (Inr x, w')"
  shows "\<exists>d1 d2 d3 t x y. balance_of (tabs w) buyer = Some x \<and> price \<le> x \<and>
    balance_of (tabs w) seller = Some y \<and>
    update_balance (\<lambda>b. b - price) buyer (tabs w) = Inr d1 \<and>
    update_balance (\<lambda>b. b + price) seller d1 = Inr d2 \<and>
    reassign_bet bid buyer d2 = Inr d3 \<and> sell_listing lid buyer t d3 = Inr (tabs w')"
  using assms unfolding BuyListedBet_pay_def balance_of_def Let_def case_prod_beta
  by (cases "seller < buyer") (auto simp: io_inv not_less split: if_splits dest!: op_dest)

lemma BuyListedBet_tx_run:
  assumes "BuyListedBet_tx lid buyer w = (Inr r, w')"
  shows "\<exists>l m. select_listing lid (tabs w) = Some l \<and>
    select_market (Listing_MarketID l) (tabs w) = Some m \<and>
    (case r of None \<Rightarrow> Market_Status m \<noteq> StatusOpen
     | Some s \<Rightarrow> Market_Status m = StatusOpen \<and> Listing_Status l = ListingStatusListed \<and>
         Listing_SellerID l \<noteq> buyer \<and> sale_marketID s = Listing_MarketID l \<and>
         sale_betID s = Listing_BetID l \<and> sale_sellerID s = Listing_SellerID l \<and>
         sale_askingPrice s = Listing_AskingPrice l \<and>
         (\<exists>b w1. select_bet (Listing_BetID l) (tabs w) = Some b \<and> Bet_UserID b = Listing_SellerID l \<and>
            tabs w1 = tabs w \<and>
            BuyListedBet_pay lid (Listing_BetID l) (Listing_SellerID l) buyer (Listing_AskingPrice l) w1
              = (Inr (), w')))"
  using assms unfolding BuyListedBet_tx_def
  by (auto simp: io_inv split: if_splits option.splits dest!: op_dest) (metis+)?

lemma BuyListedBet_tx_effect:
  assumes "BuyListedBet_tx lid buyer w = (Inr (Some s), w')" and "inv (tabs w)"
  shows "inv (tabs w')" and "total_money (tabs w') = total_money (tabs w)"
    and "sold lid buyer s (tabs w) (tabs w')" and "sale_sellerID s \<noteq> HouseUserID"
proof -
  let ?d = "tabs w"
  obtain l b w1 where l: "select_listing lid ?d = Some l" "Listing_Status l = ListingStatusListed"
      "Listing_SellerID l \<noteq> buyer" "sale_betID s = Listing_BetID l"
      "sale_sellerID s = Listing_SellerID l" "sale_askingPrice s = Listing_AskingPrice l"
    and b: "select_bet (Listing_BetID l) ?d = Some b" "Bet_UserID b = Listing_SellerID l"
    and pay: "tabs w1 = ?d" "BuyListedBet_pay lid (Listing_BetID l) (Listing_SellerID l) buyer
        (Listing_AskingPrice l) w1 = (Inr (), w')"
    using BuyListedBet_tx_run [OF assms(1)] by auto
  let ?p = "Listing_AskingPrice l" and ?s = "Listing_SellerID l"
  obtain d1 d2 d3 t x y where bal: "balance_of ?d buyer = Some x" "?p \<le> x" "balance_of ?d ?s = Some y"
    and u1: "update_balance (\<lambda>b. b - ?p) buyer ?d = Inr d1"
    and u2: "update_balance (\<lambda>b. b + ?p) ?s d1 = Inr d2"
    and r: "reassign_bet (Listing_BetID l) buyer d2 = Inr d3" "sell_listing lid buyer t d3 = Inr (tabs w')"
    using BuyListedBet_pay_run [OF pay(2)] unfolding pay(1) by blast
  have wf: "wf_users ?d" using assms(2) by (simp add: inv_def)
  note s1 = update_balance_step [OF u1 wf]
  note s2 = update_balance_step [OF u2 s1(2)]
  note o = only_users_trans [OF s1(1) s2(1)]
  have inv2: "inv d2" using only_users_inv [OF o assms(2) s2(2)] .
  have sl: "select_listing lid d2 = Some l" using l(1) only_users_eqs(8) [OF o] by simp
  note ts = transfer_step [OF r inv2 sl refl l(2)]
  show "inv (tabs w')" by (rule ts(1))
  have "users_total d2 = users_total ?d"
    using update_balance_total [OF u1 wf bal(1)] update_balance_total [OF u2 s1(2), of y] bal(3) l(3)
    by (simp add: s1(3))
  then show "total_money (tabs w') = total_money ?d"
    using ts(2,7) only_users_eqs(2) [OF o] by (simp add: total_money_def users_total_def)
  have bals: "balance_of (tabs w') i = balance_of d2 i" for i
    by (simp add: balance_of_def select_user_def ts(2))
  have "balance_of (tabs w') i = map_option (\<lambda>x. if i = buyer then x - ?p
            else if i = ?s then x + ?p else x) (balance_of ?d i)" for i
    using l(3) by (simp add: bals s2(3) s1(3) option.map_ident)
  then show "sold lid buyer s ?d (tabs w')"
    using l b ts(3,4,5) ts(6) [of lid] sl o
    by (auto simp: sold_def only_users_def cong del: if_weak_cong)
  have "l \<in> set (bet_listings ?d)"
    using find_key_Some [of Listing_ID lid "bet_listings ?d" l] l(1) by (auto simp: select_listing_def)
  then show "sale_sellerID s \<noteq> HouseUserID"
    using assms(2) l(5) by (auto simp: inv_def wf_listings_def wf_listing_def)
qed


text \<open>
  Under the invariant a listing on a market that is not open is off offer already, so the
  follow-up transaction of a stale purchase finds nothing to cancel.
\<close>

lemma invalidateStaleListing_noop:
  assumes "invalidateStaleListing lid w = (r, w')"
    and "\<And>l. select_listing lid (tabs w) = Some l \<Longrightarrow> Listing_Status l \<noteq> ListingStatusListed"
  shows "tabs w' = tabs w"
proof (cases r)
  case (Inl e)
  then show ?thesis using assms(1) unfolding invalidateStaleListing_def by (auto dest: run_tx_InlD)
next
  case (Inr x)
  then obtain w1 w2 where "tabs w1 = tabs w" "invalidateStaleListing_tx lid w1 = (Inr x, w2)"
      "tabs w' = tabs w2"
    using assms(1) run_tx_InrD [of "invalidateStaleListing_tx lid" w x w']
    unfolding invalidateStaleListing_def by auto
  then show ?thesis
    using assms(2) by (auto simp: invalidateStaleListing_tx_def io_inv split: if_splits dest!: op_dest)
qed

lemma BuyListedBet_Inr:
  assumes "BuyListedBet lid buyer w = (Inr x, w')"
  shows "\<exists>s w1 w2. tabs w1 = tabs w \<and> BuyListedBet_tx lid buyer w1 = (Inr (Some s), w2) \<and>
    tabs w' = tabs w2"
proof -
  obtain r w3 where tx: "run_tx_gen (\<lambda>r. r \<noteq> None) (BuyListedBet_tx lid buyer) w = (Inr r, w3)"
    and k: "r \<noteq> None" "tabs w' = tabs w3"
    using assms unfolding BuyListedBet_def bindE_Inr
    by (auto simp: io_inv split: option.split_asm dest!: op_dest simp del: not_None_eq)
  then show ?thesis using run_tx_gen_InrD [OF tx] by auto
qed

lemma BuyListedBet_Inl:
  assumes "BuyListedBet lid buyer w = (Inl e, w')" and "inv (tabs w)"
  shows "tabs w' = tabs w"
proof -
  consider "run_tx_gen (\<lambda>r. r \<noteq> None) (BuyListedBet_tx lid buyer) w = (Inl e, w')"
    | w3 r where "run_tx_gen (\<lambda>r. r \<noteq> None) (BuyListedBet_tx lid buyer) w = (Inr None, w3)"
        "invalidateStaleListing lid w3 = (r, w')"
    using assms(1) unfolding BuyListedBet_def bindE_Inl
    by (auto simp: io_inv if_ok_never_fails timeNow_def split: option.split_asm simp del: not_None_eq)
  then show ?thesis
  proof cases
    case 1
    then show ?thesis by (rule run_tx_gen_InlD)
  next
    case 2
    obtain w1 w2 where w1: "tabs w1 = tabs w" "BuyListedBet_tx lid buyer w1 = (Inr None, w2)"
        "tabs w3 = tabs w"
      using run_tx_gen_InrD [OF 2(1)] by auto
    obtain l m where l: "select_listing lid (tabs w) = Some l"
        "select_market (Listing_MarketID l) (tabs w) = Some m" "Market_Status m \<noteq> StatusOpen"
      using BuyListedBet_tx_run [OF w1(2)] by (auto simp: w1(1))
    have "l \<in> set (bet_listings (tabs w))"
      using find_key_Some [of Listing_ID lid "bet_listings (tabs w)" l] l(1)
      by (auto simp: select_listing_def)
    then have "wf_listing (tabs w) l" using assms(2) by (simp add: inv_def wf_listings_def)
    then have "Listing_Status l \<noteq> ListingStatusListed"
      using l(2,3) select_market_unique [OF assms(2)] by (fastforce simp: wf_listing_def)
    then show ?thesis
      using invalidateStaleListing_noop [OF 2(2)] l(1) by (simp add: w1(3))
  qed
qed


section \<open>Lock order\<close>

text \<open>
  The contract at the top of the file: markets, then listings, then bets, then users, and two
  users in ascending order. \<open>holds ls m Q\<close>: started with the locks \<open>ls\<close>, \<open>m\<close>
  either returns with \<open>Q\<close> of its result and the locks it then has, or fails with locks
  taken in that order.
\<close>

fun lock_rank :: "lock \<Rightarrow> nat" where
  "lock_rank (LMarket _) = 0"
| "lock_rank (LListing _) = 1"
| "lock_rank (LBet _) = 2"
| "lock_rank (LUser _) = 3"
| "lock_rank (LPool _ _) = 4"

fun lock_before :: "lock \<Rightarrow> lock \<Rightarrow> bool" where
  "lock_before (LUser u) (LUser v) \<longleftrightarrow> u < v"
| "lock_before a b \<longleftrightarrow> lock_rank a \<le> lock_rank b"

definition lock_ordered :: "lock list \<Rightarrow> bool" where
  "lock_ordered ls = sorted_wrt lock_before ls"

definition holds :: "lock list \<Rightarrow> 'a bet_io \<Rightarrow> ('a \<Rightarrow> lock list \<Rightarrow> bool) \<Rightarrow> bool" where
  "holds ls m Q \<longleftrightarrow> (\<forall>w. locks w = ls \<longrightarrow> (case m w of
     (Inr x, w') \<Rightarrow> Q x (locks w')
   | (Inl e, w') \<Rightarrow> lock_ordered (locks w')))"

lemma holds_ret: "Q x ls \<Longrightarrow> holds ls (ret x) Q"
  by (simp add: holds_def ret_def)

lemma holds_throw: "lock_ordered ls \<Longrightarrow> holds ls (throw e) Q"
  by (simp add: holds_def throw_def)

lemma holds_bind:
  assumes "holds ls m R" and "\<And>x ks. R x ks \<Longrightarrow> holds ks (f x) Q"
  shows "holds ls (bindE m f) Q"
  unfolding holds_def
proof (intro allI impI)
  fix w :: bet_world
  assume w: "locks w = ls"
  obtain r w1 where m: "m w = (r, w1)" by force
  show "case bindE m f w of (Inr x, w') \<Rightarrow> Q x (locks w') | (Inl e, w') \<Rightarrow> lock_ordered (locks w')"
  proof (cases r)
    case (Inl e)
    then show ?thesis using assms(1) w m by (auto simp: holds_def bindE_def)
  next
    case (Inr x)
    then have "R x (locks w1)" using assms(1) w m by (auto simp: holds_def)
    then have "holds (locks w1) (f x) Q" by (rule assms(2))
    then show ?thesis using m Inr by (simp add: holds_def bindE_def)
  qed
qed

lemma holds_seq: "holds ls m R \<Longrightarrow> (\<And>x ks. R x ks \<Longrightarrow> holds ks k Q) \<Longrightarrow> holds ls (seqE m k) Q"
  unfolding seqE_def by (rule holds_bind)

lemma holds_on_error:
  assumes "holds ls m Q" and "\<And>ks e. lock_ordered ks \<Longrightarrow> holds ks (h e) Q"
  shows "holds ls (on_error m h) Q"
  unfolding holds_def
proof (intro allI impI)
  fix w :: bet_world
  assume w: "locks w = ls"
  obtain r w1 where m: "m w = (r, w1)" by force
  show "case on_error m h w of (Inr x, w') \<Rightarrow> Q x (locks w') | (Inl e, w') \<Rightarrow> lock_ordered (locks w')"
  proof (cases r)
    case (Inl e)
    then have "lock_ordered (locks w1)" using assms(1) w m by (auto simp: holds_def)
    then have "holds (locks w1) (h e) Q" by (rule assms(2))
    then show ?thesis using m Inl by (simp add: holds_def on_error_def)
  next
    case (Inr x)
    then show ?thesis using assms(1) w m by (auto simp: holds_def on_error_def)
  qed
qed

lemma holds_no_rows: "holds ls m Q \<Longrightarrow> holds ls (no_rows m e) Q"
  unfolding no_rows_def by (rule holds_on_error) (auto intro: holds_throw)

lemma holds_query_row: "lock_ordered ls \<Longrightarrow> holds ls (query_row f) (\<lambda>_ ks. ks = ls)"
  by (auto simp: holds_def query_row_def stmt_def Let_def split: option.splits)

lemma holds_query_row_for:
  "lock_ordered ls \<Longrightarrow> holds ls (query_row_for f l) (\<lambda>_ ks. ks = (if l \<in> set ls then ls else ls @ [l]))"
  by (auto simp: holds_def query_row_for_def stmt_def add_locks_def Let_def split: option.splits)

lemma holds_exec:
  "lock_ordered ls \<Longrightarrow> set ks \<subseteq> set ls \<Longrightarrow> holds ls (exec (\<lambda>_. ks) u) (\<lambda>_ js. js = ls)"
proof -
  assume "lock_ordered ls" "set ks \<subseteq> set ls"
  moreover from this have "filter (\<lambda>l. l \<notin> set ls) ks = []" by (auto simp: filter_empty_conv)
  ultimately show ?thesis
    by (auto simp: holds_def exec_def stmt_def add_locks_def Let_def split: sum.splits)
qed

lemma holds_new: "holds ls uuid_New (\<lambda>_ ks. ks = ls)" "holds ls timeNow (\<lambda>_ ks. ks = ls)"
  by (simp_all add: holds_def uuid_New_def timeNow_def)

lemma holds_if: "(b \<Longrightarrow> holds ls m Q) \<Longrightarrow> (\<not> b \<Longrightarrow> holds ls k Q) \<Longrightarrow> holds ls (if b then m else k) Q"
  by simp

text \<open>The shapes the service uses: a new row lock, and statements on rows already locked.\<close>

lemma holds_lock:
  assumes "lock_ordered ls" "l \<notin> set ls" "\<And>x. holds (ls @ [l]) (f x) Q"
  shows "holds ls (bindE (query_row_for g l) f) Q"
    and "holds ls (bindE (no_rows (query_row_for g l) e) f) Q"
  by (rule holds_bind, rule holds_query_row_for holds_no_rows, (rule assms(1) holds_query_row_for)+,
      use assms in auto)+

lemma holds_read:
  assumes "lock_ordered ls" "\<And>x. holds ls (f x) Q"
  shows "holds ls (bindE (query_row g) f) Q" and "holds ls (bindE (no_rows (query_row g) e) f) Q"
  using assms by (auto intro!: holds_bind [OF holds_query_row] holds_bind [OF holds_no_rows [OF holds_query_row]])

lemma holds_now: "(\<And>x. holds ls (f x) Q) \<Longrightarrow> holds ls (bindE timeNow f) Q"
  and holds_uuid: "(\<And>x. holds ls (g x) Q') \<Longrightarrow> holds ls (bindE uuid_New g) Q'"
  by (auto intro!: holds_bind [OF holds_new(1)] holds_bind [OF holds_new(2)])

lemma holds_write:
  "lock_ordered ls \<Longrightarrow> set ks \<subseteq> set ls \<Longrightarrow> holds ls k Q \<Longrightarrow> holds ls (seqE (exec (\<lambda>_. ks) u) k) Q"
  by (rule holds_seq [OF holds_exec]) simp_all

lemma holds_weaken:
  assumes "holds ls m R" and "\<And>x ks. R x ks \<Longrightarrow> Q x ks"
  shows "holds ls m Q"
  unfolding holds_def
proof (intro allI impI)
  fix w :: bet_world
  assume "locks w = ls"
  then have "case m w of (Inr x, w') \<Rightarrow> R x (locks w') | (Inl e, w') \<Rightarrow> lock_ordered (locks w')"
    using assms(1) by (simp add: holds_def)
  then show "case m w of (Inr x, w') \<Rightarrow> Q x (locks w') | (Inl e, w') \<Rightarrow> lock_ordered (locks w')"
    using assms(2) by (cases "m w"; cases "fst (m w)") simp_all
qed

lemma holds_write_last:
  "lock_ordered ls \<Longrightarrow> set ks \<subseteq> set ls \<Longrightarrow> Q () ls \<Longrightarrow> holds ls (exec (\<lambda>_. ks) u) Q"
  by (rule holds_weaken [OF holds_exec]) simp_all

lemma lock_ordered_simps [simp]: "lock_ordered []"
  "lock_ordered (l # ls) \<longleftrightarrow> (\<forall>k \<in> set ls. lock_before l k) \<and> lock_ordered ls"
  by (simp_all add: lock_ordered_def)

lemmas holds_rules = holds_lock holds_read holds_now holds_uuid holds_write holds_write_last holds_throw holds_ret

lemma BuyListedBet_pay_locks:
  assumes "seller \<noteq> buyer"
  shows "holds [LMarket mid, LListing lid, LBet bid] (BuyListedBet_pay lid bid seller buyer price)
           (\<lambda>_ ks. lock_ordered ks)"
proof (cases "seller < buyer")
  case True
  show ?thesis
    unfolding BuyListedBet_pay_def Let_def case_prod_beta if_P [OF True] fst_conv snd_conv
    by (intro holds_rules holds_if) (use True assms in \<open>simp_all\<close>)
next
  case False
  then have "buyer < seller" using assms by simp
  then show ?thesis
    unfolding BuyListedBet_pay_def Let_def case_prod_beta if_not_P [OF False] fst_conv snd_conv
    by (intro holds_rules holds_if) (use assms in \<open>simp_all\<close>)
qed

lemma BuyListedBet_tx_locks: "holds [] (BuyListedBet_tx lid buyer) (\<lambda>_ ks. lock_ordered ks)"
proof -
  have pay: "holds [LMarket mid, LListing lid, LBet bid]
      (seqE (BuyListedBet_pay lid bid seller buyer price) (ret x)) (\<lambda>_ ks. lock_ordered ks)"
    if "seller \<noteq> buyer" for mid bid seller price and x :: "sale option"
    by (rule holds_seq [OF BuyListedBet_pay_locks [OF that]]) (rule holds_ret)
  show ?thesis
    unfolding BuyListedBet_tx_def
    by (intro holds_rules holds_if) (auto intro!: holds_rules holds_if pay)
qed

lemma ListBetForSale_tx_locks:
  "holds [] (ListBetForSale_tx bid seller price) (\<lambda>_ ks. lock_ordered ks)"
proof -
  have ins: "holds ls (seqE (on_error (exec (\<lambda>_. []) u)
        (\<lambda>err. if isUniqueViolation err then throw ErrBetAlreadyListed else throw err)) (ret x))
      (\<lambda>_ ks. lock_ordered ks)"
    if "lock_ordered ls" for ls u and x :: "uuid \<times> uuid \<times> string \<times> int"
    by (rule holds_seq [OF holds_on_error [OF holds_exec [OF that]]])
       (auto simp: that intro: holds_throw holds_ret)
  show ?thesis
    unfolding ListBetForSale_tx_def
    by (intro holds_rules holds_if) (auto intro!: holds_rules holds_if ins)
qed

lemma CancelListing_tx_locks: "holds [] (CancelListing_tx lid seller) (\<lambda>_ ks. lock_ordered ks)"
  unfolding CancelListing_tx_def
  by (intro holds_rules holds_if) (auto intro!: holds_rules holds_if)

end
