(* ===== verification/Bet_Engine.thy ===== *)
theory Bet_Engine
  imports Bet_Handlers Bet_Listing_Correct
begin

text \<open>
  The engine as a whole. Every operation keeps one contract, stated as a locale: an error
  leaves the tables alone, a success keeps the invariant. A second contract adds what the
  operation does to the total of money. Both are discharged for each operation of the
  service, and for the engine that runs any of them.
\<close>

section \<open>The contracts\<close>

locale engine_op =
  fixes op :: "'p \<Rightarrow> 'r bet_io"
  assumes op_atomic: "inv (tabs w) \<Longrightarrow> op p w = (Inl e, w') \<Longrightarrow> tabs w' = tabs w"
    and op_inv: "inv (tabs w) \<Longrightarrow> op p w = (Inr x, w') \<Longrightarrow> inv (tabs w')"
begin

lemma op_keeps_inv: "inv (tabs w) \<Longrightarrow> inv (tabs (snd (op p w)))"
proof -
  assume i: "inv (tabs w)"
  obtain r w' where r: "op p w = (r, w')" by force
  then show ?thesis using op_atomic [OF i] op_inv [OF i] i by (cases r) simp_all
qed

text \<open>A batch of calls, their errors ignored.\<close>

definition run_each :: "'p list \<Rightarrow> bet_world \<Rightarrow> bet_world" where
  "run_each ps w = fold (\<lambda>p w. snd (op p w)) ps w"

lemma run_each_inv: "inv (tabs w) \<Longrightarrow> inv (tabs (run_each ps w))"
  unfolding run_each_def by (induction ps arbitrary: w) (auto intro: op_keeps_inv)

end

locale money_op = engine_op op for op :: "'p \<Rightarrow> 'r bet_io" +
  fixes safe :: "'p \<Rightarrow> db \<Rightarrow> bool" and flow :: "'p \<Rightarrow> int"
  assumes op_flow: "inv (tabs w) \<Longrightarrow> safe p (tabs w) \<Longrightarrow> op p w = (Inr x, w') \<Longrightarrow>
    total_money (tabs w') = total_money (tabs w) + flow p"
begin

lemma op_money: "inv (tabs w) \<Longrightarrow> safe p (tabs w) \<Longrightarrow> op p w = (r, w') \<Longrightarrow>
    total_money (tabs w') = total_money (tabs w) + (case r of Inl _ \<Rightarrow> 0 | Inr _ \<Rightarrow> flow p)"
  by (cases r) (auto dest: op_atomic op_flow)

end

text \<open>An operation that only moves money.\<close>

locale conserving_op = engine_op op for op :: "'p \<Rightarrow> 'r bet_io" +
  fixes safe :: "'p \<Rightarrow> db \<Rightarrow> bool"
  assumes op_conserves: "inv (tabs w) \<Longrightarrow> safe p (tabs w) \<Longrightarrow> op p w = (Inr x, w') \<Longrightarrow>
    total_money (tabs w') = total_money (tabs w)"

sublocale conserving_op \<subseteq> money_op op safe "\<lambda>_. 0"
  by unfold_locales (simp add: op_conserves)


section \<open>The operations' effects\<close>

lemma PlaceBet_effect:
  assumes "PlaceBet u m out s w = (Inr b, w')" and "inv (tabs w)"
  shows "inv (tabs w')" and "total_money (tabs w') = total_money (tabs w)"
    and "bet_placed u m out s (Bet_ID b) (tabs w) (tabs w')"
proof -
  obtain w1 w2 where w: "tabs w1 = tabs w" "PlaceBet_tx u m out s w1 = (Inr (Bet_ID b), w2)"
      "tabs w' = tabs w2"
    using PlaceBet_Inr(2) [OF assms(1)] by blast
  note e = PlaceBet_tx_effect [OF w(2) _ PlaceBet_Inr(1) [OF assms(1)], unfolded w(1), OF assms(2)]
  show "inv (tabs w')" "total_money (tabs w') = total_money (tabs w)"
    "bet_placed u m out s (Bet_ID b) (tabs w) (tabs w')"
    unfolding w(3) using e by blast+
qed

lemma CreateMarket_effect:
  assumes "CreateMarket q outs seed w = (Inr x, w')" and "inv (tabs w)"
  shows "inv (tabs w')"
    and "total_money (tabs w') = total_money (tabs w) + seed * int (length outs) - seed_debit seed outs"
    and "\<exists>m. select_market (Market_ID x) (tabs w') = Some m \<and> Market_Status m = StatusOpen \<and>
           Market_Outcomes m = outs \<and> Market_Seed m = seed \<and> Market_Question m = q"
    and "balance_of (tabs w') i = map_option
           (\<lambda>b. if i = HouseUserID then b - seed_debit seed outs else b) (balance_of (tabs w) i)"
proof -
  obtain w1 w2 where w: "tabs w1 = tabs w" "CreateMarket_tx q outs seed w1 = (Inr (Market_ID x), w2)"
      "tabs w' = tabs w2"
    using CreateMarket_Inr(3) [OF assms(1)] by blast
  have "outs \<noteq> []" using CreateMarket_Inr(1) [OF assms(1)] by auto
  note e = CreateMarket_tx_effect [OF w(2) _ this, unfolded w(1), OF assms(2)]
  show "inv (tabs w')"
    "total_money (tabs w') = total_money (tabs w) + seed * int (length outs) - seed_debit seed outs"
    "\<exists>m. select_market (Market_ID x) (tabs w') = Some m \<and> Market_Status m = StatusOpen \<and>
           Market_Outcomes m = outs \<and> Market_Seed m = seed \<and> Market_Question m = q"
    "balance_of (tabs w') i = map_option
           (\<lambda>b. if i = HouseUserID then b - seed_debit seed outs else b) (balance_of (tabs w) i)"
    unfolding w(3) using e by blast+
qed

lemma LockMarket_effect:
  assumes "LockMarket mid w = (Inr x, w')" and "inv (tabs w)"
  shows "inv (tabs w')" and "total_money (tabs w') = total_money (tabs w)"
    and "\<exists>m. select_market mid (tabs w) = Some m \<and> Market_Status m = StatusOpen \<and>
           select_market mid (tabs w') = Some (m\<lparr>Market_Status := StatusLocked\<rparr>)"
    and "users (tabs w') = users (tabs w)" and "bets (tabs w') = bets (tabs w)"
    and "\<forall>l \<in> set (bet_listings (tabs w')). Listing_MarketID l = mid \<longrightarrow>
           Listing_Status l \<noteq> ListingStatusListed"
proof -
  obtain w1 w2 where w: "tabs w1 = tabs w" "LockMarket_tx mid w1 = (Inr (), w2)" "tabs w' = tabs w2"
    using LockMarket_Inr [OF assms(1)] by blast
  note e = LockMarket_tx_effect [OF w(2), unfolded w(1), OF assms(2)]
  show "inv (tabs w')" "total_money (tabs w') = total_money (tabs w)"
    "\<exists>m. select_market mid (tabs w) = Some m \<and> Market_Status m = StatusOpen \<and>
           select_market mid (tabs w') = Some (m\<lparr>Market_Status := StatusLocked\<rparr>)"
    "users (tabs w') = users (tabs w)" "bets (tabs w') = bets (tabs w)"
    "\<forall>l \<in> set (bet_listings (tabs w')). Listing_MarketID l = mid \<longrightarrow>
           Listing_Status l \<noteq> ListingStatusListed"
    unfolding w(3) using e by blast+
qed

lemma RefundMarketInternal_effect:
  assumes "RefundMarketInternal mid w = (Inr x, w')" and "inv (tabs w)"
  shows "inv (tabs w')" and "total_money (tabs w') = total_money (tabs w)"
    and "settled (map bet_credit (bets_of mid (tabs w))) mid
           (\<lambda>m. m\<lparr>Market_Status := StatusCancelled\<rparr>) (tabs w) (tabs w')"
proof -
  obtain w1 w2 where w: "tabs w1 = tabs w" "RefundMarketInternal_tx mid w1 = (Inr (), w2)"
      "tabs w' = tabs w2"
    using RefundMarketInternal_Inr [OF assms(1)] by blast
  note e = RefundMarketInternal_tx_effect [OF w(2), unfolded w(1), OF assms(2)]
  show "inv (tabs w')" "total_money (tabs w') = total_money (tabs w)"
    "settled (map bet_credit (bets_of mid (tabs w))) mid
           (\<lambda>m. m\<lparr>Market_Status := StatusCancelled\<rparr>) (tabs w) (tabs w')"
    unfolding w(3) using e by blast+
qed

lemma ListBetForSale_effect:
  assumes "ListBetForSale bid seller price w = (Inr x, w')" and "inv (tabs w)"
  shows "inv (tabs w')" and "total_money (tabs w') = total_money (tabs w)"
    and "\<exists>l b. bet_listings (tabs w') = bet_listings (tabs w) @ [l] \<and>
           Listing_BetID l = bid \<and> Listing_SellerID l = seller \<and> Listing_AskingPrice l = price \<and>
           Listing_Status l = ListingStatusListed \<and>
           select_bet bid (tabs w) = Some b \<and> Bet_UserID b = seller \<and>
           Bet_MarketID b = Listing_MarketID l \<and> bid \<notin> set (listed_bets (tabs w))"
    and "seller \<noteq> HouseUserID" and "0 < price"
proof -
  show "0 < price" using ListBetForSale_Inr [OF assms(1)] by blast
  obtain w1 w2 lid mid out st where w: "tabs w1 = tabs w"
      "ListBetForSale_tx bid seller price w1 = (Inr (lid, mid, out, st), w2)" "tabs w' = tabs w2"
    using ListBetForSale_Inr [OF assms(1)] by blast
  note e = ListBetForSale_tx_effect [OF w(2), unfolded w(1), OF assms(2)]
  show "inv (tabs w')" "total_money (tabs w') = total_money (tabs w)" "seller \<noteq> HouseUserID"
    "\<exists>l b. bet_listings (tabs w') = bet_listings (tabs w) @ [l] \<and>
           Listing_BetID l = bid \<and> Listing_SellerID l = seller \<and> Listing_AskingPrice l = price \<and>
           Listing_Status l = ListingStatusListed \<and>
           select_bet bid (tabs w) = Some b \<and> Bet_UserID b = seller \<and>
           Bet_MarketID b = Listing_MarketID l \<and> bid \<notin> set (listed_bets (tabs w))"
    unfolding w(3) using e by blast+
qed

lemma CancelListing_effect:
  assumes "CancelListing lid seller w = (Inr x, w')" and "inv (tabs w)"
  shows "inv (tabs w')" and "total_money (tabs w') = total_money (tabs w)"
    and "\<exists>l t. select_listing lid (tabs w) = Some l \<and> Listing_SellerID l = seller \<and>
           Listing_Status l = ListingStatusListed \<and>
           select_listing lid (tabs w') = Some (l\<lparr>Listing_Status := ListingStatusCancelled,
             Listing_CancelledAt := Some t\<rparr>)"
proof -
  obtain w1 w2 where w: "tabs w1 = tabs w" "CancelListing_tx lid seller w1 = (Inr (), w2)"
      "tabs w' = tabs w2"
    using CancelListing_Inr [OF assms(1)] by blast
  note e = CancelListing_tx_effect [OF w(2), unfolded w(1), OF assms(2)]
  show "inv (tabs w')" "total_money (tabs w') = total_money (tabs w)"
    "\<exists>l t. select_listing lid (tabs w) = Some l \<and> Listing_SellerID l = seller \<and>
           Listing_Status l = ListingStatusListed \<and>
           select_listing lid (tabs w') = Some (l\<lparr>Listing_Status := ListingStatusCancelled,
             Listing_CancelledAt := Some t\<rparr>)"
    unfolding w(3) using e by blast+
qed

lemma BuyListedBet_effect:
  assumes "BuyListedBet lid buyer w = (Inr x, w')" and "inv (tabs w)"
  shows "inv (tabs w')" and "total_money (tabs w') = total_money (tabs w)"
    and "\<exists>s. sold lid buyer s (tabs w) (tabs w') \<and> sale_sellerID s \<noteq> HouseUserID"
proof -
  obtain s w1 w2 where w: "tabs w1 = tabs w" "BuyListedBet_tx lid buyer w1 = (Inr (Some s), w2)"
      "tabs w' = tabs w2"
    using BuyListedBet_Inr [OF assms(1)] by blast
  note e = BuyListedBet_tx_effect [OF w(2), unfolded w(1), OF assms(2)]
  show "inv (tabs w')" "total_money (tabs w') = total_money (tabs w)"
    "\<exists>s. sold lid buyer s (tabs w) (tabs w') \<and> sale_sellerID s \<noteq> HouseUserID"
    unfolding w(3) using e by blast+
qed

lemma AdjustBalance_effect:
  assumes "AdjustBalance u delta w = (Inr nb, w')" and "inv (tabs w)"
  shows "inv (tabs w')" and "only_users (tabs w) (tabs w')"
    and "\<exists>b. balance_of (tabs w) u = Some b \<and> nb = i64 (b + delta) \<and> 0 \<le> nb \<and>
          total_money (tabs w') = total_money (tabs w) + nb - b"
    and "balance_of (tabs w') i = (if i = u then Some nb else balance_of (tabs w) i)"
proof -
  obtain w1 w2 where w: "tabs w1 = tabs w" "AdjustBalance_tx u delta w1 = (Inr nb, w2)"
      "tabs w' = tabs w2"
    using AdjustBalance_Inr [OF assms(1)] by blast
  note e = AdjustBalance_tx_effect [OF w(2), unfolded w(1), OF assms(2)]
  show "inv (tabs w')" "only_users (tabs w) (tabs w')"
    "balance_of (tabs w') i = (if i = u then Some nb else balance_of (tabs w) i)"
    unfolding w(3) using e by blast+
  show "\<exists>b. balance_of (tabs w) u = Some b \<and> nb = i64 (b + delta) \<and> 0 \<le> nb \<and>
          total_money (tabs w') = total_money (tabs w) + nb - b"
    using e(3) only_users_eqs(2) [OF e(2)] by (auto simp: total_money_def w(3))
qed


section \<open>Every operation keeps them\<close>

interpretation create: money_op "\<lambda>(q, outs, seed). CreateMarket q outs seed"
  "\<lambda>(q, outs, seed) d. seed * int (length outs) \<le> 9223372036854775807" "\<lambda>_. 0"
proof (unfold_locales, goal_cases)
  case (3 w p x w')
  obtain q outs seed where p: "p = (q, outs, seed)" by (cases p)
  have "seed_debit seed outs = seed * int (length outs)"
    using 3(2) CreateMarket_Inr(2) 3(3) by (auto simp: p seed_debit_def i64_bounded)
  then show ?case using CreateMarket_effect(2) [OF 3(3) [unfolded p case_prod_conv] 3(1)] by simp
qed (auto split: prod.splits dest: CreateMarket_Inl CreateMarket_effect(1))

interpretation bet: conserving_op "\<lambda>(u, m, out, s). PlaceBet u m out s" "\<lambda>_ _. True"
  by unfold_locales (auto split: prod.splits dest: PlaceBet_Inl PlaceBet_effect(1,2))

interpretation lockm: conserving_op LockMarket "\<lambda>_ _. True"
  by unfold_locales (auto dest: LockMarket_Inl LockMarket_effect(1,2))

interpretation refund: conserving_op RefundMarketInternal "\<lambda>_ _. True"
  by unfold_locales (auto dest: RefundMarketInternal_Inl RefundMarketInternal_effect(1,2))

interpretation cancelm: conserving_op CancelMarket "\<lambda>_ _. True"
  by unfold_locales
    (auto simp: CancelMarket_def dest: RefundMarketInternal_Inl RefundMarketInternal_effect(1,2))

interpretation resolve: conserving_op "\<lambda>(m, out). ResolveMarket m out"
  "\<lambda>(m, out) d. fits (staked_market d m)"
  by unfold_locales (auto split: prod.splits dest: ResolveMarket_Inl ResolveMarket_effect(1,2))

interpretation listing: conserving_op "\<lambda>(b, u, p). ListBetForSale b u p" "\<lambda>_ _. True"
  by unfold_locales (auto split: prod.splits dest: ListBetForSale_Inl ListBetForSale_effect(1,2))

interpretation unlist: conserving_op "\<lambda>(l, u). CancelListing l u" "\<lambda>_ _. True"
  by unfold_locales (auto split: prod.splits dest: CancelListing_Inl CancelListing_effect(1,2))

interpretation buy: conserving_op "\<lambda>(l, u). BuyListedBet l u" "\<lambda>_ _. True"
  by unfold_locales (auto split: prod.splits dest: BuyListedBet_Inl BuyListedBet_effect(1,2))

interpretation adjust: money_op "\<lambda>(u, delta). AdjustBalance u delta"
  "\<lambda>(u, delta) d. \<forall>b. balance_of d u = Some b \<longrightarrow> in_int64 (b + delta)" snd
proof (unfold_locales, goal_cases)
  case (3 w p x w')
  obtain u delta where p: "p = (u, delta)" by (cases p)
  show ?case
    using AdjustBalance_effect(3) [OF 3(3) [unfolded p case_prod_conv] 3(1)] 3(2)
    by (auto simp: p i64_simps)
qed (auto split: prod.splits dest: AdjustBalance_Inl AdjustBalance_effect(1))

end
