(* ===== verification/Bet_System.thy ===== *)
theory Bet_System
  imports Bet_Engine
begin

text \<open>
  The engine as a transition system: one step per call, in any order, with any arguments,
  with any fault plan and uuid source the world may have, from the database the migrations
  leave. The invariant holds in every reachable state, and the money in the engine is the
  house's capital plus what came in from outside.
\<close>

section \<open>Calls\<close>

datatype engine_call =
    CallSync uuid int
  | CallAdjust uuid int
  | CallCreate string "string list" int
  | CallBet uuid uuid string int
  | CallLock uuid
  | CallResolve uuid string
  | CallCancel uuid
  | CallList uuid uuid int
  | CallUnlist uuid uuid
  | CallBuy uuid uuid
  | CallOdds uuid

definition void :: "'a bet_io \<Rightarrow> unit bet_io" where
  "void m = seqE m (ret ())"

fun do_call :: "engine_call \<Rightarrow> unit bet_io" where
  "do_call (CallSync u b) = SyncUser_exec u b"
| "do_call (CallAdjust u d) = void (AdjustBalance u d)"
| "do_call (CallCreate q outs seed) = void (CreateMarket q outs seed)"
| "do_call (CallBet u m out s) = void (PlaceBet u m out s)"
| "do_call (CallLock m) = LockMarket m"
| "do_call (CallResolve m out) = ResolveMarket m out"
| "do_call (CallCancel m) = CancelMarket m"
| "do_call (CallList b u p) = void (ListBetForSale b u p)"
| "do_call (CallUnlist l u) = CancelListing l u"
| "do_call (CallBuy l u) = void (BuyListedBet l u)"
| "do_call (CallOdds m) = void (CalculateAndCacheOdds m)"

lemma void_Inr: "void m w = (Inr x, w') \<longleftrightarrow> (\<exists>y. m w = (Inr y, w'))"
  by (auto simp: void_def io_inv)

lemma void_Inl: "void m w = (Inl e, w') \<longleftrightarrow> m w = (Inl e, w')"
  by (auto simp: void_def io_inv)

text \<open>The upsert: an existing user's balance is set, a new user appended.\<close>

lemma upsert_user_step:
  assumes "upsert_user u b t d = Inr d'" and "inv d"
  shows "inv d'" and "escrow d' = escrow d"
    and "balance_of d' i = (if i = u then Some b else balance_of d i)"
    and "users_total d' = users_total d + b - (case balance_of d u of None \<Rightarrow> 0 | Some x \<Rightarrow> x)"
proof -
  have b: "in_int64 b" "0 \<le> b" using assms(1) by (auto simp: upsert_user_def split: if_splits)
  have wf: "wf_users d" using assms(2) by (simp add: inv_def)
  have all: "inv d' \<and> escrow d' = escrow d \<and> (\<forall>i. balance_of d' i = (if i = u then Some b else balance_of d i)) \<and>
      users_total d' = users_total d + b - (case balance_of d u of None \<Rightarrow> 0 | Some x \<Rightarrow> x)"
  proof (cases "user_exists d u")
    case True
    then have up: "update_balance (\<lambda>_. b) u d = Inr d'"
      using assms(1) by (auto simp: upsert_user_def split: if_splits)
    obtain x where x: "balance_of d u = Some x"
      using True balance_of_None [of d u] by (cases "balance_of d u") (auto simp: exists_ids)
    note s = update_balance_step [OF up wf]
    show ?thesis
      using only_users_inv [OF s(1) assms(2) s(2)] only_users_eqs(2) [OF s(1)] s(3)
        update_balance_total [OF up wf x] x by auto
  next
    case False
    then have new: "u \<notin> set (user_ids d)" by (simp add: exists_ids)
    have d': "d' = d\<lparr>users := users d @ [\<lparr>User_ID = u, User_Balance = b, User_CreatedAt = t\<rparr>]\<rparr>"
      using assms(1) False by (auto simp: upsert_user_def split: if_splits)
    have ids: "user_ids d' = user_ids d @ [u]" by (simp add: d' user_ids_def)
    have "wf_users d'" using wf new b by (auto simp: wf_users_def ids) (auto simp: d')
    moreover have "wf_bets d'" using assms(2) by (auto simp: inv_def wf_bets_def ids) (auto simp: d')
    moreover have "wf_listings d'"
      using assms(2) unfolding inv_def wf_listings_def wf_listing_def ids by (auto simp: d')
    moreover have "wf_markets d' \<and> wf_pools d' \<and> books d'"
      using assms(2) by (auto simp: inv_def wf_markets_def wf_pools_def books_def d')
    ultimately have "inv d'" by (simp add: inv_def)
    moreover have "balance_of d u = None" using new balance_of_None by simp
    moreover have "balance_of d' i = (if i = u then Some b else balance_of d i)" for i
      using \<open>balance_of d u = None\<close>
      by (auto simp: d' balance_of_def select_user_def find_append split: option.splits)
    moreover have "escrow d' = escrow d" by (simp add: d')
    moreover have "users_total d' = users_total d + b" by (simp add: d' users_total_def)
    ultimately show ?thesis by simp
  qed
  then show "inv d'" "escrow d' = escrow d" "balance_of d' i = (if i = u then Some b else balance_of d i)"
    "users_total d' = users_total d + b - (case balance_of d u of None \<Rightarrow> 0 | Some x \<Rightarrow> x)" by blast+
qed

lemma SyncUser_exec_Inr:
  "SyncUser_exec u b w = (Inr x, w') \<Longrightarrow> \<exists>t. upsert_user u b t (tabs w) = Inr (tabs w')"
  by (auto simp: SyncUser_exec_def io_inv dest!: op_dest)

lemma exec_InlD: "exec ls u w = (Inl e, w') \<Longrightarrow> tabs w' = tabs w"
  by (auto simp: exec_def stmt_def Let_def split: if_splits sum.splits)

lemma SyncUser_exec_Inl: "SyncUser_exec u b w = (Inl e, w') \<Longrightarrow> tabs w' = tabs w"
  by (auto simp: SyncUser_exec_def io_inv timeNow_def dest: exec_InlD)

lemma CalculateAndCacheOdds_tabs: "CalculateAndCacheOdds m w = (r, w') \<Longrightarrow> tabs w' = tabs w"
  using keepsD [OF keeps_CalculateAndCacheOdds [of "\<lambda>d. d = tabs w" m]] by blast

interpretation sync: engine_op "\<lambda>(u, b). SyncUser_exec u b"
  by unfold_locales (auto split: prod.splits dest: SyncUser_exec_Inl SyncUser_exec_Inr upsert_user_step(1))

interpretation engine: engine_op do_call
proof (unfold_locales, goal_cases)
  case (1 w c e w')
  then show ?case
    by (cases c)
      (auto simp: void_Inl CancelMarket_def dest: SyncUser_exec_Inl AdjustBalance_Inl CreateMarket_Inl
        PlaceBet_Inl LockMarket_Inl ResolveMarket_Inl RefundMarketInternal_Inl ListBetForSale_Inl
        CancelListing_Inl BuyListedBet_Inl CalculateAndCacheOdds_tabs)
next
  case (2 w c x w')
  then show ?case
    by (cases c)
      (auto simp: void_Inr CancelMarket_def dest!: SyncUser_exec_Inr CalculateAndCacheOdds_tabs
        dest: upsert_user_step(1) AdjustBalance_effect(1) CreateMarket_effect(1)
        PlaceBet_effect(1) LockMarket_effect(1) ResolveMarket_effect(1) RefundMarketInternal_effect(1)
        ListBetForSale_effect(1) CancelListing_effect(1) BuyListedBet_effect(1))
qed


section \<open>Reachable states\<close>

text \<open>
  \<open>env\<close> is everything that is not a call: time passes, the fault plan changes, Redis comes
  and goes, the process restarts.
\<close>

inductive engine_step :: "bet_world \<Rightarrow> bet_world \<Rightarrow> bool" where
  call: "do_call c w = (r, w') \<Longrightarrow> engine_step w w'"
| env: "tabs w' = tabs w \<Longrightarrow> engine_step w w'"

inductive reachable :: "bet_world \<Rightarrow> bool" where
  init: "tabs w = runMigrations t empty_db \<Longrightarrow> reachable w"
| step: "reachable w \<Longrightarrow> engine_step w w' \<Longrightarrow> reachable w'"

inductive_cases engine_stepE: "engine_step w w'"

lemma init_inv: "inv (runMigrations t empty_db)"
  by (simp add: runMigrations_def empty_db_def user_exists_def inv_def wf_users_def wf_markets_def
      wf_pools_def wf_bets_def books_def wf_listings_def user_ids_def market_ids_def pool_keys_def
      bet_ids_def listed_bets_def in_int64_def int64_min_def int64_max_def)

lemma engine_step_inv: "engine_step w w' \<Longrightarrow> inv (tabs w) \<Longrightarrow> inv (tabs w')"
proof (erule engine_stepE)
  fix c r
  assume "inv (tabs w)" "do_call c w = (r, w')"
  then show "inv (tabs w')" using engine.op_keeps_inv [of w c] by simp
qed simp

lemma inv_reachable: "reachable w \<Longrightarrow> inv (tabs w)"
  by (induction rule: reachable.induct) (auto simp: init_inv intro: engine_step_inv)


section \<open>The ledger\<close>

text \<open>
  \<open>accounted k w\<close>: \<open>k\<close> is the house's capital plus what synchronisations and
  adjustments brought in or took out on the way to \<open>w\<close>. The side conditions are where
  the engine's \<open>int64\<close> products and sums stay in range.
\<close>

fun in_range :: "engine_call \<Rightarrow> db \<Rightarrow> bool" where
  "in_range (CallAdjust u delta) d = (case balance_of d u of None \<Rightarrow> True | Some b \<Rightarrow> in_int64 (b + delta))"
| "in_range (CallCreate q outs seed) d = (seed * int (length outs) \<le> 9223372036854775807)"
| "in_range (CallResolve m out) d = fits (staked_market d m)"
| "in_range _ _ = True"

fun brought :: "engine_call \<Rightarrow> db \<Rightarrow> int" where
  "brought (CallSync u b) d = b - (case balance_of d u of None \<Rightarrow> 0 | Some x \<Rightarrow> x)"
| "brought (CallAdjust u delta) d = delta"
| "brought _ _ = 0"

inductive accounted :: "int \<Rightarrow> bet_world \<Rightarrow> bool" where
  init: "tabs w = runMigrations t empty_db \<Longrightarrow> accounted 1000000000000 w"
| env: "accounted k w \<Longrightarrow> tabs w' = tabs w \<Longrightarrow> accounted k w'"
| failed: "accounted k w \<Longrightarrow> do_call c w = (Inl e, w') \<Longrightarrow> accounted k w'"
| completed: "accounted k w \<Longrightarrow> in_range c (tabs w) \<Longrightarrow> do_call c w = (Inr x, w') \<Longrightarrow>
    accounted (k + brought c (tabs w)) w'"

lemma do_call_money:
  assumes "do_call c w = (Inr x, w')" and "inv (tabs w)" and "in_range c (tabs w)"
  shows "total_money (tabs w') = total_money (tabs w) + brought c (tabs w)"
proof (cases c)
  case (CallSync u b)
  then obtain t where "upsert_user u b t (tabs w) = Inr (tabs w')"
    using assms(1) SyncUser_exec_Inr by fastforce
  from upsert_user_step [OF this assms(2)] show ?thesis by (simp add: CallSync total_money_def)
next
  case (CallAdjust u delta)
  then obtain nb where nb: "AdjustBalance u delta w = (Inr nb, w')" using assms(1) by (auto simp: void_Inr)
  show ?thesis using AdjustBalance_effect(3) [OF nb assms(2)] assms(3) by (auto simp: CallAdjust i64_simps)
next
  case (CallCreate q outs seed)
  then show ?thesis
    using assms create.op_flow [of w "(q, outs, seed)"] by (auto simp: void_Inr)
next
  case (CallOdds m)
  then show ?thesis using assms(1) by (auto simp: void_Inr dest!: CalculateAndCacheOdds_tabs)
qed (use assms in \<open>auto simp: void_Inr CancelMarket_def dest: PlaceBet_effect(2) LockMarket_effect(2)
  ResolveMarket_effect(2) RefundMarketInternal_effect(2) ListBetForSale_effect(2)
  CancelListing_effect(2) BuyListedBet_effect(2)\<close>)

lemma init_money: "total_money (runMigrations t empty_db) = 1000000000000"
  by (simp add: runMigrations_def empty_db_def user_exists_def total_money_def users_total_def escrow_def)

lemma accounted_money: "accounted k w \<Longrightarrow> inv (tabs w) \<and> total_money (tabs w) = k"
proof (induction rule: accounted.induct)
  case (failed k w c e w')
  then show ?case using engine.op_atomic by metis
next
  case (completed k w c x w')
  then show ?case using engine.op_inv [of w c x w'] do_call_money [of c w x w'] by simp
qed (simp_all add: init_inv init_money)

end
