(* ===== verification/Bet_Reads.thy ===== *)
theory Bet_Reads
  imports Bet_System
begin

text \<open>
  What the market page is told: under the invariant the pools and the total that
  \<open>GetMarketDetails\<close> reports are the stakes on the books, and an outcome's odds are the
  total over its pool, rounded once.
\<close>

lemma pool_loop_total:
  "i64 (snd (pool_loop rs ps t)) = i64 (t + sum_list (map Pool_Total rs))"
  by (induction rs arbitrary: ps t) (simp_all add: algebra_simps)

lemma pool_loop_total_exact:
  assumes "\<forall>p \<in> set rs. 0 \<le> Pool_Total p" and "0 \<le> t"
    and "t + sum_list (map Pool_Total rs) \<le> 9223372036854775807"
  shows "snd (pool_loop rs ps t) = t + sum_list (map Pool_Total rs)"
  using assms
proof (induction rs arbitrary: ps t)
  case (Cons p rs)
  have "0 \<le> sum_list (map Pool_Total rs)" using Cons.prems(1) by (intro sum_list_nonneg) auto
  then show ?case using Cons by (simp add: i64_bounded)
qed simp

lemma pool_loop_absent:
  "out \<notin> Pool_Outcome ` set rs \<Longrightarrow> map_of (fst (pool_loop rs ps t)) out = map_of ps out"
  by (induction rs arbitrary: ps t) (simp_all add: update_conv)

lemma pool_loop_present:
  "distinct (map Pool_Outcome rs) \<Longrightarrow> p \<in> set rs \<Longrightarrow> Pool_Outcome p = out \<Longrightarrow>
     map_of (fst (pool_loop rs ps t)) out = Some (Pool_Total p)"
  by (induction rs arbitrary: ps t) (auto simp: pool_loop_absent update_conv)

lemma pool_loop_distinct:
  "distinct (map fst ps) \<Longrightarrow> distinct (map fst (fst (pool_loop rs ps t)))"
  by (induction rs arbitrary: ps t) (simp_all add: distinct_update)

lemma pool_loop_keys:
  "fst ` set (fst (pool_loop rs ps t)) = fst ` set ps \<union> Pool_Outcome ` set rs"
proof (induction rs arbitrary: ps t)
  case (Cons r rs)
  have "fst ` set (AList.update (Pool_Outcome r) (Pool_Total r) ps) = insert (Pool_Outcome r) (fst ` set ps)"
    by (induction ps) auto
  then show ?case using Cons by auto
qed simp

definition details_init :: "string list \<Rightarrow> (string \<times> int) list" where
  "details_init outs = fold (\<lambda>outcome ps. AList.update outcome 0 ps) outs []"

lemma details_init:
  shows "distinct (map fst (details_init outs))" and "fst ` set (details_init outs) = set outs"
proof -
  have k: "fst ` set (AList.update k v al) = insert k (fst ` set al)" for k :: string and v :: int and al
    by (induction al) auto
  have "distinct (map fst (fold (\<lambda>out ps. AList.update out 0 ps) outs al)) \<and>
      fst ` set (fold (\<lambda>out ps. AList.update out 0 ps) outs al) = set outs \<union> fst ` set al"
    if "distinct (map fst al)" for al :: "(string \<times> int) list"
    using that by (induction outs arbitrary: al) (auto simp: distinct_update k)
  from this [of "[]"] show "distinct (map fst (details_init outs))"
    "fst ` set (details_init outs) = set outs" by (simp_all add: details_init_def)
qed

lemma GetMarketDetails_run:
  assumes "GetMarketDetails mid w = (Inr d, w')"
  shows "\<exists>m. select_market mid (tabs w) = Some m \<and> MD_ID d = Market_ID m \<and>
    MD_Outcomes d = Market_Outcomes m \<and> MD_Status d = Market_Status m \<and>
    MD_WinningOutcome d = Market_WinningOutcome m \<and>
    MD_Pools d = fst (pool_loop (pools_of mid (tabs w)) (details_init (Market_Outcomes m)) 0) \<and>
    MD_TotalPool d = snd (pool_loop (pools_of mid (tabs w)) (details_init (Market_Outcomes m)) 0) \<and>
    MD_LiveOdds d = live_odds (MD_TotalPool d) (MD_Pools d)"
  using assms unfolding GetMarketDetails_def Let_def case_prod_beta details_init_def
  by (auto simp: io_inv dest!: op_dest)

lemma pools_of_outcomes:
  assumes "inv d" and "select_market mid d = Some m"
  shows "Pool_Outcome ` set (pools_of mid d) = set (Market_Outcomes m)"
proof -
  have m: "m \<in> set (markets d)" "Market_ID m = mid"
    using find_key_Some [of Market_ID mid "markets d" m] assms(2) by (auto simp: select_market_def)
  then have "(mid, out) \<in> set (pool_keys d) \<longleftrightarrow> out \<in> set (Market_Outcomes m)" for out
    using assms(1) by (auto simp: inv_def wf_pools_def)
  then show ?thesis by (force simp: pools_of_def pool_keys_def)
qed

lemma GetMarketDetails_books:
  assumes "GetMarketDetails mid w = (Inr d, w')" and "inv (tabs w)"
    and "staked_market (tabs w) mid \<le> 9223372036854775807"
  shows "MD_TotalPool d = staked_market (tabs w) mid"
    and "out \<in> set (MD_Outcomes d) \<Longrightarrow> map_of (MD_Pools d) out = Some (staked (tabs w) mid out)"
    and "fst ` set (MD_Pools d) = set (MD_Outcomes d)" and "distinct (map fst (MD_Pools d))"
proof -
  obtain m where m: "select_market mid (tabs w) = Some m" "MD_Outcomes d = Market_Outcomes m"
    "MD_Pools d = fst (pool_loop (pools_of mid (tabs w)) (details_init (Market_Outcomes m)) 0)"
    "MD_TotalPool d = snd (pool_loop (pools_of mid (tabs w)) (details_init (Market_Outcomes m)) 0)"
    using GetMarketDetails_run [OF assms(1)] by blast
  have wf: "wf_pools (tabs w)" "wf_bets (tabs w)" "books (tabs w)"
    using assms(2) by (simp_all add: inv_def)
  note outs = pools_of_outcomes [OF assms(2) m(1)]
  have "\<forall>p \<in> set (pools_of mid (tabs w)). 0 \<le> Pool_Total p"
    using wf(1) by (auto simp: wf_pools_def pools_of_def)
  then show "MD_TotalPool d = staked_market (tabs w) mid"
    using pool_loop_total_exact [of "pools_of mid (tabs w)" 0] pools_sum_staked [OF wf, of mid] assms(3)
    by (simp add: m(4))
  show "fst ` set (MD_Pools d) = set (MD_Outcomes d)"
    by (simp add: m(2,3) pool_loop_keys details_init outs)
  show "distinct (map fst (MD_Pools d))" by (simp add: m(3) pool_loop_distinct details_init)
  show "map_of (MD_Pools d) out = Some (staked (tabs w) mid out)" if "out \<in> set (MD_Outcomes d)"
  proof -
    have "out \<in> Pool_Outcome ` set (pools_of mid (tabs w))"
      using that by (simp only: m(2) outs)
    then obtain p where p: "p \<in> set (pools_of mid (tabs w))" "Pool_Outcome p = out" by blast
    have "Pool_Total p = staked (tabs w) mid out"
      using p wf(3) by (auto simp: books_def pools_of_def)
    then show ?thesis
      using pool_loop_present [OF pools_of_distinct [OF wf(1)] p] by (simp add: m(3))
  qed
qed

text \<open>The odds, exact up to one rounding while the pot is below \<open>2^53\<close>.\<close>

definition odds_ok :: "int \<Rightarrow> int \<Rightarrow> float64 \<Rightarrow> bool" where
  "odds_ok t s x = (if s = 0 then x = 0
     else 1 \<le> x \<and> \<bar>x - of_int t / of_int s\<bar> \<le> of_int t / of_int s / 2 ^ 53)"

lemma odds_rounded:
  assumes "0 \<le> s" "s \<le> t" "t < 9007199254740992"
  shows "odds_ok t s (if 0 < t \<and> 0 < s then f64_div (f64_of_int t) (f64_of_int s) else 0)"
proof (cases "s = 0")
  case False
  then have s: "0 < s" "0 < t" "s < 9007199254740992" using assms by linarith+
  then have e: "f64_div (f64_of_int t) (f64_of_int s) = f64_round (of_int t / of_int s)"
    using assms(3) by (simp add: f64_div_def f64_of_int_exact)
  have "1 \<le> (of_int t / of_int s :: rat)" using s(1) assms(2) by simp
  then show ?thesis
    using s f64_round_ge_one [of "of_int t / of_int s"] f64_round_error [of "of_int t / of_int s"]
    by (simp add: odds_ok_def e)
qed (simp add: odds_ok_def)

lemma staked_le_market:
  assumes "inv d"
  shows "0 \<le> staked d mid out" and "staked d mid out \<le> staked_market d mid"
  using stakes_filter_le [OF bets_of_pos [OF assms], of "\<lambda>b. Bet_Outcome b = out" mid]
  by (simp_all add: staked_stakes winners_def stakes_of_market)

lemma GetMarketDetails_odds:
  assumes "GetMarketDetails mid w = (Inr d, w')" and "inv (tabs w)"
    and "staked_market (tabs w) mid < 9007199254740992"
  shows "map fst (MD_LiveOdds d) = map fst (MD_Pools d)"
    and "(out, x) \<in> set (MD_LiveOdds d) \<Longrightarrow>
           odds_ok (staked_market (tabs w) mid) (staked (tabs w) mid out) x"
proof -
  have b: "staked_market (tabs w) mid \<le> 9223372036854775807" using assms(3) by simp
  note books = GetMarketDetails_books [OF assms(1,2) b]
  have lo: "MD_LiveOdds d = live_odds (MD_TotalPool d) (MD_Pools d)"
    using GetMarketDetails_run [OF assms(1)] by blast
  show "map fst (MD_LiveOdds d) = map fst (MD_Pools d)"
    by (simp add: lo live_odds_def case_prod_beta o_def)
  assume "(out, x) \<in> set (MD_LiveOdds d)"
  then obtain s where s: "(out, s) \<in> set (MD_Pools d)"
      "x = (if 0 < staked_market (tabs w) mid \<and> 0 < s
            then f64_div (f64_of_int (staked_market (tabs w) mid)) (f64_of_int s) else 0)"
    by (auto simp: lo live_odds_def books(1))
  have "map_of (MD_Pools d) out = Some s" using s(1) books(4) by simp
  moreover have "out \<in> set (MD_Outcomes d)" using s(1) books(3) by force
  ultimately have "s = staked (tabs w) mid out" using books(2) by simp
  then show "odds_ok (staked_market (tabs w) mid) (staked (tabs w) mid out) x"
    using odds_rounded [OF staked_le_market [OF assms(2), of mid out] assms(3)] s(2) by (simp only:)
qed

end
