(* ===== verification/Bet_Demo.thy ===== *)
theory Bet_Demo
  imports Bet_Reads
begin

text \<open>
  A concrete run of the engine, the input of the witnesses: two users, a seeded market, two
  bets, a listing; then the same market locked. The tables are written out, and are those
  the calls produce.
\<close>

definition run_calls :: "engine_call list \<Rightarrow> bet_world \<Rightarrow> bet_world" where
  "run_calls cs w = fold (\<lambda>c w. snd (do_call c w)) cs w"

lemma reachable_run_calls: "reachable w \<Longrightarrow> reachable (run_calls cs w)"
proof (induction cs arbitrary: w)
  case (Cons c cs)
  have "reachable (snd (do_call c w))"
    by (rule reachable.step [OF Cons.prems], rule engine_step.call) (rule prod.collapse [symmetric])
  from Cons.IH [OF this] show ?case by (simp add: run_calls_def)
qed (simp add: run_calls_def)

text \<open>No driver faults, uuids \<open>u0\<close>, \<open>u1\<close>, ..., no Redis.\<close>

definition demo_world :: "nat \<Rightarrow> db \<Rightarrow> bet_world" where
  "demo_world n d = \<lparr>tabs = d, faults = [], uuid_src = (\<lambda>n. CHR ''u'' # nat_text n), uuid_ctr = n,
     locks = [], clock = 0, RDB = None\<rparr>"

definition demo_user :: "uuid \<Rightarrow> int \<Rightarrow> User" where
  "demo_user i b = \<lparr>User_ID = i, User_Balance = b, User_CreatedAt = 0\<rparr>"

definition demo_market :: "MarketStatus \<Rightarrow> Market" where
  "demo_market s = \<lparr>Market_ID = ''u0'', Market_Question = ''q'', Market_Outcomes = [''yes'', ''no''],
     Market_Status = s, Market_Seed = 100, Market_WinningOutcome = None, Market_CreatedAt = 0\<rparr>"

definition demo_bet :: "uuid \<Rightarrow> uuid \<Rightarrow> string \<Rightarrow> int \<Rightarrow> Bet" where
  "demo_bet i u out s = \<lparr>Bet_ID = i, Bet_MarketID = ''u0'', Bet_UserID = u, Bet_OriginalUserID = u,
     Bet_Outcome = out, Bet_Stake = s, Bet_CreatedAt = 0\<rparr>"

definition demo_listing :: "BetListingStatus \<Rightarrow> time option \<Rightarrow> BetListing" where
  "demo_listing s t = \<lparr>Listing_ID = ''u5'', Listing_BetID = ''u3'', Listing_MarketID = ''u0'',
     Listing_SellerID = ''a'', Listing_BuyerID = None, Listing_AskingPrice = 50, Listing_Status = s,
     Listing_CreatedAt = 0, Listing_SoldAt = None, Listing_CancelledAt = t\<rparr>"

definition demo_db :: "MarketStatus \<Rightarrow> BetListing list \<Rightarrow> db" where
  "demo_db s ls = \<lparr>users = [demo_user HouseUserID 999999999800, demo_user ''a'' 800, demo_user ''b'' 350],
     markets = [demo_market s],
     pools = [\<lparr>Pool_MarketID = ''u0'', Pool_Outcome = ''yes'', Pool_Total = 300\<rparr>,
              \<lparr>Pool_MarketID = ''u0'', Pool_Outcome = ''no'', Pool_Total = 250\<rparr>],
     bets = [demo_bet ''u1'' HouseUserID ''yes'' 100, demo_bet ''u2'' HouseUserID ''no'' 100,
             demo_bet ''u3'' ''a'' ''yes'' 200, demo_bet ''u4'' ''b'' ''no'' 150],
     bet_listings = ls\<rparr>"

definition demo_start :: bet_world where
  "demo_start = demo_world 0 (runMigrations 0 empty_db)"

definition demo_open :: bet_world where
  "demo_open = demo_world 5 (demo_db StatusOpen [])"

definition demo_listed :: bet_world where
  "demo_listed = demo_world 6 (demo_db StatusOpen [demo_listing ListingStatusListed None])"

definition demo_locked :: bet_world where
  "demo_locked = demo_world 6 (demo_db StatusLocked [demo_listing ListingStatusCancelled (Some 0)])"

lemma demo_open_run: "tabs (run_calls [CallSync ''a'' 1000, CallSync ''b'' 500,
    CallCreate ''q'' [''yes'', ''no''] 100, CallBet ''a'' ''u0'' ''yes'' 200,
    CallBet ''b'' ''u0'' ''no'' 150] demo_start) = tabs demo_open"
  by code_simp

lemma demo_listed_run: "tabs (run_calls [CallList ''u3'' ''a'' 50] demo_open) = tabs demo_listed"
  by code_simp

lemma demo_locked_run: "tabs (run_calls [CallLock ''u0''] demo_listed) = tabs demo_locked"
  by code_simp

lemma reachable_run_tabs:
  "reachable w \<Longrightarrow> tabs (run_calls cs w) = tabs w' \<Longrightarrow> reachable w'"
  by (rule reachable.step [OF reachable_run_calls], assumption, rule engine_step.env, rule sym)

lemma reachable_demo:
  "reachable demo_start" "reachable demo_open" "reachable demo_listed" "reachable demo_locked"
proof -
  show s: "reachable demo_start" by (rule reachable.init [of _ 0]) (simp add: demo_start_def demo_world_def)
  show o': "reachable demo_open" by (rule reachable_run_tabs [OF s demo_open_run])
  show l: "reachable demo_listed" by (rule reachable_run_tabs [OF o' demo_listed_run])
  show "reachable demo_locked" by (rule reachable_run_tabs [OF l demo_locked_run])
qed

lemmas inv_demo = reachable_demo [THEN inv_reachable]

lemma run_fst: "fst (m w) = r \<Longrightarrow> m w = (r, snd (m w))"
  by (cases "m w") simp

lemma run_eq: "fst (m w) = r \<Longrightarrow> snd (m w) = w' \<Longrightarrow> m w = (r, w')"
  by (cases "m w") simp

end
