(* ===== verification/Bet_Results.thy ===== *)
theory Bet_Results
  imports Bet_Demo
begin

text \<open>
  What a bet returns when the driver does not fail: the guards decide, in the code's order,
  and a bet that passes them is accepted. The lemmas say that each statement succeeds where
  the schema allows it.
\<close>

section \<open>Statements that succeed\<close>

lemma stmt_nofault: "faults w = [] \<Longrightarrow> stmt m w = m w"
  by (cases w) (simp add: stmt_def)

lemma if_ok_publish: "\<exists>w'. if_ok m (\<lambda>d. PublishMarketUpdate i t (p d)) w = (Inr (), w')"
  by (rule if_ok_Inr) (rule Publish_Inr)

lemma update_balance_ok:
  assumes "wf_users d" and "balance_of d u = Some b" and "0 \<le> g b" and "in_int64 (g b)"
  shows "\<exists>d'. update_balance g u d = Inr d'"
proof -
  have "User_Balance x = b" if "x \<in> set (users d)" "User_ID x = u" for x
  proof -
    have "find (\<lambda>x. User_ID x = u) (users d) = Some x"
      using assms(1) that by (intro find_key_unique) (auto simp: wf_users_def user_ids_def)
    then show ?thesis using assms(2) by (simp add: balance_of_def select_user_def)
  qed
  then show ?thesis using assms(3,4) by (auto simp: update_balance_def list_ex_iff)
qed

lemma update_pool_ok:
  assumes "inv d" and "(mid, out) \<in> set (pool_keys d)" and "0 \<le> s"
    and "staked d mid out + s \<le> 9223372036854775807"
  shows "\<exists>d'. update_pool s mid out d = Inr d'"
proof -
  have "Pool_Total p = staked d mid out \<and> 0 \<le> Pool_Total p"
    if "p \<in> set (pools d)" "Pool_MarketID p = mid" "Pool_Outcome p = out" for p
    using assms(1) that by (auto simp: inv_def books_def wf_pools_def)
  then show ?thesis
    using assms(3,4)
    by (force simp: update_pool_def Let_def list_ex_iff in_int64_def int64_min_def int64_max_def)
qed

lemma insert_bet_ok:
  assumes "char_count (Bet_Outcome b) \<le> 100" "in_int64 (Bet_Stake b)" "0 < Bet_Stake b"
    "Bet_ID b \<notin> set (bet_ids d)" "Bet_MarketID b \<in> set (market_ids d)"
    "Bet_UserID b \<in> set (user_ids d)" "Bet_OriginalUserID b \<in> set (user_ids d)"
  shows "insert_bet b d = Inr (d\<lparr>bets := bets d @ [b]\<rparr>)"
  using assms by (simp add: insert_bet_def exists_ids)


section \<open>The result of a bet\<close>

definition PlaceBet_refusal :: "uuid \<Rightarrow> uuid \<Rightarrow> string \<Rightarrow> int \<Rightarrow> db \<Rightarrow> bet_error option" where
  "PlaceBet_refusal userID mid out stake d =
     (if stake \<le> 0 then Some (ErrNew ''stake must be greater than 0'')
      else (case select_market mid d of
        None \<Rightarrow> Some (ErrNew ''market not found'')
      | Some m \<Rightarrow>
          if Market_Status m \<noteq> StatusOpen then Some ErrMarketNotOpen
          else if out \<notin> set (Market_Outcomes m) then Some ErrInvalidOutcome
          else (case balance_of d userID of
            None \<Rightarrow> Some (ErrNew ''user not found'')
          | Some b \<Rightarrow> if b < stake then Some ErrInsufficientBalance else None)))"

text \<open>The next uuid is new and the pool has room: what a bet needs beyond its guards.\<close>

definition bet_room :: "bet_world \<Rightarrow> uuid \<Rightarrow> string \<Rightarrow> int \<Rightarrow> bool" where
  "bet_room w mid out stake \<longleftrightarrow> faults w = [] \<and> uuid_src w (uuid_ctr w) \<notin> set (bet_ids (tabs w)) \<and>
     char_count out \<le> 100 \<and> staked (tabs w) mid out + stake \<le> 9223372036854775807"

lemma run_tx_nofault_Inl:
  "faults w = [] \<Longrightarrow> fst (body (w\<lparr>locks := []\<rparr>)) = Inl e \<Longrightarrow> fst (run_tx body w) = Inl e"
  by (auto simp: run_tx_def run_tx_gen_def stmt_nofault ret_def split: prod.splits sum.splits)

lemma run_tx_nofault_Inr:
  "faults w = [] \<Longrightarrow> body (w\<lparr>locks := []\<rparr>) = (Inr x, w2) \<Longrightarrow> faults w2 = [] \<Longrightarrow>
     run_tx body w = (Inr x, w2)"
  by (auto simp: run_tx_def run_tx_gen_def stmt_nofault ret_def)

lemmas run_defs = bindE_def seqE_def no_rows_def on_error_def query_row_def query_row_for_def
  query_def exec_def stmt_nofault ret_def throw_def timeNow_def uuid_New_def

lemma PlaceBet_tx_refused:
  assumes "faults w = []" and "PlaceBet_refusal u mid out s (tabs w) = Some e" and "0 < s"
  shows "fst (PlaceBet_tx u mid out s w) = Inl e"
  using assms unfolding PlaceBet_refusal_def balance_of_def
  by (cases "select_market mid (tabs w)"; cases "select_user u (tabs w)")
    (auto simp: PlaceBet_tx_def run_defs split: if_splits)

lemma PlaceBet_tx_accepted:
  assumes "bet_room w mid out s" and "inv (tabs w)" and "PlaceBet_refusal u mid out s (tabs w) = None"
  shows "\<exists>w'. PlaceBet_tx u mid out s w = (Inr (uuid_src w (uuid_ctr w)), w') \<and> faults w' = []"
proof -
  let ?d = "tabs w"
  have room: "faults w = []" "uuid_src w (uuid_ctr w) \<notin> set (bet_ids ?d)" "char_count out \<le> 100"
    "staked ?d mid out + s \<le> 9223372036854775807"
    using assms(1) by (simp_all add: bet_room_def)
  obtain m x where m: "0 < s" "select_market mid ?d = Some m" "Market_Status m = StatusOpen"
      "out \<in> set (Market_Outcomes m)" and x: "select_user u ?d = Some x" "s \<le> User_Balance x"
    using assms(3) by (auto simp: PlaceBet_refusal_def balance_of_def not_less split: if_splits option.splits)
  note ub = select_user_balance [OF x(1)]
  have wf: "wf_users ?d" using assms(2) by (simp add: inv_def)
  have "x \<in> set (users ?d)"
    using find_key_Some [of User_ID u "users ?d" x] x(1) by (auto simp: select_user_def)
  then have bx: "in_int64 (User_Balance x)" "0 \<le> User_Balance x" using wf by (auto simp: wf_users_def)
  then have "in_int64 (User_Balance x - s)" using m(1) x(2) by (auto simp: in_int64_def int64_min_def)
  then obtain d1 where d1: "update_balance (\<lambda>b. b - s) u ?d = Inr d1"
    using update_balance_ok [OF wf ub, of "\<lambda>b. b - s"] x(2) by auto
  note s1 = update_balance_step [OF d1 wf]
  have inv1: "inv d1" using only_users_inv [OF s1(1) assms(2) s1(2)] .
  have key: "(mid, out) \<in> set (pool_keys d1)"
    using pool_key_exists [OF assms(2) m(2,4)] s1(1) by (simp add: only_users_def pool_keys_def)
  obtain d2 where d2: "update_pool s mid out d1 = Inr d2"
    using update_pool_ok [OF inv1 key, of s] m(1) room(4) only_users_eqs(3) [OF s1(1)] by auto
  note p = update_pool_Inr(1) [OF d2]
  let ?b = "\<lparr>Bet_ID = uuid_src w (uuid_ctr w), Bet_MarketID = mid, Bet_UserID = u,
      Bet_OriginalUserID = u, Bet_Outcome = out, Bet_Stake = s, Bet_CreatedAt = clock w\<rparr>"
  have ids: "bet_ids d2 = bet_ids ?d" "market_ids d2 = market_ids ?d" "user_ids d2 = user_ids ?d"
    using s1(1) by (simp_all add: p only_users_def bet_ids_def market_ids_def)
  have "in_int64 s" using m(1) x(2) bx by (auto simp: in_int64_def int64_min_def)
  moreover have "mid \<in> set (market_ids ?d)"
    using find_key_Some [of Market_ID mid "markets ?d" m] m(2)
    by (auto simp: select_market_def market_ids_def)
  ultimately have d3: "insert_bet ?b d2 = Inr (d2\<lparr>bets := bets d2 @ [?b]\<rparr>)"
    using room m(1) user_id_of [OF x(1)] by (intro insert_bet_ok) (simp_all add: ids)
  show ?thesis
    using m x d1 d2 d3 room(1) by (simp add: PlaceBet_tx_def run_defs)
qed

lemma PlaceBet_result:
  assumes "bet_room w mid out s" and "inv (tabs w)"
  shows "case PlaceBet_refusal u mid out s (tabs w) of
      Some e \<Rightarrow> fst (PlaceBet u mid out s w) = Inl e
    | None \<Rightarrow> \<exists>b. fst (PlaceBet u mid out s w) = Inr b \<and> Bet_ID b = uuid_src w (uuid_ctr w) \<and>
               Bet_UserID b = u \<and> Bet_MarketID b = mid \<and> Bet_Outcome b = out \<and> Bet_Stake b = s"
proof -
  have f: "faults w = []" using assms(1) by (simp add: bet_room_def)
  let ?w = "w\<lparr>locks := []\<rparr>"
  show ?thesis
  proof (cases "PlaceBet_refusal u mid out s (tabs w)")
    case None
    have "bet_room ?w mid out s" "inv (tabs ?w)" using assms by (simp_all add: bet_room_def)
    then obtain w' where w': "PlaceBet_tx u mid out s ?w = (Inr (uuid_src w (uuid_ctr w)), w')" "faults w' = []"
      using PlaceBet_tx_accepted [of ?w mid out s u] None by auto
    have tx: "run_tx (PlaceBet_tx u mid out s) w = (Inr (uuid_src w (uuid_ctr w)), w')"
      by (rule run_tx_nofault_Inr [where body = "PlaceBet_tx u mid out s", OF f w'])
    have "0 < s" using None by (auto simp: PlaceBet_refusal_def split: if_splits)
    moreover obtain w3 where "if_ok (CalculateAndCacheOdds mid) (\<lambda>details. PublishMarketUpdate mid
        ''bet_placed'' (PBetPlaced \<lparr>Bet_ID = uuid_src w (uuid_ctr w), Bet_MarketID = mid,
           Bet_UserID = u, Bet_OriginalUserID = '''', Bet_Outcome = out, Bet_Stake = s,
           Bet_CreatedAt = clock w'\<rparr> details)) w' = (Inr (), w3)"
      using if_ok_publish by blast
    ultimately show ?thesis
      using tx None by (simp add: PlaceBet_def bindE_def seqE_def timeNow_def ret_def Let_def)
  next
    case (Some e)
    show ?thesis
    proof (cases "0 < s")
      case True
      have "fst (PlaceBet_tx u mid out s ?w) = Inl e"
        using PlaceBet_tx_refused [of ?w] f Some True by simp
      then have "fst (run_tx (PlaceBet_tx u mid out s) w) = Inl e"
        by (rule run_tx_nofault_Inl [OF f])
      then show ?thesis
        using Some True by (auto simp: PlaceBet_def bindE_def split: prod.splits sum.splits)
    next
      case False
      then show ?thesis using Some by (simp add: PlaceBet_refusal_def PlaceBet_def throw_def)
    qed
  qed
qed

end
