(* ===== verification/Bet_Properties.thy ===== *)
theory Bet_Properties
  imports Bet_Results
begin

text \<open>
  The betting engine's properties, each over the operations as the service has them, with a
  run of the demonstration as its witness.
\<close>

section \<open>The engine as a system\<close>

text \<open>
  C5: In every state the engine can reach, by any calls with any arguments and any driver
  failures, the books balance: pool totals are the stakes behind them, balances are not
  negative, a market has a winner exactly when it is resolved, and every listing on offer is
  a bet its seller owns on an open market, never the house's, at most one per bet.
\<close>

theorem engine_books: "reachable w \<Longrightarrow> inv (tabs w)"
  by (rule inv_reachable)

theorem engine_books_witness: "inv (tabs demo_locked) \<and> length (bets (tabs demo_locked)) = 4"
  using engine_books [OF reachable_demo(4)] by (simp add: demo_locked_def demo_world_def demo_db_def)

text \<open>
  C2: Money is neither made nor lost: on every run whose products and sums stay within
  \<open>int64\<close>, what users hold plus what live markets hold is the house's capital plus what
  synchronisations and adjustments brought in.
\<close>

theorem engine_money: "accounted k w \<Longrightarrow> total_money (tabs w) = k"
  using accounted_money by blast

theorem engine_money_witness:
  "total_money (tabs (snd (do_call (CallSync ''a'' 1000) demo_start))) = 1000000001000"
proof -
  have a: "accounted 1000000000000 demo_start"
    by (rule accounted.init [of _ 0]) (simp add: demo_start_def demo_world_def)
  have r: "do_call (CallSync ''a'' 1000) demo_start =
      (Inr (), snd (do_call (CallSync ''a'' 1000) demo_start))"
    by (rule run_fst) code_simp
  have "accounted (1000000000000 + brought (CallSync ''a'' 1000) (tabs demo_start))
      (snd (do_call (CallSync ''a'' 1000) demo_start))"
    by (rule accounted.completed [OF a _ r]) simp
  moreover have "brought (CallSync ''a'' 1000) (tabs demo_start) = 1000" by code_simp
  ultimately show ?thesis using engine_money by fastforce
qed




section \<open>Ending a market\<close>

text \<open>
  C1: A resolution that returns pays exactly the settlement of the market's bets: every
  user's balance grows by their credits in it, the market is resolved with this winner (or
  cancelled, when nobody staked on it), its bets and pools stay as they were, and none of its
  bets is on offer any more. This for pots whose square fits an \<open>int64\<close>.
\<close>

theorem resolve_settles:
  assumes "reachable w" and "ResolveMarket mid out w = (Inr (), w')"
    and "fits (staked_market (tabs w) mid)"
  shows "settled (settlement out (bets_of mid (tabs w))) mid (ended out (staked (tabs w) mid out))
           (tabs w) (tabs w')"
  using ResolveMarket_effect(3) [OF assms(2) inv_reachable [OF assms(1)] assms(3)] .

theorem resolve_settles_witness:
  "balance_of (tabs (snd (ResolveMarket ''u0'' ''yes'' demo_locked))) ''a'' = Some 1156"
proof -
  have r: "ResolveMarket ''u0'' ''yes'' demo_locked = (Inr (), snd (ResolveMarket ''u0'' ''yes'' demo_locked))"
    by (rule run_fst) code_simp
  have f: "fits (staked_market (tabs demo_locked) ''u0'')" by code_simp
  have c: "credits (settlement ''yes'' (bets_of ''u0'' (tabs demo_locked))) ''a'' = 356" by code_simp
  have b: "balance_of (tabs demo_locked) ''a'' = Some 800" by code_simp
  show ?thesis using resolve_settles [OF reachable_demo(4) r f] by (simp add: settled_def c b)
qed



text \<open>
  C17: A cancelled market gives every holder of a bet its stake back, moves nothing else, and
  leaves the engine's money as it was.
\<close>

theorem cancel_refunds:
  assumes "reachable w" and "CancelMarket mid w = (Inr (), w')"
  shows "settled (map bet_credit (bets_of mid (tabs w))) mid
           (\<lambda>m. m\<lparr>Market_Status := StatusCancelled\<rparr>) (tabs w) (tabs w') \<and>
         total_money (tabs w') = total_money (tabs w)"
  using RefundMarketInternal_effect(2,3) [OF assms(2) [unfolded CancelMarket_def] inv_reachable [OF assms(1)]]
  by simp

theorem cancel_refunds_witness:
  "balance_of (tabs (snd (CancelMarket ''u0'' demo_listed))) ''a'' = Some 1000"
proof -
  have r: "CancelMarket ''u0'' demo_listed = (Inr (), snd (CancelMarket ''u0'' demo_listed))"
    by (rule run_fst) code_simp
  have c: "credits (map bet_credit (bets_of ''u0'' (tabs demo_listed))) ''a'' = 200" by code_simp
  have b: "balance_of (tabs demo_listed) ''a'' = Some 800" by code_simp
  show ?thesis using cancel_refunds [OF reachable_demo(3) r] by (simp add: settled_def c b)
qed

text \<open>
  Locking closes an open market, takes every listing on it off offer, and moves no money
  and no bet.
\<close>

theorem lock_closes:
  assumes "reachable w" and "LockMarket mid w = (Inr (), w')"
  shows "(\<exists>m. select_market mid (tabs w) = Some m \<and> Market_Status m = StatusOpen \<and>
           select_market mid (tabs w') = Some (m\<lparr>Market_Status := StatusLocked\<rparr>)) \<and>
         users (tabs w') = users (tabs w) \<and> bets (tabs w') = bets (tabs w) \<and>
         (\<forall>l \<in> set (bet_listings (tabs w')). Listing_MarketID l = mid \<longrightarrow>
            Listing_Status l \<noteq> ListingStatusListed)"
  using LockMarket_effect [OF assms(2) inv_reachable [OF assms(1)]] by simp

theorem lock_closes_witness:
  "map Listing_Status (bet_listings (tabs demo_listed)) = [ListingStatusListed] \<and>
   ListingStatusListed \<notin> Listing_Status ` set (filter (\<lambda>l. Listing_MarketID l = ''u0'')
     (bet_listings (tabs (snd (LockMarket ''u0'' demo_listed)))))"
proof
  show "map Listing_Status (bet_listings (tabs demo_listed)) = [ListingStatusListed]" by code_simp
  have r: "LockMarket ''u0'' demo_listed = (Inr (), snd (LockMarket ''u0'' demo_listed))"
    by (rule run_fst) code_simp
  show "ListingStatusListed \<notin> Listing_Status ` set (filter (\<lambda>l. Listing_MarketID l = ''u0'')
     (bet_listings (tabs (snd (LockMarket ''u0'' demo_listed)))))"
    using lock_closes [OF reachable_demo(3) r] by auto
qed


section \<open>Betting\<close>

text \<open>
  C13: An accepted bet was on an open market and one of its outcomes, and covered by the
  bettor's balance; the stake left that balance and no other, one bet was written, and the
  money in the engine stayed the same.
\<close>

theorem bet_moves_stake:
  assumes "reachable w" and "PlaceBet u mid out s w = (Inr b, w')"
  shows "bet_placed u mid out s (Bet_ID b) (tabs w) (tabs w') \<and> 0 < s \<and>
         total_money (tabs w') = total_money (tabs w)"
  using PlaceBet_effect(2,3) [OF assms(2) inv_reachable [OF assms(1)]] PlaceBet_Inr(1) [OF assms(2)]
  by simp

theorem bet_moves_stake_witness:
  "balance_of (tabs (snd (PlaceBet ''b'' ''u0'' ''yes'' 50 demo_open))) ''b'' = Some 300"
proof -
  have r: "PlaceBet ''b'' ''u0'' ''yes'' 50 demo_open =
      (Inr \<lparr>Bet_ID = ''u5'', Bet_MarketID = ''u0'', Bet_UserID = ''b'', Bet_OriginalUserID = [],
         Bet_Outcome = ''yes'', Bet_Stake = 50, Bet_CreatedAt = 0\<rparr>,
       snd (PlaceBet ''b'' ''u0'' ''yes'' 50 demo_open))"
    by (rule run_fst) code_simp
  have b: "balance_of (tabs demo_open) ''b'' = Some 350" by code_simp
  show ?thesis using bet_moves_stake [OF reachable_demo(2) r] by (simp add: bet_placed_def b)
qed

text \<open>
  C14: The guards decide a bet: with the driver working, a new uuid and room in the pool, the
  first guard that fails is the error returned, and a bet that passes them all is accepted
  with the user, market, outcome and stake it asked for.
\<close>

theorem bet_decided:
  assumes "reachable w" and "bet_room w mid out s"
  shows "case PlaceBet_refusal u mid out s (tabs w) of
      Some e \<Rightarrow> fst (PlaceBet u mid out s w) = Inl e
    | None \<Rightarrow> \<exists>b. fst (PlaceBet u mid out s w) = Inr b \<and> Bet_ID b = uuid_src w (uuid_ctr w) \<and>
               Bet_UserID b = u \<and> Bet_MarketID b = mid \<and> Bet_Outcome b = out \<and> Bet_Stake b = s"
  by (rule PlaceBet_result [OF assms(2) inv_reachable [OF assms(1)]])

theorem bet_decided_witness:
  "fst (PlaceBet ''a'' ''u0'' ''yes'' 801 demo_open) = Inl ErrInsufficientBalance \<and>
   (\<exists>b. fst (PlaceBet ''a'' ''u0'' ''yes'' 800 demo_open) = Inr b)"
proof -
  have 1: "bet_room demo_open ''u0'' ''yes'' 801" and 2: "bet_room demo_open ''u0'' ''yes'' 800"
    by code_simp+
  have 3: "PlaceBet_refusal ''a'' ''u0'' ''yes'' 801 (tabs demo_open) = Some ErrInsufficientBalance"
    and 4: "PlaceBet_refusal ''a'' ''u0'' ''yes'' 800 (tabs demo_open) = None"
    by code_simp+
  show ?thesis
    using bet_decided [OF reachable_demo(2) 1, of "''a''"] bet_decided [OF reachable_demo(2) 2, of "''a''"]
    by (auto simp: 3 4)
qed


section \<open>Creating markets and adjusting balances\<close>

text \<open>
  C26: A created market is open, with the outcomes and seed it was given, and its seed bets
  are paid by the house alone: exactly \<open>seed\<close> times the number of outcomes, when that
  product fits an \<open>int64\<close>.
\<close>

theorem create_seeds:
  assumes "reachable w" and "CreateMarket q outs seed w = (Inr x, w')"
    and "seed * int (length outs) \<le> 9223372036854775807"
  shows "(\<exists>m. select_market (Market_ID x) (tabs w') = Some m \<and> Market_Status m = StatusOpen \<and>
            Market_Outcomes m = outs \<and> Market_Seed m = seed) \<and>
         balance_of (tabs w') i = map_option
           (\<lambda>b. if i = HouseUserID then b - seed * int (length outs) else b) (balance_of (tabs w) i) \<and>
         total_money (tabs w') = total_money (tabs w)"
proof -
  note inv = inv_reachable [OF assms(1)]
  have sd: "seed_debit seed outs = seed * int (length outs)"
    using assms(3) CreateMarket_Inr(2) [OF assms(2)] by (simp add: seed_debit_def i64_bounded)
  show ?thesis
    using CreateMarket_effect(2-4) [OF assms(2) inv, unfolded sd] by auto
qed

theorem create_seeds_witness:
  "balance_of (tabs (snd (CreateMarket ''r'' [''x'', ''y'', ''z''] 10 demo_open))) HouseUserID
     = Some 999999999770"
proof -
  have r: "CreateMarket ''r'' [''x'', ''y'', ''z''] 10 demo_open =
      (Inr \<lparr>Market_ID = ''u5'', Market_Question = ''r'', Market_Outcomes = [''x'', ''y'', ''z''],
         Market_Status = StatusOpen, Market_Seed = 10, Market_WinningOutcome = None, Market_CreatedAt = 0\<rparr>,
       snd (CreateMarket ''r'' [''x'', ''y'', ''z''] 10 demo_open))"
    by (rule run_fst) code_simp
  have b: "balance_of (tabs demo_open) HouseUserID = Some 999999999800" by code_simp
  show ?thesis using create_seeds [OF reachable_demo(2) r, of HouseUserID] by (simp add: b)
qed

text \<open>
  When the product of seed and outcomes wraps, the house pays nothing: two seeds of
  \<open>2^62\<close> are put on the books of a database that held 1,000,000,000,000.
\<close>

theorem create_overflow:
  "(case fst (CreateMarket ''q'' [''yes'', ''no''] 4611686018427387904 demo_start) of
      Inl e \<Rightarrow> False | Inr m \<Rightarrow> Market_Seed m = 4611686018427387904) \<and>
   total_money (tabs demo_start) = 1000000000000 \<and>
   total_money (tabs (snd (CreateMarket ''q'' [''yes'', ''no''] 4611686018427387904 demo_start))) =
     9223373036854775808"
  by code_simp

text \<open>
  An adjustment adds its delta to the one balance it names, and only when the sum stays
  in range and not negative; a withdrawal can never overdraw.
\<close>

theorem adjust_exact:
  assumes "reachable w" and "AdjustBalance u delta w = (Inr nb, w')"
    and "balance_of (tabs w) u = Some b" and "in_int64 (b + delta)"
  shows "nb = b + delta \<and> 0 \<le> nb \<and> balance_of (tabs w') u = Some nb \<and>
    (\<forall>i. i \<noteq> u \<longrightarrow> balance_of (tabs w') i = balance_of (tabs w) i) \<and>
    bets (tabs w') = bets (tabs w) \<and> markets (tabs w') = markets (tabs w)"
  using AdjustBalance_effect [OF assms(2) inv_reachable [OF assms(1)]] assms(3,4)
  by (auto simp: i64_simps only_users_def)

theorem adjust_exact_witness:
  "balance_of (tabs (snd (AdjustBalance ''a'' (- 800) demo_open))) ''a'' = Some 0"
proof -
  have r: "AdjustBalance ''a'' (- 800) demo_open = (Inr 0, snd (AdjustBalance ''a'' (- 800) demo_open))"
    by (rule run_fst) code_simp
  have b: "balance_of (tabs demo_open) ''a'' = Some 800" and i: "in_int64 (800 + - 800)" by code_simp+
  show ?thesis using adjust_exact [OF reachable_demo(2) r b i] by simp
qed

section \<open>Resale\<close>

text \<open>
  C9: A sale is between buyer and seller: the listing was on offer, the price goes from the
  buyer to the seller, the bet from the seller to the buyer with stake and outcome unchanged,
  the listing is sold; the house is not the seller and no third balance moves.
\<close>

theorem sale_peer_to_peer:
  assumes "reachable w" and "BuyListedBet lid buyer w = (Inr x, w')"
  shows "(\<exists>s. sold lid buyer s (tabs w) (tabs w') \<and> sale_sellerID s \<noteq> HouseUserID) \<and>
         total_money (tabs w') = total_money (tabs w)"
  using BuyListedBet_effect(2,3) [OF assms(2) inv_reachable [OF assms(1)]] by blast

theorem sale_peer_to_peer_witness:
  "balance_of (tabs (snd (BuyListedBet ''u5'' ''b'' demo_listed))) HouseUserID = Some 999999999800"
proof -
  have r: "BuyListedBet ''u5'' ''b'' demo_listed =
      (Inr \<lparr>Listing_ID = ''u5'', Listing_BetID = ''u3'', Listing_MarketID = ''u0'',
         Listing_SellerID = ''a'', Listing_BuyerID = Some ''b'', Listing_AskingPrice = 50,
         Listing_Status = ListingStatusSold, Listing_CreatedAt = zero_time, Listing_SoldAt = Some 0,
         Listing_CancelledAt = None, Details_Outcome = ''yes'', Details_Stake = 200\<rparr>,
       snd (BuyListedBet ''u5'' ''b'' demo_listed))"
    by (rule run_fst) code_simp
  have b: "balance_of (tabs demo_listed) HouseUserID = Some 999999999800" by code_simp
  have "HouseUserID \<noteq> ''b''" by (simp add: HouseUserID_def)
  then show ?thesis using sale_peer_to_peer [OF reachable_demo(3) r] by (auto simp: sold_def b)
qed





text \<open>
  C35: A purchase takes its row locks in the documented order, whatever its result: market,
  listing, bet, then the two users in ascending order of their ids.
\<close>

theorem purchase_lock_order:
  assumes "locks w = []"
  shows "lock_ordered (locks (snd (BuyListedBet_tx lid buyer w)))"
proof -
  have h: "holds [] (BuyListedBet_tx lid buyer) (\<lambda>_ ks. lock_ordered ks)"
    by (rule BuyListedBet_tx_locks)
  obtain r w' where r: "BuyListedBet_tx lid buyer w = (r, w')" by force
  show ?thesis
    using h assms r unfolding holds_def by (cases r) (auto dest!: spec [of _ w])
qed

theorem purchase_lock_order_witness:
  "lock_ordered (locks (snd (BuyListedBet_tx ''u5'' ''b'' demo_listed))) \<and>
   locks (snd (BuyListedBet_tx ''u5'' ''b'' demo_listed)) =
     [LMarket ''u0'', LListing ''u5'', LBet ''u3'', LUser ''a'', LUser ''b'']"
proof
  show "lock_ordered (locks (snd (BuyListedBet_tx ''u5'' ''b'' demo_listed)))"
    by (rule purchase_lock_order) (simp add: demo_listed_def demo_world_def)
qed code_simp


section \<open>Reads\<close>




section \<open>Where the arithmetic and the contract give way\<close>

text \<open>Three and one billion staked, market locked: the product of stake and pot passes \<open>2^63\<close>.\<close>

definition demo_big :: "int \<Rightarrow> bet_world" where
  "demo_big s = run_calls [CallSync ''b'' 1000000000, CallSync ''a'' s,
     CallCreate ''q'' [''yes'', ''no''] 0, CallBet ''b'' ''u0'' ''no'' 1000000000,
     CallBet ''a'' ''u0'' ''yes'' s, CallLock ''u0''] demo_start"

text \<open>
  Past that size the resolution goes wrong both ways. With 3,000,000,000 on the winner
  the product wraps negative and the schema refuses it, so the market cannot be resolved; with
  4,000,000,000 it wraps positive, the winner gets 238,313,981 of a pot of 5,000,000,000 and
  the house the rest.
\<close>

theorem resolve_overflow:
  "fst (ResolveMarket ''u0'' ''yes'' (demo_big 3000000000)) =
     Inl (ErrWrap ''failed to credit user a'' (ErrSql CheckViolation)) \<and>
   fst (ResolveMarket ''u0'' ''yes'' (demo_big 4000000000)) = Inr () \<and>
   balance_of (tabs (snd (ResolveMarket ''u0'' ''yes'' (demo_big 4000000000)))) ''a'' = Some 238313981"
  by code_simp

text \<open>
  A refund locks users in the order of the bets, not of their ids, so the order that
  purchases keep does not hold across the two files.
\<close>

theorem refund_lock_disorder:
  "\<not> lock_ordered (locks (snd (RefundMarketInternal_tx ''u0'' ((demo_big 10)\<lparr>locks := []\<rparr>)))) \<and>
   fst (RefundMarketInternal_tx ''u0'' ((demo_big 10)\<lparr>locks := []\<rparr>)) = Inr ()"
  by code_simp


section \<open>The HTTP surface\<close>

text \<open>
  The bet endpoint's status is the operation's result: 400 for a request it cannot bind
  or validate, 201 with the bet when it was accepted, 402 for a short balance, 400 for a
  market that is not open or an outcome it does not have, 500 for anything else; a status
  other than 201 means no table changed.
\<close>

theorem bet_status:
  assumes "reachable w" and "PlaceBet_handler is_uuid drv mid req w = ((code, body), w')"
  shows "(code = 201 \<longleftrightarrow> (\<exists>r b v. req = Some r \<and> Place_UserID r \<noteq> [] \<and> is_uuid (Place_UserID r) \<and>
            Place_Outcome r \<noteq> [] \<and>
            PlaceBet (Place_UserID r) mid (Place_Outcome r) (Place_Stake r) w = (Inr b, v) \<and> body = BBet b)) \<and>
         code \<in> {201, 400, 402, 500} \<and> (code \<noteq> 201 \<longrightarrow> tabs w' = tabs w)"
proof (cases req)
  case None
  then show ?thesis using assms(2) by (auto simp: PlaceBet_handler_def bad_request_def)
next
  case (Some r)
  obtain res v where p: "PlaceBet (Place_UserID r) mid (Place_Outcome r) (Place_Stake r) w = (res, v)"
    by force
  show ?thesis
  proof (cases "Place_UserID r = [] \<or> \<not> is_uuid (Place_UserID r) \<or> Place_Outcome r = [] \<or> Place_Stake r \<le> 0")
    case True
    then show ?thesis
      using assms(2) Some p PlaceBet_Inr(1)
      by (fastforce simp: PlaceBet_handler_def bad_request_def)
  next
    case False
    then show ?thesis
      using assms(2) Some p PlaceBet_Inl
      by (cases res)
        (auto simp: PlaceBet_handler_def handle_def PlaceBet_error_def status_error_def split: if_splits)
  qed
qed

theorem bet_status_witness:
  "fst (fst (PlaceBet_handler (\<lambda>_. True) (\<lambda>_. []) ''u0''
     (Some \<lparr>Place_UserID = ''a'', Place_Outcome = ''yes'', Place_Stake = 9000\<rparr>) demo_open)) \<in> {201, 400, 402, 500}"
  using bet_status [OF reachable_demo(2), of "\<lambda>_. True" "\<lambda>_. []" "''u0''"
     "Some \<lparr>Place_UserID = ''a'', Place_Outcome = ''yes'', Place_Stake = 9000\<rparr>"]
  by (metis prod.collapse)

end
