(* ===== verification/Wallet_Models.thy ===== *)
theory Wallet_Models
  imports Bet_Demo
begin

text \<open>
  \<open>wallet-backend/models\<close> and the types of \<open>wallet-backend/chain/chain.go\<close>, and the
  world the service runs in: its own database, the bet engine it credits and debits over
  HTTP, and the record of what it asked of the Solana network.
\<close>

section \<open>Models\<close>

text \<open>An \<open>Asset\<close> is any string: the scanner's is converted without a check.\<close>

type_synonym Asset = string

definition AssetSOL :: Asset where "AssetSOL = ''SOL''"
definition AssetUSDC :: Asset where "AssetUSDC = ''USDC''"
definition AssetUSDT :: Asset where "AssetUSDT = ''USDT''"

definition Decimals :: "Asset \<Rightarrow> int" where
  "Decimals a =
     (if a = AssetSOL then 9 else if a = AssetUSDC \<or> a = AssetUSDT then 6 else 0)"

datatype DepositStatus = DepositDetected | DepositSwapping | DepositCredited | DepositFailed

datatype WithdrawalStatus =
  WithdrawalRequested | WithdrawalSigning | WithdrawalSent | WithdrawalConfirmed | WithdrawalFailed

record WalletAddress =
  Wallet_AccountID :: uuid
  Wallet_DerivationIndex :: "32 word"
  Wallet_Address :: string
  Wallet_USDCATA :: string
  Wallet_CreatedAt :: time

record Deposit =
  Deposit_ID :: uuid
  Deposit_Signature :: string
  Deposit_AccountID :: uuid
  Deposit_Asset :: Asset
  Deposit_RawAmount :: int
  Deposit_CreditedUSDC :: int
  Deposit_CreditedReais :: int
  Deposit_Status :: DepositStatus
  Deposit_CreatedAt :: time
  Deposit_CreditedAt :: "time option"

record Withdrawal =
  Withdrawal_ID :: uuid
  Withdrawal_AccountID :: uuid
  Withdrawal_DestAddress :: string
  Withdrawal_Asset :: Asset
  Withdrawal_AmountReais :: int
  Withdrawal_AmountUSDC :: int
  Withdrawal_Status :: WithdrawalStatus
  Withdrawal_Signature :: "string option"
  Withdrawal_CreatedAt :: time
  Withdrawal_SettledAt :: "time option"

text \<open>One incoming transfer the scanner found; the amount is a \<open>uint64\<close>.\<close>

record DetectedDeposit =
  Detected_Signature :: string
  Detected_Asset :: string
  Detected_RawAmount :: "64 word"

definition DefaultSlippageBps :: int where "DefaultSlippageBps = 300"


section \<open>Errors\<close>

text \<open>
  The sentinels of the packages \<open>store\<close>, \<open>betclient\<close> and \<open>service\<close>; the
  errors built by \<open>fmt.Errorf\<close>; a driver's, and a library's or the network's.
\<close>

datatype wallet_error =
    store_ErrNotFound
  | betclient_ErrUnavailable | betclient_ErrInsufficientBalance | betclient_ErrUserNotFound
  | ErrFaucetAlreadyClaimed | ErrAmountBelowMin | ErrAmountAboveMax
  | service_ErrInsufficientBalance | ErrManualReview
  | WErrNew string
  | WErrWrap string wallet_error
  | WErrSql sql_error
  | WErrLib string

fun werrors_is :: "wallet_error \<Rightarrow> wallet_error \<Rightarrow> bool" where
  "werrors_is (WErrWrap m e) t \<longleftrightarrow> WErrWrap m e = t \<or> werrors_is e t"
| "werrors_is e t \<longleftrightarrow> e = t"


section \<open>The world\<close>

record Cursor =
  Cursor_Address :: string
  Cursor_LastSig :: string
  Cursor_UpdatedAt :: time

record wallet_db =
  derivation_seq :: int
  wallet_addresses :: "WalletAddress list"
  deposits :: "Deposit list"
  deposit_cursors :: "Cursor list"
  withdrawals :: "Withdrawal list"
  faucet_claims :: "(uuid \<times> time) list"

text \<open>
  What a call over a network may come to: answered; lost on the way, so that nothing
  happened; or done, with the reply lost. The caller cannot tell the last two apart.
\<close>

datatype fate = Answered | RequestLost | ReplyLost

text \<open>A transaction as the code builds it, before it is signed by its one signer.\<close>

datatype transaction =
    CreateATA string string string
  | TransferChecked "64 word" string string string string
  | SystemTransfer "64 word" string string
  | SwapTransaction string

text \<open>The calls made to the Solana RPC endpoint and to Jupiter.\<close>

datatype rpc_call =
    GetBalance string
  | GetTokenAccountBalance string
  | GetAccountInfo string
  | GetLatestBlockhash
  | SendTransaction string string transaction
  | GetSignatureStatuses string
  | GetSignaturesForAddress string int "string option"
  | GetTransaction string
  | JupiterQuote string string string int
  | JupiterBuild string string

text \<open>
  \<open>db_fates\<close> and \<open>net_fates\<close> are the fates of the next calls to Postgres and to
  bet-backend (all \<open>Answered\<close> when the list is exhausted). \<open>bank\<close> is bet-backend,
  \<open>requests\<close> every adjustment asked of it and \<open>calls\<close> every chain call, in order.
\<close>

record wallet_world =
  wdb :: wallet_db
  db_fates :: "fate list"
  net_fates :: "fate list"
  wuuid_src :: "nat \<Rightarrow> uuid"
  wuuid_ctr :: nat
  wclock :: time
  bank :: bet_world
  requests :: "(uuid \<times> int) list"
  calls :: "rpc_call list"

type_synonym 'a wallet_io = "(wallet_world, wallet_error, 'a) io"

definition next_fate :: "fate list \<Rightarrow> fate" where
  "next_fate fs = (case fs of [] \<Rightarrow> Answered | f # _ \<Rightarrow> f)"

definition wuuid_New :: "uuid wallet_io" where
  "wuuid_New = (\<lambda>w. (Inr (wuuid_src w (wuuid_ctr w)), w\<lparr>wuuid_ctr := Suc (wuuid_ctr w)\<rparr>))"

text \<open>One statement sent to Postgres. Each is its own transaction here.\<close>

definition w_stmt :: "'a wallet_io \<Rightarrow> 'a wallet_io" where
  "w_stmt m = (\<lambda>w.
     let w' = w\<lparr>db_fates := tl (db_fates w)\<rparr>
     in case next_fate (db_fates w) of
          Answered \<Rightarrow> m w'
        | RequestLost \<Rightarrow> (Inl (WErrSql DriverError), w')
        | ReplyLost \<Rightarrow> (Inl (WErrSql DriverError), snd (m w')))"

definition w_query :: "(wallet_db \<Rightarrow> 'a) \<Rightarrow> 'a wallet_io" where
  "w_query f = w_stmt (\<lambda>w. (Inr (f (wdb w)), w))"

text \<open>\<open>Exec\<close>: the new tables and the number of rows affected, or the constraint that fails.\<close>

definition w_exec :: "(time \<Rightarrow> wallet_db \<Rightarrow> sql_error + (wallet_db \<times> nat)) \<Rightarrow> nat wallet_io" where
  "w_exec u = w_stmt (\<lambda>w. case u (wclock w) (wdb w) of
       Inl e \<Rightarrow> (Inl (WErrSql e), w)
     | Inr (d, n) \<Rightarrow> (Inr n, w\<lparr>wdb := d\<rparr>))"

text \<open>\<open>_ = f()\<close>: the result and the error dropped.\<close>

definition ignore :: "'a wallet_io \<Rightarrow> unit wallet_io" where
  "ignore m = (\<lambda>w. (Inr (), snd (m w)))"

end
