(* ===== verification/Wallet_Crypto.thy ===== *)
theory Wallet_Crypto
  imports Wallet_Models
begin

text \<open>
  \<open>wallet-backend/crypto/derivation.go\<close>: the SLIP-0010 ed25519 path
  \<open>m/44'/501'/index'/0'\<close>. HMAC-SHA512, ed25519, base58 and BIP39 are library code: a
  record of functions. An index is a \<open>uint32\<close>, a word here.
\<close>

unbundle bit_operations_syntax

type_synonym byte = "8 word"

record crypto_lib =
  hmacSHA512 :: "byte list \<Rightarrow> byte list \<Rightarrow> byte list"
  NewKeyFromSeed :: "byte list \<Rightarrow> byte list"
  PublicOf :: "byte list \<Rightarrow> byte list"
  base58_Encode :: "byte list \<Rightarrow> string"
  IsMnemonicValid :: "string \<Rightarrow> bool"
  NewSeed :: "string \<Rightarrow> string \<Rightarrow> byte list"

record Keypair =
  Keypair_priv :: "byte list"

definition PublicKey :: "crypto_lib \<Rightarrow> Keypair \<Rightarrow> byte list" where
  "PublicKey C k = PublicOf C (Keypair_priv k)"

definition Address :: "crypto_lib \<Rightarrow> Keypair \<Rightarrow> string" where
  "Address C k = base58_Encode C (PublicKey C k)"

definition PrivateKeyBytes :: "Keypair \<Rightarrow> byte list" where
  "PrivateKeyBytes k = Keypair_priv k"

definition PrivateKeyBase58 :: "crypto_lib \<Rightarrow> Keypair \<Rightarrow> string" where
  "PrivateKeyBase58 C k = base58_Encode C (Keypair_priv k)"

record MasterWallet =
  Master_seed :: "byte list"

definition NewMasterWalletFromMnemonic ::
    "crypto_lib \<Rightarrow> string \<Rightarrow> string \<Rightarrow> wallet_error + MasterWallet" where
  "NewMasterWalletFromMnemonic C mnemonic passphrase =
     (if \<not> IsMnemonicValid C mnemonic then Inl (WErrNew ''invalid BIP39 mnemonic'')
      else Inr \<lparr>Master_seed = NewSeed C mnemonic passphrase\<rparr>)"

definition hardenedOffset :: "32 word" where "hardenedOffset = 0x80000000"

definition ed25519SeedKey :: "byte list" where
  "ed25519SeedKey = map (\<lambda>c. of_nat (of_char c)) ''ed25519 seed''"

definition masterKey :: "crypto_lib \<Rightarrow> byte list \<Rightarrow> byte list \<times> byte list" where
  "masterKey C seed = (let sum = hmacSHA512 C ed25519SeedKey seed in (take 32 sum, drop 32 sum))"

text \<open>\<open>binary.BigEndian.PutUint32\<close>.\<close>

definition PutUint32 :: "32 word \<Rightarrow> byte list" where
  "PutUint32 v = [ucast (drop_bit 24 v), ucast (drop_bit 16 v), ucast (drop_bit 8 v), ucast v]"

text \<open>The 37 bytes \<open>0x00 || key || ser32BE(index)\<close>; \<open>copy\<close> moves at most 32.\<close>

definition child_data :: "byte list \<Rightarrow> 32 word \<Rightarrow> byte list" where
  "child_data key index = 0 # (take 32 key @ replicate (32 - length key) 0) @ PutUint32 index"

definition deriveChildHardened ::
    "crypto_lib \<Rightarrow> byte list \<Rightarrow> byte list \<Rightarrow> 32 word \<Rightarrow> byte list \<times> byte list" where
  "deriveChildHardened C key chainCode index =
     (let sum = hmacSHA512 C chainCode (child_data key index) in (take 32 sum, drop 32 sum))"

definition derivePath :: "crypto_lib \<Rightarrow> MasterWallet \<Rightarrow> 32 word list \<Rightarrow> byte list" where
  "derivePath C m path =
     fst (fold (\<lambda>index (key, chainCode). deriveChildHardened C key chainCode (index OR hardenedOffset))
            path (masterKey C (Master_seed m)))"

definition DeriveAccount :: "crypto_lib \<Rightarrow> MasterWallet \<Rightarrow> 32 word \<Rightarrow> Keypair" where
  "DeriveAccount C m index =
     \<lparr>Keypair_priv = NewKeyFromSeed C (derivePath C m [44, 501, index, 0])\<rparr>"


section \<open>What is hashed\<close>

lemma length_PutUint32 [simp]: "length (PutUint32 v) = 4"
  by (simp add: PutUint32_def)

text \<open>The four bytes determine the word.\<close>

lemma byte_bit: "r < 8 \<Longrightarrow> bit (ucast (drop_bit m (v :: 32 word)) :: 8 word) r = bit v (m + r)"
  by (simp add: bit_ucast_iff bit_drop_bit_eq)

lemma byte_eqD:
  assumes "(ucast (drop_bit m (v :: 32 word)) :: 8 word) = ucast (drop_bit m (u :: 32 word))" and "m \<le> n" and "n < m + 8"
  shows "bit v n = bit u n"
proof -
  have "bit (ucast (drop_bit m v) :: 8 word) (n - m) = bit (ucast (drop_bit m u) :: 8 word) (n - m)"
    by (simp only: assms(1))
  then show ?thesis
    using byte_bit [of "n - m" m v] byte_bit [of "n - m" m u] assms(2,3) by simp
qed

lemma PutUint32_inj: "PutUint32 v = PutUint32 u \<longleftrightarrow> v = u"
proof
  assume e: "PutUint32 v = PutUint32 u"
  have b: "(ucast (drop_bit m v) :: 8 word) = ucast (drop_bit m u)" if "m \<in> {0, 8, 16, 24}" for m
    using e that by (auto simp: PutUint32_def)
  show "v = u"
  proof (rule bit_word_eqI)
    fix n assume "n < LENGTH(32)"
    then have "n < 8 \<or> 8 \<le> n \<and> n < 16 \<or> 16 \<le> n \<and> n < 24 \<or> 24 \<le> n \<and> n < 32" by simp linarith
    then show "bit v n = bit u n"
      using byte_eqD [OF b, of 0 n] byte_eqD [OF b, of 8 n] byte_eqD [OF b, of 16 n]
        byte_eqD [OF b, of 24 n] by auto
  qed
qed simp

lemma child_data_inj:
  assumes "length k = 32" and "length k' = 32"
  shows "child_data k i = child_data k' j \<longleftrightarrow> k = k' \<and> i = j"
  using assms by (simp add: child_data_def PutUint32_inj)

lemma length_child_data: "length (child_data k i) = 37"
  by (simp add: child_data_def)

lemma bit_hardenedOffset: "bit hardenedOffset n \<longleftrightarrow> n = 31"
proof -
  have h: "hardenedOffset = push_bit 31 1" by (simp add: hardenedOffset_def)
  show ?thesis unfolding h by (auto simp: bit_push_bit_iff bit_1_iff simp del: push_bit_of_1)
qed

lemma hardened_bit: "bit (i OR hardenedOffset) 31"
  by (simp add: bit_or_iff bit_hardenedOffset)

text \<open>Hardening drops the top bit of the index, so two indices share a key pair mod \<open>2^31\<close>.\<close>

lemma hardened_eq:
  "i OR hardenedOffset = j OR hardenedOffset \<longleftrightarrow> take_bit 31 i = take_bit 31 j"
proof
  assume e: "i OR hardenedOffset = j OR hardenedOffset"
  show "take_bit 31 i = take_bit 31 j"
  proof (rule bit_word_eqI)
    fix n assume "n < LENGTH(32)"
    have "bit (i OR hardenedOffset) n = bit (j OR hardenedOffset) n" using e by simp
    then show "bit (take_bit 31 i) n = bit (take_bit 31 j) n"
      by (auto simp: bit_or_iff bit_take_bit_iff bit_hardenedOffset)
  qed
next
  assume e: "take_bit 31 i = take_bit 31 j"
  show "i OR hardenedOffset = j OR hardenedOffset"
  proof (rule bit_word_eqI)
    fix n assume n: "n < LENGTH(32)"
    show "bit (i OR hardenedOffset) n = bit (j OR hardenedOffset) n"
    proof (cases "n < 31")
      case True
      have "bit (take_bit 31 i) n = bit (take_bit 31 j) n" using e by simp
      then show ?thesis using True by (simp add: bit_or_iff bit_take_bit_iff)
    next
      case False
      then have "n = 31" using n by simp
      then show ?thesis using hardened_bit by simp
    qed
  qed
qed

end
