(* ===== verification/Wallet_Store.thy ===== *)
theory Wallet_Store
  imports Wallet_Models
begin

text \<open>
  \<open>wallet-backend/store/store.go\<close> over the schema of \<open>wallet-backend/db/db.go\<close>.
  Postgres checks a new row's \<open>VARCHAR\<close> lengths and \<open>CHECK\<close>s first, then the
  unique indexes (\<open>ON CONFLICT\<close> inserts nothing on its own index), then the foreign keys.
\<close>

section \<open>Statements\<close>

definition account_known :: "wallet_db \<Rightarrow> uuid \<Rightarrow> bool" where
  "account_known d a \<longleftrightarrow> list_ex (\<lambda>r. Wallet_AccountID r = a) (wallet_addresses d)"

definition insert_address :: "WalletAddress \<Rightarrow> time \<Rightarrow> wallet_db \<Rightarrow> sql_error + (wallet_db \<times> nat)" where
  "insert_address r now d =
     (if list_ex (\<lambda>q. Wallet_AccountID q = Wallet_AccountID r
                    \<or> Wallet_DerivationIndex q = Wallet_DerivationIndex r
                    \<or> Wallet_Address q = Wallet_Address r) (wallet_addresses d)
        then Inl UniqueViolation
      else Inr (d\<lparr>wallet_addresses := wallet_addresses d @ [r\<lparr>Wallet_CreatedAt := now\<rparr>]\<rparr>, 1))"

definition insert_claim :: "uuid \<Rightarrow> time \<Rightarrow> wallet_db \<Rightarrow> sql_error + (wallet_db \<times> nat)" where
  "insert_claim a now d =
     (if list_ex (\<lambda>c. fst c = a) (faucet_claims d) then Inr (d, 0)
      else if \<not> account_known d a then Inl ForeignKeyViolation
      else Inr (d\<lparr>faucet_claims := faucet_claims d @ [(a, now)]\<rparr>, 1))"

definition delete_claim :: "uuid \<Rightarrow> time \<Rightarrow> wallet_db \<Rightarrow> sql_error + (wallet_db \<times> nat)" where
  "delete_claim a now d =
     Inr (d\<lparr>faucet_claims := filter (\<lambda>c. fst c \<noteq> a) (faucet_claims d)\<rparr>,
          length (filter (\<lambda>c. fst c = a) (faucet_claims d)))"

definition insert_deposit :: "Deposit \<Rightarrow> time \<Rightarrow> wallet_db \<Rightarrow> sql_error + (wallet_db \<times> nat)" where
  "insert_deposit r now d =
     (if 8 < char_count (Deposit_Asset r) then Inl ValueTooLong
      else if Deposit_Asset r \<notin> {AssetSOL, AssetUSDC} \<or> Deposit_RawAmount r \<le> 0
           \<or> Deposit_CreditedUSDC r < 0 then Inl CheckViolation
      else if list_ex (\<lambda>q. Deposit_Signature q = Deposit_Signature r) (deposits d) then Inr (d, 0)
      else if list_ex (\<lambda>q. Deposit_ID q = Deposit_ID r) (deposits d) then Inl UniqueViolation
      else if \<not> account_known d (Deposit_AccountID r) then Inl ForeignKeyViolation
      else Inr (d\<lparr>deposits := deposits d @
             [r\<lparr>Deposit_CreditedReais := 0, Deposit_CreatedAt := now, Deposit_CreditedAt := None\<rparr>]\<rparr>, 1))"

definition update_deposit :: "(Deposit \<Rightarrow> Deposit) \<Rightarrow> string \<Rightarrow> wallet_db \<Rightarrow> sql_error + (wallet_db \<times> nat)" where
  "update_deposit f sig d =
     (let hit = (\<lambda>r. Deposit_Signature r = sig)
      in if list_ex (\<lambda>r. hit r \<and> (Deposit_CreditedUSDC (f r) < 0 \<or> Deposit_CreditedReais (f r) < 0))
              (deposits d) then Inl CheckViolation
         else Inr (d\<lparr>deposits := upd_rows hit f (deposits d)\<rparr>, length (filter hit (deposits d))))"

definition insert_withdrawal :: "Withdrawal \<Rightarrow> time \<Rightarrow> wallet_db \<Rightarrow> sql_error + (wallet_db \<times> nat)" where
  "insert_withdrawal r now d =
     (if 8 < char_count (Withdrawal_Asset r) then Inl ValueTooLong
      else if Withdrawal_Asset r \<noteq> AssetUSDC \<or> Withdrawal_AmountUSDC r \<le> 0
           \<or> Withdrawal_AmountReais r < 0 then Inl CheckViolation
      else if list_ex (\<lambda>q. Withdrawal_ID q = Withdrawal_ID r) (withdrawals d) then Inl UniqueViolation
      else if \<not> account_known d (Withdrawal_AccountID r) then Inl ForeignKeyViolation
      else Inr (d\<lparr>withdrawals := withdrawals d @
             [r\<lparr>Withdrawal_Signature := None, Withdrawal_CreatedAt := now, Withdrawal_SettledAt := None\<rparr>]\<rparr>, 1))"

definition update_withdrawal :: "(Withdrawal \<Rightarrow> Withdrawal) \<Rightarrow> uuid \<Rightarrow> wallet_db \<Rightarrow> sql_error + (wallet_db \<times> nat)" where
  "update_withdrawal f i d =
     Inr (d\<lparr>withdrawals := upd_rows (\<lambda>r. Withdrawal_ID r = i) f (withdrawals d)\<rparr>,
          length (filter (\<lambda>r. Withdrawal_ID r = i) (withdrawals d)))"


section \<open>Addresses and cursors\<close>

text \<open>\<open>nextval\<close> is never rolled back; \<open>uint32(idx)\<close> keeps the low 32 bits.\<close>

definition nextval :: "int wallet_io" where
  "nextval = w_stmt (\<lambda>w.
     if int64_max < derivation_seq (wdb w) then (Inl (WErrSql OutOfRange), w)
     else (Inr (derivation_seq (wdb w)),
           w\<lparr>wdb := (wdb w)\<lparr>derivation_seq := derivation_seq (wdb w) + 1\<rparr>\<rparr>))"

definition NextDerivationIndex :: "32 word wallet_io" where
  "NextDerivationIndex =
     bindE (on_error nextval (\<lambda>e. throw (WErrWrap ''allocating derivation index'' e)))
       (\<lambda>idx. ret (word_of_int idx))"

definition found_or :: "'a option wallet_io \<Rightarrow> 'a wallet_io" where
  "found_or m = bindE m (\<lambda>r. case r of None \<Rightarrow> throw store_ErrNotFound | Some x \<Rightarrow> ret x)"

definition GetAddressByAccount :: "uuid \<Rightarrow> WalletAddress wallet_io" where
  "GetAddressByAccount a = found_or (w_query (\<lambda>d. find (\<lambda>r. Wallet_AccountID r = a) (wallet_addresses d)))"

definition GetAddressByATA :: "string \<Rightarrow> WalletAddress wallet_io" where
  "GetAddressByATA ata = found_or (w_query (\<lambda>d. find (\<lambda>r. Wallet_USDCATA r = ata) (wallet_addresses d)))"

definition GetAddressBySOL :: "string \<Rightarrow> WalletAddress wallet_io" where
  "GetAddressBySOL addr = found_or (w_query (\<lambda>d. find (\<lambda>r. Wallet_Address r = addr) (wallet_addresses d)))"

definition ListAddresses :: "WalletAddress list wallet_io" where
  "ListAddresses = w_query (\<lambda>d. sort_key (\<lambda>r. uint (Wallet_DerivationIndex r)) (wallet_addresses d))"

definition GetScanCursor :: "string \<Rightarrow> string wallet_io" where
  "GetScanCursor addr = bindE (w_query (\<lambda>d. find (\<lambda>c. Cursor_Address c = addr) (deposit_cursors d)))
     (\<lambda>r. case r of None \<Rightarrow> ret [] | Some c \<Rightarrow> ret (Cursor_LastSig c))"

definition upsert_cursor :: "string \<Rightarrow> string \<Rightarrow> time \<Rightarrow> wallet_db \<Rightarrow> sql_error + (wallet_db \<times> nat)" where
  "upsert_cursor addr sig now d =
     Inr (d\<lparr>deposit_cursors :=
       (if list_ex (\<lambda>c. Cursor_Address c = addr) (deposit_cursors d)
        then upd_rows (\<lambda>c. Cursor_Address c = addr)
               (\<lambda>c. c\<lparr>Cursor_LastSig := sig, Cursor_UpdatedAt := now\<rparr>) (deposit_cursors d)
        else deposit_cursors d @ [\<lparr>Cursor_Address = addr, Cursor_LastSig = sig, Cursor_UpdatedAt = now\<rparr>])\<rparr>, 1)"

definition SetScanCursor :: "string \<Rightarrow> string \<Rightarrow> unit wallet_io" where
  "SetScanCursor addr sig = seqE (w_exec (upsert_cursor addr sig)) (ret ())"

definition InsertAddress :: "WalletAddress \<Rightarrow> unit wallet_io" where
  "InsertAddress r = seqE (w_exec (insert_address r)) (ret ())"


section \<open>Faucet claims\<close>

definition ClaimFaucet :: "uuid \<Rightarrow> bool wallet_io" where
  "ClaimFaucet a = bindE (w_exec (insert_claim a)) (\<lambda>n. ret (n = 1))"

definition ReleaseFaucet :: "uuid \<Rightarrow> unit wallet_io" where
  "ReleaseFaucet a = seqE (w_exec (delete_claim a)) (ret ())"


section \<open>Deposits\<close>

definition InsertDepositIfNew :: "Deposit \<Rightarrow> bool wallet_io" where
  "InsertDepositIfNew d =
     bindE (if Deposit_ID d = [] then wuuid_New else ret (Deposit_ID d)) (\<lambda>i.
     bindE (w_exec (insert_deposit (d\<lparr>Deposit_ID := i\<rparr>))) (\<lambda>n. ret (n = 1)))"

definition SetDepositStatus :: "string \<Rightarrow> DepositStatus \<Rightarrow> unit wallet_io" where
  "SetDepositStatus sig st =
     seqE (w_exec (\<lambda>_. update_deposit (\<lambda>r. r\<lparr>Deposit_Status := st\<rparr>) sig)) (ret ())"

definition MarkDepositCredited :: "string \<Rightarrow> int \<Rightarrow> int \<Rightarrow> unit wallet_io" where
  "MarkDepositCredited sig usdc reais =
     seqE (w_exec (\<lambda>now. update_deposit (\<lambda>r. r\<lparr>Deposit_Status := DepositCredited,
             Deposit_CreditedUSDC := usdc, Deposit_CreditedReais := reais,
             Deposit_CreditedAt := Some now\<rparr>) sig)) (ret ())"

definition MarkDepositFailed :: "string \<Rightarrow> unit wallet_io" where
  "MarkDepositFailed sig =
     seqE (w_exec (\<lambda>_. update_deposit (\<lambda>r. r\<lparr>Deposit_Status := DepositFailed\<rparr>) sig)) (ret ())"

definition ListDepositsByAccount :: "uuid \<Rightarrow> Deposit list wallet_io" where
  "ListDepositsByAccount a = w_query (\<lambda>d.
     sort_key (\<lambda>r. - Deposit_CreatedAt r) (filter (\<lambda>r. Deposit_AccountID r = a) (deposits d)))"


section \<open>Withdrawals\<close>

text \<open>The id is written into the caller's struct, so the struct is returned.\<close>

definition InsertWithdrawal :: "Withdrawal \<Rightarrow> Withdrawal wallet_io" where
  "InsertWithdrawal r =
     bindE (if Withdrawal_ID r = [] then wuuid_New else ret (Withdrawal_ID r)) (\<lambda>i.
     seqE (w_exec (insert_withdrawal (r\<lparr>Withdrawal_ID := i\<rparr>))) (ret (r\<lparr>Withdrawal_ID := i\<rparr>)))"

definition ListWithdrawalsByAccount :: "uuid \<Rightarrow> Withdrawal list wallet_io" where
  "ListWithdrawalsByAccount a = w_query (\<lambda>d.
     sort_key (\<lambda>r. - Withdrawal_CreatedAt r) (filter (\<lambda>r. Withdrawal_AccountID r = a) (withdrawals d)))"

definition SetWithdrawalStatus :: "uuid \<Rightarrow> WithdrawalStatus \<Rightarrow> unit wallet_io" where
  "SetWithdrawalStatus i st =
     seqE (w_exec (\<lambda>_. update_withdrawal (\<lambda>r. r\<lparr>Withdrawal_Status := st\<rparr>) i)) (ret ())"

definition SetWithdrawalSent :: "uuid \<Rightarrow> string \<Rightarrow> unit wallet_io" where
  "SetWithdrawalSent i sig =
     seqE (w_exec (\<lambda>_. update_withdrawal (\<lambda>r. r\<lparr>Withdrawal_Status := WithdrawalSent,
             Withdrawal_Signature := Some sig\<rparr>) i)) (ret ())"

definition SetWithdrawalConfirmed :: "uuid \<Rightarrow> unit wallet_io" where
  "SetWithdrawalConfirmed i =
     seqE (w_exec (\<lambda>now. update_withdrawal (\<lambda>r. r\<lparr>Withdrawal_Status := WithdrawalConfirmed,
             Withdrawal_SettledAt := Some now\<rparr>) i)) (ret ())"

definition SetWithdrawalFailed :: "uuid \<Rightarrow> unit wallet_io" where
  "SetWithdrawalFailed i =
     seqE (w_exec (\<lambda>now. update_withdrawal (\<lambda>r. r\<lparr>Withdrawal_Status := WithdrawalFailed,
             Withdrawal_SettledAt := Some now\<rparr>) i)) (ret ())"


section \<open>Migrations\<close>

text \<open>On a fresh database: the sequence starts at 1, the tables are empty.\<close>

definition wallet_runMigrations :: wallet_db where
  "wallet_runMigrations = \<lparr>derivation_seq = 1, wallet_addresses = [], deposits = [],
     deposit_cursors = [], withdrawals = [], faucet_claims = []\<rparr>"

end
