(* ===== verification/Wallet_Chain.thy ===== *)
theory Wallet_Chain
  imports Wallet_Crypto Wallet_Store
begin

text \<open>
  \<open>wallet-backend/chain\<close>: the interfaces \<open>Client\<close>, \<open>Swapper\<close> and
  \<open>DepositScanner\<close> and their live implementations. What the network and the Solana
  library answer is not under \<open>src\<close>: a record of functions of the calls made so far,
  so that any behaviour over time is one value of the record. A key or a signature is its
  base58 text.
\<close>

section \<open>The network\<close>

datatype confirmation = Processed | Confirmed | Finalized

record signature_status =
  Status_Err :: "string option"
  Status_Confirmation :: confirmation

record TransactionSignature =
  TS_Signature :: string
  TS_Slot :: "64 word"
  TS_Err :: "string option"

record TokenBalance =
  TB_AccountIndex :: nat
  TB_Mint :: string
  TB_Amount :: "string option"

record TransactionMeta =
  Meta_Err :: "string option"
  Meta_PreTokenBalances :: "TokenBalance list"
  Meta_PostTokenBalances :: "TokenBalance list"
  Meta_PreBalances :: "64 word list"
  Meta_PostBalances :: "64 word list"

text \<open>\<open>Result_Transaction\<close>: nil, or the decoded account keys, or the decoding error.\<close>

record TransactionResult =
  Result_Meta :: "TransactionMeta option"
  Result_Transaction :: "(string + string list) option"

datatype account_info = AccountFound | AccountNotFound | AccountError string

text \<open>
  The last four fields are Jupiter: the HTTP replies (a transport error, or status and body),
  the JSON decoding of the two fields the code reads, and the decoding of a transaction.
  \<open>ctx_polls\<close> is how often the two-second wait of \<open>confirmSignature\<close> ends before the
  caller's context does. \<open>tx_error\<close> is what building or signing a transaction fails with.
\<close>

record solana =
  key_ok :: "string \<Rightarrow> bool"
  sig_ok :: "string \<Rightarrow> bool"
  find_ata :: "string \<Rightarrow> string \<Rightarrow> string + string"
  tx_error :: "string \<Rightarrow> string \<Rightarrow> transaction \<Rightarrow> string option"
  ctx_polls :: "rpc_call list \<Rightarrow> nat"
  rpc_GetBalance :: "rpc_call list \<Rightarrow> string \<Rightarrow> string + 64 word"
  rpc_GetTokenAccountBalance :: "rpc_call list \<Rightarrow> string \<Rightarrow> string + string"
  rpc_GetAccountInfo :: "rpc_call list \<Rightarrow> string \<Rightarrow> account_info"
  rpc_GetLatestBlockhash :: "rpc_call list \<Rightarrow> string + string"
  rpc_SendTransaction :: "rpc_call list \<Rightarrow> transaction \<Rightarrow> string + string"
  rpc_GetSignatureStatuses :: "rpc_call list \<Rightarrow> string \<Rightarrow> string + signature_status option list"
  rpc_GetSignaturesForAddress ::
    "rpc_call list \<Rightarrow> string \<Rightarrow> int \<Rightarrow> string option \<Rightarrow> string + TransactionSignature list"
  rpc_GetTransaction :: "rpc_call list \<Rightarrow> string \<Rightarrow> string + TransactionResult option"
  jup_http :: "rpc_call list \<Rightarrow> rpc_call \<Rightarrow> string + (nat \<times> string)"
  quote_threshold :: "string \<Rightarrow> string + string"
  swap_transaction :: "string \<Rightarrow> string + string"
  tx_decode :: "string \<Rightarrow> string option"

definition ask :: "rpc_call \<Rightarrow> (rpc_call list \<Rightarrow> string + 'a) \<Rightarrow> 'a wallet_io" where
  "ask c f = (\<lambda>w. (case f (calls w) of Inl e \<Rightarrow> Inl (WErrLib e) | Inr x \<Rightarrow> Inr x,
                   w\<lparr>calls := calls w @ [c]\<rparr>))"

definition need :: "string \<Rightarrow> wallet_error \<Rightarrow> bool \<Rightarrow> unit wallet_io" where
  "need m e b = (if b then ret () else throw (WErrWrap m e))"

definition wrapping :: "string \<Rightarrow> 'a wallet_io \<Rightarrow> 'a wallet_io" where
  "wrapping m k = on_error k (\<lambda>e. throw (WErrWrap m e))"

definition lib :: "string + 'a \<Rightarrow> 'a wallet_io" where
  "lib r = (case r of Inl e \<Rightarrow> throw (WErrLib e) | Inr x \<Rightarrow> ret x)"

definition tx_ok :: "string \<Rightarrow> string option \<Rightarrow> unit wallet_io" where
  "tx_ok m e = (case e of Some x \<Rightarrow> throw (WErrWrap m (WErrLib x)) | None \<Rightarrow> ret ())"

text \<open>
  \<open>strconv.ParseUint(s, 10, 64)\<close>, digit by digit: the first bad digit is a syntax
  error, the first overflow a range error, with which it returns the largest \<open>uint64\<close>.
\<close>

definition digit_value :: "char \<Rightarrow> nat option" where
  "digit_value c = (let k = of_char c :: nat in if 48 \<le> k \<and> k \<le> 57 then Some (k - 48) else None)"

datatype num_error = ErrSyntax | ErrRange

fun parse_digits :: "nat \<Rightarrow> string \<Rightarrow> num_error + nat" where
  "parse_digits acc [] = Inr acc"
| "parse_digits acc (c # cs) =
     (case digit_value c of
        None \<Rightarrow> Inl ErrSyntax
      | Some k \<Rightarrow> if 2 ^ 64 \<le> 10 * acc + k then Inl ErrRange else parse_digits (10 * acc + k) cs)"

definition ParseUint :: "string \<Rightarrow> 64 word \<times> num_error option" where
  "ParseUint s = (if s = [] then (0, Some ErrSyntax) else case parse_digits 0 s of
     Inr n \<Rightarrow> (of_nat n, None) | Inl ErrSyntax \<Rightarrow> (0, Some ErrSyntax) | Inl ErrRange \<Rightarrow> (- 1, Some ErrRange))"


section \<open>Confirmation and sending (\<open>solana.go\<close>)\<close>

definition poll_status :: "solana \<Rightarrow> string \<Rightarrow> signature_status option wallet_io" where
  "poll_status S sig = (\<lambda>w.
     (Inr (case rpc_GetSignatureStatuses S (calls w) sig of
             Inr (Some st # _) \<Rightarrow> Some st | _ \<Rightarrow> None),
      w\<lparr>calls := calls w @ [GetSignatureStatuses sig]\<rparr>))"

text \<open>The loop, with the number of waits left before the context is done.\<close>

fun confirm_loop :: "solana \<Rightarrow> string \<Rightarrow> nat \<Rightarrow> unit wallet_io" where
  "confirm_loop S sig n =
     bindE (poll_status S sig) (\<lambda>st.
       let wait = (case n of 0 \<Rightarrow> throw (WErrLib ''context done'') | Suc m \<Rightarrow> confirm_loop S sig m)
       in case st of
            None \<Rightarrow> wait
          | Some s \<Rightarrow>
              (case Status_Err s of
                 Some e \<Rightarrow> throw (WErrWrap (''transaction '' @ sig @ '' failed on-chain'') (WErrLib e))
               | None \<Rightarrow> if Status_Confirmation s \<in> {Confirmed, Finalized} then ret () else wait))"

declare confirm_loop.simps [simp del]

definition confirmSignature :: "solana \<Rightarrow> string \<Rightarrow> unit wallet_io" where
  "confirmSignature S sig = (\<lambda>w. confirm_loop S sig (ctx_polls S (calls w)) w)"

definition Sol_ConfirmTx :: "solana \<Rightarrow> string \<Rightarrow> unit wallet_io" where
  "Sol_ConfirmTx S sig =
     seqE (need ''invalid signature'' (WErrLib sig) (sig_ok S sig)) (confirmSignature S sig)"

text \<open>
  The signature comes back even when the confirmation fails: the result is the pair Go
  returns.
\<close>

definition signSendConfirm ::
    "crypto_lib \<Rightarrow> solana \<Rightarrow> Keypair \<Rightarrow> transaction \<Rightarrow> (string \<times> wallet_error option) wallet_io" where
  "signSendConfirm C S signer tx =
     on_error
       (bindE (wrapping ''fetching blockhash'' (ask GetLatestBlockhash (rpc_GetLatestBlockhash S))) (\<lambda>bh.
        seqE (tx_ok ''building transaction'' (tx_error S (Address C signer) bh tx))
       (bindE (wrapping ''broadcasting transaction''
                (ask (SendTransaction (Address C signer) bh tx) (\<lambda>h. rpc_SendTransaction S h tx))) (\<lambda>sig.
        on_error (seqE (Sol_ConfirmTx S sig) (ret (sig, None))) (\<lambda>e. ret (sig, Some e))))))
       (\<lambda>e. ret ([], Some e))"

text \<open>A caller that gives up on the error drops the signature.\<close>

definition or_fail :: "(string \<times> wallet_error option) wallet_io \<Rightarrow> string wallet_io" where
  "or_fail m = bindE m (\<lambda>(sig, e). case e of None \<Rightarrow> ret sig | Some e \<Rightarrow> throw e)"


section \<open>The client\<close>

definition accountExists :: "solana \<Rightarrow> string \<Rightarrow> bool wallet_io" where
  "accountExists S pk = ask (GetAccountInfo pk) (\<lambda>h. case rpc_GetAccountInfo S h pk of
     AccountFound \<Rightarrow> Inr True | AccountNotFound \<Rightarrow> Inr False | AccountError e \<Rightarrow> Inl e)"

definition Sol_ReadSOLBalance :: "solana \<Rightarrow> string \<Rightarrow> (64 word) wallet_io" where
  "Sol_ReadSOLBalance S addr =
     seqE (need ''invalid address'' (WErrLib addr) (key_ok S addr))
          (ask (GetBalance addr) (\<lambda>h. rpc_GetBalance S h addr))"

definition Sol_DeriveUSDCATA :: "solana \<Rightarrow> string \<Rightarrow> string \<Rightarrow> string wallet_io" where
  "Sol_DeriveUSDCATA S mint owner =
     seqE (need ''invalid owner'' (WErrLib owner) (key_ok S owner)) (lib (find_ata S owner mint))"

definition Sol_ReadUSDCBalance :: "solana \<Rightarrow> string \<Rightarrow> string \<Rightarrow> (64 word) wallet_io" where
  "Sol_ReadUSDCBalance S mint owner =
     bindE (Sol_DeriveUSDCATA S mint owner) (\<lambda>ata.
     bindE (accountExists S ata) (\<lambda>exists.
     if \<not> exists then ret 0
     else bindE (ask (GetTokenAccountBalance ata) (\<lambda>h. rpc_GetTokenAccountBalance S h ata)) (\<lambda>txt.
          case ParseUint txt of
            (_, Some _) \<Rightarrow> throw (WErrWrap ''parsing token amount'' (WErrLib txt))
          | (v, None) \<Rightarrow> ret v)))"

definition Sol_EnsureUSDCATA ::
    "crypto_lib \<Rightarrow> solana \<Rightarrow> string \<Rightarrow> Keypair \<Rightarrow> string \<Rightarrow> (string \<times> string) wallet_io" where
  "Sol_EnsureUSDCATA C S mint treasury owner =
     seqE (need ''invalid owner'' (WErrLib owner) (key_ok S owner))
    (bindE (lib (find_ata S owner mint)) (\<lambda>ata.
     bindE (accountExists S ata) (\<lambda>exists.
     if exists then ret (ata, [])
     else bindE (wrapping ''creating USDC ATA''
                  (or_fail (signSendConfirm C S treasury (CreateATA (Address C treasury) owner mint))))
            (\<lambda>sig. ret (ata, sig)))))"

definition Sol_TransferUSDC ::
    "crypto_lib \<Rightarrow> solana \<Rightarrow> string \<Rightarrow> Keypair \<Rightarrow> string \<Rightarrow> 64 word \<Rightarrow> string wallet_io" where
  "Sol_TransferUSDC C S mint from toATA amount =
     bindE (lib (find_ata S (Address C from) mint)) (\<lambda>fromATA.
     seqE (need ''invalid destination ATA'' (WErrLib toATA) (key_ok S toATA))
       (or_fail (signSendConfirm C S from
          (TransferChecked amount fromATA mint toATA (Address C from)))))"

definition Sol_TransferSOL ::
    "crypto_lib \<Rightarrow> solana \<Rightarrow> Keypair \<Rightarrow> string \<Rightarrow> 64 word \<Rightarrow> string wallet_io" where
  "Sol_TransferSOL C S from toAddress lamports =
     seqE (need ''invalid destination'' (WErrLib toAddress) (key_ok S toAddress))
       (or_fail (signSendConfirm C S from (SystemTransfer lamports (Address C from) toAddress)))"


section \<open>The swapper (\<open>jupiter.go\<close>)\<close>

definition wrappedSOLMint :: string where
  "wrappedSOLMint = ''So11111111111111111111111111111111111111112''"

definition Jup_do :: "solana \<Rightarrow> rpc_call \<Rightarrow> string wallet_io" where
  "Jup_do S req = bindE (ask req (\<lambda>h. jup_http S h req)) (\<lambda>(code, body).
     if code \<noteq> 200 then throw (WErrNew (''status '' @ nat_text code @ '': '' @ body)) else ret body)"

definition Jup_quote :: "solana \<Rightarrow> string \<Rightarrow> 64 word \<Rightarrow> int \<Rightarrow> (string \<times> string) wallet_io" where
  "Jup_quote S mint lamports slippage =
     bindE (wrapping ''jupiter quote''
       (Jup_do S (JupiterQuote wrappedSOLMint mint (nat_text (unat lamports)) slippage))) (\<lambda>body.
     bindE (wrapping ''decoding quote'' (lib (quote_threshold S body))) (\<lambda>t.
     if t = []
     then throw (WErrNew ''jupiter returned no route (SOL->USDC unavailable, e.g. on devnet)'')
     else ret (body, t)))"

definition Jup_buildSwapTx :: "solana \<Rightarrow> string \<Rightarrow> string \<Rightarrow> string wallet_io" where
  "Jup_buildSwapTx S rawQuote pubkey =
     bindE (wrapping ''jupiter swap'' (Jup_do S (JupiterBuild rawQuote pubkey))) (\<lambda>body.
     bindE (wrapping ''decoding swap response'' (lib (swap_transaction S body))) (\<lambda>b64.
     if b64 = [] then throw (WErrNew ''jupiter returned an empty swap transaction'') else ret b64))"

text \<open>Broadcast and confirm; the amount is the one the quote guaranteed.\<close>

definition Jup_send :: "crypto_lib \<Rightarrow> solana \<Rightarrow> Keypair \<Rightarrow> 64 word \<Rightarrow> string \<Rightarrow> (64 word \<times> string) wallet_io" where
  "Jup_send C S from minOut b64 =
     bindE (wrapping ''broadcasting swap''
             (ask (SendTransaction (Address C from) [] (SwapTransaction b64))
                  (\<lambda>h. rpc_SendTransaction S h (SwapTransaction b64)))) (\<lambda>sig.
     seqE (confirmSignature S sig) (ret (minOut, sig)))"

definition Jup_SwapSOLToUSDC ::
    "crypto_lib \<Rightarrow> solana \<Rightarrow> string \<Rightarrow> Keypair \<Rightarrow> 64 word \<Rightarrow> int \<Rightarrow> (64 word \<times> string) wallet_io" where
  "Jup_SwapSOLToUSDC C S mint from lamports slippage =
     bindE (Jup_quote S mint lamports slippage) (\<lambda>q.
     case ParseUint (snd q) of
       (_, Some _) \<Rightarrow> throw (WErrWrap ''parsing quote threshold'' (WErrLib (snd q)))
     | (minOut, None) \<Rightarrow>
         bindE (Jup_buildSwapTx S (fst q) (Address C from)) (\<lambda>b64.
         seqE (tx_ok ''decoding swap transaction'' (tx_decode S b64))
        (seqE (tx_ok ''signing swap transaction'' (tx_error S (Address C from) [] (SwapTransaction b64)))
              (Jup_send C S from minOut b64))))"


section \<open>The scanner (\<open>scanner.go\<close>)\<close>

definition scanSignatureLimit :: int where "scanSignatureLimit = 100"

text \<open>An unreadable cursor is dropped: the scan starts from the newest signatures.\<close>

definition signaturesSince :: "solana \<Rightarrow> string \<Rightarrow> string \<Rightarrow> TransactionSignature list wallet_io" where
  "signaturesSince S addr since =
     (let until = (if since \<noteq> [] \<and> sig_ok S since then Some since else None)
      in ask (GetSignaturesForAddress addr scanSignatureLimit until)
             (\<lambda>h. rpc_GetSignaturesForAddress S h addr scanSignatureLimit until))"

text \<open>The loop's variables: the candidates in order, the newest slot and the cursor.\<close>

definition gather :: "TransactionSignature \<Rightarrow> string list \<times> 64 word \<times> string \<Rightarrow> string list \<times> 64 word \<times> string" where
  "gather ts st = (case st of (cands, slot, cursor) \<Rightarrow>
     if TS_Err ts \<noteq> None then (cands, slot, cursor)
     else (if TS_Signature ts \<in> set cands then cands else cands @ [TS_Signature ts],
           if slot < TS_Slot ts then TS_Slot ts else slot,
           if slot < TS_Slot ts then TS_Signature ts else cursor))"

fun indexOf :: "string list \<Rightarrow> string \<Rightarrow> nat option" where
  "indexOf [] t = None"
| "indexOf (k # ks) t = (if k = t then Some 0 else map_option Suc (indexOf ks t))"

definition tokenAmountAt :: "TokenBalance list \<Rightarrow> nat \<Rightarrow> string \<Rightarrow> 64 word" where
  "tokenAmountAt bals idx mint =
     (case find (\<lambda>b. TB_AccountIndex b = idx \<and> TB_Mint b = mint \<and> TB_Amount b \<noteq> None) bals of
        None \<Rightarrow> 0 | Some b \<Rightarrow> fst (ParseUint (the (TB_Amount b))))"

definition usdc_delta :: "string \<Rightarrow> string \<Rightarrow> string \<Rightarrow> string list \<Rightarrow> TransactionMeta \<Rightarrow> DetectedDeposit list" where
  "usdc_delta mint sig ata keys m = (case indexOf keys ata of
     None \<Rightarrow> []
   | Some i \<Rightarrow>
       let pre = tokenAmountAt (Meta_PreTokenBalances m) i mint;
           post = tokenAmountAt (Meta_PostTokenBalances m) i mint
       in if pre < post
          then [\<lparr>Detected_Signature = sig, Detected_Asset = ''USDC'', Detected_RawAmount = post - pre\<rparr>]
          else [])"

definition sol_delta :: "string \<Rightarrow> string \<Rightarrow> string list \<Rightarrow> TransactionMeta \<Rightarrow> DetectedDeposit list" where
  "sol_delta sig base keys m = (case indexOf keys base of
     None \<Rightarrow> []
   | Some i \<Rightarrow>
       if i < length (Meta_PreBalances m) \<and> i < length (Meta_PostBalances m)
          \<and> Meta_PreBalances m ! i < Meta_PostBalances m ! i
       then [\<lparr>Detected_Signature = sig, Detected_Asset = ''SOL'',
               Detected_RawAmount = Meta_PostBalances m ! i - Meta_PreBalances m ! i\<rparr>]
       else [])"

definition depositsInTx :: "solana \<Rightarrow> string \<Rightarrow> string \<Rightarrow> string \<Rightarrow> string \<Rightarrow> DetectedDeposit list wallet_io" where
  "depositsInTx S mint sig base ata =
     bindE (ask (GetTransaction sig) (\<lambda>h. rpc_GetTransaction S h sig)) (\<lambda>res.
     case res of
       None \<Rightarrow> ret []
     | Some r \<Rightarrow>
         (case (Result_Meta r, Result_Transaction r) of
            (Some m, Some tx) \<Rightarrow>
              if Meta_Err m \<noteq> None then ret []
              else bindE (lib tx) (\<lambda>keys. ret (usdc_delta mint sig ata keys m @ sol_delta sig base keys m))
          | _ \<Rightarrow> ret []))"

fun deposits_in :: "solana \<Rightarrow> string \<Rightarrow> string list \<Rightarrow> string \<Rightarrow> string \<Rightarrow> DetectedDeposit list wallet_io" where
  "deposits_in S mint [] base ata = ret []"
| "deposits_in S mint (sig # sigs) base ata =
     bindE (depositsInTx S mint sig base ata) (\<lambda>deps.
     bindE (deposits_in S mint sigs base ata) (\<lambda>rest. ret (deps @ rest)))"

definition Sol_ScanDeposits ::
    "solana \<Rightarrow> string \<Rightarrow> string \<Rightarrow> string \<Rightarrow> string \<Rightarrow> (DetectedDeposit list \<times> string) wallet_io" where
  "Sol_ScanDeposits S mint baseAddress usdcATA since =
     seqE (if key_ok S baseAddress then ret () else throw (WErrLib baseAddress))
    (seqE (if key_ok S usdcATA then ret () else throw (WErrLib usdcATA))
    (bindE (signaturesSince S baseAddress since) (\<lambda>sigs1.
     bindE (signaturesSince S usdcATA since) (\<lambda>sigs2.
     case fold gather (sigs1 @ sigs2) ([], 0, since) of (cands, _, cursor) \<Rightarrow>
     bindE (deposits_in S mint cands baseAddress usdcATA) (\<lambda>found. ret (found, cursor))))))"


section \<open>The interfaces\<close>

record chain_Client =
  ReadSOLBalance :: "string \<Rightarrow> (64 word) wallet_io"
  ReadUSDCBalance :: "string \<Rightarrow> (64 word) wallet_io"
  DeriveUSDCATA :: "string \<Rightarrow> string wallet_io"
  EnsureUSDCATA :: "Keypair \<Rightarrow> string \<Rightarrow> (string \<times> string) wallet_io"
  TransferUSDC :: "Keypair \<Rightarrow> string \<Rightarrow> 64 word \<Rightarrow> string wallet_io"
  TransferSOL :: "Keypair \<Rightarrow> string \<Rightarrow> 64 word \<Rightarrow> string wallet_io"
  ConfirmTx :: "string \<Rightarrow> unit wallet_io"

record Swapper =
  SwapSOLToUSDC :: "Keypair \<Rightarrow> 64 word \<Rightarrow> int \<Rightarrow> (64 word \<times> string) wallet_io"

definition SolanaClient :: "crypto_lib \<Rightarrow> solana \<Rightarrow> string \<Rightarrow> chain_Client" where
  "SolanaClient C S mint = \<lparr>ReadSOLBalance = Sol_ReadSOLBalance S,
     ReadUSDCBalance = Sol_ReadUSDCBalance S mint, DeriveUSDCATA = Sol_DeriveUSDCATA S mint,
     EnsureUSDCATA = Sol_EnsureUSDCATA C S mint, TransferUSDC = Sol_TransferUSDC C S mint,
     TransferSOL = Sol_TransferSOL C S, ConfirmTx = Sol_ConfirmTx S\<rparr>"

definition JupiterSwapper :: "crypto_lib \<Rightarrow> solana \<Rightarrow> string \<Rightarrow> Swapper" where
  "JupiterSwapper C S mint = \<lparr>SwapSOLToUSDC = Jup_SwapSOLToUSDC C S mint\<rparr>"

end
