(* ===== verification/Wallet_Ledger.thy ===== *)
theory Wallet_Ledger
  imports Wallet_Store Bet_Results
begin

text \<open>
  \<open>wallet-backend/betclient/client.go\<close>: one HTTP request to bet-backend's adjust
  endpoint, answered by the handler modelled in \<open>Bet_Handlers\<close>, lost, or answered in
  vain. The locale is the interface \<open>LedgerClient\<close> with what its users rely on; the
  client over the engine is its interpretation.
\<close>

section \<open>The client\<close>

text \<open>The status switch. Any other status is an error that carries status and body.\<close>

definition adjust_result :: "bet_response \<Rightarrow> wallet_error + int" where
  "adjust_result r = (case r of (code, body) \<Rightarrow>
     if code = 200 then
       (case body of BAdjusted _ b \<Rightarrow> Inr b | _ \<Rightarrow> Inl (WErrNew ''decoding adjust response''))
     else if code = 402 then Inl betclient_ErrInsufficientBalance
     else if code = 404 then Inl betclient_ErrUserNotFound
     else Inl (WErrNew (''bet-backend adjust failed (status '' @ nat_text code @ '')'')))"

definition Client_AdjustBalance :: "(sql_error \<Rightarrow> string) \<Rightarrow> uuid \<Rightarrow> int \<Rightarrow> int wallet_io" where
  "Client_AdjustBalance drv userID delta = (\<lambda>w.
     let w1 = w\<lparr>net_fates := tl (net_fates w), requests := requests w @ [(userID, delta)]\<rparr>
     in case next_fate (net_fates w) of
          RequestLost \<Rightarrow> (Inl betclient_ErrUnavailable, w1)
        | f \<Rightarrow> (case AdjustBalance_handler drv userID (Some delta) (bank w) of (r, b') \<Rightarrow>
            (if f = ReplyLost then Inl betclient_ErrUnavailable else adjust_result r, w1\<lparr>bank := b'\<rparr>)))"


section \<open>The interface\<close>

text \<open>The one balance moves by exactly the delta and stays non-negative; no other does.\<close>

definition moved :: "uuid \<Rightarrow> int \<Rightarrow> db \<Rightarrow> db \<Rightarrow> bool" where
  "moved u delta d d' \<longleftrightarrow> inv d' \<and> escrow d' = escrow d \<and>
     (\<exists>b. balance_of d u = Some b \<and> 0 \<le> b + delta \<and>
          balance_of d' = (balance_of d)(u \<mapsto> b + delta))"

text \<open>The wallet's own state, which the ledger does not touch.\<close>

definition own :: "wallet_world \<Rightarrow> wallet_db \<times> rpc_call list \<times> fate list \<times> nat" where
  "own w = (wdb w, calls w, db_fates w, wuuid_ctr w)"

locale ledger_client =
  fixes adjust :: "uuid \<Rightarrow> int \<Rightarrow> int wallet_io"
  assumes adjust_frame: "adjust u delta w = (r, w') \<Longrightarrow>
      own w' = own w \<and> wclock w' = wclock w \<and> wuuid_src w' = wuuid_src w \<and>
      requests w' = requests w @ [(u, delta)] \<and> net_fates w' = tl (net_fates w)"
    and adjust_ok: "inv (tabs (bank w)) \<Longrightarrow> in_int64 delta \<Longrightarrow> adjust u delta w = (Inr b, w') \<Longrightarrow>
      moved u delta (tabs (bank w)) (tabs (bank w')) \<and> balance_of (tabs (bank w')) u = Some b"
    and adjust_refused: "inv (tabs (bank w)) \<Longrightarrow> adjust u delta w = (Inl e, w') \<Longrightarrow>
      e \<noteq> betclient_ErrUnavailable \<Longrightarrow> tabs (bank w') = tabs (bank w)"
    and adjust_unavailable: "inv (tabs (bank w)) \<Longrightarrow> in_int64 delta \<Longrightarrow>
      adjust u delta w = (Inl betclient_ErrUnavailable, w') \<Longrightarrow>
      next_fate (net_fates w) \<noteq> Answered \<and>
      (tabs (bank w') = tabs (bank w) \<or> moved u delta (tabs (bank w)) (tabs (bank w')))"
begin

text \<open>An answered request is decided: it moved the balance or it touched nothing.\<close>

lemma adjust_decided:
  assumes "inv (tabs (bank w))" and "in_int64 delta" and "next_fate (net_fates w) = Answered"
    and "adjust u delta w = (r, w')"
  shows "case r of Inl _ \<Rightarrow> tabs (bank w') = tabs (bank w)
       | Inr _ \<Rightarrow> moved u delta (tabs (bank w)) (tabs (bank w'))"
  using adjust_ok [OF assms(1,2)] adjust_refused [OF assms(1)] adjust_unavailable [OF assms(1,2)]
    assms(3,4) by (cases r) fastforce+

lemma adjust_keeps_inv:
  assumes "inv (tabs (bank w))" and "in_int64 delta" and "adjust u delta w = (r, w')"
  shows "inv (tabs (bank w'))"
proof (cases r)
  case (Inl e)
  then show ?thesis
    using adjust_refused [OF assms(1), of u delta e w'] adjust_unavailable [OF assms(1,2), of u w'] assms
    by (cases "e = betclient_ErrUnavailable") (auto simp: moved_def)
next
  case (Inr b)
  then show ?thesis using adjust_ok [OF assms(1,2), of u b w'] assms(3) by (simp add: moved_def)
qed

end


text \<open>A debit that was made can be given back, and giving it back restores every balance.\<close>

lemma moved_back:
  assumes "moved u delta d d1" and "moved u (- delta) d1 d2"
  shows "balance_of d2 = balance_of d" and "escrow d2 = escrow d"
  using assms by (auto simp: moved_def fun_eq_iff)

lemma balance_in_range:
  assumes "wf_users d" and "balance_of d u = Some b"
  shows "0 \<le> b \<and> in_int64 b"
proof -
  obtain x where x: "select_user u d = Some x" "b = User_Balance x"
    using assms(2) by (auto simp: balance_of_def)
  then show ?thesis using assms(1) find_key_Some [of User_ID u "users d" x]
    by (simp add: select_user_def wf_users_def)
qed

text \<open>While the ledger is up, an adjustment that fits is made.\<close>

locale working_ledger = ledger_client adjust for adjust :: "uuid \<Rightarrow> int \<Rightarrow> int wallet_io" +
  fixes up :: "wallet_world \<Rightarrow> bool"
  assumes up_live: "inv (tabs (bank w)) \<Longrightarrow> up w \<Longrightarrow> balance_of (tabs (bank w)) u = Some b \<Longrightarrow>
      0 \<le> b + delta \<Longrightarrow> in_int64 (b + delta) \<Longrightarrow> \<exists>w'. adjust u delta w = (Inr (b + delta), w')"
    and up_keeps: "up w \<Longrightarrow> adjust u delta w = (r, w') \<Longrightarrow> up w'"
    and up_answers: "up w \<Longrightarrow> next_fate (net_fates w) = Answered"
    and up_cong: "bank w' = bank w \<Longrightarrow> net_fates w' = net_fates w \<Longrightarrow> up w \<Longrightarrow> up w'"
begin

text \<open>A debit just made can be returned in full.\<close>

lemma up_refund:
  assumes "inv (tabs (bank w))" and "up w" and "moved u (- amt) d (tabs (bank w))"
    and "inv d" and "in_int64 amt"
  shows "\<exists>b w'. adjust u amt w = (Inr b, w') \<and> up w' \<and> inv (tabs (bank w')) \<and>
           balance_of (tabs (bank w')) = balance_of d \<and> escrow (tabs (bank w')) = escrow d"
proof -
  obtain b where b: "balance_of d u = Some b" "0 \<le> b - amt"
      "balance_of (tabs (bank w)) u = Some (b - amt)"
    using assms(3) by (auto simp: moved_def)
  have "0 \<le> b \<and> in_int64 b" using balance_in_range [OF _ b(1)] assms(4) by (simp add: inv_def)
  then obtain w' where w': "adjust u amt w = (Inr b, w')"
    using up_live [OF assms(1,2) b(3), of amt] by auto
  have m: "moved u (- (- amt)) (tabs (bank w)) (tabs (bank w'))"
    using adjust_ok [OF assms(1,5) w'] by simp
  have "inv (tabs (bank w'))" using m by (simp add: moved_def)
  then show ?thesis
    using w' up_keeps [OF assms(2) w'] moved_back [OF assms(3) m] by blast
qed

end


section \<open>The client implements it\<close>

text \<open>A sum that wraps shows as a negative number, which the engine refuses.\<close>

lemma i64_exact:
  assumes "0 \<le> i64 x" and "- 9223372036854775808 \<le> x" and "x < 18446744073709551616"
  shows "i64 x = x"
proof (cases "x < 9223372036854775808")
  case True
  then show ?thesis using assms(2) by (simp add: i64_def)
next
  case False
  have "(x + 9223372036854775808) mod 18446744073709551616 =
        (x - 9223372036854775808) mod 18446744073709551616"
    using minus_mod_self2 [of "x + 9223372036854775808" "18446744073709551616::int"] by simp
  then have "i64 x = x - 18446744073709551616"
    using False assms(3) by (simp add: i64_def)
  then show ?thesis using assms(1,3) by simp
qed

text \<open>The handler answers 200 with the balance exactly when the engine moved it.\<close>

lemma AdjustBalance_moved:
  assumes "AdjustBalance u delta w = (Inr nb, w')" and "inv (tabs w)" and "in_int64 delta"
  shows "moved u delta (tabs w) (tabs w') \<and> balance_of (tabs w') u = Some nb"
proof -
  note e = AdjustBalance_effect [OF assms(1,2)]
  obtain b where b: "balance_of (tabs w) u = Some b" "nb = i64 (b + delta)" "0 \<le> nb"
    using e(3) by blast
  have "0 \<le> b \<and> in_int64 b" using balance_in_range [OF _ b(1)] assms(2) by (simp add: inv_def)
  then have "nb = b + delta"
    using i64_exact [of "b + delta"] b(2,3) assms(3)
    by (simp add: in_int64_def int64_min_def int64_max_def)
  then show ?thesis
    using e(1) e(2) e(4) b by (auto simp: moved_def only_users_eqs fun_eq_iff)
qed

lemma adjust_handler_cases:
  "AdjustBalance_handler drv u (Some delta) b =
     (case AdjustBalance u delta b of
        (Inr nb, b') \<Rightarrow> ((200, BAdjusted u nb), b')
      | (Inl e, b') \<Rightarrow> (AdjustBalance_error drv e, b'))"
  by (simp add: AdjustBalance_handler_def handle_def)

lemma adjust_result_error: "\<exists>e'. adjust_result (AdjustBalance_error drv e) = Inl e' \<and>
    e' \<noteq> betclient_ErrUnavailable"
  by (simp add: adjust_result_def AdjustBalance_error_def status_error_def)

lemma adjust_result_ok: "adjust_result (200, BAdjusted u b) = Inr b"
  by (simp add: adjust_result_def)

lemma Client_AdjustBalance_cases:
  assumes "Client_AdjustBalance drv u delta w = (r, w')"
  obtains (lost) "next_fate (net_fates w) = RequestLost" "r = Inl betclient_ErrUnavailable"
      "bank w' = bank w"
  | (answered) nb where "next_fate (net_fates w) \<noteq> RequestLost"
      "AdjustBalance u delta (bank w) = (Inr nb, bank w')"
      "r = (if next_fate (net_fates w) = ReplyLost then Inl betclient_ErrUnavailable else Inr nb)"
  | (refused) e e' where "next_fate (net_fates w) \<noteq> RequestLost"
      "AdjustBalance u delta (bank w) = (Inl e, bank w')" "r = Inl e'"
      "e' = betclient_ErrUnavailable \<longleftrightarrow> next_fate (net_fates w) = ReplyLost"
proof (cases "next_fate (net_fates w) = RequestLost")
  case True
  then show ?thesis using assms lost by (auto simp: Client_AdjustBalance_def Let_def)
next
  case False
  obtain x b' where a: "AdjustBalance u delta (bank w) = (x, b')" by force
  show ?thesis
  proof (cases x)
    case (Inl e)
    obtain e' where "adjust_result (AdjustBalance_error drv e) = Inl e'" "e' \<noteq> betclient_ErrUnavailable"
      using adjust_result_error by blast
    then show ?thesis
      using assms False a Inl refused [of e "if next_fate (net_fates w) = ReplyLost then betclient_ErrUnavailable else e'"]
      by (auto simp: Client_AdjustBalance_def Let_def adjust_handler_cases split: fate.splits)
  next
    case (Inr nb)
    then show ?thesis
      using assms False a answered [of nb]
      by (auto simp: Client_AdjustBalance_def Let_def adjust_handler_cases adjust_result_ok
        split: fate.splits)
  qed
qed

interpretation bank_client: ledger_client "Client_AdjustBalance drv" for drv
proof (unfold_locales, goal_cases)
  case (1 u delta w r w')
  then show ?case
    by (auto simp: Client_AdjustBalance_def own_def Let_def split: fate.splits prod.splits)
next
  case (2 w delta u b w')
  from 2(3) show ?case
    by (cases rule: Client_AdjustBalance_cases) (use 2(1,2) AdjustBalance_moved in \<open>auto split: if_splits\<close>)
next
  case (3 w u delta e w')
  from 3(2) show ?case
    by (cases rule: Client_AdjustBalance_cases) (use 3(3) AdjustBalance_Inl in \<open>auto split: if_splits\<close>)
next
  case (4 w delta u w')
  from 4(3) show ?case
    by (cases rule: Client_AdjustBalance_cases)
      (use 4(1,2) AdjustBalance_moved AdjustBalance_Inl in \<open>auto split: if_splits\<close>)
qed

lemma AdjustBalance_faults:
  assumes "faults w = []"
  shows "faults (snd (AdjustBalance u delta w)) = []"
  using assms
  by (auto simp: AdjustBalance_def run_tx_def run_tx_gen_def AdjustBalance_tx_def stmt_def Let_def ret_def
      bindE_def seqE_def no_rows_def on_error_def throw_def query_row_for_def exec_def
      split: option.splits prod.splits sum.splits if_splits)

lemma AdjustBalance_live:
  assumes "faults w = []" and "inv (tabs w)" and "balance_of (tabs w) u = Some b"
    and "0 \<le> b + delta" and "in_int64 (b + delta)"
  shows "\<exists>w'. AdjustBalance u delta w = (Inr (b + delta), w')"
proof -
  obtain x where x: "select_user u (tabs w) = Some x" "User_Balance x = b"
    using assms(3) by (auto simp: balance_of_def)
  obtain d' where d': "update_balance (\<lambda>_. b + delta) u (tabs w) = Inr d'"
    using update_balance_ok [OF _ assms(3), of "\<lambda>_. b + delta"] assms(2,4,5) by (auto simp: inv_def)
  show ?thesis
    using x d' assms(1,4,5)
    by (auto simp: AdjustBalance_def run_tx_def run_tx_gen_def AdjustBalance_tx_def stmt_nofault ret_def
        bindE_def seqE_def no_rows_def on_error_def query_row_for_def exec_def i64_simps Let_def)
qed

definition client_up :: "wallet_world \<Rightarrow> bool" where
  "client_up w \<longleftrightarrow> net_fates w = [] \<and> faults (bank w) = []"

interpretation bank_up: working_ledger "Client_AdjustBalance drv" client_up for drv
proof (unfold_locales, goal_cases)
  case (1 w u b delta)
  then obtain b' where "AdjustBalance u delta (bank w) = (Inr (b + delta), b')"
    using AdjustBalance_live [of "bank w" u b delta] unfolding client_up_def by blast
  then show ?case using 1
    by (simp add: Client_AdjustBalance_def client_up_def next_fate_def adjust_handler_cases adjust_result_ok)
next
  case (2 w u delta r w')
  then show ?case
    using AdjustBalance_faults [of "bank w" u delta]
    by (auto simp: Client_AdjustBalance_def client_up_def next_fate_def adjust_handler_cases
        split: prod.splits sum.splits)
qed (simp_all add: client_up_def next_fate_def)

end
