(* ===== verification/Wallet_Service.thy ===== *)
theory Wallet_Service
  imports Wallet_Chain Wallet_Ledger
begin

text \<open>
  \<open>wallet-backend/service/service.go\<close>, whole: the conversions, provisioning, the faucet,
  deposit ingestion and withdrawals, and the poller of \<open>wallet-backend/poller\<close> that
  drives the ingestion. A function that returns a value beside an error returns both here.
\<close>

section \<open>Conversions\<close>

text \<open>\<open>big.Int\<close>'s Euclidean \<open>Div\<close>; \<open>Int64\<close> keeps the low 64 bits.\<close>

definition big_Div :: "int \<Rightarrow> int \<Rightarrow> int" where
  "big_Div x d = (if 0 < d then x div d else - (x div - d))"

definition mulDivRound :: "int \<Rightarrow> int \<Rightarrow> int \<Rightarrow> int" where
  "mulDivRound a b d = i64 (big_Div (a * b + go_div d 2) d)"

definition microUSDCToReais :: "int \<Rightarrow> int \<Rightarrow> int" where
  "microUSDCToReais microUSDC rateMicros = mulDivRound microUSDC rateMicros 1000000000000"

definition reaisToMicroUSDC :: "int \<Rightarrow> int \<Rightarrow> int" where
  "reaisToMicroUSDC reais rateMicros = mulDivRound reais 1000000000000 rateMicros"

definition int64_of :: "64 word \<Rightarrow> int" where
  "int64_of v = sint v"


section \<open>The service\<close>

definition treasuryIndex :: "32 word" where "treasuryIndex = 0"

record Limits =
  Limit_Min :: int
  Limit_Max :: int
  Limit_ManualReviewOver :: int

record Service =
  svc_crypto :: crypto_lib
  svc_master :: MasterWallet
  svc_ledger :: "uuid \<Rightarrow> int \<Rightarrow> int wallet_io"
  svc_chain :: chain_Client
  svc_swapper :: Swapper
  svc_limits :: Limits
  svc_rateMicros :: int
  svc_faucet :: int

definition treasury :: "Service \<Rightarrow> Keypair" where
  "treasury s = DeriveAccount (svc_crypto s) (svc_master s) treasuryIndex"

text \<open>\<open>r, err := f()\<close>, with both branches the caller's.\<close>

definition attempt :: "'a wallet_io \<Rightarrow> (wallet_error + 'a) wallet_io" where
  "attempt m = (\<lambda>w. case m w of (r, w') \<Rightarrow> (Inr r, w'))"


section \<open>Provisioning and the faucet\<close>

definition provision_row :: "Service \<Rightarrow> uuid \<Rightarrow> 32 word \<Rightarrow> string \<Rightarrow> WalletAddress" where
  "provision_row s accountID index ata = \<lparr>Wallet_AccountID = accountID,
     Wallet_DerivationIndex = index,
     Wallet_Address = Address (svc_crypto s) (DeriveAccount (svc_crypto s) (svc_master s) index),
     Wallet_USDCATA = ata, Wallet_CreatedAt = 0\<rparr>"

definition provision_new :: "Service \<Rightarrow> uuid \<Rightarrow> WalletAddress wallet_io" where
  "provision_new s accountID =
     bindE NextDerivationIndex (\<lambda>index.
     bindE (wrapping ''ensuring USDC ATA''
              (EnsureUSDCATA (svc_chain s) (treasury s)
                 (Address (svc_crypto s) (DeriveAccount (svc_crypto s) (svc_master s) index)))) (\<lambda>(ata, _).
     on_error (seqE (InsertAddress (provision_row s accountID index ata))
                    (ret (provision_row s accountID index ata)))
       (\<lambda>e. on_error (GetAddressByAccount accountID) (\<lambda>_. throw e))))"

definition ProvisionAccount :: "Service \<Rightarrow> uuid \<Rightarrow> WalletAddress wallet_io" where
  "ProvisionAccount s accountID =
     on_error (GetAddressByAccount accountID)
       (\<lambda>e. if \<not> werrors_is e store_ErrNotFound then throw e else provision_new s accountID)"

definition FaucetTestUSDC :: "Service \<Rightarrow> uuid \<Rightarrow> string wallet_io" where
  "FaucetTestUSDC s accountID =
     bindE (wrapping ''provisioning for faucet'' (ProvisionAccount s accountID)) (\<lambda>row.
     bindE (ClaimFaucet accountID) (\<lambda>claimed.
     if \<not> claimed then throw ErrFaucetAlreadyClaimed
     else on_error (TransferUSDC (svc_chain s) (treasury s) (Wallet_USDCATA row) (word_of_int (svc_faucet s)))
            (\<lambda>e. seqE (ignore (ReleaseFaucet accountID)) (throw (WErrWrap ''faucet transfer'' e)))))"


section \<open>Deposits\<close>

definition resolveCreditAmount :: "Service \<Rightarrow> uuid \<Rightarrow> Asset \<Rightarrow> DetectedDeposit \<Rightarrow> int wallet_io" where
  "resolveCreditAmount s accountID asset d =
     (if asset = AssetUSDC then ret (int64_of (Detected_RawAmount d))
      else if asset = AssetSOL then
        seqE (SetDepositStatus (Detected_Signature d) DepositSwapping)
       (bindE (GetAddressByAccount accountID) (\<lambda>row.
        bindE (wrapping ''swapping SOL->USDC''
                (SwapSOLToUSDC (svc_swapper s)
                   (DeriveAccount (svc_crypto s) (svc_master s) (Wallet_DerivationIndex row))
                   (Detected_RawAmount d) DefaultSlippageBps)) (\<lambda>(out, _).
        ret (int64_of out))))
      else throw (WErrNew (''unsupported deposit asset '' @ asset)))"

definition detected_row :: "uuid \<Rightarrow> DetectedDeposit \<Rightarrow> Deposit" where
  "detected_row accountID d = \<lparr>Deposit_ID = [], Deposit_Signature = Detected_Signature d,
     Deposit_AccountID = accountID, Deposit_Asset = Detected_Asset d,
     Deposit_RawAmount = int64_of (Detected_RawAmount d), Deposit_CreditedUSDC = 0,
     Deposit_CreditedReais = 0, Deposit_Status = DepositDetected, Deposit_CreatedAt = 0,
     Deposit_CreditedAt = None\<rparr>"

definition fail_deposit :: "string \<Rightarrow> wallet_error \<Rightarrow> 'a wallet_io" where
  "fail_deposit sig e = seqE (ignore (MarkDepositFailed sig)) (throw e)"

definition credit_deposit :: "Service \<Rightarrow> uuid \<Rightarrow> DetectedDeposit \<Rightarrow> unit wallet_io" where
  "credit_deposit s accountID d =
     bindE (on_error (resolveCreditAmount s accountID (Detected_Asset d) d)
              (fail_deposit (Detected_Signature d))) (\<lambda>creditedUSDC.
     let creditedReais = microUSDCToReais creditedUSDC (svc_rateMicros s) in
     seqE (on_error (svc_ledger s accountID creditedReais)
              (\<lambda>e. fail_deposit (Detected_Signature d) (WErrWrap ''crediting ledger'' e)))
          (MarkDepositCredited (Detected_Signature d) creditedUSDC creditedReais))"

definition IngestDeposit :: "Service \<Rightarrow> uuid \<Rightarrow> DetectedDeposit \<Rightarrow> unit wallet_io" where
  "IngestDeposit s accountID d =
     bindE (InsertDepositIfNew (detected_row accountID d)) (\<lambda>inserted.
     if \<not> inserted then ret () else credit_deposit s accountID d)"


section \<open>Withdrawals\<close>

definition refund :: "Service \<Rightarrow> uuid \<Rightarrow> int \<Rightarrow> unit wallet_io" where
  "refund s accountID amountReais = ignore (svc_ledger s accountID amountReais)"

type_synonym withdrawal_result = "Withdrawal option \<times> wallet_error option"

definition failAndRefund :: "Service \<Rightarrow> Withdrawal \<Rightarrow> wallet_error \<Rightarrow> withdrawal_result wallet_io" where
  "failAndRefund s wd cause =
     seqE (ignore (SetWithdrawalFailed (Withdrawal_ID wd)))
    (seqE (refund s (Withdrawal_AccountID wd) (Withdrawal_AmountReais wd))
          (ret (Some wd, Some cause)))"

definition settleWithdrawal :: "Service \<Rightarrow> Withdrawal \<Rightarrow> withdrawal_result wallet_io" where
  "settleWithdrawal s wd =
     seqE (ignore (SetWithdrawalStatus (Withdrawal_ID wd) WithdrawalSigning))
    (bindE (attempt (EnsureUSDCATA (svc_chain s) (treasury s) (Withdrawal_DestAddress wd))) (\<lambda>r. case r of
       Inl e \<Rightarrow> failAndRefund s wd (WErrWrap ''ensuring dest ATA'' e)
     | Inr (destATA, _) \<Rightarrow>
     bindE (attempt (TransferUSDC (svc_chain s) (treasury s) destATA
                       (word_of_int (Withdrawal_AmountUSDC wd)))) (\<lambda>r. case r of
       Inl e \<Rightarrow> failAndRefund s wd (WErrWrap ''sending USDC'' e)
     | Inr sig \<Rightarrow>
     bindE (attempt (SetWithdrawalSent (Withdrawal_ID wd) sig)) (\<lambda>r. case r of
       Inl e \<Rightarrow> ret (Some wd, Some e)
     | Inr _ \<Rightarrow>
         let wd' = wd\<lparr>Withdrawal_Signature := Some sig\<rparr> in
     bindE (attempt (ConfirmTx (svc_chain s) sig)) (\<lambda>r. case r of
       Inl e \<Rightarrow> failAndRefund s wd' (WErrWrap ''confirming withdrawal'' e)
     | Inr _ \<Rightarrow>
     bindE (attempt (SetWithdrawalConfirmed (Withdrawal_ID wd'))) (\<lambda>r.
     ret (Some wd', case r of Inl e \<Rightarrow> Some e | Inr _ \<Rightarrow> None)))))))"

definition debit_error :: "wallet_error \<Rightarrow> wallet_error" where
  "debit_error e = (if werrors_is e betclient_ErrInsufficientBalance then service_ErrInsufficientBalance
                    else WErrWrap ''debiting ledger'' e)"

definition requested_row :: "uuid \<Rightarrow> string \<Rightarrow> int \<Rightarrow> int \<Rightarrow> Withdrawal" where
  "requested_row accountID dest reais usdc = \<lparr>Withdrawal_ID = [], Withdrawal_AccountID = accountID,
     Withdrawal_DestAddress = dest, Withdrawal_Asset = AssetUSDC, Withdrawal_AmountReais = reais,
     Withdrawal_AmountUSDC = usdc, Withdrawal_Status = WithdrawalRequested,
     Withdrawal_Signature = None, Withdrawal_CreatedAt = 0, Withdrawal_SettledAt = None\<rparr>"

definition RequestWithdrawal :: "Service \<Rightarrow> uuid \<Rightarrow> string \<Rightarrow> int \<Rightarrow> withdrawal_result wallet_io" where
  "RequestWithdrawal s accountID dest amountReais =
     (let amountMicroUSDC = reaisToMicroUSDC amountReais (svc_rateMicros s) in
      if amountMicroUSDC < Limit_Min (svc_limits s) then ret (None, Some ErrAmountBelowMin)
      else if Limit_Max (svc_limits s) < amountMicroUSDC then ret (None, Some ErrAmountAboveMax)
      else
     bindE (attempt (svc_ledger s accountID (i64 (- amountReais)))) (\<lambda>r. case r of
       Inl e \<Rightarrow> ret (None, Some (debit_error e))
     | Inr _ \<Rightarrow>
     bindE (attempt (InsertWithdrawal (requested_row accountID dest amountReais amountMicroUSDC))) (\<lambda>r. case r of
       Inl e \<Rightarrow> seqE (refund s accountID amountReais) (ret (None, Some e))
     | Inr wd \<Rightarrow>
         if Limit_ManualReviewOver (svc_limits s) < amountMicroUSDC then ret (Some wd, Some ErrManualReview)
         else settleWithdrawal s wd)))"


section \<open>The poller\<close>

text \<open>The loop over the deposits found stops at the first that fails.\<close>

fun ingest_all :: "Service \<Rightarrow> uuid \<Rightarrow> DetectedDeposit list \<Rightarrow> bool wallet_io" where
  "ingest_all s accountID [] = ret True"
| "ingest_all s accountID (d # ds) =
     bindE (attempt (IngestDeposit s accountID d)) (\<lambda>r. case r of
       Inl _ \<Rightarrow> ret False
     | Inr _ \<Rightarrow> ingest_all s accountID ds)"

type_synonym scanner = "string \<Rightarrow> string \<Rightarrow> string \<Rightarrow> (DetectedDeposit list \<times> string) wallet_io"

definition scanAddress :: "Service \<Rightarrow> scanner \<Rightarrow> uuid \<Rightarrow> string \<Rightarrow> string \<Rightarrow> unit wallet_io" where
  "scanAddress s scan accountID baseAddress usdcATA =
     bindE (GetScanCursor baseAddress) (\<lambda>cursor.
     bindE (scan baseAddress usdcATA cursor) (\<lambda>(found, newCursor).
     bindE (ingest_all s accountID found) (\<lambda>ok.
     if \<not> ok then ret ()
     else if newCursor \<noteq> [] \<and> newCursor \<noteq> cursor then SetScanCursor baseAddress newCursor
     else ret ())))"

fun scan_each :: "Service \<Rightarrow> scanner \<Rightarrow> WalletAddress list \<Rightarrow> unit wallet_io" where
  "scan_each s scan [] = ret ()"
| "scan_each s scan (r # rs) =
     seqE (ignore (scanAddress s scan (Wallet_AccountID r) (Wallet_Address r) (Wallet_USDCATA r)))
          (scan_each s scan rs)"

definition scanOnce :: "Service \<Rightarrow> scanner \<Rightarrow> unit wallet_io" where
  "scanOnce s scan = bindE ListAddresses (scan_each s scan)"

text \<open>\<open>Run\<close> until the context is cancelled: the passes it makes before that.\<close>

fun Run :: "Service \<Rightarrow> scanner \<Rightarrow> nat \<Rightarrow> unit wallet_io" where
  "Run s scan 0 = ret ()"
| "Run s scan (Suc n) = seqE (ignore (scanOnce s scan)) (Run s scan n)"


section \<open>The live service\<close>

definition live_service ::
    "crypto_lib \<Rightarrow> solana \<Rightarrow> string \<Rightarrow> (sql_error \<Rightarrow> string) \<Rightarrow> MasterWallet \<Rightarrow> Limits \<Rightarrow> int \<Rightarrow> int \<Rightarrow> Service" where
  "live_service C S mint drv master limits rateMicros faucetMicroUSDC =
     \<lparr>svc_crypto = C, svc_master = master, svc_ledger = Client_AdjustBalance drv,
      svc_chain = SolanaClient C S mint, svc_swapper = JupiterSwapper C S mint,
      svc_limits = limits, svc_rateMicros = rateMicros, svc_faucet = faucetMicroUSDC\<rparr>"

end
