(* ===== verification/Wallet_Contracts.thy ===== *)
theory Wallet_Contracts
  imports Wallet_Service
begin

text \<open>
  What the service relies on, as locales: the chain client, the swapper and the scanner only
  add to the record of chain calls, and only a transfer pays out, at most once and what it was
  asked to pay. The live implementations are the interpretations.
\<close>

section \<open>Chain calls\<close>

text \<open>The transactions broadcast, and among them the transfers of USDC: amount and account.\<close>

fun sent_tx :: "rpc_call \<Rightarrow> transaction option" where
  "sent_tx (SendTransaction k bh tx) = Some tx"
| "sent_tx c = None"

fun payout_tx :: "transaction \<Rightarrow> (64 word \<times> string) option" where
  "payout_tx (TransferChecked a f m t k) = Some (a, t)"
| "payout_tx tx = None"

definition sends :: "rpc_call list \<Rightarrow> transaction list" where
  "sends cs = List.map_filter sent_tx cs"

definition payouts :: "rpc_call list \<Rightarrow> (64 word \<times> string) list" where
  "payouts cs = List.map_filter payout_tx (sends cs)"

lemma map_filter_append: "List.map_filter f (xs @ ys) = List.map_filter f xs @ List.map_filter f ys"
  by (simp add: List.map_filter_def)

lemma sends_append [simp]: "sends (cs @ ds) = sends cs @ sends ds"
  by (simp add: sends_def map_filter_append)

lemma payouts_append [simp]: "payouts (cs @ ds) = payouts cs @ payouts ds"
  by (simp add: payouts_def map_filter_append)

lemma sends_simps [simp]: "sends [] = []"
  "sends (c # cs) = (case sent_tx c of None \<Rightarrow> [] | Some t \<Rightarrow> [t]) @ sends cs"
  by (simp_all add: sends_def split: option.splits)

lemma payouts_sends: "payouts cs = List.map_filter payout_tx (sends cs)"
  by (simp add: payouts_def)

text \<open>\<open>adds P m\<close>: \<open>m\<close> changes nothing but the record of calls, to which it adds
  calls whose transactions satisfy \<open>P\<close>.\<close>

definition adds :: "(transaction list \<Rightarrow> bool) \<Rightarrow> 'a wallet_io \<Rightarrow> bool" where
  "adds P m \<longleftrightarrow> (\<forall>w. \<exists>cs. snd (m w) = w\<lparr>calls := calls w @ cs\<rparr> \<and> P (sends cs))"

abbreviation silent :: "'a wallet_io \<Rightarrow> bool" where
  "silent m \<equiv> adds (\<lambda>ts. ts = []) m"

named_theorems adds_intro \<open>rules that collect the chain calls of an operation\<close>

lemma addsD: "adds P m \<Longrightarrow> m w = (r, w') \<Longrightarrow>
    \<exists>cs. w' = w\<lparr>calls := calls w @ cs\<rparr> \<and> P (sends cs)"
  unfolding adds_def by (metis snd_conv)

lemma adds_self: "w = w\<lparr>calls := calls w @ []\<rparr>"
  by simp

lemma silent_ret [adds_intro]: "silent (ret x)"
  unfolding adds_def ret_def by (metis adds_self sends_simps(1) snd_conv)

lemma silent_throw [adds_intro]: "silent (throw e)"
  unfolding adds_def throw_def by (metis adds_self sends_simps(1) snd_conv)

lemma adds_bindE:
  assumes "adds P m" and "\<And>x. adds Q (f x)" and "\<And>a b. P a \<Longrightarrow> Q b \<Longrightarrow> R (a @ b)" and "\<And>a. P a \<Longrightarrow> R a"
  shows "adds R (bindE m f)"
  unfolding adds_def
proof
  fix w
  obtain r w1 where m: "m w = (r, w1)" by force
  obtain cs where cs: "w1 = w\<lparr>calls := calls w @ cs\<rparr>" "P (sends cs)"
    using addsD [OF assms(1) m] by blast
  show "\<exists>cs. snd (bindE m f w) = w\<lparr>calls := calls w @ cs\<rparr> \<and> R (sends cs)"
  proof (cases r)
    case (Inl e)
    then show ?thesis using m cs assms(4) by (auto simp: bindE_def)
  next
    case (Inr x)
    obtain ds where "snd (f x w1) = w1\<lparr>calls := calls w1 @ ds\<rparr>" "Q (sends ds)"
      using assms(2) [of x] unfolding adds_def by blast
    then have "snd (bindE m f w) = w\<lparr>calls := calls w @ (cs @ ds)\<rparr> \<and> R (sends (cs @ ds))"
      using m cs Inr assms(3) by (simp add: bindE_def)
    then show ?thesis by blast
  qed
qed

lemma silent_bindE [adds_intro]: "silent m \<Longrightarrow> (\<And>x. silent (f x)) \<Longrightarrow> silent (bindE m f)"
  by (rule adds_bindE [where P = "\<lambda>a. a = []" and Q = "\<lambda>a. a = []"]) auto

lemma silent_seqE [adds_intro]: "silent m \<Longrightarrow> silent k \<Longrightarrow> silent (seqE m k)"
  unfolding seqE_def by (rule silent_bindE)

lemma adds_on_error:
  assumes "adds P m" and "\<And>e. silent (h e)"
  shows "adds P (on_error m h)"
  unfolding adds_def
proof
  fix w
  obtain r w1 where m: "m w = (r, w1)" by force
  obtain cs where cs: "w1 = w\<lparr>calls := calls w @ cs\<rparr>" "P (sends cs)"
    using addsD [OF assms(1) m] by blast
  show "\<exists>cs. snd (on_error m h w) = w\<lparr>calls := calls w @ cs\<rparr> \<and> P (sends cs)"
  proof (cases r)
    case (Inl e)
    obtain ds where "snd (h e w1) = w1\<lparr>calls := calls w1 @ ds\<rparr>" "sends ds = []"
      using assms(2) [of e] unfolding adds_def by blast
    then have "snd (on_error m h w) = w\<lparr>calls := calls w @ (cs @ ds)\<rparr> \<and> P (sends (cs @ ds))"
      using m cs Inl by (simp add: on_error_def)
    then show ?thesis by blast
  next
    case (Inr x)
    then show ?thesis using m cs by (auto simp: on_error_def)
  qed
qed

lemma silent_on_error [adds_intro]: "silent m \<Longrightarrow> (\<And>e. silent (h e)) \<Longrightarrow> silent (on_error m h)"
  by (rule adds_on_error)

lemma silent_if [adds_intro]: "(b \<Longrightarrow> silent m) \<Longrightarrow> (\<not> b \<Longrightarrow> silent k) \<Longrightarrow> silent (if b then m else k)"
  by simp

lemma adds_weaken: "adds P m \<Longrightarrow> (\<And>a. P a \<Longrightarrow> Q a) \<Longrightarrow> adds Q m"
  unfolding adds_def by blast

lemma adds_ask: "adds (\<lambda>ts. ts = sends [c]) (ask c f)"
  unfolding adds_def ask_def by auto

lemma silent_ask [adds_intro]: "sent_tx c = None \<Longrightarrow> silent (ask c f)"
  by (rule adds_weaken [OF adds_ask]) simp

lemma silent_wrapping [adds_intro]: "silent m \<Longrightarrow> silent (wrapping x m)"
  unfolding wrapping_def by (intro adds_intro)

lemma silent_need [adds_intro]: "silent (need m e b)"
  unfolding need_def by (intro adds_intro)

lemma silent_lib [adds_intro]: "silent (lib r)"
  unfolding lib_def by (cases r) (simp_all add: adds_intro)

lemma silent_poll [adds_intro]: "silent (poll_status S sig)"
  unfolding adds_def poll_status_def by auto

lemma silent_confirm_loop [adds_intro]: "silent (confirm_loop S sig n)"
proof (induction n)
  case 0
  show ?case
    by (subst confirm_loop.simps) (auto simp: Let_def intro!: adds_intro split: option.splits)
next
  case (Suc n)
  then show ?case
    by (subst confirm_loop.simps) (auto simp: Let_def intro!: adds_intro split: option.splits)
qed

lemma silent_confirmSignature [adds_intro]: "silent (confirmSignature S sig)"
  using silent_confirm_loop unfolding adds_def confirmSignature_def by blast

lemma silent_ConfirmTx [adds_intro]: "silent (Sol_ConfirmTx S sig)"
  unfolding Sol_ConfirmTx_def by (intro adds_intro)


section \<open>Broadcasts\<close>

text \<open>At most one transaction is sent, the one asked for; no error means it was sent.\<close>

definition once :: "transaction \<Rightarrow> transaction list \<Rightarrow> bool" where
  "once tx ts \<longleftrightarrow> ts = [] \<or> ts = [tx]"

lemma signSendConfirm_once:
  assumes "signSendConfirm C S k tx w = (r, w')"
  shows "\<exists>cs sig e. w' = w\<lparr>calls := calls w @ cs\<rparr> \<and> r = Inr (sig, e) \<and> once tx (sends cs) \<and>
           (e = None \<longrightarrow> sends cs = [tx])"
proof -
  let ?hash = "wrapping ''fetching blockhash'' (ask GetLatestBlockhash (rpc_GetLatestBlockhash S))"
  obtain r1 w1 where h: "?hash w = (r1, w1)" by force
  have "silent ?hash" by (auto intro!: adds_intro)
  from addsD [OF this h] obtain cs where cs: "w1 = w\<lparr>calls := calls w @ cs\<rparr>" "sends cs = []"
    by blast
  show ?thesis
  proof (cases r1)
    case (Inl e)
    then show ?thesis
      using assms h cs by (auto simp: signSendConfirm_def on_error_def bindE_def ret_def once_def)
  next
    case (Inr bh)
    show ?thesis
    proof (cases "tx_error S (Address C k) bh tx")
      case (Some e)
      then show ?thesis using assms h cs Inr
        by (auto simp: signSendConfirm_def on_error_def bindE_def seqE_def tx_ok_def throw_def ret_def once_def)
    next
      case None
      let ?c = "SendTransaction (Address C k) bh tx"
      let ?w2 = "w\<lparr>calls := calls w @ cs @ [?c]\<rparr>"
      show ?thesis
      proof (cases "rpc_SendTransaction S (calls w @ cs) tx")
        case (Inl e)
        then have "r = Inr ([], Some (WErrWrap ''broadcasting transaction'' (WErrLib e))) \<and> w' = ?w2"
          using assms h cs Inr None
          by (auto simp: signSendConfirm_def on_error_def bindE_def seqE_def tx_ok_def throw_def ret_def
              wrapping_def ask_def)
        moreover have "once tx (sends (cs @ [?c]))" using cs by (simp add: once_def)
        ultimately show ?thesis by blast
      next
        case ok: (Inr sig)
        obtain r3 w3 where c: "Sol_ConfirmTx S sig ?w2 = (r3, w3)" by force
        obtain ds where ds: "w3 = ?w2\<lparr>calls := calls ?w2 @ ds\<rparr>" "sends ds = []"
          using addsD [OF silent_ConfirmTx c] by blast
        have "\<exists>e. r = Inr (sig, e) \<and> w' = w3"
          using assms h cs Inr None ok c
          by (cases r3) (auto simp: signSendConfirm_def on_error_def bindE_def seqE_def tx_ok_def ret_def
              wrapping_def ask_def)
        moreover have "w3 = w\<lparr>calls := calls w @ (cs @ [?c] @ ds)\<rparr>" using ds(1) by simp
        moreover have "sends (cs @ [?c] @ ds) = [tx]" using cs ds by simp
        ultimately show ?thesis by (metis once_def)
      qed
    qed
  qed
qed

lemma or_fail_once:
  assumes "or_fail (signSendConfirm C S k tx) w = (r, w')"
  shows "\<exists>cs. w' = w\<lparr>calls := calls w @ cs\<rparr> \<and> once tx (sends cs) \<and> (isl r \<or> sends cs = [tx])"
proof -
  obtain r1 w1 where s: "signSendConfirm C S k tx w = (r1, w1)" by force
  obtain cs sig e where c: "w1 = w\<lparr>calls := calls w @ cs\<rparr>" "r1 = Inr (sig, e)" "once tx (sends cs)"
      "e = None \<longrightarrow> sends cs = [tx]"
    using signSendConfirm_once [OF s] by blast
  have "w' = w1 \<and> (isl r \<or> e = None)"
    using assms s c(2) by (cases e) (auto simp: or_fail_def bindE_def ret_def throw_def)
  then show ?thesis using c by blast
qed

lemma adds_or_fail: "adds (once tx) (or_fail (signSendConfirm C S k tx))"
  unfolding adds_def using or_fail_once by (metis prod.collapse)


section \<open>The contracts\<close>

text \<open>\<open>pays ps w w'\<close>: the call changed only the record of chain calls, and paid out \<open>ps\<close>.\<close>

definition pays :: "(64 word \<times> string) list \<Rightarrow> wallet_world \<Rightarrow> wallet_world \<Rightarrow> bool" where
  "pays ps w w' \<longleftrightarrow> (\<exists>cs. w' = w\<lparr>calls := calls w @ cs\<rparr> \<and> payouts cs = ps)"

locale chain_contract =
  fixes Ch :: chain_Client
  assumes ensure_pays: "EnsureUSDCATA Ch k owner w = (r1, w') \<Longrightarrow> pays [] w w'"
    and transfer_pays: "TransferUSDC Ch k ata amt w = (r2, w') \<Longrightarrow>
      pays [(amt, ata)] w w' \<or> isl r2 \<and> pays [] w w'"
    and confirm_pays: "ConfirmTx Ch sig w = (r3, w') \<Longrightarrow> pays [] w w'"

locale swap_contract =
  fixes Sw :: Swapper
  assumes swap_pays: "SwapSOLToUSDC Sw k lamports slip w = (r, w') \<Longrightarrow> pays [] w w'"

locale scan_contract =
  fixes scan :: scanner
  assumes scan_pays: "scan base ata since w = (r, w') \<Longrightarrow> pays [] w w'"

lemma adds_pays: "adds P m \<Longrightarrow> (\<And>ts. P ts \<Longrightarrow> List.map_filter payout_tx ts = []) \<Longrightarrow>
    m w = (r, w') \<Longrightarrow> pays [] w w'"
  unfolding pays_def by (drule addsD) (auto simp: payouts_sends)

lemma silent_pays: "silent m \<Longrightarrow> m w = (r, w') \<Longrightarrow> pays [] w w'"
  by (rule adds_pays [where P = "\<lambda>ts. ts = []" and m = m]) simp_all

lemma map_filter_once: "once tx ts \<Longrightarrow> payout_tx tx = None \<Longrightarrow> List.map_filter payout_tx ts = []"
  by (auto simp: once_def)

lemma adds_once_bind: "adds (once tx) m \<Longrightarrow> (\<And>x. silent (f x)) \<Longrightarrow> adds (once tx) (bindE m f)"
  by (rule adds_bindE [where P = "once tx" and Q = "\<lambda>a. a = []"]) auto

lemma adds_silent_bind: "silent m \<Longrightarrow> (\<And>x. adds (once tx) (f x)) \<Longrightarrow> adds (once tx) (bindE m f)"
  by (rule adds_bindE [where P = "\<lambda>a. a = []" and Q = "once tx"]) (auto simp: once_def)

lemma adds_silent: "silent m \<Longrightarrow> adds (once tx) m"
  by (rule adds_weaken [where P = "\<lambda>ts. ts = []"]) (auto simp: once_def)

lemma adds_EnsureUSDCATA:
  "adds (once (CreateATA (Address C k) owner mint)) (Sol_EnsureUSDCATA C S mint k owner)"
  unfolding Sol_EnsureUSDCATA_def seqE_def
proof (rule adds_silent_bind [OF silent_need], rule adds_silent_bind [OF silent_lib],
       rule adds_silent_bind)
  show "silent (accountExists S x)" for x :: string
    unfolding accountExists_def by (intro adds_intro) simp
  show "adds (once (CreateATA (Address C k) owner mint))
     (if exists then ret (x, [])
      else bindE (wrapping ''creating USDC ATA'' (or_fail (signSendConfirm C S k
              (CreateATA (Address C k) owner mint)))) (\<lambda>sig. ret (x, sig)))" for x exists
    by (simp add: wrapping_def adds_silent adds_intro adds_once_bind adds_on_error adds_or_fail)
qed

lemma TransferUSDC_pays:
  assumes "Sol_TransferUSDC C S mint k ata amt w = (r, w')"
  shows "pays [(amt, ata)] w w' \<or> isl r \<and> pays [] w w'"
proof (cases "find_ata S (Address C k) mint")
  case (Inl e)
  then show ?thesis using assms
    by (auto simp: Sol_TransferUSDC_def lib_def throw_def bindE_def pays_def payouts_def
        intro: exI [of _ "[]"])
next
  case (Inr f)
  let ?tx = "TransferChecked amt f mint ata (Address C k)"
  show ?thesis
  proof (cases "key_ok S ata")
    case False
    then show ?thesis using assms Inr
      by (auto simp: Sol_TransferUSDC_def lib_def throw_def bindE_def seqE_def need_def ret_def
          pays_def payouts_def intro: exI [of _ "[]"])
  next
    case True
    then have "or_fail (signSendConfirm C S k ?tx) w = (r, w')"
      using assms Inr by (simp add: Sol_TransferUSDC_def lib_def seqE_def need_def)
    then obtain cs where cs: "w' = w\<lparr>calls := calls w @ cs\<rparr>" "once ?tx (sends cs)" "isl r \<or> sends cs = [?tx]"
      using or_fail_once by blast
    have "payouts cs = [(amt, ata)] \<or> isl r \<and> payouts cs = []"
      using cs(2,3) by (auto simp: once_def payouts_sends)
    then show ?thesis using cs(1) unfolding pays_def by blast
  qed
qed

lemma silent_tx_ok [adds_intro]: "silent (tx_ok m e)"
  unfolding tx_ok_def by (cases e) (simp_all add: adds_intro)

lemma silent_Jup_do [adds_intro]: "sent_tx c = None \<Longrightarrow> silent (Jup_do S c)"
  unfolding Jup_do_def by (auto intro!: adds_intro split: prod.splits)

definition swap_or_none :: "transaction list \<Rightarrow> bool" where
  "swap_or_none ts \<longleftrightarrow> (\<exists>b. once (SwapTransaction b) ts)"

lemma adds_swap_bind: "silent m \<Longrightarrow> (\<And>x. adds swap_or_none (f x)) \<Longrightarrow> adds swap_or_none (bindE m f)"
  by (rule adds_bindE [where P = "\<lambda>a. a = []" and Q = swap_or_none]) (auto simp: once_def swap_or_none_def)

lemma adds_Jup_send: "adds swap_or_none (Jup_send C S k minOut b64)"
  unfolding Jup_send_def wrapping_def
  by (rule adds_weaken [where P = "once (SwapTransaction b64)"], rule adds_once_bind, rule adds_on_error,
      rule adds_weaken [OF adds_ask])
     (auto simp: once_def swap_or_none_def intro!: adds_intro)

lemma adds_Swap: "adds swap_or_none (Jup_SwapSOLToUSDC C S mint k l slip)"
  unfolding Jup_SwapSOLToUSDC_def seqE_def
proof (rule adds_swap_bind)
  show "silent (Jup_quote S mint l slip)"
    unfolding Jup_quote_def by (auto intro!: adds_intro)
  have b: "silent (Jup_buildSwapTx S x y)" for x y
    unfolding Jup_buildSwapTx_def by (auto intro!: adds_intro)
  have t: "adds swap_or_none (throw e)" for e :: wallet_error
    by (rule adds_weaken [OF silent_throw]) (auto simp: swap_or_none_def once_def)
  show "adds swap_or_none
     (case ParseUint (snd q) of
       (minOut, None) \<Rightarrow> bindE (Jup_buildSwapTx S (fst q) (Address C k)) (\<lambda>b64.
         bindE (tx_ok ''decoding swap transaction'' (tx_decode S b64)) (\<lambda>_.
         bindE (tx_ok ''signing swap transaction'' (tx_error S (Address C k) [] (SwapTransaction b64)))
           (\<lambda>_. Jup_send C S k minOut b64)))
     | (minOut, Some _) \<Rightarrow> throw (WErrWrap ''parsing quote threshold'' (WErrLib (snd q))))" for q
    by (auto split: prod.splits option.splits intro!: t adds_swap_bind b silent_tx_ok adds_Jup_send)
qed

lemma silent_deposits_in: "silent (deposits_in S mint sigs base ata)"
proof (induction sigs)
  case (Cons sig sigs)
  have "silent (depositsInTx S mint sig base ata)"
    unfolding depositsInTx_def
    by (auto intro!: adds_intro split: option.splits)
  with Cons show ?case by (auto intro!: adds_intro)
qed (auto intro!: adds_intro)

lemma silent_ScanDeposits: "silent (Sol_ScanDeposits S mint base ata since)"
proof -
  have "silent (signaturesSince S x y)" for x y
    unfolding signaturesSince_def Let_def by (intro adds_intro) simp
  then show ?thesis
    unfolding Sol_ScanDeposits_def
    by (auto intro!: adds_intro silent_deposits_in split: prod.splits)
qed


section \<open>The live implementations\<close>

interpretation sol_chain: chain_contract "SolanaClient C S mint" for C S mint
proof (unfold_locales, goal_cases)
  case (1 k owner w r w')
  then show ?case
    using adds_pays [OF adds_EnsureUSDCATA] map_filter_once by (auto simp: SolanaClient_def)
next
  case (2 k ata amt w r w')
  then show ?case using TransferUSDC_pays by (auto simp: SolanaClient_def)
next
  case (3 sig w r w')
  then show ?case using silent_pays [OF silent_ConfirmTx] by (auto simp: SolanaClient_def)
qed

interpretation jup_swap: swap_contract "JupiterSwapper C S mint" for C S mint
proof
  fix k l slip w r w'
  assume "SwapSOLToUSDC (JupiterSwapper C S mint) k l slip w = (r, w')"
  then have "Jup_SwapSOLToUSDC C S mint k l slip w = (r, w')" by (simp add: JupiterSwapper_def)
  moreover have "List.map_filter payout_tx ts = []" if "swap_or_none ts" for ts
    using that by (auto simp: swap_or_none_def intro: map_filter_once)
  ultimately show "pays [] w w'" using adds_pays [OF adds_Swap] by blast
qed

interpretation sol_scan: scan_contract "Sol_ScanDeposits S mint" for S mint
  by unfold_locales (rule silent_pays [OF silent_ScanDeposits])

end
