(* ===== verification/Triples.thy ===== *)
theory Triples
  imports Prelude
begin

text \<open>
  Triples for the state-and-error monad, with a postcondition for each of the two returns.
  They carry the proofs of operations whose calls have contracts: a rule per combinator, and
  the contract of each call.
\<close>

definition triple :: "('w \<Rightarrow> bool) \<Rightarrow> ('w, 'e, 'a) io \<Rightarrow> ('a \<Rightarrow> 'w \<Rightarrow> bool) \<Rightarrow> ('e \<Rightarrow> 'w \<Rightarrow> bool) \<Rightarrow> bool" where
  "triple P m Q E \<longleftrightarrow> (\<forall>w. P w \<longrightarrow> (case m w of (Inr x, w') \<Rightarrow> Q x w' | (Inl e, w') \<Rightarrow> E e w'))"

named_theorems triple_rule \<open>triples of the combinators and of the calls\<close>

lemma tripleI:
  "(\<And>w x w'. P w \<Longrightarrow> m w = (Inr x, w') \<Longrightarrow> Q x w') \<Longrightarrow>
   (\<And>w e w'. P w \<Longrightarrow> m w = (Inl e, w') \<Longrightarrow> E e w') \<Longrightarrow> triple P m Q E"
  unfolding triple_def by (auto split: prod.splits sum.splits)

lemma triple_InrD: "triple P m Q E \<Longrightarrow> P w \<Longrightarrow> m w = (Inr x, w') \<Longrightarrow> Q x w'"
  unfolding triple_def by (drule spec [of _ w]) simp

lemma triple_InlD: "triple P m Q E \<Longrightarrow> P w \<Longrightarrow> m w = (Inl e, w') \<Longrightarrow> E e w'"
  unfolding triple_def by (drule spec [of _ w]) simp

lemma triple_ret: "(\<And>w. P w \<Longrightarrow> Q x w) \<Longrightarrow> triple P (ret x) Q E"
  by (auto simp: triple_def ret_def)

lemma triple_throw: "(\<And>w. P w \<Longrightarrow> E e w) \<Longrightarrow> triple P (throw e) Q E"
  by (auto simp: triple_def throw_def)

lemma triple_bindE:
  assumes "triple P m R E" and "\<And>x. triple (R x) (f x) Q E"
  shows "triple P (bindE m f) Q E"
proof (rule tripleI)
  fix w x w' assume p: "P w" and r: "bindE m f w = (Inr x, w')"
  obtain y w1 where "m w = (Inr y, w1)" "f y w1 = (Inr x, w')" using r by (auto simp: io_inv)
  then show "Q x w'" using triple_InrD [OF assms(2)] triple_InrD [OF assms(1) p] by blast
next
  fix w e w' assume p: "P w" and r: "bindE m f w = (Inl e, w')"
  consider "m w = (Inl e, w')" | y w1 where "m w = (Inr y, w1)" "f y w1 = (Inl e, w')"
    using r by (auto simp: io_inv)
  then show "E e w'"
    using triple_InlD [OF assms(2)] triple_InrD [OF assms(1) p] triple_InlD [OF assms(1) p]
    by cases blast+
qed

lemma triple_seqE:
  "triple P m (\<lambda>_. R) E \<Longrightarrow> triple R k Q E \<Longrightarrow> triple P (seqE m k) Q E"
  unfolding seqE_def by (rule triple_bindE)

lemma triple_on_error:
  assumes "triple P m Q R" and "\<And>e. triple (R e) (h e) Q E"
  shows "triple P (on_error m h) Q E"
  using assms unfolding triple_def on_error_def by (fastforce split: prod.splits sum.splits)

lemma triple_if:
  "(b \<Longrightarrow> triple P m Q E) \<Longrightarrow> (\<not> b \<Longrightarrow> triple P k Q E) \<Longrightarrow> triple P (if b then m else k) Q E"
  by simp

lemma triple_conseq:
  assumes "triple P' m Q' E'" and "\<And>w. P w \<Longrightarrow> P' w" and "\<And>x w. Q' x w \<Longrightarrow> Q x w"
    and "\<And>e w. E' e w \<Longrightarrow> E e w"
  shows "triple P m Q E"
  using assms unfolding triple_def by (fastforce split: prod.splits sum.splits)

lemma triple_pre: "triple P' m Q E \<Longrightarrow> (\<And>w. P w \<Longrightarrow> P' w) \<Longrightarrow> triple P m Q E"
  by (rule triple_conseq)

text \<open>A frame property is a triple, and a fact of the state before can be named.\<close>

lemma keeps_triple: "keeps P m \<Longrightarrow> triple P m (\<lambda>_. P) (\<lambda>_. P)"
  by (rule tripleI) (auto dest: keepsD)

lemma triple_ex: "(\<And>x. triple (P x) m Q E) \<Longrightarrow> triple (\<lambda>w. \<exists>x. P x w) m Q E"
  by (rule tripleI) (auto dest: triple_InrD triple_InlD)

lemma triple_fact: "(b \<Longrightarrow> triple P m Q E) \<Longrightarrow> triple (\<lambda>w. b \<and> P w) m Q E"
  by (rule tripleI) (auto dest: triple_InrD triple_InlD)

end
