(* ===== verification/Wallet_Frames.thy ===== *)
theory Wallet_Frames
  imports Wallet_Contracts Triples
begin

text \<open>
  What each operation leaves alone. The store's operations touch the wallet's own database
  only; the tables they leave satisfy the schema. Both are carried through every operation of
  the service by the rules for \<open>keeps\<close>.
\<close>

section \<open>The store touches only its database\<close>

text \<open>What lies outside the wallet's database: bet-backend, the chain, and the clock.\<close>

definition outside :: "wallet_world \<Rightarrow> bet_world \<times> fate list \<times> (uuid \<times> int) list \<times> rpc_call list \<times> time" where
  "outside w = (bank w, net_fates w, requests w, calls w, wclock w)"

definition storing :: "'a wallet_io \<Rightarrow> bool" where
  "storing m \<longleftrightarrow> (\<forall>w. outside (snd (m w)) = outside w)"

named_theorems storing_intro \<open>operations of the store\<close>

lemma storingD: "storing m \<Longrightarrow> m w = (r, w') \<Longrightarrow> outside w' = outside w"
  unfolding storing_def by (metis snd_conv)

lemma storing_ret [storing_intro]: "storing (ret x)"
  by (simp add: storing_def ret_def)

lemma storing_throw [storing_intro]: "storing (throw x)"
  by (simp add: storing_def throw_def)

lemma storing_bindE [storing_intro]: "storing m \<Longrightarrow> (\<And>x. storing (f x)) \<Longrightarrow> storing (bindE m f)"
  unfolding storing_def bindE_def by (auto split: prod.splits sum.splits) (metis snd_conv)+

lemma storing_seqE [storing_intro]: "storing m \<Longrightarrow> storing k \<Longrightarrow> storing (seqE m k)"
  unfolding seqE_def by (rule storing_bindE)

lemma storing_on_error [storing_intro]: "storing m \<Longrightarrow> (\<And>e. storing (h e)) \<Longrightarrow> storing (on_error m h)"
  unfolding storing_def on_error_def by (auto split: prod.splits sum.splits) (metis snd_conv)+

lemma storing_ignore [storing_intro]: "storing m \<Longrightarrow> storing (ignore m)"
  unfolding storing_def ignore_def by simp

lemma storing_attempt [storing_intro]: "storing m \<Longrightarrow> storing (attempt m)"
  unfolding storing_def attempt_def by (auto split: prod.splits) (metis snd_conv)

lemma storing_if [storing_intro]: "storing m \<Longrightarrow> storing k \<Longrightarrow> storing (if b then m else k)"
  by simp

lemma storing_w_stmt: "storing m \<Longrightarrow> storing (w_stmt m)"
  unfolding storing_def w_stmt_def by (auto simp: Let_def outside_def split: fate.splits)

lemma storing_w_query [storing_intro]: "storing (w_query f)"
  unfolding w_query_def by (rule storing_w_stmt) (simp add: storing_def)

lemma storing_w_exec [storing_intro]: "storing (w_exec u)"
  unfolding w_exec_def
  by (rule storing_w_stmt) (auto simp: storing_def outside_def split: sum.splits prod.splits)

lemma storing_nextval [storing_intro]: "storing nextval"
  unfolding nextval_def by (rule storing_w_stmt) (auto simp: storing_def outside_def)

lemma storing_wuuid_New [storing_intro]: "storing wuuid_New"
  by (simp add: storing_def wuuid_New_def outside_def)

lemma storing_found_or [storing_intro]: "storing m \<Longrightarrow> storing (found_or m)"
  unfolding found_or_def by (auto intro!: storing_intro split: option.splits)

lemma storing_store [storing_intro]:
  "storing NextDerivationIndex" "storing (GetAddressByAccount a)" "storing (GetAddressByATA t)"
  "storing (GetAddressBySOL t)" "storing ListAddresses" "storing (GetScanCursor t)"
  "storing (SetScanCursor t g)" "storing (InsertAddress r)" "storing (ClaimFaucet a)"
  "storing (ReleaseFaucet a)" "storing (InsertDepositIfNew d)" "storing (SetDepositStatus g st)"
  "storing (MarkDepositCredited g x y)" "storing (MarkDepositFailed g)"
  "storing (ListDepositsByAccount a)" "storing (InsertWithdrawal wd)"
  "storing (ListWithdrawalsByAccount a)" "storing (SetWithdrawalStatus i ws)"
  "storing (SetWithdrawalSent i g)" "storing (SetWithdrawalConfirmed i)" "storing (SetWithdrawalFailed i)"
  unfolding NextDerivationIndex_def GetAddressByAccount_def GetAddressByATA_def GetAddressBySOL_def
    ListAddresses_def GetScanCursor_def SetScanCursor_def InsertAddress_def ClaimFaucet_def
    ReleaseFaucet_def InsertDepositIfNew_def SetDepositStatus_def MarkDepositCredited_def
    MarkDepositFailed_def ListDepositsByAccount_def InsertWithdrawal_def ListWithdrawalsByAccount_def
    SetWithdrawalStatus_def SetWithdrawalSent_def SetWithdrawalConfirmed_def SetWithdrawalFailed_def
  by (auto intro!: storing_intro split: option.splits)


section \<open>The schema holds\<close>

definition wallet_inv :: "wallet_db \<Rightarrow> bool" where
  "wallet_inv d \<longleftrightarrow>
     distinct (map Wallet_AccountID (wallet_addresses d)) \<and>
     distinct (map Wallet_DerivationIndex (wallet_addresses d)) \<and>
     distinct (map Wallet_Address (wallet_addresses d)) \<and>
     distinct (map Deposit_Signature (deposits d)) \<and> distinct (map Deposit_ID (deposits d)) \<and>
     (\<forall>r \<in> set (deposits d). Deposit_Asset r \<in> {AssetSOL, AssetUSDC} \<and> 0 < Deposit_RawAmount r \<and>
        0 \<le> Deposit_CreditedUSDC r \<and> 0 \<le> Deposit_CreditedReais r \<and> account_known d (Deposit_AccountID r)) \<and>
     distinct (map Withdrawal_ID (withdrawals d)) \<and>
     (\<forall>r \<in> set (withdrawals d). 0 < Withdrawal_AmountUSDC r \<and> 0 \<le> Withdrawal_AmountReais r \<and>
        Withdrawal_Asset r = AssetUSDC \<and> account_known d (Withdrawal_AccountID r)) \<and>
     distinct (map fst (faucet_claims d)) \<and> (\<forall>c \<in> set (faucet_claims d). account_known d (fst c)) \<and>
     distinct (map Cursor_Address (deposit_cursors d))"

text \<open>\<open>sound_exec P u\<close>: the statement keeps \<open>P\<close> of the tables.\<close>

definition sound_exec :: "(wallet_db \<Rightarrow> bool) \<Rightarrow> (time \<Rightarrow> wallet_db \<Rightarrow> sql_error + (wallet_db \<times> nat)) \<Rightarrow> bool" where
  "sound_exec P u \<longleftrightarrow> (\<forall>now d d' n. P d \<longrightarrow> u now d = Inr (d', n) \<longrightarrow> P d')"

lemma keeps_w_stmt: "keeps P m \<Longrightarrow> (\<And>w f. P (w\<lparr>db_fates := f\<rparr>) = P w) \<Longrightarrow> keeps P (w_stmt m)"
  unfolding keeps_def w_stmt_def by (auto simp: Let_def split: fate.splits)

lemma keeps_w_query: "keeps (\<lambda>w. P (wdb w)) (w_query f)"
  unfolding w_query_def by (rule keeps_w_stmt) (auto simp: keeps_def)

lemma keeps_w_exec: "sound_exec P u \<Longrightarrow> keeps (\<lambda>w. P (wdb w)) (w_exec u)"
  unfolding w_exec_def
  by (rule keeps_w_stmt) (auto simp: keeps_def sound_exec_def split: sum.splits)

lemma keeps_ignore [keeps_intro]: "keeps P m \<Longrightarrow> keeps P (ignore m)"
  by (simp add: keeps_def ignore_def)

lemma keeps_attempt [keeps_intro]: "keeps P m \<Longrightarrow> keeps P (attempt m)"
  unfolding keeps_def attempt_def by (auto split: prod.splits dest: sym)

lemma keeps_wuuid_New [keeps_intro]: "keeps (\<lambda>w. P (wdb w)) wuuid_New"
  by (simp add: keeps_def wuuid_New_def)

lemma account_known_iff: "account_known d a \<longleftrightarrow> a \<in> Wallet_AccountID ` set (wallet_addresses d)"
  by (auto simp: account_known_def list_ex_iff)

lemma sound_insert_address: "sound_exec wallet_inv (insert_address r)"
  by (auto simp: sound_exec_def insert_address_def wallet_inv_def account_known_iff list_ex_iff
      split: if_splits)

lemma sound_insert_claim: "sound_exec wallet_inv (insert_claim a)"
  by (auto simp: sound_exec_def insert_claim_def wallet_inv_def account_known_iff list_ex_iff
      split: if_splits)

lemma sound_delete_claim: "sound_exec wallet_inv (delete_claim a)"
  by (auto simp: sound_exec_def delete_claim_def wallet_inv_def account_known_iff distinct_map_filter)

lemma sound_insert_deposit: "sound_exec wallet_inv (insert_deposit r)"
  by (auto simp: sound_exec_def insert_deposit_def wallet_inv_def account_known_iff list_ex_iff
      split: if_splits)

lemma sound_insert_withdrawal: "sound_exec wallet_inv (insert_withdrawal r)"
  by (auto simp: sound_exec_def insert_withdrawal_def wallet_inv_def account_known_iff list_ex_iff
      split: if_splits)

lemma sound_upsert_cursor: "sound_exec wallet_inv (upsert_cursor t g)"
  by (auto simp: sound_exec_def upsert_cursor_def wallet_inv_def account_known_iff list_ex_iff map_upd_rows)

text \<open>An update of a row leaves the columns that were inserted with it.\<close>

definition keyed_deposit :: "(time \<Rightarrow> Deposit \<Rightarrow> Deposit) \<Rightarrow> bool" where
  "keyed_deposit f \<longleftrightarrow> (\<forall>now r. Deposit_Signature (f now r) = Deposit_Signature r \<and>
      Deposit_ID (f now r) = Deposit_ID r \<and> Deposit_Asset (f now r) = Deposit_Asset r \<and>
      Deposit_RawAmount (f now r) = Deposit_RawAmount r \<and> Deposit_AccountID (f now r) = Deposit_AccountID r)"

definition keyed_withdrawal :: "(time \<Rightarrow> Withdrawal \<Rightarrow> Withdrawal) \<Rightarrow> bool" where
  "keyed_withdrawal f \<longleftrightarrow> (\<forall>now r. Withdrawal_ID (f now r) = Withdrawal_ID r \<and>
      Withdrawal_Asset (f now r) = Withdrawal_Asset r \<and> Withdrawal_AmountUSDC (f now r) = Withdrawal_AmountUSDC r \<and>
      Withdrawal_AmountReais (f now r) = Withdrawal_AmountReais r \<and>
      Withdrawal_AccountID (f now r) = Withdrawal_AccountID r)"

lemma sound_update_deposit:
  assumes "keyed_deposit f"
  shows "sound_exec wallet_inv (\<lambda>now. update_deposit (f now) g)"
  unfolding sound_exec_def update_deposit_def Let_def
proof (intro allI impI)
  fix now d d' n
  assume i: "wallet_inv d"
    and u: "(if list_ex (\<lambda>r. Deposit_Signature r = g \<and> (Deposit_CreditedUSDC (f now r) < 0 \<or>
                 Deposit_CreditedReais (f now r) < 0)) (deposits d) then Inl CheckViolation
             else Inr (d\<lparr>deposits := upd_rows (\<lambda>r. Deposit_Signature r = g) (f now) (deposits d)\<rparr>,
                    length (filter (\<lambda>r. Deposit_Signature r = g) (deposits d)))) = Inr (d', n)"
  then have d': "d' = d\<lparr>deposits := upd_rows (\<lambda>r. Deposit_Signature r = g) (f now) (deposits d)\<rparr>"
    and c: "\<forall>r \<in> set (deposits d). Deposit_Signature r = g \<longrightarrow>
      0 \<le> Deposit_CreditedUSDC (f now r) \<and> 0 \<le> Deposit_CreditedReais (f now r)"
    by (auto simp: list_ex_iff not_less split: if_splits)
  show "wallet_inv d'"
    using i c assms by (simp add: keyed_deposit_def wallet_inv_def d' account_known_iff map_upd_rows ball_upd_rows)
qed

lemma sound_update_withdrawal:
  assumes "keyed_withdrawal f"
  shows "sound_exec wallet_inv (\<lambda>now. update_withdrawal (f now) i)"
  using assms
  by (auto simp: keyed_withdrawal_def sound_exec_def update_withdrawal_def wallet_inv_def account_known_iff
      map_upd_rows in_set_upd_rows)


section \<open>What lasts\<close>

text \<open>
  \<open>ledger_lasting P\<close>: no statement on the ledgers or the cursors breaks \<open>P\<close>;
  \<open>lasting P\<close>: nor one on the faucet claims. The statements of provisioning are left to
  the properties that speak of addresses.
\<close>

definition ledger_lasting :: "(wallet_db \<Rightarrow> bool) \<Rightarrow> bool" where
  "ledger_lasting P \<longleftrightarrow> (\<forall>r. sound_exec P (insert_deposit r)) \<and> (\<forall>r. sound_exec P (insert_withdrawal r)) \<and>
     (\<forall>t g. sound_exec P (upsert_cursor t g)) \<and>
     (\<forall>f g. keyed_deposit f \<longrightarrow> sound_exec P (\<lambda>now. update_deposit (f now) g)) \<and>
     (\<forall>f i. keyed_withdrawal f \<longrightarrow> sound_exec P (\<lambda>now. update_withdrawal (f now) i))"

definition lasting :: "(wallet_db \<Rightarrow> bool) \<Rightarrow> bool" where
  "lasting P \<longleftrightarrow> (\<forall>a. sound_exec P (insert_claim a)) \<and> (\<forall>a. sound_exec P (delete_claim a)) \<and>
     ledger_lasting P"

lemma lasting_ledger: "lasting P \<Longrightarrow> ledger_lasting P"
  by (simp add: lasting_def)

definition address_safe :: "(WalletAddress \<Rightarrow> bool) \<Rightarrow> (wallet_db \<Rightarrow> bool) \<Rightarrow> bool" where
  "address_safe A P \<longleftrightarrow> (\<forall>r. A r \<longrightarrow> sound_exec P (insert_address r)) \<and>
     (\<forall>d n. P d \<longrightarrow> P (d\<lparr>derivation_seq := n\<rparr>))"

lemma lasting_wallet_inv: "lasting wallet_inv"
  unfolding lasting_def ledger_lasting_def
  using sound_insert_claim sound_delete_claim sound_insert_deposit sound_insert_withdrawal
    sound_upsert_cursor sound_update_deposit sound_update_withdrawal by blast

lemma address_safe_wallet_inv: "address_safe A wallet_inv"
  unfolding address_safe_def using sound_insert_address
  by (auto simp: wallet_inv_def account_known_def)

text \<open>A signature once recorded stays recorded, an address once given stays given.\<close>

definition recorded :: "string \<Rightarrow> wallet_db \<Rightarrow> bool" where
  "recorded g d \<longleftrightarrow> g \<in> Deposit_Signature ` set (deposits d)"

definition provisioned :: "WalletAddress \<Rightarrow> wallet_db \<Rightarrow> bool" where
  "provisioned r d \<longleftrightarrow> find (\<lambda>q. Wallet_AccountID q = Wallet_AccountID r) (wallet_addresses d) = Some r"

lemmas exec_defs = sound_exec_def insert_address_def insert_claim_def delete_claim_def insert_deposit_def
  insert_withdrawal_def upsert_cursor_def update_deposit_def update_withdrawal_def

lemma lasting_recorded: "lasting (recorded g)"
  unfolding lasting_def ledger_lasting_def
proof (intro conjI allI impI)
  fix f :: "time \<Rightarrow> Deposit \<Rightarrow> Deposit" and h assume k: "keyed_deposit f"
  have "Deposit_Signature ` set (upd_rows p (f now) rs) = Deposit_Signature ` set rs" for p now rs
    using k map_upd_rows [of Deposit_Signature "f now" p rs]
    unfolding keyed_deposit_def by (metis set_map)
  then show "sound_exec (recorded g) (\<lambda>now. update_deposit (f now) h)"
    by (auto simp: sound_exec_def update_deposit_def recorded_def Let_def split: if_splits)
qed (auto simp: exec_defs recorded_def split: if_splits)

lemma address_safe_recorded: "address_safe A (recorded g)"
  by (auto simp: address_safe_def exec_defs recorded_def split: if_splits)

lemma lasting_provisioned: "lasting (provisioned r)"
  by (auto simp: lasting_def ledger_lasting_def exec_defs provisioned_def Let_def split: if_splits)

lemma address_safe_provisioned: "address_safe A (provisioned r)"
  by (auto simp: address_safe_def exec_defs provisioned_def find_append split: if_splits)

lemma keeps_store:
  assumes "ledger_lasting P"
  shows "keeps (\<lambda>w. P (wdb w)) (GetAddressByAccount a)" "keeps (\<lambda>w. P (wdb w)) ListAddresses"
    "keeps (\<lambda>w. P (wdb w)) (GetScanCursor t)" "keeps (\<lambda>w. P (wdb w)) (SetScanCursor t g)"
    "keeps (\<lambda>w. P (wdb w)) (InsertDepositIfNew d)" "keeps (\<lambda>w. P (wdb w)) (SetDepositStatus g st)"
    "keeps (\<lambda>w. P (wdb w)) (MarkDepositCredited g x y)" "keeps (\<lambda>w. P (wdb w)) (MarkDepositFailed g)"
    "keeps (\<lambda>w. P (wdb w)) (InsertWithdrawal wd)" "keeps (\<lambda>w. P (wdb w)) (SetWithdrawalStatus i ws)"
    "keeps (\<lambda>w. P (wdb w)) (SetWithdrawalSent i g)" "keeps (\<lambda>w. P (wdb w)) (SetWithdrawalConfirmed i)"
    "keeps (\<lambda>w. P (wdb w)) (SetWithdrawalFailed i)"
  using assms
  unfolding GetAddressByAccount_def ListAddresses_def GetScanCursor_def SetScanCursor_def
    InsertDepositIfNew_def SetDepositStatus_def MarkDepositCredited_def
    MarkDepositFailed_def InsertWithdrawal_def found_or_def
    SetWithdrawalStatus_def SetWithdrawalSent_def SetWithdrawalConfirmed_def SetWithdrawalFailed_def
  by (auto simp: ledger_lasting_def keyed_deposit_def keyed_withdrawal_def
      intro!: keeps_intro keeps_w_query keeps_w_exec split: option.splits)

lemma keeps_claims:
  assumes "lasting P"
  shows "keeps (\<lambda>w. P (wdb w)) (ClaimFaucet a)" "keeps (\<lambda>w. P (wdb w)) (ReleaseFaucet a)"
  using assms unfolding ClaimFaucet_def ReleaseFaucet_def
  by (auto simp: lasting_def intro!: keeps_intro keeps_w_exec)

lemma keeps_nextval: "(\<And>d n. P d \<Longrightarrow> P (d\<lparr>derivation_seq := n\<rparr>)) \<Longrightarrow> keeps (\<lambda>w. P (wdb w)) nextval"
  unfolding nextval_def by (rule keeps_w_stmt) (auto simp: keeps_def)

lemma keeps_NextDerivationIndex:
  "address_safe A P \<Longrightarrow> keeps (\<lambda>w. P (wdb w)) NextDerivationIndex"
  unfolding NextDerivationIndex_def address_safe_def by (auto intro!: keeps_intro keeps_nextval)

lemma keeps_InsertAddress:
  "address_safe A P \<Longrightarrow> A r \<Longrightarrow> keeps (\<lambda>w. P (wdb w)) (InsertAddress r)"
  unfolding InsertAddress_def address_safe_def by (auto intro!: keeps_intro keeps_w_exec)

end
