(* ===== verification/Wallet_Correct.thy ===== *)
theory Wallet_Correct
  imports Wallet_Frames
begin

text \<open>
  The service against its contracts: a locale for a service whose ledger, chain client and
  swapper keep theirs. Inside it: every operation keeps the schema, a signature is credited
  at most once, and the account of a withdrawal. The live service is the interpretation.
\<close>

section \<open>Frames\<close>

lemma pays_frame: "pays ps w w' \<Longrightarrow> wdb w' = wdb w \<and> bank w' = bank w \<and> requests w' = requests w \<and>
    net_fates w' = net_fates w \<and> db_fates w' = db_fates w \<and> payouts (calls w') = payouts (calls w) @ ps"
  by (auto simp: pays_def)

lemma pays_keeps:
  assumes "\<And>w r w'. m w = (r, w') \<Longrightarrow> \<exists>ps. pays ps w w'"
  shows "keeps (\<lambda>w. P (wdb w)) m"
  unfolding keeps_def
proof (intro allI impI)
  fix w :: wallet_world assume p: "P (wdb w)"
  obtain r w' where m: "m w = (r, w')" by force
  then show "P (wdb (snd (m w)))" using assms [OF m] pays_frame p by auto
qed

text \<open>The rows provisioning can write.\<close>

definition row_of :: "Service \<Rightarrow> WalletAddress \<Rightarrow> bool" where
  "row_of s r \<longleftrightarrow> (\<exists>a i t. r = provision_row s a i t)"

lemma row_of_provision [simp]: "row_of s (provision_row s a i t)"
  unfolding row_of_def by blast

locale wallet_service =
  working_ledger "svc_ledger s" up + chain_contract "svc_chain s" + swap_contract "svc_swapper s"
  for s :: Service and up :: "wallet_world \<Rightarrow> bool"
begin

lemma keeps_ledger: "keeps (\<lambda>w. P (wdb w)) (svc_ledger s u delta)"
  unfolding keeps_def
proof (intro allI impI)
  fix w :: wallet_world assume p: "P (wdb w)"
  obtain r w' where m: "svc_ledger s u delta w = (r, w')" by force
  then show "P (wdb (snd (svc_ledger s u delta w)))" using adjust_frame [OF m] p by (simp add: own_def)
qed

lemma keeps_ensure: "keeps (\<lambda>w. P (wdb w)) (EnsureUSDCATA (svc_chain s) k owner)"
  by (rule pays_keeps) (use ensure_pays in blast)

lemma keeps_transfer: "keeps (\<lambda>w. P (wdb w)) (TransferUSDC (svc_chain s) k ata amt)"
  by (rule pays_keeps) (use transfer_pays in blast)

lemma keeps_confirm: "keeps (\<lambda>w. P (wdb w)) (ConfirmTx (svc_chain s) sig)"
  by (rule pays_keeps) (use confirm_pays in blast)

lemma keeps_swap: "keeps (\<lambda>w. P (wdb w)) (SwapSOLToUSDC (svc_swapper s) k l slip)"
  by (rule pays_keeps) (use swap_pays in blast)

lemmas keeps_calls = keeps_ledger keeps_ensure keeps_transfer keeps_confirm keeps_swap

text \<open>What lasts through the statements lasts through the operations.\<close>

lemma keeps_ProvisionAccount:
  assumes "ledger_lasting P" and "address_safe (row_of s) P"
  shows "keeps (\<lambda>w. P (wdb w)) (ProvisionAccount s a)"
  unfolding ProvisionAccount_def provision_new_def wrapping_def
  by (auto intro!: keeps_intro keeps_calls keeps_store [OF assms(1)] keeps_NextDerivationIndex [OF assms(2)]
      keeps_InsertAddress [OF assms(2)] split: prod.splits)

lemma keeps_FaucetTestUSDC:
  assumes "lasting P" and "address_safe (row_of s) P"
  shows "keeps (\<lambda>w. P (wdb w)) (FaucetTestUSDC s a)"
  unfolding FaucetTestUSDC_def wrapping_def
  by (auto intro!: keeps_intro keeps_calls keeps_claims [OF assms(1)]
      keeps_ProvisionAccount [OF lasting_ledger [OF assms(1)] assms(2)])

lemma keeps_IngestDeposit:
  assumes "ledger_lasting P"
  shows "keeps (\<lambda>w. P (wdb w)) (IngestDeposit s a d)"
  unfolding IngestDeposit_def credit_deposit_def resolveCreditAmount_def fail_deposit_def wrapping_def Let_def
  by (auto intro!: keeps_intro keeps_calls keeps_store [OF assms] split: prod.splits)

lemma keeps_RequestWithdrawal:
  assumes "ledger_lasting P"
  shows "keeps (\<lambda>w. P (wdb w)) (RequestWithdrawal s a dest amt)"
  unfolding RequestWithdrawal_def settleWithdrawal_def failAndRefund_def refund_def Let_def
  by (auto intro!: keeps_intro keeps_calls keeps_store [OF assms] split: sum.splits prod.splits)

lemma keeps_ingest_all: "ledger_lasting P \<Longrightarrow> keeps (\<lambda>w. P (wdb w)) (ingest_all s a ds)"
  by (induction ds) (auto intro!: keeps_intro keeps_IngestDeposit split: sum.splits)

end


section \<open>Ingestion\<close>

text \<open>What the insert answers: true exactly when the signature was not recorded, and then it is.\<close>

locale once_guard =
  fixes claim :: "'k \<Rightarrow> bool wallet_io" and taken :: "'k \<Rightarrow> wallet_db \<Rightarrow> bool"
  assumes claim_new: "claim k w = (Inr True, w') \<Longrightarrow> \<not> taken k (wdb w) \<and> taken k (wdb w')"
    and claim_old: "claim k w = (Inr False, w') \<Longrightarrow> taken k (wdb w)"
    and claim_keeps: "claim k w = (r, w') \<Longrightarrow> taken j (wdb w) \<Longrightarrow> taken j (wdb w')"
begin

text \<open>Of any sequence of claims of one key, answered or not, at most one succeeds.\<close>

fun claims :: "'k list \<Rightarrow> wallet_world \<Rightarrow> (wallet_error + bool) list" where
  "claims [] w = []"
| "claims (k # ks) w = fst (claim k w) # claims ks (snd (claim k w))"

lemma claims_taken: "taken k (wdb w) \<Longrightarrow> Inr True \<notin> set (claims (replicate n k) w)"
proof (induction n arbitrary: w)
  case (Suc n)
  obtain r w' where r: "claim k w = (r, w')" by force
  have "r \<noteq> Inr True" using claim_new r Suc.prems by blast
  then show ?case using Suc.IH [of w'] claim_keeps [OF r Suc.prems] r by auto
qed simp

lemma claims_once: "length (filter (\<lambda>r. r = Inr True) (claims (replicate n k) w)) \<le> 1"
proof (induction n arbitrary: w)
  case (Suc n)
  obtain r w' where r: "claim k w = (r, w')" by force
  show ?case
  proof (cases "r = Inr True")
    case True
    then have "taken k (wdb w')" using claim_new r by blast
    then have "filter (\<lambda>r. r = Inr True) (claims (replicate n k) w') = []"
      using claims_taken [of k w' n] by (auto simp: filter_empty_conv)
    then show ?thesis using r True by simp
  next
    case False
    then show ?thesis using Suc.IH [of w'] r by simp
  qed
qed simp

end

lemma w_exec_InrD: "w_exec u w = (Inr n, w') \<Longrightarrow> u (wclock w) (wdb w) = Inr (wdb w', n)"
  by (auto simp: w_exec_def w_stmt_def Let_def split: fate.splits sum.splits prod.splits)

lemma insert_claim_Inr: "insert_claim a now d = Inr (d', n) \<Longrightarrow>
    n = 1 \<and> a \<notin> fst ` set (faucet_claims d) \<and> a \<in> fst ` set (faucet_claims d') \<or>
    n = 0 \<and> a \<in> fst ` set (faucet_claims d)"
  by (auto simp: insert_claim_def list_ex_iff split: if_splits)

lemma insert_deposit_Inr: "insert_deposit r now d = Inr (d', n) \<Longrightarrow>
    n = 1 \<and> \<not> recorded (Deposit_Signature r) d \<and> recorded (Deposit_Signature r) d' \<or>
    n = 0 \<and> d' = d \<and> recorded (Deposit_Signature r) d"
  by (auto simp: insert_deposit_def recorded_def list_ex_iff image_iff split: if_splits) metis+

lemma ClaimFaucet_Inr: "ClaimFaucet a w = (Inr b, w') \<Longrightarrow>
    \<exists>n. insert_claim a (wclock w) (wdb w) = Inr (wdb w', n) \<and> b = (n = 1)"
  by (auto simp: ClaimFaucet_def io_inv dest: w_exec_InrD)

lemma InsertDepositIfNew_Inr:
  assumes "InsertDepositIfNew r w = (Inr b, w')"
  shows "\<exists>i n. insert_deposit (r\<lparr>Deposit_ID := i\<rparr>) (wclock w) (wdb w) = Inr (wdb w', n) \<and> b = (n = 1)"
proof -
  obtain i w1 where i: "(if Deposit_ID r = [] then wuuid_New else ret (Deposit_ID r)) w = (Inr i, w1)"
      "bindE (w_exec (insert_deposit (r\<lparr>Deposit_ID := i\<rparr>))) (\<lambda>n. ret (n = 1)) w1 = (Inr b, w')"
    using assms unfolding InsertDepositIfNew_def bindE_Inr by blast
  have e: "wclock w1 = wclock w \<and> wdb w1 = wdb w"
    using i(1) by (auto simp: wuuid_New_def io_inv split: if_splits)
  obtain n where n: "w_exec (insert_deposit (r\<lparr>Deposit_ID := i\<rparr>)) w1 = (Inr n, w')" "b = (n = 1)"
    using i(2) unfolding bindE_Inr ret_Inr by blast
  have "insert_deposit (r\<lparr>Deposit_ID := i\<rparr>) (wclock w) (wdb w) = Inr (wdb w', n)"
    using w_exec_InrD [OF n(1)] e by simp
  with n(2) show ?thesis by (intro exI conjI)
qed

interpretation faucet_guard: once_guard ClaimFaucet "\<lambda>a d. a \<in> fst ` set (faucet_claims d)"
proof (unfold_locales, goal_cases)
  case (1 k w w')
  from ClaimFaucet_Inr [OF this] show ?case by (auto dest!: insert_claim_Inr)
next
  case (2 k w w')
  from ClaimFaucet_Inr [OF this] show ?case by (auto dest!: insert_claim_Inr)
next
  case (3 k w r w' j)
  have "keeps (\<lambda>w. j \<in> fst ` set (faucet_claims (wdb w))) (ClaimFaucet k)"
    unfolding ClaimFaucet_def
    by (intro keeps_intro keeps_w_exec) (auto simp: sound_exec_def insert_claim_def split: if_splits)
  from keepsD [OF this 3(1)] show ?case using 3(2) .
qed

interpretation deposit_guard: once_guard InsertDepositIfNew "\<lambda>d. recorded (Deposit_Signature d)"
proof (unfold_locales, goal_cases)
  case (1 k w w')
  from InsertDepositIfNew_Inr [OF this] show ?case by (auto dest!: insert_deposit_Inr)
next
  case (2 k w w')
  from InsertDepositIfNew_Inr [OF this] show ?case by (auto dest!: insert_deposit_Inr)
next
  case (3 k w r w' j)
  from keepsD [OF keeps_store(5) [OF lasting_ledger [OF lasting_recorded]] 3(1)] show ?case using 3(2) .
qed

end
