(* ===== verification/Wallet_Money.thy ===== *)
theory Wallet_Money
  imports Wallet_Correct
begin

text \<open>
  Where the money goes. Ingestion asks the ledger for at most one credit per signature; a
  withdrawal leaves the ledger debited exactly when it stands, and pays out at most once the
  amount it converted. Both are proved in the service's locale and hold for the live service.
\<close>

section \<open>Requests to the ledger\<close>

lemma storing_keeps: "storing m \<Longrightarrow> keeps (\<lambda>w. Q (outside w)) m"
  by (simp add: storing_def keeps_def)

lemma storing_requests: "storing m \<Longrightarrow> keeps (\<lambda>w. Q (requests w)) m"
  using storing_keeps [of m "\<lambda>(b, f, r, c, t). Q r"] by (simp add: outside_def)

lemma pays_requests:
  assumes "\<And>w r w'. m w = (r, w') \<Longrightarrow> \<exists>ps. pays ps w w'"
  shows "keeps (\<lambda>w. Q (requests w)) m"
  unfolding keeps_def
proof (intro allI impI)
  fix w :: wallet_world assume p: "Q (requests w)"
  obtain r w' where m: "m w = (r, w')" by force
  then show "Q (requests (snd (m w)))" using assms [OF m] pays_frame p by auto
qed

text \<open>A run of detections, each by whatever account it was found for.\<close>

fun ingest_run :: "Service \<Rightarrow> (uuid \<times> DetectedDeposit) list \<Rightarrow> wallet_world \<Rightarrow> wallet_world" where
  "ingest_run s [] w = w"
| "ingest_run s ((a, d) # ds) w = ingest_run s ds (snd (IngestDeposit s a d w))"

context wallet_service
begin

lemma requests_resolve: "keeps (\<lambda>w. Q (requests w)) (resolveCreditAmount s a asset d)"
proof -
  have "keeps (\<lambda>w. Q (requests w)) (SwapSOLToUSDC (svc_swapper s) k l slip)" for k l slip
    by (rule pays_requests) (use swap_pays in blast)
  moreover have "keeps (\<lambda>w. Q (requests w)) (SetDepositStatus g st)"
      "keeps (\<lambda>w. Q (requests w)) (GetAddressByAccount a)" for g st
    by (rule storing_requests [OF storing_store(12)], rule storing_requests [OF storing_store(2)])
  ultimately show ?thesis
    unfolding resolveCreditAmount_def wrapping_def
    by (auto intro!: keeps_intro split: prod.splits)
qed

lemma requests_fail: "keeps (\<lambda>w. Q (requests w)) (fail_deposit g e)"
  unfolding fail_deposit_def by (intro keeps_intro storing_requests storing_intro)

text \<open>Crediting asks the ledger once at most, for the converted amount.\<close>

lemma credit_requests:
  assumes "credit_deposit s a d w = (r, w')"
  shows "\<exists>ds. requests w' = requests w @ ds \<and> length ds \<le> 1 \<and> (\<forall>x \<in> set ds. fst x = a) \<and>
    (\<forall>u. r = Inr u \<longrightarrow> ds \<noteq> [])"
proof -
  let ?m = "on_error (resolveCreditAmount s a (Detected_Asset d) d) (fail_deposit (Detected_Signature d))"
  obtain r1 w1 where m: "?m w = (r1, w1)" by force
  have "keeps (\<lambda>v. requests v = requests w) ?m"
    by (intro keeps_intro requests_resolve requests_fail)
  from keepsD [OF this m] have q1: "requests w1 = requests w" by simp
  show ?thesis
  proof (cases r1)
    case (Inl e)
    then show ?thesis using assms m q1
      by (auto simp: credit_deposit_def bindE_def intro: exI [of _ "[]"])
  next
    case (Inr usdc)
    let ?reais = "microUSDCToReais usdc (svc_rateMicros s)"
    obtain r2 w2 where l: "svc_ledger s a ?reais w1 = (r2, w2)" by force
    have q2: "requests w2 = requests w @ [(a, ?reais)]" using adjust_frame [OF l] q1 by simp
    have "requests w' = requests w2"
    proof (cases r2)
      case (Inl e)
      obtain r3 w3 where f: "fail_deposit (Detected_Signature d) (WErrWrap ''crediting ledger'' e) w2 =
          (r3 :: wallet_error + int, w3)" by force
      have "w' = w3"
        using assms m Inr l Inl f
        by (cases r3) (auto simp: credit_deposit_def bindE_def seqE_def on_error_def Let_def fail_deposit_def
            ignore_def throw_def)
      then show ?thesis
        using keepsD [OF requests_fail [where Q = "\<lambda>q. q = requests w2"] f] by simp
    next
      case ok: (Inr b)
      then have "MarkDepositCredited (Detected_Signature d) usdc ?reais w2 = (r, w')"
        using assms m Inr l by (simp add: credit_deposit_def bindE_def seqE_def on_error_def Let_def)
      then show ?thesis
        using keepsD [OF storing_requests [where Q = "\<lambda>q. q = requests w2", OF storing_store(13)]] by blast
    qed
    then show ?thesis using q2 by auto
  qed
qed

lemma ingest_requests:
  assumes "IngestDeposit s a d w = (r, w')"
  shows "\<exists>ds. requests w' = requests w @ ds \<and> length ds \<le> 1 \<and> (\<forall>x \<in> set ds. fst x = a) \<and>
    (ds \<noteq> [] \<longrightarrow> \<not> recorded (Detected_Signature d) (wdb w) \<and> recorded (Detected_Signature d) (wdb w'))"
proof -
  obtain r1 w1 where i: "InsertDepositIfNew (detected_row a d) w = (r1, w1)" by force
  have q1: "requests w1 = requests w"
    using keepsD [OF storing_requests [where Q = "\<lambda>q. q = requests w", OF storing_store(11)] i] by simp
  show ?thesis
  proof (cases "r1 = Inr True")
    case False
    then have "w' = w1" using assms i
      by (cases r1) (auto simp: IngestDeposit_def bindE_def ret_def)
    then show ?thesis using q1 by simp
  next
    case True
    have c: "credit_deposit s a d w1 = (r, w')" using assms i True by (simp add: IngestDeposit_def bindE_def)
    have n: "\<not> recorded (Detected_Signature d) (wdb w)" "recorded (Detected_Signature d) (wdb w1)"
      using deposit_guard.claim_new [of "detected_row a d" w w1] i True by (auto simp: detected_row_def)
    have "keeps (\<lambda>w. recorded (Detected_Signature d) (wdb w)) (credit_deposit s a d)"
      unfolding credit_deposit_def resolveCreditAmount_def fail_deposit_def wrapping_def Let_def
      by (auto intro!: keeps_intro keeps_calls keeps_store [OF lasting_ledger [OF lasting_recorded]] split: prod.splits)
    from keepsD [OF this c n(2)] show ?thesis
      using credit_requests [OF c] q1 n(1) by auto
  qed
qed

text \<open>Over any run of detections, whatever fails in it.\<close>

lemma ingest_run_requests:
  "length (requests (ingest_run s ds w)) \<le> length (requests w) +
     card {g \<in> (\<lambda>(a, d). Detected_Signature d) ` set ds. \<not> recorded g (wdb w)}"
proof (induction ds arbitrary: w)
  case (Cons x ds)
  obtain a d where x: "x = (a, d)" by (cases x)
  obtain r w' where i: "IngestDeposit s a d w = (r, w')" by force
  let ?sigs = "(\<lambda>(a, d). Detected_Signature d) ` set ds"
  let ?g = "Detected_Signature d"
  obtain ns where ns: "requests w' = requests w @ ns" "length ns \<le> 1"
      "ns \<noteq> [] \<longrightarrow> \<not> recorded ?g (wdb w) \<and> recorded ?g (wdb w')"
    using ingest_requests [OF i] by blast
  have mono: "recorded g (wdb w')" if "recorded g (wdb w)" for g
    using keepsD [OF keeps_IngestDeposit [OF lasting_ledger [OF lasting_recorded]] i] that by blast
  let ?A = "{g \<in> ?sigs. \<not> recorded g (wdb w')}" and ?B = "{g \<in> insert ?g ?sigs. \<not> recorded g (wdb w)}"
  have fin: "finite ?B" by simp
  have "length ns + card ?A \<le> card ?B"
  proof (cases "ns = []")
    case True
    have "?A \<subseteq> ?B" using mono by blast
    then show ?thesis using True card_mono [OF fin] by simp
  next
    case False
    then have "?g \<in> ?B" "?A \<subseteq> ?B - {?g}" using ns(3) mono by blast+
    then have "card ?A \<le> card ?B - 1" "0 < card ?B"
      using card_mono [of "?B - {?g}" ?A] fin by (auto simp: card_gt_0_iff)
    then show ?thesis using ns(2) by linarith
  qed
  then show ?case using Cons.IH [of w'] ns(1) i x by simp
qed simp

end


section \<open>The account of a withdrawal\<close>

text \<open>
  \<open>acct\<close>: since the tables \<open>d\<close> of the ledger and the payouts \<open>p\<close>, the ledger has
  been debited (or not), and \<open>ps\<close> has been paid out.
\<close>

definition acct :: "(wallet_world \<Rightarrow> bool) \<Rightarrow> db \<Rightarrow> (64 word \<times> string) list \<Rightarrow> uuid \<Rightarrow> int \<Rightarrow> bool \<Rightarrow>
    (64 word \<times> string) list \<Rightarrow> wallet_world \<Rightarrow> bool" where
  "acct up d p a amt k ps w \<longleftrightarrow> up w \<and> inv d \<and> inv (tabs (bank w)) \<and> payouts (calls w) = p @ ps \<and>
     (if k then moved a (- amt) d (tabs (bank w))
      else balance_of (tabs (bank w)) = balance_of d \<and> escrow (tabs (bank w)) = escrow d)"

text \<open>
  What the result says: the debit stands iff the withdrawal was recorded and its error, if any,
  is the manual review or a failed update of its row; success means it was paid; at most one
  payout, of the converted amount; paid without a debit only after an ambiguous chain error.
\<close>

definition withdrawal_outcome :: "64 word \<Rightarrow> bool \<Rightarrow> (64 word \<times> string) list \<Rightarrow> withdrawal_result \<Rightarrow> bool" where
  "withdrawal_outcome usdc k ps r \<longleftrightarrow>
     (k \<longleftrightarrow> fst r \<noteq> None \<and> (snd r = None \<or> snd r = Some ErrManualReview \<or> (\<exists>x. snd r = Some (WErrSql x)))) \<and>
     (ps = [] \<or> (\<exists>ata. ps = [(usdc, ata)])) \<and>
     (k \<and> snd r \<noteq> Some ErrManualReview \<longrightarrow> ps \<noteq> []) \<and> (snd r = Some ErrManualReview \<longrightarrow> ps = []) \<and>
     (ps \<noteq> [] \<and> \<not> k \<longrightarrow> (\<exists>x. snd r = Some (WErrWrap ''sending USDC'' x) \<or>
                                snd r = Some (WErrWrap ''confirming withdrawal'' x)))"

lemma triple_attempt:
  "triple P m Q E \<Longrightarrow> triple P (attempt m) (\<lambda>r. case r of Inl e \<Rightarrow> E e | Inr x \<Rightarrow> Q x) (\<lambda>_ _. False)"
  unfolding triple_def attempt_def by (fastforce split: prod.splits sum.splits)

lemma w_exec_InlD: "w_exec u w = (Inl e, w') \<Longrightarrow> \<exists>x. e = WErrSql x"
  by (auto simp: w_exec_def w_stmt_def Let_def split: fate.splits sum.splits prod.splits)

text \<open>The updates of a withdrawal's row fail with nothing but a database error.\<close>

lemma SetWithdrawal_InlD:
  "SetWithdrawalSent i g w = (Inl e, w') \<Longrightarrow> \<exists>x. e = WErrSql x"
  "SetWithdrawalConfirmed i w = (Inl e, w') \<Longrightarrow> \<exists>x. e = WErrSql x"
  by (auto simp: SetWithdrawalSent_def SetWithdrawalConfirmed_def io_inv dest: w_exec_InlD)

lemma InsertWithdrawal_Inr:
  assumes "InsertWithdrawal r w = (Inr wd, w')"
  shows "\<exists>i. wd = r\<lparr>Withdrawal_ID := i\<rparr>"
proof -
  obtain i w1 where "seqE (w_exec (insert_withdrawal (r\<lparr>Withdrawal_ID := i\<rparr>))) (ret (r\<lparr>Withdrawal_ID := i\<rparr>)) w1
      = (Inr wd, w')"
    using assms unfolding InsertWithdrawal_def bindE_Inr by blast
  then show ?thesis unfolding seqE_Inr ret_Inr by blast
qed

context wallet_service
begin

lemma acct_keeps: "storing m \<Longrightarrow> keeps (acct up d p a amt k ps) m"
  unfolding keeps_def
proof (intro allI impI)
  fix w assume m: "storing m" and c: "acct up d p a amt k ps w"
  have "outside (snd (m w)) = outside w" using m by (simp add: storing_def)
  then show "acct up d p a amt k ps (snd (m w))"
    using c up_cong [of "snd (m w)" w] by (simp add: acct_def outside_def)
qed

lemmas acct_store = acct_keeps [THEN keeps_triple]

lemma acct_pays: "acct up d p a amt k ps w \<Longrightarrow> pays qs w w' \<Longrightarrow> acct up d p a amt k (ps @ qs) w'"
  using up_cong [of w' w] by (auto simp: acct_def dest!: pays_frame)

lemma acct_ensure:
  "triple (acct up d p a amt k ps) (EnsureUSDCATA (svc_chain s) key owner)
     (\<lambda>_. acct up d p a amt k ps) (\<lambda>_. acct up d p a amt k ps)"
  using acct_pays [where qs = "[]"] by (intro tripleI) (auto dest!: ensure_pays)

lemma acct_confirm:
  "triple (acct up d p a amt k ps) (ConfirmTx (svc_chain s) sig)
     (\<lambda>_. acct up d p a amt k ps) (\<lambda>_. acct up d p a amt k ps)"
  using acct_pays [where qs = "[]"] by (intro tripleI) (auto dest!: confirm_pays)

lemma acct_transfer:
  "triple (acct up d p a amt k []) (TransferUSDC (svc_chain s) key ata usdc)
     (\<lambda>_. acct up d p a amt k [(usdc, ata)])
     (\<lambda>_ w. \<exists>ps. (ps = [] \<or> ps = [(usdc, ata)]) \<and> acct up d p a amt k ps w)"
proof (rule tripleI)
  fix w x w' assume c: "acct up d p a amt k [] w" and t: "TransferUSDC (svc_chain s) key ata usdc w = (Inr x, w')"
  then show "acct up d p a amt k [(usdc, ata)] w'"
    using acct_pays [OF c, of "[(usdc, ata)]" w'] transfer_pays [OF t] by simp
next
  fix w e w' assume c: "acct up d p a amt k [] w" and t: "TransferUSDC (svc_chain s) key ata usdc w = (Inl e, w')"
  then show "\<exists>ps. (ps = [] \<or> ps = [(usdc, ata)]) \<and> acct up d p a amt k ps w'"
    using acct_pays [OF c, of "[(usdc, ata)]" w'] acct_pays [OF c, of "[]" w'] transfer_pays [OF t] by auto
qed

lemma acct_debit:
  assumes "in_int64 (- amt)"
  shows "triple (acct up d p a amt False ps) (svc_ledger s a (- amt))
     (\<lambda>_. acct up d p a amt True ps) (\<lambda>_. acct up d p a amt False ps)"
proof (rule tripleI)
  fix w x w' assume c: "acct up d p a amt False ps w" and t: "svc_ledger s a (- amt) w = (Inr x, w')"
  have "inv (tabs (bank w))" "up w" using c by (simp_all add: acct_def)
  then show "acct up d p a amt True ps w'"
    using adjust_ok [OF _ assms t] up_keeps [OF _ t] adjust_frame [OF t] c
    by (auto simp: acct_def own_def moved_def)
next
  fix w e w' assume c: "acct up d p a amt False ps w" and t: "svc_ledger s a (- amt) w = (Inl e, w')"
  have i: "inv (tabs (bank w))" "up w" using c by (simp_all add: acct_def)
  have "tabs (bank w') = tabs (bank w)"
    using adjust_decided [OF i(1) assms up_answers [OF i(2)] t] by simp
  then show "acct up d p a amt False ps w'"
    using up_keeps [OF i(2) t] adjust_frame [OF t] c by (simp add: acct_def own_def)
qed

lemma acct_refund:
  assumes "in_int64 amt"
  shows "triple (acct up d p a amt True ps) (refund s a amt) (\<lambda>_. acct up d p a amt False ps) (\<lambda>_ _. False)"
proof (rule tripleI)
  fix w x w' assume c: "acct up d p a amt True ps w" and t: "refund s a amt w = (Inr x, w')"
  have i: "inv (tabs (bank w))" "up w" "moved a (- amt) d (tabs (bank w))" "inv d"
    using c by (simp_all add: acct_def)
  obtain b w1 where r: "svc_ledger s a amt w = (Inr b, w1)" "up w1" "inv (tabs (bank w1))"
      "balance_of (tabs (bank w1)) = balance_of d" "escrow (tabs (bank w1)) = escrow d"
    using up_refund [OF i assms] by blast
  have "w' = w1" using t r(1) by (simp add: refund_def ignore_def)
  then show "acct up d p a amt False ps w'"
    using r adjust_frame [OF r(1)] c by (simp add: acct_def own_def)
next
  fix w e w' assume "refund s a amt w = (Inl e, w')"
  then show False by (simp add: refund_def ignore_def)
qed

lemma acct_failAndRefund:
  assumes "in_int64 amt" and "Withdrawal_AccountID wd = a" and "Withdrawal_AmountReais wd = amt"
    and "\<And>x. cause \<noteq> WErrSql x" and "cause \<noteq> ErrManualReview"
    and "ps = [] \<or> (\<exists>ata. ps = [(usdc, ata)])"
    and "ps = [] \<or> (\<exists>x. cause = WErrWrap ''sending USDC'' x \<or> cause = WErrWrap ''confirming withdrawal'' x)"
  shows "triple (acct up d p a amt True ps) (failAndRefund s wd cause)
     (\<lambda>r w. \<exists>k ps. acct up d p a amt k ps w \<and> withdrawal_outcome usdc k ps r) (\<lambda>_ _. False)"
  unfolding failAndRefund_def assms(2,3)
proof (rule triple_seqE [where R = "acct up d p a amt True ps"])
  show "triple (acct up d p a amt True ps) (ignore (SetWithdrawalFailed (Withdrawal_ID wd)))
      (\<lambda>_. acct up d p a amt True ps) (\<lambda>_ _. False)"
    using triple_InrD [OF acct_store [OF storing_ignore [OF storing_store(21)]]]
    by (intro tripleI) (auto simp: ignore_def)
  show "triple (acct up d p a amt True ps) (seqE (refund s a amt) (ret (Some wd, Some cause)))
      (\<lambda>r w. \<exists>k ps. acct up d p a amt k ps w \<and> withdrawal_outcome usdc k ps r) (\<lambda>_ _. False)"
    by (rule triple_seqE [OF acct_refund [OF assms(1)]], rule triple_ret, intro exI conjI, assumption)
       (use assms(4-7) in \<open>auto simp: withdrawal_outcome_def\<close>)
qed

text \<open>One step of the settlement: go on, or fail and refund.\<close>

abbreviation accounted_for :: "db \<Rightarrow> (64 word \<times> string) list \<Rightarrow> uuid \<Rightarrow> int \<Rightarrow> 64 word \<Rightarrow>
    withdrawal_result \<Rightarrow> wallet_world \<Rightarrow> bool" where
  "accounted_for d p a amt usdc r w \<equiv> \<exists>k ps. acct up d p a amt k ps w \<and> withdrawal_outcome usdc k ps r"

lemma acct_settle:
  assumes "in_int64 amt" and "Withdrawal_AccountID wd = a" and "Withdrawal_AmountReais wd = amt"
    and "word_of_int (Withdrawal_AmountUSDC wd) = usdc"
  shows "triple (acct up d p a amt True []) (settleWithdrawal s wd) (accounted_for d p a amt usdc) (\<lambda>_ _. False)"
  unfolding settleWithdrawal_def
proof (rule triple_seqE [where R = "acct up d p a amt True []"], goal_cases)
  case 1
  show ?case using triple_InrD [OF acct_store [OF storing_ignore [OF storing_store(18)]]]
    by (intro tripleI) (auto simp: ignore_def)
next
  case 2
  note fail = acct_failAndRefund [OF assms(1)]
  have confirmed: "triple (acct up d p a amt True [(usdc, ata)])
      (bindE (attempt (SetWithdrawalConfirmed (Withdrawal_ID wd'))) (\<lambda>r.
         ret (Some wd', case r of Inl e \<Rightarrow> Some e | Inr _ \<Rightarrow> None)))
      (accounted_for d p a amt usdc) (\<lambda>_ _. False)" for ata wd'
  proof (rule tripleI, goal_cases)
    case (1 w r w')
    obtain q w1 where q: "SetWithdrawalConfirmed (Withdrawal_ID wd') w = (q, w1)" by force
    have "acct up d p a amt True [(usdc, ata)] w1"
      using keepsD [OF acct_keeps [OF storing_store(20)] q 1(1)] .
    moreover have "w' = w1 \<and> r = (Some wd', case q of Inl e \<Rightarrow> Some e | Inr _ \<Rightarrow> None)"
      using 1(2) q by (auto simp: attempt_def bindE_def ret_def)
    ultimately show ?case
      using SetWithdrawal_InlD(2) [of "Withdrawal_ID wd'" w _ w1] q
      by (intro exI [of _ True] exI [of _ "[(usdc, ata)]"])
        (auto simp: withdrawal_outcome_def split: sum.splits)
  qed (auto simp: attempt_def bindE_def ret_def split: prod.splits sum.splits)
  have sent: "triple (acct up d p a amt True [(usdc, ata)])
      (let wd' = wd\<lparr>Withdrawal_Signature := Some sig\<rparr> in
       bindE (attempt (ConfirmTx (svc_chain s) sig)) (\<lambda>r. case r of
         Inl e \<Rightarrow> failAndRefund s wd' (WErrWrap ''confirming withdrawal'' e)
       | Inr _ \<Rightarrow> bindE (attempt (SetWithdrawalConfirmed (Withdrawal_ID wd'))) (\<lambda>r.
           ret (Some wd', case r of Inl e \<Rightarrow> Some e | Inr _ \<Rightarrow> None))))
      (accounted_for d p a amt usdc) (\<lambda>_ _. False)" for ata sig
    unfolding Let_def
  proof (rule triple_bindE [OF triple_attempt [OF acct_confirm]], goal_cases)
    case (1 r)
    show ?case
    proof (cases r)
      case (Inl e)
      show ?thesis unfolding Inl sum.case by (rule fail) (use assms in simp_all)
    next
      case (Inr u)
      show ?thesis unfolding Inr sum.case by (rule confirmed)
    qed
  qed
  have paid: "triple (acct up d p a amt True [(usdc, ata)])
      (bindE (attempt (SetWithdrawalSent (Withdrawal_ID wd) sig)) (\<lambda>r. case r of
         Inl e \<Rightarrow> ret (Some wd, Some e)
       | Inr _ \<Rightarrow>
         let wd' = wd\<lparr>Withdrawal_Signature := Some sig\<rparr> in
         bindE (attempt (ConfirmTx (svc_chain s) sig)) (\<lambda>r. case r of
           Inl e \<Rightarrow> failAndRefund s wd' (WErrWrap ''confirming withdrawal'' e)
         | Inr _ \<Rightarrow> bindE (attempt (SetWithdrawalConfirmed (Withdrawal_ID wd'))) (\<lambda>r.
             ret (Some wd', case r of Inl e \<Rightarrow> Some e | Inr _ \<Rightarrow> None)))))
      (accounted_for d p a amt usdc) (\<lambda>_ _. False)" for ata sig
  proof (rule triple_bindE [OF triple_attempt [where Q = "\<lambda>_. acct up d p a amt True [(usdc, ata)]" and
      E = "\<lambda>e w. (\<exists>x. e = WErrSql x) \<and> acct up d p a amt True [(usdc, ata)] w"]], goal_cases)
    case 1
    show ?case
      by (rule tripleI) (auto dest: SetWithdrawal_InlD(1) keepsD [OF acct_keeps [OF storing_store(19)]])
  next
    case (2 r)
    show ?case
    proof (cases r)
      case (Inl e)
      show ?thesis unfolding Inl sum.case
        by (rule triple_ret, rule exI [of _ True], rule exI [of _ "[(usdc, ata)]"])
          (auto simp: withdrawal_outcome_def)
    next
      case (Inr u)
      then show ?thesis using sent by simp
    qed
  qed
  show ?case
  proof (rule triple_bindE [OF triple_attempt [OF acct_ensure]], goal_cases)
    case (1 r)
    show ?case
    proof (cases r)
      case (Inl e)
      show ?thesis unfolding Inl sum.case by (rule fail) (use assms in simp_all)
    next
      case (Inr q)
      obtain ata g where q: "q = (ata, g)" by (cases q)
      show ?thesis unfolding Inr q sum.case prod.case assms(4)
      proof (rule triple_bindE [OF triple_attempt [OF acct_transfer]], goal_cases)
        case (1 r)
        show ?case
        proof (cases r)
          case (Inl e)
          show ?thesis unfolding Inl sum.case
            by (rule triple_ex, rule triple_fact, rule fail) (use assms in \<open>simp_all, blast?\<close>)
        next
          case (Inr sig)
          show ?thesis unfolding Inr sum.case by (rule paid)
        qed
      qed
    qed
  qed
qed

lemma acct_RequestWithdrawal:
  assumes "0 \<le> amt" and "in_int64 amt"
  shows "triple (acct up d p a amt False []) (RequestWithdrawal s a dest amt)
     (accounted_for d p a amt (word_of_int (reaisToMicroUSDC amt (svc_rateMicros s)))) (\<lambda>_ _. False)"
proof -
  let ?usdc = "reaisToMicroUSDC amt (svc_rateMicros s)"
  have n: "in_int64 (- amt)" "i64 (- amt) = - amt"
    using assms by (auto simp: in_int64_def int64_min_def int64_max_def intro!: i64_id)
  have refused: "triple (acct up d p a amt False []) (ret (None, Some e))
     (accounted_for d p a amt u) (\<lambda>_ _. False)" if "e \<noteq> ErrManualReview" for e u
    by (rule triple_ret, rule exI [of _ False], rule exI [of _ "[]"]) (use that in \<open>auto simp: withdrawal_outcome_def\<close>)
  have d: "debit_error e \<noteq> ErrManualReview" for e by (simp add: debit_error_def)
  have undone: "triple (acct up d p a amt True []) (seqE (refund s a amt) (ret (None, Some e)))
     (accounted_for d p a amt u) (\<lambda>_ _. False)" if "e \<noteq> ErrManualReview" for e u
    by (rule triple_seqE [OF acct_refund [OF assms(2)]]) (rule refused [OF that])
  have inserted: "triple (acct up d p a amt True [])
      (InsertWithdrawal (requested_row a dest amt ?usdc))
      (\<lambda>wd w. (Withdrawal_AccountID wd = a \<and> Withdrawal_AmountReais wd = amt \<and> Withdrawal_AmountUSDC wd = ?usdc) \<and>
         acct up d p a amt True [] w)
      (\<lambda>e w. (\<exists>x. e = WErrSql x) \<and> acct up d p a amt True [] w)"
  proof (rule tripleI, goal_cases)
    case (1 w wd w')
    then show ?case
      using InsertWithdrawal_Inr [OF 1(2)] keepsD [OF acct_keeps [OF storing_store(16)] 1(2,1)]
      by (auto simp: requested_row_def)
  next
    case (2 w e w')
    have "\<exists>x. e = WErrSql x"
      using 2(2) by (auto simp: InsertWithdrawal_def wuuid_New_def io_inv dest: w_exec_InlD split: if_splits)
    then show ?case using keepsD [OF acct_keeps [OF storing_store(16)] 2(2,1)] by blast
  qed
  show ?thesis
    unfolding RequestWithdrawal_def Let_def n(2)
  proof (intro triple_if, goal_cases)
    case 1 show ?case by (rule refused) simp
  next
    case 2 show ?case by (rule refused) simp
  next
    case 3
    show ?case
    proof (rule triple_bindE [OF triple_attempt [OF acct_debit [OF n(1)]]], goal_cases)
      case (1 r)
      show ?case
      proof (cases r)
        case (Inl e)
        then show ?thesis using refused [OF d] by simp
      next
        case (Inr b)
        show ?thesis unfolding Inr sum.case
        proof (rule triple_bindE [OF triple_attempt [OF inserted]], goal_cases)
          case (1 r)
          show ?case
          proof (cases r)
            case (Inl e)
            show ?thesis unfolding Inl sum.case
              by (rule triple_fact) (auto intro!: undone)
          next
            case (Inr wd)
            show ?thesis unfolding Inr sum.case
            proof (rule triple_fact, rule triple_if, goal_cases)
              case 1
              show ?case by (rule triple_ret, rule exI [of _ True], rule exI [of _ "[]"])
                (auto simp: withdrawal_outcome_def)
            next
              case 2
              then show ?case using acct_settle [OF assms(2)] by auto
            qed
          qed
        qed
      qed
    qed
  qed
qed

end

end
