(* ===== verification/Wallet_Handlers.thy ===== *)
theory Wallet_Handlers
  imports Wallet_Service
begin

text \<open>
  \<open>wallet-backend/handlers/handlers.go\<close>: the HTTP surface general-backend calls. An
  error body holds the error whose text is sent; \<open>None\<close> is a body gin could not decode.
\<close>

datatype wallet_body =
    WHealth
  | WBind
  | WError wallet_error
  | WNotProvisioned
  | WAddressView uuid string string
  | WSignature string
  | WWithdrawalView uuid WithdrawalStatus int int "string option"
  | WDeposits "Deposit list"
  | WWithdrawals "Withdrawal list"

type_synonym wallet_response = "nat \<times> wallet_body"

type_synonym wallet_handler = "wallet_world \<Rightarrow> wallet_response \<times> wallet_world"

definition wallet_handle ::
    "'a wallet_io \<Rightarrow> ('a \<Rightarrow> wallet_response) \<Rightarrow> (wallet_error \<Rightarrow> wallet_response) \<Rightarrow> wallet_handler" where
  "wallet_handle m ok err = (\<lambda>w. case m w of (Inr x, w') \<Rightarrow> (ok x, w') | (Inl e, w') \<Rightarrow> (err e, w'))"

definition health :: wallet_handler where
  "health = (\<lambda>w. ((200, WHealth), w))"

definition addressView :: "WalletAddress \<Rightarrow> wallet_body" where
  "addressView r = WAddressView (Wallet_AccountID r) (Wallet_Address r) (Wallet_USDCATA r)"

definition getAddress :: "uuid \<Rightarrow> wallet_handler" where
  "getAddress pathID = wallet_handle (GetAddressByAccount pathID) (\<lambda>r. (200, addressView r))
     (\<lambda>e. if werrors_is e store_ErrNotFound then (404, WNotProvisioned) else (500, WError e))"

definition provision :: "Service \<Rightarrow> uuid \<Rightarrow> wallet_handler" where
  "provision s pathID = wallet_handle (ProvisionAccount s pathID) (\<lambda>r. (200, addressView r))
     (\<lambda>e. (500, WError e))"

definition faucet :: "Service \<Rightarrow> uuid \<Rightarrow> wallet_handler" where
  "faucet s pathID = wallet_handle (FaucetTestUSDC s pathID) (\<lambda>sig. (200, WSignature sig))
     (\<lambda>e. if werrors_is e ErrFaucetAlreadyClaimed then (409, WError e) else (500, WError e))"

record withdrawRequest =
  Withdraw_DestAddress :: string
  Withdraw_AmountReais :: int

definition withdrawalView :: "Withdrawal \<Rightarrow> wallet_body" where
  "withdrawalView wd = WWithdrawalView (Withdrawal_ID wd) (Withdrawal_Status wd)
     (Withdrawal_AmountReais wd) (Withdrawal_AmountUSDC wd) (Withdrawal_Signature wd)"

text \<open>The switch on the error. A nil withdrawal is not looked at where there is none.\<close>

definition withdraw_response :: "withdrawal_result \<Rightarrow> wallet_response" where
  "withdraw_response r = (case r of
     (Some wd, None) \<Rightarrow> (200, withdrawalView wd)
   | (None, None) \<Rightarrow> (500, WHealth)
   | (wd, Some e) \<Rightarrow>
       if werrors_is e ErrManualReview then
         (case wd of Some x \<Rightarrow> (202, withdrawalView x) | None \<Rightarrow> (500, WError e))
       else if werrors_is e ErrAmountBelowMin \<or> werrors_is e ErrAmountAboveMax then (400, WError e)
       else if werrors_is e service_ErrInsufficientBalance then (402, WError e)
       else (500, WError e))"

definition withdraw :: "Service \<Rightarrow> uuid \<Rightarrow> withdrawRequest option \<Rightarrow> wallet_handler" where
  "withdraw s pathID req = (case req of
     None \<Rightarrow> (\<lambda>w. ((400, WBind), w))
   | Some q \<Rightarrow>
       if Withdraw_DestAddress q = [] \<or> Withdraw_AmountReais q = 0 then (\<lambda>w. ((400, WBind), w))
       else wallet_handle (RequestWithdrawal s pathID (Withdraw_DestAddress q) (Withdraw_AmountReais q))
              withdraw_response (\<lambda>e. (500, WError e)))"

definition listDeposits :: "uuid \<Rightarrow> wallet_handler" where
  "listDeposits pathID = wallet_handle (ListDepositsByAccount pathID) (\<lambda>ds. (200, WDeposits ds))
     (\<lambda>e. (500, WError e))"

definition listWithdrawals :: "uuid \<Rightarrow> wallet_handler" where
  "listWithdrawals pathID = wallet_handle (ListWithdrawalsByAccount pathID) (\<lambda>ws. (200, WWithdrawals ws))
     (\<lambda>e. (500, WError e))"

end
