(* ===== verification/Wallet_Config.thy ===== *)
theory Wallet_Config
  imports Wallet_Chain Float64
begin

text \<open>
  \<open>wallet-backend/config/config.go\<close>: the environment is a partial map.
  \<open>strconv.ParseFloat\<close>, the correctly rounded reading of a decimal or hexadecimal float,
  is an argument; what the code does with its result is written out.
\<close>

type_synonym env = "string \<Rightarrow> string option"

record Config =
  Config_Port :: string
  Config_BetBackendURL :: string
  Config_SolanaRPCURL :: string
  Config_MasterMnemonic :: string
  Config_USDCMint :: string
  Config_DepositPollSeconds :: int
  Config_WithdrawalMinMicroUSDC :: int
  Config_WithdrawalMaxMicroUSDC :: int
  Config_WithdrawalManualReviewOver :: int
  Config_FaucetMicroUSDC :: int
  Config_BRLPerUSDMicros :: int

definition devnetUSDCMint :: string where
  "devnetUSDCMint = ''4zMMC9srt5Ri5X14GAgXhaHii3GnPAEERYPJgZJDncDU''"

definition getEnv :: "env \<Rightarrow> string \<Rightarrow> string \<Rightarrow> string" where
  "getEnv env key fallback = (case env key of Some v \<Rightarrow> v | None \<Rightarrow> fallback)"

text \<open>\<open>strconv.ParseInt(v, 10, 64)\<close>: a sign, then digits; out of range is an error.\<close>

definition ParseInt :: "string \<Rightarrow> int option" where
  "ParseInt v =
     (let neg = (v \<noteq> [] \<and> hd v = CHR ''-''); signed = (v \<noteq> [] \<and> (hd v = CHR ''-'' \<or> hd v = CHR ''+''));
          ds = (if signed then tl v else v)
      in if ds = [] then None
         else case parse_digits 0 ds of
           Inl _ \<Rightarrow> None
         | Inr n \<Rightarrow>
             let x = (if neg then - int n else int n) in if in_int64 x then Some x else None)"

definition getEnvInt64 :: "env \<Rightarrow> string \<Rightarrow> int \<Rightarrow> int" where
  "getEnvInt64 env key fallback = (case env key of
     Some v \<Rightarrow> (case ParseInt v of Some n \<Rightarrow> n | None \<Rightarrow> fallback) | None \<Rightarrow> fallback)"

datatype float_value = Finite float64 | PosInf | NegInf | NaN

text \<open>\<open>math.Round\<close> rounds half away from zero.\<close>

definition math_Round :: "rat \<Rightarrow> int" where
  "math_Round x = (if 0 \<le> x then \<lfloor>x + 1 / 2\<rfloor> else - \<lfloor>- x + 1 / 2\<rfloor>)"

text \<open>
  \<open>int64\<close> of a float outside its range, or of NaN, is left open by Go; on amd64 it is
  the least \<open>int64\<close>, which is what is written here.
\<close>

definition int64_of_float :: "int \<Rightarrow> int" where
  "int64_of_float n = (if in_int64 n then n else int64_min)"

definition parseRateMicros :: "(string \<Rightarrow> float_value option) \<Rightarrow> string \<Rightarrow> int" where
  "parseRateMicros ParseFloat v = (case ParseFloat v of
     None \<Rightarrow> 0
   | Some NegInf \<Rightarrow> 0
   | Some PosInf \<Rightarrow> int64_min
   | Some NaN \<Rightarrow> int64_min
   | Some (Finite f) \<Rightarrow>
       if f \<le> 0 then 0 else int64_of_float (math_Round (f64_round (f * 1000000))))"

definition Load :: "(string \<Rightarrow> float_value option) \<Rightarrow> env \<Rightarrow> wallet_error + Config" where
  "Load ParseFloat env =
     (let cfg = \<lparr>Config_Port = getEnv env ''PORT'' ''8080'',
            Config_BetBackendURL = getEnv env ''BET_BACKEND_URL'' ''http://bet-backend:8080'',
            Config_SolanaRPCURL = getEnv env ''SOLANA_RPC_URL'' ''https://api.devnet.solana.com'',
            Config_MasterMnemonic = (case env ''WALLET_MNEMONIC'' of Some v \<Rightarrow> v | None \<Rightarrow> []),
            Config_USDCMint = getEnv env ''USDC_MINT'' devnetUSDCMint,
            Config_DepositPollSeconds = getEnvInt64 env ''DEPOSIT_POLL_SECONDS'' 15,
            Config_WithdrawalMinMicroUSDC = getEnvInt64 env ''WITHDRAWAL_MIN_MICRO_USDC'' 1000000,
            Config_WithdrawalMaxMicroUSDC = getEnvInt64 env ''WITHDRAWAL_MAX_MICRO_USDC'' 10000000000,
            Config_WithdrawalManualReviewOver = getEnvInt64 env ''WITHDRAWAL_MANUAL_REVIEW_OVER'' 1000000000,
            Config_FaucetMicroUSDC = getEnvInt64 env ''FAUCET_MICRO_USDC'' 25000000,
            Config_BRLPerUSDMicros = parseRateMicros ParseFloat (getEnv env ''BRL_PER_USD'' ''5.00'')\<rparr>
      in if Config_MasterMnemonic cfg = [] then Inl (WErrNew ''WALLET_MNEMONIC is required'')
         else if Config_BRLPerUSDMicros cfg \<le> 0
           then Inl (WErrNew ''BRL_PER_USD must be a positive decimal (e.g. 5.00)'')
         else Inr cfg)"

end
