(* ===== verification/Wallet_System.thy ===== *)
theory Wallet_System
  imports Wallet_Money Wallet_Handlers Wallet_Config
begin

text \<open>
  The wallet as a transition system: any sequence of calls on the service and of ingestions,
  with anything happening outside its database in between. The schema, the derivation of the
  addresses and the bounds of the indices hold in every reachable state.
\<close>

section \<open>Calls\<close>

datatype wallet_call =
    CallProvision uuid
  | CallFaucet uuid
  | CallWithdraw uuid string int
  | CallIngest uuid DetectedDeposit

fun wallet_do :: "Service \<Rightarrow> wallet_call \<Rightarrow> wallet_world \<Rightarrow> wallet_world" where
  "wallet_do s (CallProvision a) w = snd (ProvisionAccount s a w)"
| "wallet_do s (CallFaucet a) w = snd (FaucetTestUSDC s a w)"
| "wallet_do s (CallWithdraw a dest amt) w = snd (RequestWithdrawal s a dest amt w)"
| "wallet_do s (CallIngest a d) w = snd (IngestDeposit s a d w)"

inductive wallet_step :: "Service \<Rightarrow> wallet_world \<Rightarrow> wallet_world \<Rightarrow> bool" for s where
  call: "w' = wallet_do s c w \<Longrightarrow> wallet_step s w w'"
| env: "wdb w' = wdb w \<Longrightarrow> wallet_step s w w'"

inductive wallet_reachable :: "Service \<Rightarrow> wallet_world \<Rightarrow> bool" for s where
  init: "wdb w = wallet_runMigrations \<Longrightarrow> wallet_reachable s w"
| step: "wallet_reachable s w \<Longrightarrow> wallet_step s w w' \<Longrightarrow> wallet_reachable s w'"

inductive_cases wallet_stepE: "wallet_step s w w'"

lemma wallet_inv_init: "wallet_inv wallet_runMigrations"
  by (simp add: wallet_inv_def wallet_runMigrations_def)


section \<open>Addresses\<close>

text \<open>Every address is the one its index derives.\<close>

definition derived :: "Service \<Rightarrow> wallet_db \<Rightarrow> bool" where
  "derived s d \<longleftrightarrow> (\<forall>r \<in> set (wallet_addresses d).
     Wallet_Address r = Address (svc_crypto s) (DeriveAccount (svc_crypto s) (svc_master s) (Wallet_DerivationIndex r)))"

text \<open>
  Until the sequence has handed out \<open>2^32\<close> indices, each row's index was drawn before and
  none is the treasury's.
\<close>

definition indexed :: "wallet_db \<Rightarrow> bool" where
  "indexed d \<longleftrightarrow> 1 \<le> derivation_seq d \<and> (derivation_seq d \<le> 4294967296 \<longrightarrow>
     (\<forall>r \<in> set (wallet_addresses d). 0 < uint (Wallet_DerivationIndex r) \<and>
        uint (Wallet_DerivationIndex r) < derivation_seq d))"

lemma lasting_derived: "lasting (derived s)"
  by (auto simp: lasting_def ledger_lasting_def exec_defs derived_def Let_def split: if_splits)

lemma address_safe_derived: "address_safe (row_of s) (derived s)"
  by (auto simp: address_safe_def exec_defs derived_def row_of_def provision_row_def split: if_splits)

lemma lasting_indexed: "lasting indexed"
  by (auto simp: lasting_def ledger_lasting_def exec_defs indexed_def Let_def split: if_splits)

text \<open>A drawn index is below the sequence from then on.\<close>

definition drawn :: "32 word \<Rightarrow> wallet_db \<Rightarrow> bool" where
  "drawn i d \<longleftrightarrow> indexed d \<and> (derivation_seq d \<le> 4294967296 \<longrightarrow> 0 < uint i \<and> uint i < derivation_seq d)"

lemma lasting_drawn: "lasting (drawn i)"
  by (auto simp: lasting_def ledger_lasting_def exec_defs indexed_def drawn_def Let_def split: if_splits)

lemma nextval_drawn:
  "triple (\<lambda>w. indexed (wdb w)) nextval (\<lambda>i w. drawn (word_of_int i) (wdb w)) (\<lambda>_ w. indexed (wdb w))"
proof -
  have d: "drawn (word_of_int (derivation_seq d)) (d\<lparr>derivation_seq := derivation_seq d + 1\<rparr>)"
    if i: "indexed d" for d
  proof -
    have "uint (word_of_int (derivation_seq d) :: 32 word) = derivation_seq d"
      if "derivation_seq d + 1 \<le> 4294967296"
      using i that by (simp add: indexed_def uint_word_of_int)
    then show ?thesis using i by (fastforce simp: drawn_def indexed_def)
  qed
  show ?thesis
    unfolding nextval_def
    by (rule tripleI)
      (use d in \<open>auto simp: w_stmt_def Let_def drawn_def split: fate.splits if_splits\<close>)
qed

lemma InsertAddress_drawn:
  "triple (\<lambda>w. drawn (Wallet_DerivationIndex r) (wdb w)) (InsertAddress r)
     (\<lambda>_ w. indexed (wdb w)) (\<lambda>_ w. indexed (wdb w))"
proof -
  have "sound_exec (drawn (Wallet_DerivationIndex r)) (insert_address r)"
    by (auto simp: sound_exec_def insert_address_def drawn_def indexed_def split: if_splits)
  from keeps_triple [OF keeps_w_exec [OF this]] show ?thesis
    unfolding InsertAddress_def
    by (intro triple_seqE [where R = "\<lambda>w. indexed (wdb w)"] triple_ret)
       (auto elim!: triple_conseq simp: drawn_def)
qed

context wallet_service
begin

lemma provision_new_indexed:
  "triple (\<lambda>w. indexed (wdb w)) (provision_new s a) (\<lambda>_ w. indexed (wdb w)) (\<lambda>_ w. indexed (wdb w))"
proof -
  have n: "triple (\<lambda>w. indexed (wdb w)) NextDerivationIndex (\<lambda>i w. drawn i (wdb w)) (\<lambda>_ w. indexed (wdb w))"
    unfolding NextDerivationIndex_def
    by (rule triple_bindE [OF triple_on_error [OF nextval_drawn]]) (auto intro: triple_throw triple_ret)
  have e: "triple (\<lambda>w. drawn i (wdb w)) (wrapping m (EnsureUSDCATA (svc_chain s) k owner))
      (\<lambda>_ w. drawn i (wdb w)) (\<lambda>_ w. indexed (wdb w))" for i m k owner
    unfolding wrapping_def
    by (rule triple_on_error [OF keeps_triple [OF keeps_ensure]]) (auto intro: triple_throw simp: drawn_def)
  have g: "triple (\<lambda>w. indexed (wdb w)) (on_error (GetAddressByAccount a) (\<lambda>_. throw x))
      (\<lambda>_ w. indexed (wdb w)) (\<lambda>_ w. indexed (wdb w))" for x
    by (rule triple_on_error [OF keeps_triple [OF keeps_store(1) [OF lasting_ledger [OF lasting_indexed]]]])
       (rule triple_throw)
  have i: "triple (\<lambda>w. drawn idx (wdb w))
      (on_error (seqE (InsertAddress (provision_row s a idx ata)) (ret (provision_row s a idx ata)))
         (\<lambda>x. on_error (GetAddressByAccount a) (\<lambda>_. throw x)))
      (\<lambda>_ w. indexed (wdb w)) (\<lambda>_ w. indexed (wdb w))" for idx ata
    by (rule triple_on_error [OF triple_seqE [OF InsertAddress_drawn
          [of "provision_row s a idx ata", unfolded provision_row_def WalletAddress.simps,
           folded provision_row_def]]])
       (auto intro: triple_ret g)
  show ?thesis
    unfolding provision_new_def
    by (rule triple_bindE [OF n], rule triple_bindE [OF e]) (auto split: prod.splits intro: i)
qed

lemma ProvisionAccount_indexed: "keeps (\<lambda>w. indexed (wdb w)) (ProvisionAccount s a)"
proof -
  have "triple (\<lambda>w. indexed (wdb w)) (ProvisionAccount s a) (\<lambda>_ w. indexed (wdb w)) (\<lambda>_ w. indexed (wdb w))"
    unfolding ProvisionAccount_def
    by (rule triple_on_error [OF keeps_triple [OF keeps_store(1) [OF lasting_ledger [OF lasting_indexed]]]])
       (auto intro: triple_throw provision_new_indexed)
  then show ?thesis unfolding triple_def keeps_def by (fastforce split: prod.splits sum.splits)
qed

lemma FaucetTestUSDC_indexed: "keeps (\<lambda>w. indexed (wdb w)) (FaucetTestUSDC s a)"
  unfolding FaucetTestUSDC_def wrapping_def
  by (auto intro!: keeps_intro keeps_calls keeps_claims [OF lasting_indexed] ProvisionAccount_indexed)

lemma keeps_do:
  assumes "lasting P" and "address_safe (row_of s) P" and "P (wdb w)"
  shows "P (wdb (wallet_do s c w))"
proof -
  note l = lasting_ledger [OF assms(1)]
  show ?thesis
  proof (cases c)
  case (CallProvision a)
  then show ?thesis using keeps_ProvisionAccount [OF l assms(2), of a] assms(3) by (simp add: keeps_def)
next
  case (CallFaucet a)
  then show ?thesis using keeps_FaucetTestUSDC [OF assms(1,2), of a] assms(3) by (simp add: keeps_def)
next
  case (CallWithdraw a dest amt)
  then show ?thesis
    using keeps_RequestWithdrawal [OF l, of a dest amt] assms(3) by (simp add: keeps_def)
next
  case (CallIngest a d)
  then show ?thesis using keeps_IngestDeposit [OF l, of a d] assms(3) by (simp add: keeps_def)
qed
qed

lemma indexed_do: "indexed (wdb w) \<Longrightarrow> indexed (wdb (wallet_do s c w))"
  using ProvisionAccount_indexed FaucetTestUSDC_indexed keeps_RequestWithdrawal [OF lasting_ledger [OF lasting_indexed]]
    keeps_IngestDeposit [OF lasting_ledger [OF lasting_indexed]]
  by (cases c) (auto simp: keeps_def)

text \<open>What is recorded or provisioned stays so in every later state.\<close>

lemma wallet_step_lasts:
  "wallet_step s w w' \<Longrightarrow> lasting P \<Longrightarrow> address_safe (row_of s) P \<Longrightarrow> P (wdb w) \<Longrightarrow> P (wdb w')"
  by (elim wallet_stepE) (auto intro: keeps_do)

lemma wallet_reachable_inv:
  "wallet_reachable s w \<Longrightarrow> wallet_inv (wdb w) \<and> derived s (wdb w) \<and> indexed (wdb w)"
proof (induction rule: wallet_reachable.induct)
  case (init w)
  then show ?case
    using wallet_inv_init by (simp add: derived_def indexed_def wallet_runMigrations_def)
next
  case (step w w')
  have "indexed (wdb w')"
    using step.hyps(2) step.IH by (elim wallet_stepE) (auto intro: indexed_do)
  then show ?case
    using step.IH wallet_step_lasts [OF step.hyps(2) lasting_wallet_inv address_safe_wallet_inv]
      wallet_step_lasts [OF step.hyps(2) lasting_derived address_safe_derived] by blast
qed

end


section \<open>The live wallet\<close>

lemma live_fields [simp]:
  "svc_ledger (live_service C S mint drv m l r f) = Client_AdjustBalance drv"
  "svc_chain (live_service C S mint drv m l r f) = SolanaClient C S mint"
  "svc_swapper (live_service C S mint drv m l r f) = JupiterSwapper C S mint"
  "svc_rateMicros (live_service C S mint drv m l r f) = r"
  "svc_limits (live_service C S mint drv m l r f) = l"
  "svc_crypto (live_service C S mint drv m l r f) = C"
  "svc_master (live_service C S mint drv m l r f) = m"
  "svc_faucet (live_service C S mint drv m l r f) = f"
  by (simp_all add: live_service_def)

interpretation wallet: wallet_service "live_service C S mint drv m l r f" client_up for C S mint drv m l r f
  unfolding wallet_service_def live_fields
  by (intro conjI bank_up.working_ledger_axioms sol_chain.chain_contract_axioms jup_swap.swap_contract_axioms)

end
