(* ===== verification/Wallet_Effects.thy ===== *)
theory Wallet_Effects
  imports Wallet_System
begin

text \<open>
  What the service does when its calls are answered: the exact effect of a USDC deposit, of a
  faucet grant and of a repeated provisioning; and the arithmetic of the conversions.
\<close>

section \<open>Conversions\<close>

lemma mulDivRound_floor:
  assumes "0 \<le> a" and "0 \<le> b" and "0 < d" and "in_int64 d"
    and "(a * b + d div 2) div d \<le> int64_max"
  shows "mulDivRound a b d = (a * b + d div 2) div d"
proof -
  have "go_div d 2 = d div 2"
    using assms(3,4) by (intro go_div_nonneg) (auto simp: in_int64_def int64_max_def)
  moreover have "0 \<le> (a * b + d div 2) div d"
    using assms by (intro div_int_pos_iff [THEN iffD2]) auto
  ultimately show ?thesis
    using assms(3,5) by (simp add: mulDivRound_def big_Div_def i64_bounded int64_max_def)
qed

text \<open>Half-up rounding is within half a unit of the exact quotient.\<close>

lemma floor_half_bounds:
  fixes x d :: int
  assumes "0 < d"
  shows "d * ((x + d div 2) div d) \<le> x + d div 2" and "x + d div 2 - d < d * ((x + d div 2) div d)"
proof -
  have "x + d div 2 = d * ((x + d div 2) div d) + (x + d div 2) mod d" by simp
  moreover have "0 \<le> (x + d div 2) mod d" "(x + d div 2) mod d < d" using assms by simp_all
  ultimately show "d * ((x + d div 2) div d) \<le> x + d div 2"
    "x + d div 2 - d < d * ((x + d div 2) div d)" by linarith+
qed

lemma half_bounds: "0 < (d::int) \<Longrightarrow> 2 * (d div 2) \<le> d \<and> d \<le> 2 * (d div 2) + 1"
  by presburger

lemma conversion_roundtrip:
  assumes "0 \<le> r" and "0 < rate" and "rate < 1000000000000" and "in_int64 r"
    and "(r * 1000000000000 + rate div 2) div rate \<le> int64_max"
  shows "microUSDCToReais (reaisToMicroUSDC r rate) rate = r"
proof -
  let ?T = "1000000000000 :: int"
  let ?m = "(r * ?T + rate div 2) div rate"
  have m: "reaisToMicroUSDC r rate = ?m"
    unfolding reaisToMicroUSDC_def using assms
    by (intro mulDivRound_floor) (auto simp: in_int64_def int64_min_def int64_max_def)
  have m0: "0 \<le> ?m" using assms(1,2) by (intro div_int_pos_iff [THEN iffD2]) auto
  note b = floor_half_bounds [OF assms(2), of "r * ?T"] half_bounds [OF assms(2)]
  have "r * ?T \<le> ?m * rate + ?T div 2" and "?m * rate + ?T div 2 < (r + 1) * ?T"
    using b assms(3) by (simp_all add: algebra_simps)
  then have q: "(?m * rate + ?T div 2) div ?T = r"
    by (intro int_div_pos_eq [where r = "?m * rate + ?T div 2 - r * ?T"]) (simp_all add: algebra_simps)
  have "microUSDCToReais ?m rate = (?m * rate + ?T div 2) div ?T"
    unfolding microUSDCToReais_def using assms m0 q
    by (intro mulDivRound_floor) (auto simp: in_int64_def int64_min_def int64_max_def)
  then show ?thesis using m q by simp
qed


section \<open>Statements that succeed\<close>

lemma w_stmt_ok: "db_fates w = [] \<Longrightarrow> w_stmt m w = m w"
  by (cases w) (simp add: w_stmt_def next_fate_def)

lemma w_exec_ok: "db_fates w = [] \<Longrightarrow> u (wclock w) (wdb w) = Inr (d, n) \<Longrightarrow>
    w_exec u w = (Inr n, w\<lparr>wdb := d\<rparr>)"
  by (simp add: w_exec_def w_stmt_ok)

lemma w_query_ok: "db_fates w = [] \<Longrightarrow> w_query f w = (Inr (f (wdb w)), w)"
  by (simp add: w_query_def w_stmt_ok)

definition new_row :: "uuid \<Rightarrow> time \<Rightarrow> uuid \<Rightarrow> DetectedDeposit \<Rightarrow> Deposit" where
  "new_row i now a d = (detected_row a d)\<lparr>Deposit_ID := i, Deposit_CreatedAt := now\<rparr>"

lemma InsertDepositIfNew_ok:
  assumes "db_fates w = []" and "\<not> recorded (Detected_Signature d) (wdb w)"
    and "Detected_Asset d \<in> {AssetSOL, AssetUSDC}" and "0 < int64_of (Detected_RawAmount d)"
    and "account_known (wdb w) a" and "wuuid_src w (wuuid_ctr w) \<notin> Deposit_ID ` set (deposits (wdb w))"
  shows "InsertDepositIfNew (detected_row a d) w = (Inr True,
     w\<lparr>wuuid_ctr := Suc (wuuid_ctr w), wdb := (wdb w)\<lparr>deposits := deposits (wdb w) @
         [new_row (wuuid_src w (wuuid_ctr w)) (wclock w) a d]\<rparr>\<rparr>)"
proof -
  have c: "char_count (Detected_Asset d) \<le> 8"
    using assms(3) by (auto simp: AssetSOL_def AssetUSDC_def char_count_def)
  let ?i = "wuuid_src w (wuuid_ctr w)"
  have "insert_deposit ((detected_row a d)\<lparr>Deposit_ID := ?i\<rparr>) (wclock w) (wdb w) =
      Inr ((wdb w)\<lparr>deposits := deposits (wdb w) @ [new_row ?i (wclock w) a d]\<rparr>, 1)"
    using assms c
    by (auto simp: insert_deposit_def detected_row_def new_row_def recorded_def list_ex_iff image_iff)
  then have "w_exec (insert_deposit ((detected_row a d)\<lparr>Deposit_ID := ?i\<rparr>)) (w\<lparr>wuuid_ctr := Suc (wuuid_ctr w)\<rparr>) =
      (Inr 1, w\<lparr>wuuid_ctr := Suc (wuuid_ctr w), wdb := (wdb w)\<lparr>deposits := deposits (wdb w) @
         [new_row ?i (wclock w) a d]\<rparr>\<rparr>)"
    using assms(1) by (subst w_exec_ok) simp_all
  then show ?thesis
    by (simp add: InsertDepositIfNew_def detected_row_def wuuid_New_def bindE_def ret_def)
qed

lemma upd_rows_last:
  "\<forall>r \<in> set rs. key r \<noteq> k \<Longrightarrow> key x = k \<Longrightarrow> upd_rows (\<lambda>r. key r = k) f (rs @ [x]) = rs @ [f x]"
  by (induction rs) auto

context wallet_service
begin

text \<open>A USDC deposit seen for the first time, with everything answering.\<close>

lemma ingest_usdc:
  assumes "up w" and "inv (tabs (bank w))" and "db_fates w = []"
    and new: "\<not> recorded (Detected_Signature d) (wdb w)" and "Detected_Asset d = AssetUSDC"
    and pos: "0 < int64_of (Detected_RawAmount d)" and "account_known (wdb w) a"
    and id: "wuuid_src w (wuuid_ctr w) \<notin> Deposit_ID ` set (deposits (wdb w))"
    and reais: "reais = microUSDCToReais (int64_of (Detected_RawAmount d)) (svc_rateMicros s)" "0 \<le> reais"
    and bal: "balance_of (tabs (bank w)) a = Some b" "in_int64 (b + reais)"
  shows "\<exists>w'. IngestDeposit s a d w = (Inr (), w') \<and>
     moved a reais (tabs (bank w)) (tabs (bank w')) \<and> requests w' = requests w @ [(a, reais)] \<and>
     calls w' = calls w \<and> up w' \<and> db_fates w' = [] \<and>
     wdb w' = (wdb w)\<lparr>deposits := deposits (wdb w) @ [(new_row (wuuid_src w (wuuid_ctr w)) (wclock w) a d)
       \<lparr>Deposit_Status := DepositCredited, Deposit_CreditedUSDC := int64_of (Detected_RawAmount d),
        Deposit_CreditedReais := reais, Deposit_CreditedAt := Some (wclock w)\<rparr>]\<rparr>"
proof -
  let ?row = "new_row (wuuid_src w (wuuid_ctr w)) (wclock w) a d"
  let ?w1 = "w\<lparr>wuuid_ctr := Suc (wuuid_ctr w), wdb := (wdb w)\<lparr>deposits := deposits (wdb w) @ [?row]\<rparr>\<rparr>"
  have i: "InsertDepositIfNew (detected_row a d) w = (Inr True, ?w1)"
    using assms by (intro InsertDepositIfNew_ok) auto
  have up1: "up ?w1" using up_cong [of ?w1 w] assms(1) by simp
  have b0: "0 \<le> b" using balance_in_range [OF _ bal(1)] assms(2) by (simp add: inv_def)
  have r64: "in_int64 reais" by (simp add: reais(1) microUSDCToReais_def mulDivRound_def i64_range)
  obtain w2 where l: "svc_ledger s a reais ?w1 = (Inr (b + reais), w2)"
    using up_live [OF _ up1, of a b reais] assms(2) bal b0 reais(2) by auto
  have m: "moved a reais (tabs (bank w)) (tabs (bank w2))"
    using adjust_ok [OF _ r64 l] assms(2) by simp
  have f: "own w2 = own ?w1" "wclock w2 = wclock w" "requests w2 = requests w @ [(a, reais)]"
    using adjust_frame [OF l] by simp_all
  let ?f = "\<lambda>r. r\<lparr>Deposit_Status := DepositCredited, Deposit_CreditedUSDC := int64_of (Detected_RawAmount d),
        Deposit_CreditedReais := reais, Deposit_CreditedAt := Some (wclock w)\<rparr>"
  have u: "upd_rows (\<lambda>r. Deposit_Signature r = Detected_Signature d) ?f (deposits (wdb w) @ [?row]) =
      deposits (wdb w) @ [?f ?row]"
    using new by (intro upd_rows_last) (auto simp: recorded_def new_row_def detected_row_def image_iff)
  have "MarkDepositCredited (Detected_Signature d) (int64_of (Detected_RawAmount d)) reais w2 =
      (Inr (), w2\<lparr>wdb := (wdb w)\<lparr>deposits := deposits (wdb w) @ [?f ?row]\<rparr>\<rparr>)"
    unfolding MarkDepositCredited_def seqE_def bindE_def
    using f assms(3) pos reais(2) u
    by (subst w_exec_ok) (auto simp: own_def update_deposit_def list_ex_iff Let_def ret_def)
  then have "IngestDeposit s a d w = (Inr (), w2\<lparr>wdb := (wdb w)\<lparr>deposits := deposits (wdb w) @ [?f ?row]\<rparr>\<rparr>)"
    using i l assms(5) reais(1)
    by (simp add: IngestDeposit_def bindE_def credit_deposit_def resolveCreditAmount_def on_error_def
        seqE_def ret_def Let_def)
  moreover have "up (w2\<lparr>wdb := (wdb w)\<lparr>deposits := deposits (wdb w) @ [?f ?row]\<rparr>\<rparr>)"
    using up_keeps [OF up1 l] up_cong [of _ w2] by simp
  ultimately show ?thesis using m f assms(3) by (auto simp: own_def)
qed

text \<open>
  A withdrawal inside the limits, covered by the balance, is debited, recorded and handed to
  the settlement.
\<close>

lemma withdraw_to_settle:
  assumes "up w" and "inv (tabs (bank w))" and "db_fates w = []" and "account_known (wdb w) a"
    and id: "wuuid_src w (wuuid_ctr w) \<notin> Withdrawal_ID ` set (withdrawals (wdb w))"
    and usdc: "usdc = reaisToMicroUSDC amt (svc_rateMicros s)" "0 < usdc"
      "Limit_Min (svc_limits s) \<le> usdc" "usdc \<le> Limit_Max (svc_limits s)"
      "usdc \<le> Limit_ManualReviewOver (svc_limits s)"
    and bal: "balance_of (tabs (bank w)) a = Some b" "amt \<le> b" "0 \<le> amt"
  shows "\<exists>w1. RequestWithdrawal s a dest amt w =
      settleWithdrawal s ((requested_row a dest amt usdc)\<lparr>Withdrawal_ID := wuuid_src w (wuuid_ctr w)\<rparr>) w1 \<and>
    db_fates w1 = [] \<and> calls w1 = calls w"
proof -
  let ?row = "(requested_row a dest amt usdc)\<lparr>Withdrawal_ID := wuuid_src w (wuuid_ctr w)\<rparr>"
  have b0: "0 \<le> b \<and> in_int64 b" using balance_in_range [OF _ bal(1)] assms(2) by (simp add: inv_def)
  have r64: "in_int64 (- amt)" "in_int64 (b - amt)" "i64 (- amt) = - amt"
    using b0 bal by (auto simp: in_int64_def int64_min_def int64_max_def intro!: i64_id)
  obtain w1 where l: "svc_ledger s a (- amt) w = (Inr (b - amt), w1)"
    using up_live [OF assms(2,1) bal(1), of "- amt"] bal r64(2) by auto
  have f: "own w1 = own w" "wclock w1 = wclock w" "wuuid_src w1 = wuuid_src w"
    using adjust_frame [OF l] by simp_all
  have c: "char_count AssetUSDC \<le> 8" by (simp add: AssetUSDC_def char_count_def)
  define d where "d = (wdb w)\<lparr>withdrawals := withdrawals (wdb w) @ [?row\<lparr>Withdrawal_Signature := None,
    Withdrawal_CreatedAt := wclock w, Withdrawal_SettledAt := None\<rparr>]\<rparr>"
  have "insert_withdrawal ?row (wclock w) (wdb w) = Inr (d, 1)"
    using assms(4) id usdc(2) bal(3) c
    by (auto simp: insert_withdrawal_def requested_row_def list_ex_iff image_iff d_def)
  then have "w_exec (insert_withdrawal ?row) (w1\<lparr>wuuid_ctr := Suc (wuuid_ctr w)\<rparr>) =
      (Inr 1, w1\<lparr>wuuid_ctr := Suc (wuuid_ctr w), wdb := d\<rparr>)"
    using f assms(3) by (subst w_exec_ok [where d = d and n = 1]) (simp_all add: own_def)
  then have "InsertWithdrawal (requested_row a dest amt usdc) w1 =
      (Inr ?row, w1\<lparr>wuuid_ctr := Suc (wuuid_ctr w), wdb := d\<rparr>)"
    using f by (simp add: InsertWithdrawal_def requested_row_def wuuid_New_def bindE_def seqE_def ret_def own_def)
  then have "RequestWithdrawal s a dest amt w =
      settleWithdrawal s ?row (w1\<lparr>wuuid_ctr := Suc (wuuid_ctr w), wdb := d\<rparr>)"
    using l usdc r64(3) by (simp add: RequestWithdrawal_def Let_def attempt_def bindE_def)
  then show ?thesis using f assms(3) by (auto simp: own_def intro!: exI [of _ "w1\<lparr>wuuid_ctr := Suc (wuuid_ctr w), wdb := d\<rparr>"])
qed

text \<open>Once there is a row for the account, provisioning only reads it.\<close>

lemma provision_again:
  assumes "db_fates w = []" and "provisioned r (wdb w)"
  shows "ProvisionAccount s (Wallet_AccountID r) w = (Inr r, w)"
  using assms
  by (simp add: ProvisionAccount_def on_error_def GetAddressByAccount_def found_or_def bindE_def
      w_query_ok provisioned_def ret_def)

text \<open>The claims are touched by the faucet alone.\<close>

lemma ledger_lasting_claims: "ledger_lasting (\<lambda>d. P (faucet_claims d))"
  by (auto simp: ledger_lasting_def exec_defs Let_def split: if_splits)

lemma address_safe_claims: "address_safe A (\<lambda>d. P (faucet_claims d))"
  by (auto simp: address_safe_def exec_defs split: if_splits)

lemma provision_payouts: "keeps (\<lambda>w. Q (payouts (calls w))) (ProvisionAccount s a)"
proof -
  have st: "keeps (\<lambda>w. Q (payouts (calls w))) m" if "storing m" for m :: "'b wallet_io"
    using storing_keeps [OF that, of "\<lambda>(b, f, r, c, t). Q (payouts c)"] by (simp add: outside_def)
  have e: "keeps (\<lambda>w. Q (payouts (calls w))) (EnsureUSDCATA (svc_chain s) k owner)" for k owner
    unfolding keeps_def
  proof (intro allI impI)
    fix w :: wallet_world assume q: "Q (payouts (calls w))"
    obtain r w' where m: "EnsureUSDCATA (svc_chain s) k owner w = (r, w')" by force
    then show "Q (payouts (calls (snd (EnsureUSDCATA (svc_chain s) k owner w))))"
      using ensure_pays [OF m] pays_frame q by auto
  qed
  show ?thesis
    unfolding ProvisionAccount_def provision_new_def wrapping_def
    by (auto intro!: keeps_intro e st [OF storing_store(1)] st [OF storing_store(2)] st [OF storing_store(8)]
        split: prod.splits)
qed

text \<open>A grant leaves the claim; an account with a claim gets no grant and keeps its claim.\<close>

abbreviation claimed :: "uuid \<Rightarrow> wallet_world \<Rightarrow> bool" where
  "claimed a w \<equiv> a \<in> fst ` set (faucet_claims (wdb w))"

lemma faucet_cases:
  assumes "FaucetTestUSDC s b w = (r, w')" and "claimed a w"
  shows "claimed a w' \<and> (a = b \<longrightarrow> isl r \<and> payouts (calls w') = payouts (calls w))"
proof -
  let ?p = "wrapping ''provisioning for faucet'' (ProvisionAccount s b)"
  obtain r1 w1 where p: "?p w = (r1, w1)" by force
  have "keeps (claimed a) ?p"
    unfolding wrapping_def
    by (intro keeps_intro keeps_ProvisionAccount [OF ledger_lasting_claims address_safe_claims])
  from keepsD [OF this p assms(2)] have c1: "claimed a w1" .
  have "keeps (\<lambda>v. payouts (calls v) = payouts (calls w)) ?p"
    unfolding wrapping_def by (intro keeps_intro provision_payouts)
  from keepsD [OF this p] have p1: "payouts (calls w1) = payouts (calls w)" by simp
  show ?thesis
  proof (cases r1)
    case (Inl e)
    then show ?thesis using assms(1) p c1 p1 by (auto simp: FaucetTestUSDC_def bindE_def)
  next
    case (Inr row)
    obtain r2 w2 where k: "ClaimFaucet b w1 = (r2, w2)" by force
    have c2: "claimed a w2" using faucet_guard.claim_keeps [OF k] c1 by simp
    have p2: "payouts (calls w2) = payouts (calls w)"
      using storingD [OF storing_store(9) k] p1 by (simp add: outside_def)
    show ?thesis
    proof (cases "r2 = Inr True")
      case False
      then show ?thesis using assms(1) p Inr k c2 p2
        by (cases r2) (auto simp: FaucetTestUSDC_def bindE_def throw_def)
    next
      case True
      have ne: "a \<noteq> b" using faucet_guard.claim_new [of b w1 w2] k True c1 by blast
      obtain r3 w3 where t: "TransferUSDC (svc_chain s) (treasury s) (Wallet_USDCATA row)
          (word_of_int (svc_faucet s)) w2 = (r3, w3)" by force
      have c3: "claimed a w3" using keepsD [OF keeps_transfer [of "\<lambda>d. a \<in> fst ` set (faucet_claims d)"] t c2] .
      have rel: "keeps (claimed a) (ReleaseFaucet b)"
        unfolding ReleaseFaucet_def
        by (intro keeps_intro keeps_w_exec) (use ne in \<open>auto simp: sound_exec_def delete_claim_def\<close>)
      have "w' = w3 \<or> w' = snd (ReleaseFaucet b w3)"
        using assms(1) p Inr k True t
        by (cases r3) (auto simp: FaucetTestUSDC_def bindE_def on_error_def seqE_def ignore_def throw_def)
      then show ?thesis using c3 rel ne by (auto simp: keeps_def)
    qed
  qed
qed

lemma faucet_grant:
  assumes "FaucetTestUSDC s a w = (Inr sig, w')"
  shows "\<not> claimed a w \<and> claimed a w' \<and>
    (\<exists>ata. payouts (calls w') = payouts (calls w) @ [(word_of_int (svc_faucet s), ata)])"
proof -
  let ?p = "wrapping ''provisioning for faucet'' (ProvisionAccount s a)"
  obtain row w1 w2 where p: "?p w = (Inr row, w1)" and k: "ClaimFaucet a w1 = (Inr True, w2)"
    and t: "TransferUSDC (svc_chain s) (treasury s) (Wallet_USDCATA row) (word_of_int (svc_faucet s)) w2 = (Inr sig, w')"
    using assms by (auto simp: FaucetTestUSDC_def bindE_def on_error_def seqE_def ignore_def throw_def
        split: prod.splits sum.splits if_splits)
  have "keeps (\<lambda>v. payouts (calls v) = payouts (calls w)) ?p"
    unfolding wrapping_def by (intro keeps_intro provision_payouts)
  from keepsD [OF this p] have p1: "payouts (calls w1) = payouts (calls w)" by simp
  have p2: "payouts (calls w2) = payouts (calls w)"
    using storingD [OF storing_store(9) k] p1 by (simp add: outside_def)
  have "claimed a w2" using faucet_guard.claim_new [OF k] by simp
  moreover have "pays [(word_of_int (svc_faucet s), Wallet_USDCATA row)] w2 w'" using transfer_pays [OF t] by simp
  ultimately show ?thesis
    using faucet_cases [OF assms, of a] pays_frame [of _ w2 w'] p2 by auto
qed

text \<open>No call by anyone takes a claim away.\<close>

lemma claim_lasts: "claimed a w \<Longrightarrow> wallet_step s w w' \<Longrightarrow> claimed a w'"
proof (elim wallet_stepE)
  fix c assume c: "claimed a w" and w': "w' = wallet_do s c w"
  have k: "keeps (claimed a) m \<Longrightarrow> claimed a (snd (m w))" for m :: "'b wallet_io"
    using c by (simp add: keeps_def)
  show ?thesis
    unfolding w'
    using k [OF keeps_ProvisionAccount [OF ledger_lasting_claims address_safe_claims]]
      k [OF keeps_RequestWithdrawal [OF ledger_lasting_claims]] k [OF keeps_IngestDeposit [OF ledger_lasting_claims]]
    by (cases c) (simp_all, metis c faucet_cases prod.collapse)
qed auto

lemma claim_lasts_steps: "(wallet_step s)\<^sup>*\<^sup>* w w' \<Longrightarrow> claimed a w \<Longrightarrow> claimed a w'"
  by (induction rule: rtranclp_induct) (auto intro: claim_lasts)

end

end
