(* ===== verification/Wallet_Scan.thy ===== *)
theory Wallet_Scan
  imports Wallet_System
begin

text \<open>
  The scanner, the confirmation loop and the poller: what a scan reports, how long a
  confirmation polls, when a cursor moves.
\<close>

section \<open>Confirmation\<close>

text \<open>
  The answer to one poll that ends the loop with success, and the loop itself: at most
  \<open>n + 1\<close> polls, success only on such an answer.
\<close>

definition confirms :: "solana \<Rightarrow> rpc_call list \<Rightarrow> string \<Rightarrow> bool" where
  "confirms S h sig \<longleftrightarrow> (case rpc_GetSignatureStatuses S h sig of
     Inr (Some st # _) \<Rightarrow> Status_Err st = None \<and> Status_Confirmation st \<in> {Confirmed, Finalized}
   | _ \<Rightarrow> False)"

lemma confirm_loop_polls:
  assumes "confirm_loop S sig n w = (r, w')"
  shows "\<exists>k \<le> n. w' = w\<lparr>calls := calls w @ replicate (Suc k) (GetSignatureStatuses sig)\<rparr> \<and>
    (\<forall>u. r = Inr u \<longrightarrow> confirms S (calls w @ replicate k (GetSignatureStatuses sig)) sig)"
  using assms
proof (induction n arbitrary: w)
  case 0
  then show ?case
    by (subst (asm) confirm_loop.simps)
      (auto simp: bindE_def poll_status_def Let_def throw_def ret_def confirms_def
        split: sum.splits list.splits option.splits if_splits)
next
  case (Suc n)
  let ?w1 = "w\<lparr>calls := calls w @ [GetSignatureStatuses sig]\<rparr>"
  have c: "confirm_loop S sig n ?w1 = (r, w') \<or>
      w' = ?w1 \<and> (\<forall>u. r = Inr u \<longrightarrow> confirms S (calls w) sig)"
    using Suc.prems
    by (subst (asm) confirm_loop.simps)
      (auto simp: bindE_def poll_status_def Let_def throw_def ret_def confirms_def
        split: sum.splits list.splits option.splits if_splits)
  show ?case
  proof (cases "confirm_loop S sig n ?w1 = (r, w')")
    case True
    from Suc.IH [OF this] obtain k where "k \<le> n"
        "w' = w\<lparr>calls := calls w @ replicate (Suc (Suc k)) (GetSignatureStatuses sig)\<rparr>"
        "\<forall>u. r = Inr u \<longrightarrow> confirms S (calls w @ replicate (Suc k) (GetSignatureStatuses sig)) sig"
      by auto
    then show ?thesis by (intro exI [of _ "Suc k"]) auto
  next
    case False
    then show ?thesis using c by (intro exI [of _ 0]) auto
  qed
qed


section \<open>Scanning\<close>

definition ok_sigs :: "TransactionSignature list \<Rightarrow> TransactionSignature list" where
  "ok_sigs ts = filter (\<lambda>t. TS_Err t = None) ts"

lemma gather_fold:
  assumes "fold gather ts (cs, slot, cur) = (cs', slot', cur')" and "distinct cs"
  shows "distinct cs' \<and> set cs' = set cs \<union> TS_Signature ` set (ok_sigs ts) \<and> slot \<le> slot' \<and>
    (\<forall>t \<in> set (ok_sigs ts). TS_Slot t \<le> slot') \<and>
    (slot' = slot \<and> cur' = cur \<or> slot < slot' \<and> (\<exists>t \<in> set (ok_sigs ts). TS_Slot t = slot' \<and> TS_Signature t = cur'))"
  using assms
proof (induction ts arbitrary: cs slot cur)
  case Nil
  then show ?case by (simp add: ok_sigs_def)
next
  case (Cons t ts)
  obtain cs1 slot1 cur1 where g: "gather t (cs, slot, cur) = (cs1, slot1, cur1)" by (cases "gather t (cs, slot, cur)")
  have d: "distinct cs1" using g Cons.prems(2) by (auto simp: gather_def split: if_splits)
  note ih = Cons.IH [OF _ d, of slot1 cur1]
  have f: "fold gather ts (cs1, slot1, cur1) = (cs', slot', cur')" using Cons.prems(1) g by simp
  show ?case
  proof (cases "TS_Err t = None")
    case False
    then have "cs1 = cs \<and> slot1 = slot \<and> cur1 = cur" using g by (simp add: gather_def)
    moreover have "ok_sigs (t # ts) = ok_sigs ts" using False by (simp add: ok_sigs_def)
    ultimately show ?thesis using ih [OF f] by simp
  next
    case True
    have o: "ok_sigs (t # ts) = t # ok_sigs ts" using True by (simp add: ok_sigs_def)
    have s: "set cs1 = insert (TS_Signature t) (set cs)" using g True by (auto simp: gather_def split: if_splits)
    have l: "slot1 = (if slot < TS_Slot t then TS_Slot t else slot) \<and>
        cur1 = (if slot < TS_Slot t then TS_Signature t else cur)" using g True by (auto simp: gather_def)
    show ?thesis using ih [OF f] s l unfolding o by (auto split: if_splits)
  qed
qed

text \<open>The deposits of one transaction: at most one per asset, of a positive amount.\<close>

definition sound_deposit :: "string \<Rightarrow> DetectedDeposit \<Rightarrow> bool" where
  "sound_deposit sig d \<longleftrightarrow> Detected_Signature d = sig \<and> Detected_Asset d \<in> {AssetUSDC, AssetSOL} \<and>
     0 < Detected_RawAmount d"

lemma word_diff_pos: "(a :: 64 word) < b \<Longrightarrow> 0 < b - a"
  by (metis eq_iff_diff_eq_0 less_irrefl word_gt_0)

lemma usdc_delta_sound: "usdc_delta mint sig ata keys m = [] \<or>
    (\<exists>d. usdc_delta mint sig ata keys m = [d] \<and> sound_deposit sig d \<and> Detected_Asset d = AssetUSDC)"
  by (auto simp: usdc_delta_def sound_deposit_def AssetUSDC_def Let_def word_diff_pos split: option.splits)

lemma sol_delta_sound: "sol_delta sig base keys m = [] \<or>
    (\<exists>d. sol_delta sig base keys m = [d] \<and> sound_deposit sig d \<and> Detected_Asset d = AssetSOL)"
  by (auto simp: sol_delta_def sound_deposit_def AssetSOL_def Let_def word_diff_pos split: option.splits)

abbreviation dep_key :: "DetectedDeposit \<Rightarrow> string \<times> string" where
  "dep_key d \<equiv> (Detected_Signature d, Detected_Asset d)"

lemma depositsInTx_sound:
  assumes "depositsInTx S mint sig base ata w = (Inr ds, w')"
  shows "distinct (map dep_key ds) \<and> (\<forall>d \<in> set ds. sound_deposit sig d)"
proof -
  have "ds = [] \<or> (\<exists>keys m. ds = usdc_delta mint sig ata keys m @ sol_delta sig base keys m)"
  proof -
    obtain res :: "TransactionResult option" and w1 where r: "(case res of None \<Rightarrow> ret [] | Some r \<Rightarrow>
         (case (Result_Meta r, Result_Transaction r) of
            (Some m, Some tx) \<Rightarrow>
              if Meta_Err m \<noteq> None then ret []
              else bindE (lib tx) (\<lambda>keys. ret (usdc_delta mint sig ata keys m @ sol_delta sig base keys m))
          | _ \<Rightarrow> ret [])) w1 = (Inr ds, w')"
      using assms unfolding depositsInTx_def bindE_Inr by blast
    show ?thesis
    proof (cases "\<exists>r m tx. res = Some r \<and> Result_Meta r = Some m \<and> Result_Transaction r = Some tx \<and> Meta_Err m = None")
      case True
      then show ?thesis using r by (auto simp: io_inv)
    next
      case False
      then have "ds = []" using r by (auto simp: ret_Inr split: option.splits if_splits)
      then show ?thesis by blast
    qed
  qed
  then show ?thesis
  proof
    assume "\<exists>keys m. ds = usdc_delta mint sig ata keys m @ sol_delta sig base keys m"
    then obtain keys m where ds: "ds = usdc_delta mint sig ata keys m @ sol_delta sig base keys m" by blast
    have "AssetUSDC \<noteq> AssetSOL" by (simp add: AssetUSDC_def AssetSOL_def)
    then show ?thesis
      unfolding ds using usdc_delta_sound [of mint sig ata keys m] sol_delta_sound [of sig base keys m]
      by (auto simp: sound_deposit_def)
  qed simp
qed

lemma deposits_in_sound:
  assumes "deposits_in S mint sigs base ata w = (Inr ds, w')" and "distinct sigs"
  shows "distinct (map dep_key ds) \<and> (\<forall>d \<in> set ds. Detected_Signature d \<in> set sigs \<and> sound_deposit (Detected_Signature d) d)"
  using assms
proof (induction sigs arbitrary: w ds)
  case Nil
  then show ?case by (simp add: io_inv)
next
  case (Cons sig sigs)
  obtain d1 w1 d2 where d: "depositsInTx S mint sig base ata w = (Inr d1, w1)"
      "deposits_in S mint sigs base ata w1 = (Inr d2, w')" "ds = d1 @ d2"
    using Cons.prems(1) by (auto simp: io_inv)
  note one = depositsInTx_sound [OF d(1)]
  have rest: "distinct (map dep_key d2) \<and> (\<forall>d \<in> set d2. Detected_Signature d \<in> set sigs \<and>
      sound_deposit (Detected_Signature d) d)"
    using Cons.IH [OF d(2)] Cons.prems(2) by simp
  have "\<forall>d \<in> set d1. Detected_Signature d = sig" using one by (simp add: sound_deposit_def)
  then have "dep_key ` set d1 \<inter> dep_key ` set d2 = {}" using rest Cons.prems(2) by force
  then show ?case using one rest by (auto simp: d(3) sound_deposit_def)
qed

lemma ScanDeposits_cases:
  assumes "Sol_ScanDeposits S mint base ata since w = (Inr (found, cursor), w')"
  shows "\<exists>s1 s2 w1 w2 cands slot. signaturesSince S base since w = (Inr s1, w1) \<and>
    signaturesSince S ata since w1 = (Inr s2, w2) \<and>
    fold gather (s1 @ s2) ([], 0, since) = (cands, slot, cursor) \<and>
    deposits_in S mint cands base ata w2 = (Inr found, w')"
proof -
  have v: "(bindE (signaturesSince S base since) (\<lambda>sigs1.
     bindE (signaturesSince S ata since) (\<lambda>sigs2.
     case fold gather (sigs1 @ sigs2) ([], 0, since) of (cands, _, cursor) \<Rightarrow>
     bindE (deposits_in S mint cands base ata) (\<lambda>found. ret (found, cursor))))) w = (Inr (found, cursor), w')"
    using assms unfolding Sol_ScanDeposits_def seqE_Inr
    by (auto simp: ret_Inr throw_Inr split: if_splits)
  obtain s1 w1 where s1: "signaturesSince S base since w = (Inr s1, w1)"
      "bindE (signaturesSince S ata since) (\<lambda>sigs2.
         case fold gather (s1 @ sigs2) ([], 0, since) of (cands, _, cursor) \<Rightarrow>
         bindE (deposits_in S mint cands base ata) (\<lambda>found. ret (found, cursor))) w1 = (Inr (found, cursor), w')"
    using v unfolding bindE_Inr by blast
  obtain s2 w2 where s2: "signaturesSince S ata since w1 = (Inr s2, w2)"
      "(case fold gather (s1 @ s2) ([], 0, since) of (cands, _, cursor) \<Rightarrow>
         bindE (deposits_in S mint cands base ata) (\<lambda>found. ret (found, cursor))) w2 = (Inr (found, cursor), w')"
    using s1(2) unfolding bindE_Inr by blast
  obtain cands slot cur where f: "fold gather (s1 @ s2) ([], 0, since) = (cands, slot, cur)"
    by (cases "fold gather (s1 @ s2) ([], 0, since)")
  have "deposits_in S mint cands base ata w2 = (Inr found, w') \<and> cur = cursor"
    using s2(2) unfolding f by (auto simp: bindE_Inr ret_Inr)
  then show ?thesis using s1(1) s2(1) f by blast
qed


section \<open>The cursor\<close>

text \<open>The loop over the deposits went through all of them, without an error.\<close>

fun all_ingested :: "Service \<Rightarrow> uuid \<Rightarrow> DetectedDeposit list \<Rightarrow> wallet_world \<Rightarrow> bool" where
  "all_ingested s a [] w = True"
| "all_ingested s a (d # ds) w =
     (case IngestDeposit s a d w of (Inr _, w') \<Rightarrow> all_ingested s a ds w' | (Inl _, w') \<Rightarrow> False)"

lemma ingest_all_run:
  "fst (ingest_all s a ds w) = Inr (all_ingested s a ds w) \<and>
   (all_ingested s a ds w \<longrightarrow> snd (ingest_all s a ds w) = ingest_run s (map (Pair a) ds) w)"
proof (induction ds arbitrary: w)
  case (Cons d ds)
  obtain r w' where i: "IngestDeposit s a d w = (r, w')" by force
  then show ?case using Cons.IH [of w']
    by (cases r) (simp_all add: bindE_def attempt_def ret_def)
qed (simp add: ret_def)

text \<open>No ingestion moves a cursor.\<close>

context wallet_service
begin

lemma keeps_cursors: "keeps (\<lambda>w. Q (deposit_cursors (wdb w))) (IngestDeposit s a d)"
proof -
  show ?thesis
    unfolding IngestDeposit_def credit_deposit_def resolveCreditAmount_def fail_deposit_def wrapping_def Let_def
      InsertDepositIfNew_def SetDepositStatus_def MarkDepositCredited_def MarkDepositFailed_def
      GetAddressByAccount_def found_or_def
    by (auto intro!: keeps_intro keeps_calls keeps_w_query keeps_w_exec
        simp: sound_exec_def insert_deposit_def update_deposit_def Let_def
        split: prod.splits option.splits if_splits)
qed

lemma cursors_ingest_all: "deposit_cursors (wdb (snd (ingest_all s a ds w))) = deposit_cursors (wdb w)"
proof -
  have "keeps (\<lambda>v. deposit_cursors (wdb v) = deposit_cursors (wdb w)) (ingest_all s a ds)"
    by (induction ds) (auto intro!: keeps_intro keeps_cursors split: sum.splits)
  then show ?thesis by (simp add: keeps_def)
qed

end

end
