(* ===== verification/Wallet_Demo.thy ===== *)
theory Wallet_Demo
  imports Wallet_Effects Wallet_Scan
begin

text \<open>
  A concrete wallet, the input of the witnesses: a toy hash, a network that accepts every
  transaction and reports it with a given status, the demo engine's user \<open>a\<close>, the rate
  5.00 and the default limits.
\<close>

definition demo_crypto :: crypto_lib where
  "demo_crypto = \<lparr>hmacSHA512 = (\<lambda>k d. drop 33 d @ take 33 d), NewKeyFromSeed = take 9,
     PublicOf = (\<lambda>b. b), base58_Encode = map (\<lambda>x. if x = 0 then CHR ''0'' else CHR ''1''),
     IsMnemonicValid = (\<lambda>_. True), NewSeed = (\<lambda>m p. [])\<rparr>"

definition demo_solana :: "confirmation \<Rightarrow> solana" where
  "demo_solana c = \<lparr>key_ok = (\<lambda>_. True), sig_ok = (\<lambda>_. True), find_ata = (\<lambda>k m. Inr (CHR ''T'' # k)),
     tx_error = (\<lambda>_ _ _. None), ctx_polls = (\<lambda>_. 0), rpc_GetBalance = (\<lambda>_ _. Inr 0),
     rpc_GetTokenAccountBalance = (\<lambda>_ _. Inr ''0''), rpc_GetAccountInfo = (\<lambda>_ _. AccountFound),
     rpc_GetLatestBlockhash = (\<lambda>_. Inr ''hash''),
     rpc_SendTransaction = (\<lambda>h _. Inr (''sig'' @ nat_text (length h))),
     rpc_GetSignatureStatuses = (\<lambda>_ _. Inr [Some \<lparr>Status_Err = None, Status_Confirmation = c\<rparr>]),
     rpc_GetSignaturesForAddress = (\<lambda>_ _ _ _. Inr []), rpc_GetTransaction = (\<lambda>_ _. Inr None),
     jup_http = (\<lambda>_ _. Inl ''no route''), quote_threshold = (\<lambda>_. Inr []),
     swap_transaction = (\<lambda>_. Inr []), tx_decode = (\<lambda>_. None)\<rparr>"

definition demo_limits :: Limits where
  "demo_limits = \<lparr>Limit_Min = 1000000, Limit_Max = 10000000000, Limit_ManualReviewOver = 1000000000\<rparr>"

definition demo_master :: MasterWallet where
  "demo_master = \<lparr>Master_seed = []\<rparr>"

definition demo_service :: "confirmation \<Rightarrow> Service" where
  "demo_service c = live_service demo_crypto (demo_solana c) ''mint'' (\<lambda>_. ''sql'') demo_master demo_limits
     5000000 25000000"

definition demo_wallet :: "wallet_db \<Rightarrow> wallet_world" where
  "demo_wallet d = \<lparr>wdb = d, db_fates = [], net_fates = [], wuuid_src = (\<lambda>n. CHR ''w'' # nat_text n),
     wuuid_ctr = 0, wclock = 0, bank = demo_open, requests = [], calls = []\<rparr>"

definition demo_address :: WalletAddress where
  "demo_address = \<lparr>Wallet_AccountID = ''a'', Wallet_DerivationIndex = 1,
     Wallet_Address = ''100001001'', Wallet_USDCATA = ''T100001001'', Wallet_CreatedAt = 0\<rparr>"

definition demo_provisioned :: wallet_db where
  "demo_provisioned = wallet_runMigrations\<lparr>derivation_seq := 2, wallet_addresses := [demo_address]\<rparr>"

text \<open>The chain calls on the demo network, in any world and with any key.\<close>

lemma demo_chain [simp]: "svc_chain (demo_service c) = SolanaClient demo_crypto (demo_solana c) ''mint''"
  by (simp add: demo_service_def)

lemma demo_ensure: "Sol_EnsureUSDCATA demo_crypto (demo_solana c) ''mint'' k owner w =
    (Inr (CHR ''T'' # owner, []), w\<lparr>calls := calls w @ [GetAccountInfo (CHR ''T'' # owner)]\<rparr>)"
  by (simp add: Sol_EnsureUSDCATA_def demo_solana_def seqE_def need_def lib_def accountExists_def ask_def
      bindE_def ret_def)

lemma demo_confirm: "Sol_ConfirmTx (demo_solana c) sig w =
    (if c = Processed then Inl (WErrLib ''context done'') else Inr (),
     w\<lparr>calls := calls w @ [GetSignatureStatuses sig]\<rparr>)"
  by (cases c) (simp_all add: Sol_ConfirmTx_def need_def confirmSignature_def confirm_loop.simps
      poll_status_def demo_solana_def seqE_def bindE_def Let_def throw_def ret_def)

lemma demo_transfer: "\<exists>sig cs. Sol_TransferUSDC demo_crypto (demo_solana c) ''mint'' k ata amt w =
    (if c = Processed then Inl (WErrLib ''context done'') else Inr sig, w\<lparr>calls := calls w @ cs\<rparr>) \<and>
    payouts cs = [(amt, ata)]"
proof -
  let ?from = "CHR ''T'' # Address demo_crypto k"
  let ?cs = "[GetLatestBlockhash, SendTransaction (Address demo_crypto k) ''hash''
      (TransferChecked amt ?from ''mint'' ata (Address demo_crypto k)),
      GetSignatureStatuses (''sig'' @ nat_text (Suc (length (calls w))))]"
  let ?w2 = "w\<lparr>calls := calls w @ take 2 ?cs\<rparr>"
  have c: "Sol_ConfirmTx (demo_solana c) (''sig'' @ nat_text (Suc (length (calls w)))) ?w2 =
      (if c = Processed then Inl (WErrLib ''context done'') else Inr (), w\<lparr>calls := calls w @ ?cs\<rparr>)"
    by (simp add: demo_confirm)
  have "Sol_TransferUSDC demo_crypto (demo_solana c) ''mint'' k ata amt w =
    (if c = Processed then Inl (WErrLib ''context done'') else Inr (''sig'' @ nat_text (Suc (length (calls w)))),
     w\<lparr>calls := calls w @ ?cs\<rparr>)"
    using c
    by (simp add: Sol_TransferUSDC_def lib_def seqE_def need_def or_fail_def signSendConfirm_def wrapping_def
        ask_def tx_ok_def on_error_def bindE_def ret_def throw_def demo_solana_def
        split: if_splits)
  moreover have "payouts ?cs = [(amt, ata)]" by (simp add: payouts_sends)
  ultimately show ?thesis by blast
qed


text \<open>The wallet with the one provisioned account is a state the service reaches.\<close>

definition demo_w :: wallet_world where
  "demo_w = demo_wallet demo_provisioned"

lemma demo_w_reachable: "wallet_reachable (demo_service c) demo_w"
proof -
  let ?i = "demo_wallet wallet_runMigrations"
  have i: "wallet_reachable (demo_service Confirmed) ?i" for Confirmed
    by (rule wallet_reachable.init) (simp add: demo_wallet_def)
  have e: "wdb (wallet_do (demo_service c) (CallProvision ''a'') ?i) = demo_provisioned"
    by (cases c; simp only:; code_simp)
  have p: "wallet_reachable (demo_service c) (wallet_do (demo_service c) (CallProvision ''a'') ?i)"
    by (rule wallet_reachable.step [OF i wallet_step.call [OF refl]])
  have "wdb demo_w = demo_provisioned" by (simp add: demo_w_def demo_wallet_def)
  then show ?thesis by (intro wallet_reachable.step [OF p wallet_step.env]) (simp only: e)
qed

definition demo_deposit :: "string \<Rightarrow> 64 word \<Rightarrow> DetectedDeposit" where
  "demo_deposit g x = \<lparr>Detected_Signature = g, Detected_Asset = ''USDC'', Detected_RawAmount = x\<rparr>"

lemma demo_w_simps: "bank demo_w = demo_open" "client_up demo_w" "inv (tabs (bank demo_w))"
  using inv_demo(2) by (simp_all add: demo_w_def demo_wallet_def client_up_def demo_open_def demo_world_def)

lemma demo_ingest:
  assumes "0 < int64_of x" and "microUSDCToReais (int64_of x) 5000000 = reais" and "0 \<le> reais" and "in_int64 (800 + reais)"
  shows "\<exists>w'. IngestDeposit (demo_service c) ''a'' (demo_deposit g x) demo_w = (Inr (), w') \<and>
    balance_of (tabs (bank w')) ''a'' = Some (800 + reais) \<and> client_up w' \<and> inv (tabs (bank w')) \<and>
    db_fates w' = [] \<and> account_known (wdb w') ''a'' \<and> withdrawals (wdb w') = [] \<and> calls w' = []"
proof -
  have h: "db_fates demo_w = []" "account_known (wdb demo_w) ''a''" "withdrawals (wdb demo_w) = []"
    "deposits (wdb demo_w) = []" "calls demo_w = []" "balance_of (tabs (bank demo_w)) ''a'' = Some 800"
    by code_simp+
  have d: "\<not> recorded (Detected_Signature (demo_deposit g x)) (wdb demo_w)"
      "Detected_Asset (demo_deposit g x) = AssetUSDC" "Detected_RawAmount (demo_deposit g x) = x"
      "wuuid_src demo_w (wuuid_ctr demo_w) \<notin> Deposit_ID ` set (deposits (wdb demo_w))"
    by (simp_all add: recorded_def h(4) demo_deposit_def AssetUSDC_def)
  show ?thesis
    using wallet.ingest_usdc [where C = demo_crypto and S = "demo_solana c" and mint = "''mint''" and drv = "\<lambda>_. ''sql''"
        and m = demo_master and l = demo_limits and r = 5000000 and f = 25000000,
        OF demo_w_simps(2,3) h(1) d(1,2) _ h(2) d(4) _ assms(3) h(6) assms(4)] assms(1,2) d(3) h
    by (auto simp: demo_service_def moved_def account_known_def)
qed

lemma update_ok:
  assumes "db_fates w = []"
  shows "\<exists>d. SetWithdrawalStatus i st w = (Inr (), w\<lparr>wdb := d\<rparr>)"
    and "\<exists>d. SetWithdrawalSent i sig w = (Inr (), w\<lparr>wdb := d\<rparr>)"
    and "\<exists>d. SetWithdrawalConfirmed i w = (Inr (), w\<lparr>wdb := d\<rparr>)"
  by (auto simp: SetWithdrawalStatus_def SetWithdrawalSent_def SetWithdrawalConfirmed_def seqE_def bindE_def
      ret_def w_exec_ok [OF assms] update_withdrawal_def)

lemma demo_refund: "\<exists>w'. failAndRefund (demo_service c) wd e w = (Inr (Some wd, Some e), w') \<and> calls w' = calls w"
proof -
  obtain q w1 where f: "SetWithdrawalFailed (Withdrawal_ID wd) w = (q, w1)" by force
  have c1: "calls w1 = calls w" using storingD [OF storing_store(21) f] by (simp add: outside_def)
  obtain q2 w2 where l: "svc_ledger (demo_service c) (Withdrawal_AccountID wd) (Withdrawal_AmountReais wd) w1 = (q2, w2)" by force
  have "calls w2 = calls w1" using bank_client.adjust_frame l by (fastforce simp: demo_service_def own_def)
  then show ?thesis using f l c1
    by (simp add: failAndRefund_def refund_def seqE_def bindE_def ignore_def ret_def)
qed

lemma demo_settle:
  assumes "db_fates w = []"
  shows "\<exists>r w'. settleWithdrawal (demo_service c) wd w = (Inr r, w') \<and>
    payouts (calls w') = payouts (calls w) @ [(word_of_int (Withdrawal_AmountUSDC wd), CHR ''T'' # Withdrawal_DestAddress wd)] \<and>
    (if c = Processed then \<exists>e. snd r = Some (WErrWrap ''sending USDC'' e) else snd r = None)"
proof -
  let ?s = "demo_service c" and ?id = "Withdrawal_ID wd" and ?ata = "CHR ''T'' # Withdrawal_DestAddress wd"
  let ?amt = "word_of_int (Withdrawal_AmountUSDC wd) :: 64 word"
  obtain d1 where s1: "SetWithdrawalStatus ?id WithdrawalSigning w = (Inr (), w\<lparr>wdb := d1\<rparr>)"
    using update_ok(1) [OF assms] by blast
  define w2 where "w2 = w\<lparr>wdb := d1, calls := calls w @ [GetAccountInfo ?ata]\<rparr>"
  have e: "Sol_EnsureUSDCATA demo_crypto (demo_solana c) ''mint'' (treasury ?s) (Withdrawal_DestAddress wd) (w\<lparr>wdb := d1\<rparr>) =
      (Inr (?ata, []), w2)"
    by (simp add: demo_ensure w2_def)
  obtain sig cs where t: "Sol_TransferUSDC demo_crypto (demo_solana c) ''mint'' (treasury ?s) ?ata ?amt w2 =
      (if c = Processed then Inl (WErrLib ''context done'') else Inr sig, w2\<lparr>calls := calls w2 @ cs\<rparr>)"
      and cs: "payouts cs = [(?amt, ?ata)]"
    using demo_transfer [of c "treasury ?s" ?ata ?amt w2] by blast
  define w3 where "w3 = w2\<lparr>calls := calls w2 @ cs\<rparr>"
  have p: "payouts (calls w3) = payouts (calls w) @ [(?amt, ?ata)]" "db_fates w3 = []"
    using cs assms by (simp_all add: w3_def w2_def payouts_def map_filter_append)
  show ?thesis
  proof (cases "c = Processed")
    case True
    have "settleWithdrawal ?s wd w = failAndRefund ?s wd (WErrWrap ''sending USDC'' (WErrLib ''context done'')) w3"
      using t e True by (simp add: settleWithdrawal_def SolanaClient_def seqE_def ignore_def bindE_def attempt_def s1 w3_def)
    then show ?thesis using demo_refund [of c wd _ w3] p True by (metis snd_conv)
  next
    case False
    obtain d4 where s4: "SetWithdrawalSent ?id sig w3 = (Inr (), w3\<lparr>wdb := d4\<rparr>)"
      using update_ok(2) [OF p(2)] by blast
    define w5 where "w5 = w3\<lparr>wdb := d4, calls := calls w3 @ [GetSignatureStatuses sig]\<rparr>"
    have c5: "Sol_ConfirmTx (demo_solana c) sig (w3\<lparr>wdb := d4\<rparr>) = (Inr (), w5)" "db_fates w5 = []"
        "payouts (calls w5) = payouts (calls w3)"
      using False p(2) by (simp_all add: demo_confirm w5_def payouts_def map_filter_append)
    obtain d6 where s6: "SetWithdrawalConfirmed ?id w5 = (Inr (), w5\<lparr>wdb := d6\<rparr>)"
      using update_ok(3) [OF c5(2)] by blast
    have "settleWithdrawal ?s wd w = (Inr (Some (wd\<lparr>Withdrawal_Signature := Some sig\<rparr>), None), w5\<lparr>wdb := d6\<rparr>)"
      using t False s4 c5(1) s6
      by (simp add: settleWithdrawal_def SolanaClient_def seqE_def ignore_def bindE_def attempt_def s1 e ret_def Let_def w3_def [symmetric])
    then show ?thesis using False p(1) c5(3) by simp
  qed
qed

text \<open>The account of a withdrawal, for the live service.\<close>

lemma withdrawal_accounted:
  assumes "client_up w" and "inv (tabs (bank w))" and "0 \<le> amt" and "in_int64 amt"
    and "RequestWithdrawal (live_service C S mint drv m l r f) a dest amt w = (q, w')"
  shows "\<exists>res debited paid. q = Inr res \<and>
     payouts (calls w') = payouts (calls w) @ paid \<and>
     (if debited then moved a (- amt) (tabs (bank w)) (tabs (bank w'))
      else balance_of (tabs (bank w')) = balance_of (tabs (bank w)) \<and>
           escrow (tabs (bank w')) = escrow (tabs (bank w))) \<and>
     withdrawal_outcome (word_of_int (reaisToMicroUSDC amt r)) debited paid res"
proof -
  have s: "acct client_up (tabs (bank w)) (payouts (calls w)) a amt False [] w"
    using assms(1,2) by (simp add: acct_def)
  note t = wallet.acct_RequestWithdrawal [OF assms(3,4)]
  have "q \<noteq> Inl e" for e using triple_InlD [OF t s, of C S mint drv m l r f dest e w'] assms(5) by blast
  then obtain res where q: "q = Inr res" by (cases q) auto
  show ?thesis
    using triple_InrD [OF t s assms(5) [unfolded q]] q by (auto simp: acct_def)
qed

lemma demo_withdraw:
  assumes "client_up w" and "inv (tabs (bank w))" and "db_fates w = []" and "account_known (wdb w) a"
    and "withdrawals (wdb w) = []" and "usdc = reaisToMicroUSDC amt 5000000" and "1000000 \<le> usdc" and "usdc \<le> 1000000000"
    and "balance_of (tabs (bank w)) a = Some b" and "0 \<le> amt" and "amt \<le> b"
  shows "\<exists>r w'. RequestWithdrawal (demo_service c) a dest amt w = (Inr r, w') \<and>
    payouts (calls w') = payouts (calls w) @ [(word_of_int usdc, CHR ''T'' # dest)] \<and>
    balance_of (tabs (bank w')) a = Some (if c = Processed then b else b - amt) \<and>
    (if c = Processed then \<exists>e. snd r = Some (WErrWrap ''sending USDC'' e) else snd r = None)"
proof -
  obtain w1 where r: "RequestWithdrawal (demo_service c) a dest amt w =
      settleWithdrawal (demo_service c)
        ((requested_row a dest amt usdc)\<lparr>Withdrawal_ID := wuuid_src w (wuuid_ctr w)\<rparr>) w1"
      "db_fates w1 = []" "calls w1 = calls w"
    using wallet.withdraw_to_settle [where C = demo_crypto and S = "demo_solana c" and mint = "''mint''" and drv = "\<lambda>_. ''sql''"
        and m = demo_master and l = demo_limits and r = 5000000 and f = 25000000, OF assms(1-4) _ _ _ _ _ _ assms(9,11,10)]
      assms(5-8)
    by (auto simp: demo_service_def demo_limits_def)
  obtain res w' where s: "RequestWithdrawal (demo_service c) a dest amt w = (Inr res, w')"
      "payouts (calls w') = payouts (calls w) @ [(word_of_int usdc, CHR ''T'' # dest)]"
      "if c = Processed then \<exists>e. snd res = Some (WErrWrap ''sending USDC'' e) else snd res = None"
    using demo_settle [OF r(2), of c "(requested_row a dest amt usdc)\<lparr>Withdrawal_ID := wuuid_src w (wuuid_ctr w)\<rparr>"] r
    by (auto simp: requested_row_def)
  have b: "0 \<le> b" "in_int64 b" using balance_in_range [OF _ assms(9)] assms(2) by (simp_all add: inv_def)
  then have "in_int64 amt" using assms(10,11) by (auto simp: in_int64_def int64_min_def)
  from withdrawal_accounted [OF assms(1,2,10) this s(1) [unfolded demo_service_def]]
  obtain k ps where k: "payouts (calls w') = payouts (calls w) @ ps"
      "if k then moved a (- amt) (tabs (bank w)) (tabs (bank w'))
       else balance_of (tabs (bank w')) = balance_of (tabs (bank w)) \<and>
            escrow (tabs (bank w')) = escrow (tabs (bank w))"
      "withdrawal_outcome (word_of_int (reaisToMicroUSDC amt 5000000)) k ps res"
    by blast
  have "ps \<noteq> []" using k(1) s(2) by auto
  then have "balance_of (tabs (bank w')) a = Some (if c = Processed then b else b - amt)"
    using s(3) assms(9) k(2,3) by (auto simp: withdrawal_outcome_def moved_def split: if_splits)
  then show ?thesis using s by blast
qed




lemma demo_faucet: "\<exists>sig w'. FaucetTestUSDC (demo_service Confirmed) ''a'' demo_w = (Inr sig, w')"
proof -
  have h: "db_fates demo_w = []" "provisioned demo_address (wdb demo_w)"
    by (simp_all add: demo_w_def demo_wallet_def provisioned_def demo_provisioned_def demo_address_def wallet_runMigrations_def)
  have p: "ProvisionAccount (demo_service Confirmed) ''a'' demo_w = (Inr demo_address, demo_w)"
    using wallet.provision_again [OF h, of demo_crypto "demo_solana Confirmed" "''mint''" "\<lambda>_. ''sql''"
        demo_master demo_limits 5000000 25000000] by (simp add: demo_service_def demo_address_def)
  have c: "\<exists>d. insert_claim ''a'' (wclock demo_w) (wdb demo_w) = Inr (d, 1)"
    by (simp add: insert_claim_def account_known_def demo_w_def demo_wallet_def demo_provisioned_def demo_address_def
        wallet_runMigrations_def)
  then obtain d where "ClaimFaucet ''a'' demo_w = (Inr True, demo_w\<lparr>wdb := d\<rparr>)"
    using h(1) by (auto simp: ClaimFaucet_def bindE_def ret_def w_exec_ok)
  then show ?thesis
    using p demo_transfer [of Confirmed "treasury (demo_service Confirmed)" "Wallet_USDCATA demo_address"
        "word_of_int (svc_faucet (demo_service Confirmed))" "demo_w\<lparr>wdb := d\<rparr>"]
    by (auto simp: FaucetTestUSDC_def wrapping_def on_error_def bindE_def SolanaClient_def)
qed

text \<open>A network where one transaction brought the address both USDC and SOL.\<close>

definition demo_meta :: TransactionMeta where
  "demo_meta = \<lparr>Meta_Err = None, Meta_PreTokenBalances = [],
     Meta_PostTokenBalances = [\<lparr>TB_AccountIndex = 1, TB_Mint = ''mint'', TB_Amount = Some ''900000''\<rparr>],
     Meta_PreBalances = [5, 0], Meta_PostBalances = [12, 0]\<rparr>"

definition demo_scan :: solana where
  "demo_scan = (demo_solana Confirmed)\<lparr>
     rpc_GetSignaturesForAddress := (\<lambda>_ _ _ _. Inr [\<lparr>TS_Signature = ''g'', TS_Slot = 7, TS_Err = None\<rparr>]),
     rpc_GetTransaction := (\<lambda>_ _. Inr (Some \<lparr>Result_Meta = Some demo_meta,
       Result_Transaction = Some (Inr [''base'', ''ata''])\<rparr>))\<rparr>"

definition demo_found :: "DetectedDeposit list" where
  "demo_found = [\<lparr>Detected_Signature = ''g'', Detected_Asset = ''USDC'', Detected_RawAmount = 900000\<rparr>,
     \<lparr>Detected_Signature = ''g'', Detected_Asset = ''SOL'', Detected_RawAmount = 7\<rparr>]"

lemma demo_scan_found: "\<exists>cs. Sol_ScanDeposits demo_scan ''mint'' ''base'' ''ata'' [] demo_w =
    (Inr (demo_found, ''g''), demo_w\<lparr>calls := cs\<rparr>)"
proof -
  have t: "\<exists>cs. depositsInTx demo_scan ''mint'' ''g'' ''base'' ''ata'' v = (Inr demo_found, v\<lparr>calls := cs\<rparr>)" for v
  proof -
    have p: "fst (ParseUint ''900000'') = 900000" by (simp add: ParseUint_def digit_value_def Let_def)
    have "usdc_delta ''mint'' ''g'' ''ata'' [''base'', ''ata''] demo_meta @
        sol_delta ''g'' ''base'' [''base'', ''ata''] demo_meta = demo_found"
      by (simp add: usdc_delta_def sol_delta_def tokenAmountAt_def demo_meta_def demo_found_def p Let_def)
    then show ?thesis
      by (auto simp: depositsInTx_def demo_scan_def ask_def lib_def bindE_def ret_def demo_meta_def)
  qed
  have s: "signaturesSince demo_scan x y v =
      (Inr [\<lparr>TS_Signature = ''g'', TS_Slot = 7, TS_Err = None\<rparr>],
       v\<lparr>calls := calls v @ [GetSignaturesForAddress x scanSignatureLimit (if y \<noteq> [] then Some y else None)]\<rparr>)" for x y v
    by (simp add: signaturesSince_def ask_def Let_def demo_scan_def demo_solana_def)
  have k: "key_ok demo_scan x" for x by (simp add: demo_scan_def demo_solana_def)
  let ?w2 = "snd (signaturesSince demo_scan ''ata'' [] (snd (signaturesSince demo_scan ''base'' [] demo_w)))"
  obtain cs where "depositsInTx demo_scan ''mint'' ''g'' ''base'' ''ata'' ?w2 = (Inr demo_found, ?w2\<lparr>calls := cs\<rparr>)"
    using t by blast
  then show ?thesis
    by (simp add: Sol_ScanDeposits_def seqE_def bindE_def ret_def s k gather_def) blast
qed

end
