(* ===== verification/Wallet_Status.thy ===== *)
theory Wallet_Status
  imports Wallet_Demo
begin

text \<open>
  What the withdrawal handler's status says of balances and payouts: the outcome of the
  withdrawal's account, read off the answer.
\<close>

text \<open>Above the review limit a recorded withdrawal is left for review.\<close>

lemma review_result:
  assumes "RequestWithdrawal s a dest amt w = (Inr r, w')"
    and "Limit_ManualReviewOver (svc_limits s) < reaisToMicroUSDC amt (svc_rateMicros s)"
  shows "(\<exists>wd. r = (Some wd, Some ErrManualReview)) \<or> (\<exists>e. r = (None, Some e) \<and>
    (\<forall>x. e \<noteq> WErrWrap ''sending USDC'' x \<and> e \<noteq> WErrWrap ''confirming withdrawal'' x))"
proof -
  have i: "\<exists>x. e = WErrSql x" if "InsertWithdrawal row v = (Inl e, v')" for row v e v'
    using that by (auto simp: InsertWithdrawal_def wuuid_New_def io_inv dest: w_exec_InlD split: if_splits)
  show ?thesis
    using assms
    by (auto simp: RequestWithdrawal_def Let_def attempt_def bindE_def seqE_def ret_def refund_def ignore_def
        debit_error_def split: prod.splits sum.splits if_splits dest: i)
qed

text \<open>The status tells the outcome.\<close>

lemma withdraw_response_error: "withdraw_response (wd, Some e) =
    (if werrors_is e ErrManualReview then (case wd of Some x \<Rightarrow> (202, withdrawalView x) | None \<Rightarrow> (500, WError e))
     else if werrors_is e ErrAmountBelowMin \<or> werrors_is e ErrAmountAboveMax then (400, WError e)
     else if werrors_is e service_ErrInsufficientBalance then (402, WError e) else (500, WError e))"
  by (cases wd) (simp_all add: withdraw_response_def)

lemma withdraw_response_outcome:
  assumes "withdrawal_outcome usdc k ps r" and "withdraw_response r = (status, body)"
  shows "status = 200 \<Longrightarrow> k \<and> ps \<noteq> []" and "status \<in> {400, 402} \<Longrightarrow> \<not> k"
proof -
  obtain wd e where r: "r = (wd, e)" by (cases r)
  show "k \<and> ps \<noteq> []" if "status = 200"
  proof (cases e)
    case None
    then show ?thesis using assms that r
      by (cases wd) (auto simp: withdrawal_outcome_def withdraw_response_def)
  next
    case (Some x)
    then show ?thesis using assms(2) that r
      by (auto simp: withdraw_response_error split: option.splits if_splits)
  qed
  show "\<not> k" if "status \<in> {400, 402}"
  proof (cases e)
    case None
    then show ?thesis using assms that r
      by (cases wd) (auto simp: withdrawal_outcome_def withdraw_response_def)
  next
    case (Some x)
    then show ?thesis using assms that r
      by (auto simp: withdrawal_outcome_def withdraw_response_error split: option.splits if_splits)
  qed
qed

text \<open>
  The status the handler answers. 200: the user was debited and paid. 400 or 402: no
  balance changed. Above the review limit nothing is paid, and 202 means debited. Outside the
  limits: 400, and nothing happened at all.
\<close>

lemma withdraw_status:
  assumes "client_up w" and "inv (tabs (bank w))" and "0 < amt" and "in_int64 amt" and "dest \<noteq> []"
    and "withdraw (live_service C S mint drv m l r f) a
      (Some \<lparr>Withdraw_DestAddress = dest, Withdraw_AmountReais = amt\<rparr>) w = ((status, body), w')"
  shows "(status = 200 \<longrightarrow> moved a (- amt) (tabs (bank w)) (tabs (bank w')) \<and>
       (\<exists>ata. payouts (calls w') = payouts (calls w) @ [(word_of_int (reaisToMicroUSDC amt r), ata)])) \<and>
    (Limit_ManualReviewOver l < reaisToMicroUSDC amt r \<longrightarrow> payouts (calls w') = payouts (calls w) \<and>
       (status = 202 \<longrightarrow> moved a (- amt) (tabs (bank w)) (tabs (bank w')))) \<and>
    (status \<in> {400, 402} \<longrightarrow> balance_of (tabs (bank w')) = balance_of (tabs (bank w))) \<and>
    (reaisToMicroUSDC amt r < Limit_Min l \<or> Limit_Max l < reaisToMicroUSDC amt r \<longrightarrow> status = 400 \<and> w' = w)"
proof -
  let ?s = "live_service C S mint drv m l r f"
  have a0: "0 \<le> amt" using assms(3) by simp
  obtain q where q0: "RequestWithdrawal ?s a dest amt w = (q, w')"
    using assms(3,5,6) by (auto simp: withdraw_def wallet_handle_def split: prod.splits sum.splits)
  from withdrawal_accounted [OF assms(1,2) a0 assms(4) q0]
  obtain res k ps where q: "RequestWithdrawal ?s a dest amt w = (Inr res, w')"
      and p: "payouts (calls w') = payouts (calls w) @ ps"
      and b: "if k then moved a (- amt) (tabs (bank w)) (tabs (bank w'))
         else balance_of (tabs (bank w')) = balance_of (tabs (bank w)) \<and>
           escrow (tabs (bank w')) = escrow (tabs (bank w))"
      and o: "withdrawal_outcome (word_of_int (reaisToMicroUSDC amt r)) k ps res"
    using q0 by blast
  have st: "(status, body) = withdraw_response res"
    using q assms(3,5,6) by (simp add: withdraw_def wallet_handle_def)
  have out: "status = 400 \<and> w' = w" if "reaisToMicroUSDC amt r < Limit_Min l \<or> Limit_Max l < reaisToMicroUSDC amt r"
    using that q st
    by (auto simp: RequestWithdrawal_def Let_def ret_def withdraw_response_def split: if_splits)
  note c = withdraw_response_outcome [OF o st [symmetric]]
  have rev: "ps = [] \<and> (status = 202 \<longrightarrow> k)" if l: "Limit_ManualReviewOver l < reaisToMicroUSDC amt r"
  proof -
    from review_result [OF q] l consider wd where "res = (Some wd, Some ErrManualReview)"
      | e where "res = (None, Some e)" "\<And>x. e \<noteq> WErrWrap ''sending USDC'' x" "\<And>x. e \<noteq> WErrWrap ''confirming withdrawal'' x"
      by auto
    then show ?thesis
    proof cases
      case 1
      then show ?thesis using o by (auto simp: withdrawal_outcome_def)
    next
      case 2
      then show ?thesis using o st by (auto simp: withdrawal_outcome_def withdraw_response_error split: if_splits)
    qed
  qed
  have paid: "\<exists>ata. ps = [(word_of_int (reaisToMicroUSDC amt r), ata)]" if "ps \<noteq> []"
    using o that by (auto simp: withdrawal_outcome_def)
  show ?thesis using out c rev paid p b by auto
qed

end
