(* ===== verification/Wallet_Properties.thy ===== *)
theory Wallet_Properties
  imports Wallet_Effects Wallet_Scan Wallet_Status
begin

text \<open>
  What the wallet service promises, stated of the live service over the modelled engine and
  any Solana network, with a witness for each promise that has hypotheses.
\<close>

section \<open>Custody\<close>



text \<open>
  C6: A run of ingestions, in any order, repeated or not, whatever call in it fails or loses
  its reply, asks the ledger for at most one credit per signature, and for none whose
  signature was recorded before.
\<close>

theorem deposit_once:
  "length (requests (ingest_run (live_service C S mint drv m l r f) ds w)) \<le> length (requests w) +
     card {g \<in> (\<lambda>(a, d). Detected_Signature d) ` set ds. \<not> recorded g (wdb w)}"
  by (rule wallet.ingest_run_requests)




section \<open>Conversions\<close>



text \<open>
  Rounding half up makes money. At 5 reais per dollar a deposit of 0.90 USDC is credited
  as five reais, and those five reais pay out a whole dollar.
\<close>

theorem rounding_profit:
  "\<exists>w1 w2 r. IngestDeposit (demo_service Confirmed) ''a'' (demo_deposit ''s'' 900000) demo_w = (Inr (), w1) \<and>
     balance_of (tabs (bank w1)) ''a'' = Some 805 \<and>
     RequestWithdrawal (demo_service Confirmed) ''a'' ''dest'' 5 w1 = (Inr r, w2) \<and> snd r = None \<and>
     balance_of (tabs (bank w2)) ''a'' = Some 800 \<and> payouts (calls w2) = [(1000000, ''Tdest'')]"
proof -
  have n: "0 < int64_of 900000" "microUSDCToReais (int64_of 900000) 5000000 = 5" "in_int64 (800 + 5)" by code_simp+
  obtain w1 where i: "IngestDeposit (demo_service Confirmed) ''a'' (demo_deposit ''s'' 900000) demo_w = (Inr (), w1)"
      and f: "balance_of (tabs (bank w1)) ''a'' = Some 805" "client_up w1" "inv (tabs (bank w1))" "db_fates w1 = []"
        "account_known (wdb w1) ''a''" "withdrawals (wdb w1) = []" "calls w1 = []"
    using demo_ingest [of 900000 5 Confirmed "''s''"] n by auto
  have u: "1000000 = reaisToMicroUSDC 5 5000000" by code_simp
  obtain r w2 where "RequestWithdrawal (demo_service Confirmed) ''a'' ''dest'' 5 w1 = (Inr r, w2)"
      "balance_of (tabs (bank w2)) ''a'' = Some 800" "payouts (calls w2) = [(1000000, ''Tdest'')]" "snd r = None"
    using demo_withdraw [of w1 "''a''" 1000000 5 805 Confirmed "''dest''"] f u
    by (auto simp: payouts_def sends_def)
  then show ?thesis using i f(1) by blast
qed


section \<open>Withdrawals\<close>





section \<open>The faucet\<close>




section \<open>Scanning\<close>




text \<open>
  C20: A pass over an address is the ingestion of what the scan reports, in order: with every
  deposit taken the cursor moves to the new one if there is one, else the cursors stay.
\<close>

theorem poll_equivalence:
  assumes "GetScanCursor base w = (Inr cur, w1)" and "Sol_ScanDeposits S mint base ata cur w1 = (Inr (found, new), w2)"
    and "s = live_service C S mint drv m l r f"
  shows "(let out = scanAddress s (Sol_ScanDeposits S mint) a base ata w in
     if all_ingested s a found w2
     then out = (if new \<noteq> [] \<and> new \<noteq> cur then SetScanCursor base new else ret ())
                  (ingest_run s (map (Pair a) found) w2)
     else fst out = Inr () \<and> deposit_cursors (wdb (snd out)) = deposit_cursors (wdb w2))"
proof -
  note i = ingest_all_run [of s a found w2]
  have v: "scanAddress s (Sol_ScanDeposits S mint) a base ata w = bindE (ingest_all s a found) (\<lambda>ok.
      if \<not> ok then ret () else if new \<noteq> [] \<and> new \<noteq> cur then SetScanCursor base new else ret ()) w2"
    using assms(1,2) by (simp add: scanAddress_def bindE_def)
  have k: "deposit_cursors (wdb (snd (ingest_all s a found w2))) = deposit_cursors (wdb w2)"
    unfolding assms(3) by (rule wallet.cursors_ingest_all)
  show ?thesis
  proof (cases "all_ingested s a found w2")
    case True
    then have "ingest_all s a found w2 = (Inr True, ingest_run s (map (Pair a) found) w2)"
      using i by (simp add: prod_eq_iff)
    then show ?thesis using True v by (simp add: bindE_def)
  next
    case False
    then obtain v' where n: "ingest_all s a found w2 = (Inr False, v')"
      using i by (cases "ingest_all s a found w2") auto
    then have "scanAddress s (Sol_ScanDeposits S mint) a base ata w = (Inr (), v')"
      using v by (simp add: bindE_def ret_def)
    then show ?thesis using False k n by simp
  qed
qed

theorem poll_equivalence_witness:
  "\<exists>w2. let s = live_service demo_crypto demo_scan ''mint'' (\<lambda>_. ''sql'') demo_master demo_limits 5000000 0;
       out = scanAddress s (Sol_ScanDeposits demo_scan ''mint'') ''a'' ''base'' ''ata'' demo_w in
     if all_ingested s ''a'' demo_found w2
     then out = SetScanCursor ''base'' ''g'' (ingest_run s (map (Pair ''a'') demo_found) w2)
     else fst out = Inr () \<and> deposit_cursors (wdb (snd out)) = []"
proof -
  have c: "GetScanCursor ''base'' demo_w = (Inr [], demo_w)" and k: "deposit_cursors (wdb demo_w) = []"
    by (simp_all add: GetScanCursor_def w_query_ok demo_w_def demo_wallet_def demo_provisioned_def
        wallet_runMigrations_def bindE_def ret_def)
  obtain cs where f: "Sol_ScanDeposits demo_scan ''mint'' ''base'' ''ata'' [] demo_w =
      (Inr (demo_found, ''g''), demo_w\<lparr>calls := cs\<rparr>)" using demo_scan_found by blast
  show ?thesis
    using poll_equivalence [OF c f refl, of demo_crypto "\<lambda>_. ''sql''" demo_master demo_limits 5000000 0 "''a''"] k
    by (intro exI [of _ "demo_w\<lparr>calls := cs\<rparr>"]) (simp add: Let_def)
qed


section \<open>Confirmation and keys\<close>


text \<open>
  The bytes a derivation step hashes determine the parent key and the index up to its top
  bit, which hardening sets: two indices derive from the same bytes exactly when
  they agree modulo \<open>2^31\<close>.
\<close>

theorem derivation_bytes:
  assumes "length k = 32" and "length k' = 32"
  shows "child_data k (i OR hardenedOffset) = child_data k' (j OR hardenedOffset) \<longleftrightarrow>
      k = k' \<and> take_bit 31 i = take_bit 31 j"
  using assms by (simp add: child_data_inj hardened_eq)

theorem derivation_bytes_witness:
  "child_data (replicate 32 7) (3 OR hardenedOffset) = child_data (replicate 32 7) (0x80000003 OR hardenedOffset) \<and>
   child_data (replicate 32 7) (3 OR hardenedOffset) \<noteq> child_data (replicate 32 7) (4 OR hardenedOffset)"
  using derivation_bytes [of "replicate 32 7" "replicate 32 7" 3 "0x80000003"]
    derivation_bytes [of "replicate 32 7" "replicate 32 7" 3 4]
  by (simp add: take_bit_word_eq_self)

end
