(* ===== verification/General_Text.thy ===== *)
theory General_Text
  imports Bet_Models
begin

text \<open>
  What general-backend uses of Go's text packages. A Go string is its bytes, so a text with
  other than ASCII letters is written with \<open>utf8\<close>. The Unicode case tables are not
  written out: the part of \<open>strings.ToLower\<close> for strings with a byte over 127 is an
  argument.
\<close>

definition utf8 :: "nat list \<Rightarrow> string" where
  "utf8 = map char_of"

text \<open>The letters with accents of the Portuguese texts, and two punctuation marks.\<close>

definition a_acute :: string where "a_acute = utf8 [0xC3, 0xA1]"
definition a_tilde :: string where "a_tilde = utf8 [0xC3, 0xA3]"
definition A_tilde :: string where "A_tilde = utf8 [0xC3, 0x83]"
definition c_cedil :: string where "c_cedil = utf8 [0xC3, 0xA7]"
definition e_acute :: string where "e_acute = utf8 [0xC3, 0xA9]"
definition e_circ :: string where "e_circ = utf8 [0xC3, 0xAA]"
definition i_acute :: string where "i_acute = utf8 [0xC3, 0xAD]"
definition o_acute :: string where "o_acute = utf8 [0xC3, 0xB3]"
definition em_dash :: string where "em_dash = utf8 [0xE2, 0x80, 0x94]"
definition ellipsis :: string where "ellipsis = utf8 [0xE2, 0x80, 0xA6]"


section \<open>White space\<close>

text \<open>The UTF-8 encodings of the code points for which \<open>unicode.IsSpace\<close> holds.\<close>

definition space_runes :: "string list" where
  "space_runes = map utf8 ([[9], [10], [11], [12], [13], [32], [0xC2, 0x85], [0xC2, 0xA0], [0xE1, 0x9A, 0x80],
     [0xE2, 0x80, 0xA8], [0xE2, 0x80, 0xA9], [0xE2, 0x80, 0xAF], [0xE2, 0x81, 0x9F], [0xE3, 0x80, 0x80]]
     @ map (\<lambda>k. [0xE2, 0x80, k]) [0x80..<0x8B])"

text \<open>\<open>strings.Contains\<close>.\<close>

definition contains :: "string \<Rightarrow> string \<Rightarrow> bool" where
  "contains s t = list_ex (\<lambda>k. take (length t) (drop k s) = t) [0..<Suc (length s)]"

text \<open>Drop leading pieces for as long as there is one.\<close>

function strip :: "string list \<Rightarrow> string \<Rightarrow> string" where
  "strip ps s = (case find (\<lambda>p. p \<noteq> [] \<and> s \<noteq> [] \<and> take (length p) s = p) ps of
     None \<Rightarrow> s | Some p \<Rightarrow> strip ps (drop (length p) s))"
  by auto
termination
  by (relation "measure (\<lambda>(ps, s). length s)") (auto simp: find_Some_iff)

declare strip.simps [simp del]

definition TrimSpace :: "string \<Rightarrow> string" where
  "TrimSpace s = rev (strip (map rev space_runes) (rev (strip space_runes s)))"

lemma strip_suffix: "\<exists>p. s = p @ strip ps s"
proof (induction ps s rule: strip.induct)
  case (1 ps s)
  show ?case
  proof (cases "find (\<lambda>p. p \<noteq> [] \<and> s \<noteq> [] \<and> take (length p) s = p) ps")
    case None
    then show ?thesis by (subst strip.simps) simp
  next
    case (Some p)
    then obtain q where "drop (length p) s = q @ strip ps (drop (length p) s)" using 1 by blast
    then have "s = (take (length p) s @ q) @ strip ps (drop (length p) s)"
      by (metis append.assoc append_take_drop_id)
    moreover have "strip ps s = strip ps (drop (length p) s)" using Some by (subst strip.simps) simp
    ultimately show ?thesis by metis
  qed
qed

definition stripped :: "string list \<Rightarrow> string \<Rightarrow> bool" where
  "stripped ps s \<longleftrightarrow> (\<forall>p \<in> set ps. p \<noteq> [] \<and> s \<noteq> [] \<longrightarrow> take (length p) s \<noteq> p)"

lemma stripped_strip: "stripped ps (strip ps s)"
proof (induction ps s rule: strip.induct)
  case (1 ps s)
  show ?case
    by (subst strip.simps)
      (use 1 in \<open>auto simp: stripped_def find_None_iff split: option.splits\<close>)
qed

lemma strip_stripped: "stripped ps s \<Longrightarrow> strip ps s = s"
proof -
  assume s: "stripped ps s"
  have "find (\<lambda>p. p \<noteq> [] \<and> s \<noteq> [] \<and> take (length p) s = p) ps = None"
    using s by (auto simp: stripped_def find_None_iff)
  then show ?thesis by (subst strip.simps) simp
qed

text \<open>A prefix of a stripped string is stripped.\<close>

lemma stripped_prefix: "stripped ps (s @ t) \<Longrightarrow> stripped ps s"
  unfolding stripped_def
proof (intro ballI impI)
  fix p assume a: "\<forall>p \<in> set ps. p \<noteq> [] \<and> s @ t \<noteq> [] \<longrightarrow> take (length p) (s @ t) \<noteq> p"
    and p: "p \<in> set ps" "p \<noteq> [] \<and> s \<noteq> []"
  have ne: "take (length p) (s @ t) \<noteq> p" using a p by auto
  show "take (length p) s \<noteq> p"
  proof
    assume e: "take (length p) s = p"
    then have "length p \<le> length s" by (metis length_take min.cobounded1)
    then show False using ne e by simp
  qed
qed

text \<open>Trimming is idempotent, and never makes a string longer.\<close>

lemma TrimSpace_idem [simp]: "TrimSpace (TrimSpace s) = TrimSpace s"
proof -
  let ?l = "strip space_runes s" and ?b = "map rev space_runes"
  let ?r = "strip ?b (rev ?l)"
  obtain p where p: "rev ?l = p @ ?r" using strip_suffix by blast
  then have "?l = rev ?r @ rev p" by (metis rev_append rev_rev_ident)
  then have "stripped space_runes (rev ?r)"
    using stripped_strip [of space_runes s] stripped_prefix by metis
  then have "strip space_runes (rev ?r) = rev ?r" by (rule strip_stripped)
  moreover have "strip ?b ?r = ?r" by (rule strip_stripped [OF stripped_strip])
  ultimately show ?thesis by (simp add: TrimSpace_def)
qed

lemma length_strip: "length (strip ps s) \<le> length s"
  using strip_suffix [of s ps] by (metis length_append le_add2)

lemma length_TrimSpace: "length (TrimSpace s) \<le> length s"
  using length_strip [of "map rev space_runes" "rev (strip space_runes s)"] length_strip [of space_runes s]
  by (simp add: TrimSpace_def)


section \<open>Case\<close>

definition lower_char :: "char \<Rightarrow> char" where
  "lower_char c = (let k = of_char c :: nat in if 65 \<le> k \<and> k \<le> 90 then char_of (k + 32) else c)"

definition is_ascii :: "string \<Rightarrow> bool" where
  "is_ascii s \<longleftrightarrow> list_all (\<lambda>c. (of_char c :: nat) < 128) s"

definition ToLower :: "(string \<Rightarrow> string) \<Rightarrow> string \<Rightarrow> string" where
  "ToLower unicode_lower s = (if is_ascii s then map lower_char s else unicode_lower s)"


section \<open>Escapes\<close>

text \<open>\<open>url.QueryEscape\<close>: the unreserved bytes, \<open>+\<close> for a space, else \<open>%XX\<close>.\<close>

definition hex_char :: "nat \<Rightarrow> char" where
  "hex_char k = char_of (if k < 10 then 48 + k else 55 + k)"

definition escape_byte :: "char \<Rightarrow> string" where
  "escape_byte c = (let k = of_char c :: nat in
     if 48 \<le> k \<and> k \<le> 57 \<or> 65 \<le> k \<and> k \<le> 90 \<or> 97 \<le> k \<and> k \<le> 122 \<or> c \<in> set ''-_.~'' then [c]
     else if c = CHR '' '' then ''+'' else [CHR ''%'', hex_char (k div 16), hex_char (k mod 16)])"

definition QueryEscape :: "string \<Rightarrow> string" where
  "QueryEscape s = concat (map escape_byte s)"


section \<open>Dates\<close>

text \<open>
  Times are microseconds since 1970 UTC. \<open>civil\<close> is the proleptic Gregorian date of a day
  number, as \<open>time.Time.Date\<close> gives it.
\<close>

definition civil :: "int \<Rightarrow> int \<times> int \<times> int" where
  "civil days =
     (let z = days + 719468; era = z div 146097; doe = z mod 146097;
          yoe = (doe - doe div 1460 + doe div 36524 - doe div 146096) div 365;
          doy = doe - (365 * yoe + yoe div 4 - yoe div 100);
          mp = (5 * doy + 2) div 153; d = doy - (153 * mp + 2) div 5 + 1;
          m = (if mp < 10 then mp + 3 else mp - 9)
      in (yoe + era * 400 + (if m \<le> 2 then 1 else 0), m, d))"

definition day_micros :: int where "day_micros = 86400000000"

definition month_names :: "string list" where
  "month_names = [''Jan'', ''Feb'', ''Mar'', ''Apr'', ''May'', ''Jun'', ''Jul'', ''Aug'', ''Sep'',
     ''Oct'', ''Nov'', ''Dec'']"

definition two_digits :: "int \<Rightarrow> string" where
  "two_digits n = (if 0 \<le> n \<and> n < 10 then ''0'' else []) @ int_text n"

text \<open>\<open>t.Format("02 Jan \<dots> 15:04")\<close>, with the middle dot of the source.\<close>

definition format_created :: "time \<Rightarrow> string" where
  "format_created t = (case civil (t div day_micros) of (y, m, d) \<Rightarrow>
     let secs = (t mod day_micros) div 1000000 in
     two_digits d @ '' '' @ month_names ! nat (m - 1) @ '' '' @ utf8 [0xC2, 0xB7] @ '' '' @
     two_digits (secs div 3600) @ '':'' @ two_digits (secs mod 3600 div 60))"

end
