(* ===== verification/General_Sanitize.thy ===== *)
theory General_Sanitize
  imports General_Text
begin

text \<open>
  \<open>general-backend/sanitize/sanitize.go\<close>. An error is the constructor of its text, with
  the values formatted into it. \<open>uuid.Parse\<close> is library code: \<open>parse\<close> gives the
  canonical text of what it accepts.
\<close>

datatype sanitize_error =
    InvalidUUID string
  | EmptyValue
  | TooLong int
  | TooFewOutcomes int
  | TooManyOutcomes int
  | BadOutcome string sanitize_error
  | DuplicateOutcome string
  | AddressLength
  | AddressChar
  | NotPositive
  | NegativeValue
  | AboveMax int

definition MaxSanityInt :: int where "MaxSanityInt = 1000000000"

definition UUID :: "(string \<Rightarrow> uuid option) \<Rightarrow> string \<Rightarrow> sanitize_error + uuid" where
  "UUID parse s = (case parse (TrimSpace s) of None \<Rightarrow> Inl (InvalidUUID s) | Some u \<Rightarrow> Inr u)"

definition NonEmptyString :: "string \<Rightarrow> int \<Rightarrow> sanitize_error + string" where
  "NonEmptyString s maxLen =
     (let trimmed = TrimSpace s in
      if trimmed = [] then Inl EmptyValue
      else if maxLen < int (length trimmed) then Inl (TooLong maxLen)
      else Inr trimmed)"

text \<open>The loop over the outcomes, with the lower-case keys seen and the outcomes kept.\<close>

fun clean_outcomes :: "(string \<Rightarrow> string) \<Rightarrow> int \<Rightarrow> string list \<Rightarrow> string list \<Rightarrow> string list
    \<Rightarrow> sanitize_error + string list" where
  "clean_outcomes lower maxLen [] seen cleaned = Inr cleaned"
| "clean_outcomes lower maxLen (out # outs) seen cleaned =
     (case NonEmptyString out maxLen of
        Inl e \<Rightarrow> Inl (BadOutcome out e)
      | Inr trimmed \<Rightarrow>
          let key = ToLower lower trimmed in
          if key \<in> set seen then Inl (DuplicateOutcome trimmed)
          else clean_outcomes lower maxLen outs (key # seen) (cleaned @ [trimmed]))"

definition Outcomes :: "(string \<Rightarrow> string) \<Rightarrow> string list \<Rightarrow> int \<Rightarrow> int \<Rightarrow> int
    \<Rightarrow> sanitize_error + string list" where
  "Outcomes lower outs minCount maxCount maxLen =
     (if int (length outs) < minCount then Inl (TooFewOutcomes minCount)
      else if maxCount < int (length outs) then Inl (TooManyOutcomes maxCount)
      else clean_outcomes lower maxLen outs [] [])"

definition base58Alphabet :: string where
  "base58Alphabet = ''123456789ABCDEFGHJKLMNPQRSTUVWXYZabcdefghijkmnopqrstuvwxyz''"

definition SolanaAddress :: "string \<Rightarrow> sanitize_error + string" where
  "SolanaAddress s =
     (let trimmed = TrimSpace s in
      if length trimmed < 32 \<or> 44 < length trimmed then Inl AddressLength
      else if \<not> list_all (\<lambda>c. c \<in> set base58Alphabet) trimmed then Inl AddressChar
      else Inr trimmed)"

definition PositiveInt64 :: "int \<Rightarrow> int \<Rightarrow> sanitize_error + int" where
  "PositiveInt64 n mx = (if n \<le> 0 then Inl NotPositive else if mx < n then Inl (AboveMax mx) else Inr n)"

definition NonNegativeInt64 :: "int \<Rightarrow> int \<Rightarrow> sanitize_error + int" where
  "NonNegativeInt64 n mx = (if n < 0 then Inl NegativeValue else if mx < n then Inl (AboveMax mx) else Inr n)"


section \<open>What passes\<close>

lemma NonEmptyString_Inr: "NonEmptyString s n = Inr t \<longleftrightarrow>
    t = TrimSpace s \<and> t \<noteq> [] \<and> int (length t) \<le> n"
  by (auto simp: NonEmptyString_def Let_def)

lemma PositiveInt64_Inr: "PositiveInt64 n m = Inr x \<longleftrightarrow> x = n \<and> 0 < n \<and> n \<le> m"
  by (auto simp: PositiveInt64_def)

lemma NonNegativeInt64_Inr: "NonNegativeInt64 n m = Inr x \<longleftrightarrow> x = n \<and> 0 \<le> n \<and> n \<le> m"
  by (auto simp: NonNegativeInt64_def)

lemma UUID_Inr: "UUID parse s = Inr u \<longleftrightarrow> parse (TrimSpace s) = Some u"
  by (auto simp: UUID_def split: option.splits)

text \<open>What the outcomes that pass look like.\<close>

definition clean :: "(string \<Rightarrow> string) \<Rightarrow> int \<Rightarrow> string list \<Rightarrow> bool" where
  "clean lower maxLen outs \<longleftrightarrow> distinct (map (ToLower lower) outs) \<and>
     (\<forall>x \<in> set outs. x \<noteq> [] \<and> TrimSpace x = x \<and> int (length x) \<le> maxLen)"

lemma clean_outcomes_Inr:
  assumes "clean_outcomes lower maxLen outs seen cleaned = Inr res"
    and "clean lower maxLen cleaned" and "set seen = ToLower lower ` set cleaned"
  shows "clean lower maxLen res \<and> res = cleaned @ map TrimSpace outs"
  using assms
proof (induction outs arbitrary: seen cleaned)
  case (Cons out outs)
  obtain t where t: "NonEmptyString out maxLen = Inr t"
    using Cons.prems(1) by (auto split: sum.splits)
  have n: "ToLower lower t \<notin> set seen"
      "clean_outcomes lower maxLen outs (ToLower lower t # seen) (cleaned @ [t]) = Inr res"
    using Cons.prems(1) t by (auto simp: Let_def split: if_splits)
  have "clean lower maxLen (cleaned @ [t])"
    using Cons.prems(2,3) n(1) t by (auto simp: clean_def NonEmptyString_Inr)
  then show ?case
    using Cons.IH [OF n(2)] Cons.prems(3) t by (auto simp: NonEmptyString_Inr)
qed simp

lemma Outcomes_Inr:
  assumes "Outcomes lower outs mn mx maxLen = Inr res"
  shows "clean lower maxLen res \<and> res = map TrimSpace outs \<and> mn \<le> int (length res) \<and> int (length res) \<le> mx"
proof -
  have c: "clean_outcomes lower maxLen outs [] [] = Inr res" and l: "mn \<le> int (length outs)" "int (length outs) \<le> mx"
    using assms by (auto simp: Outcomes_def split: if_splits)
  have "clean lower maxLen []" by (simp add: clean_def)
  from clean_outcomes_Inr [OF c this] show ?thesis using l by auto
qed

text \<open>Sanitizing what passed changes nothing.\<close>

lemma clean_outcomes_id:
  assumes "clean lower maxLen (cleaned @ outs)" and "set seen = ToLower lower ` set cleaned"
  shows "clean_outcomes lower maxLen outs seen cleaned = Inr (cleaned @ outs)"
  using assms
proof (induction outs arbitrary: seen cleaned)
  case (Cons x outs)
  have x: "NonEmptyString x maxLen = Inr x" using Cons.prems(1) by (auto simp: clean_def NonEmptyString_Inr)
  have "ToLower lower x \<notin> set seen" using Cons.prems by (auto simp: clean_def)
  then show ?case
    using x Cons.IH [of "cleaned @ [x]" "ToLower lower x # seen"] Cons.prems by (auto simp: Let_def)
qed simp

lemma Outcomes_idem:
  assumes "Outcomes lower outs mn mx maxLen = Inr res"
  shows "Outcomes lower res mn mx maxLen = Inr res"
proof -
  have r: "clean lower maxLen ([] @ res)" "mn \<le> int (length res)" "int (length res) \<le> mx"
    using Outcomes_Inr [OF assms] by auto
  have "clean_outcomes lower maxLen res [] [] = Inr res" using clean_outcomes_id [OF r(1)] by simp
  then show ?thesis using r by (simp add: Outcomes_def)
qed

end
