(* ===== verification/General_Models.thy ===== *)
theory General_Models
  imports General_Sanitize Wallet_Handlers
begin

text \<open>
  The world of general-backend: its one table, the fates of its calls, and behind it the
  wallet, which holds the engine. \<open>general_lib\<close> is what is not under \<open>src\<close> or is
  set from outside: the libraries, the environment variables, the time zone, and the
  parameters of the two services it calls.
\<close>

record Account =
  Account_ID :: uuid
  Account_Email :: string
  Account_PasswordHash :: string
  Account_IsAdmin :: bool
  Account_CreatedAt :: time

record general_lib =
  uuid_Parse :: "string \<Rightarrow> uuid option"
  unicode_lower :: "string \<Rightarrow> string"
  email_ok :: "string \<Rightarrow> bool"
  bcrypt_Generate :: "nat \<Rightarrow> string \<Rightarrow> string option"
  bcrypt_Compare :: "string \<Rightarrow> string \<Rightarrow> bool"
  qr_Encode :: "string \<Rightarrow> byte list option"
  env_InitialAdmin :: string
  local_offset :: time
  bb_is_uuid :: "string \<Rightarrow> bool"
  bb_drv :: "sql_error \<Rightarrow> string"
  wb_service :: Service

record general_world =
  accounts :: "Account list"
  gdb_fates :: "fate list"
  gnet_fates :: "fate list"
  guuid_src :: "nat \<Rightarrow> uuid"
  guuid_ctr :: nat
  gclock :: time
  wallet_side :: wallet_world

abbreviation engine :: "general_world \<Rightarrow> bet_world" where
  "engine w \<equiv> bank (wallet_side w)"


section \<open>Errors\<close>

text \<open>
  What an error body of the engine says: its \<open>error\<close> field; the text of a binding error,
  which gin writes; or, with no such field, the body itself.
\<close>

datatype message = EngineText string | BindText | RawBody bet_body

datatype general_error =
    ErrUnavailable
  | ErrMarketNotFound
  | StatusError nat message
  | ErrDecode
  | ErrAccountNotFound
  | ErrEmailTaken
  | GErrSql sql_error
  | GErrHash
  | wc_ErrManualReview
  | wc_ErrInsufficientBalance
  | wc_ErrFaucetAlreadyClaimed
  | wc_ErrDepositAddressNotFound
  | wc_Unreachable
  | wc_Decode
  | wc_Status nat

type_synonym 'a general_io = "(general_world, general_error, 'a) io"

definition g_stmt :: "'a general_io \<Rightarrow> 'a general_io" where
  "g_stmt m = (\<lambda>w.
     let w' = w\<lparr>gdb_fates := tl (gdb_fates w)\<rparr>
     in case next_fate (gdb_fates w) of
          Answered \<Rightarrow> m w'
        | RequestLost \<Rightarrow> (Inl (GErrSql DriverError), w')
        | ReplyLost \<Rightarrow> (Inl (GErrSql DriverError), snd (m w')))"

definition g_query :: "(Account list \<Rightarrow> 'a) \<Rightarrow> 'a general_io" where
  "g_query f = g_stmt (\<lambda>w. (Inr (f (accounts w)), w))"

definition guuid_New :: "uuid general_io" where
  "guuid_New = (\<lambda>w. (Inr (guuid_src w (guuid_ctr w)), w\<lparr>guuid_ctr := Suc (guuid_ctr w)\<rparr>))"


section \<open>The two calls over the network\<close>

text \<open>
  One HTTP request to bet-backend or wallet-backend, answered by the handler of the model on
  the other side. A timeout is \<open>ReplyLost\<close>: the work was done and the answer is gone.
\<close>

definition to_engine :: "bet_handler \<Rightarrow> bet_response general_io" where
  "to_engine h = (\<lambda>w.
     let w1 = w\<lparr>gnet_fates := tl (gnet_fates w)\<rparr>
     in case next_fate (gnet_fates w) of
          RequestLost \<Rightarrow> (Inl ErrUnavailable, w1)
        | f \<Rightarrow> (case h (engine w) of (r, b) \<Rightarrow>
            (if f = ReplyLost then Inl ErrUnavailable else Inr r,
             w1\<lparr>wallet_side := (wallet_side w)\<lparr>bank := b\<rparr>\<rparr>)))"

definition to_wallet :: "wallet_handler \<Rightarrow> wallet_response general_io" where
  "to_wallet h = (\<lambda>w.
     let w1 = w\<lparr>gnet_fates := tl (gnet_fates w)\<rparr>
     in case next_fate (gnet_fates w) of
          RequestLost \<Rightarrow> (Inl wc_Unreachable, w1)
        | f \<Rightarrow> (case h (wallet_side w) of (r, b) \<Rightarrow>
            (if f = ReplyLost then Inl wc_Unreachable else Inr r, w1\<lparr>wallet_side := b\<rparr>)))"

end
