(* ===== verification/General_Store.thy ===== *)
theory General_Store
  imports General_Models
begin

text \<open>
  \<open>general-backend/store/accounts.go\<close> over the table of \<open>store/db.go\<close>, and
  \<open>general-backend/auth/password.go\<close>. \<open>bcrypt\<close> draws a salt: the argument of
  \<open>bcrypt_Generate\<close> is the number of uuids drawn so far, so that each call may have its own.
\<close>

definition HashPassword :: "general_lib \<Rightarrow> string \<Rightarrow> string general_io" where
  "HashPassword E plain = (\<lambda>w. (case bcrypt_Generate E (guuid_ctr w) plain of
     None \<Rightarrow> Inl GErrHash | Some h \<Rightarrow> Inr h, w))"

definition CheckPassword :: "general_lib \<Rightarrow> string \<Rightarrow> string \<Rightarrow> bool" where
  "CheckPassword E hash plain = bcrypt_Compare E hash plain"

text \<open>\<open>strings.ToLower(strings.TrimSpace(email))\<close>.\<close>

definition normal_email :: "general_lib \<Rightarrow> string \<Rightarrow> string" where
  "normal_email E email = ToLower (unicode_lower E) (TrimSpace email)"

definition insert_account :: "Account \<Rightarrow> unit general_io" where
  "insert_account a = (\<lambda>w.
     if list_ex (\<lambda>r. Account_ID r = Account_ID a \<or> Account_Email r = Account_Email a) (accounts w)
     then (Inl (GErrSql UniqueViolation), w)
     else (Inr (), w\<lparr>accounts := accounts w @ [a]\<rparr>))"

definition isUniqueViolation :: "general_error \<Rightarrow> bool" where
  "isUniqueViolation e \<longleftrightarrow> e = GErrSql UniqueViolation"

definition new_account :: "general_lib \<Rightarrow> uuid \<Rightarrow> string \<Rightarrow> string \<Rightarrow> time \<Rightarrow> Account" where
  "new_account E i email passwordHash now =
     (let email' = normal_email E email; initialAdminEmail = normal_email E (env_InitialAdmin E)
      in \<lparr>Account_ID = i, Account_Email = email', Account_PasswordHash = passwordHash,
          Account_IsAdmin = (initialAdminEmail \<noteq> [] \<and> email' = initialAdminEmail),
          Account_CreatedAt = now\<rparr>)"

definition CreateAccount :: "general_lib \<Rightarrow> uuid \<Rightarrow> string \<Rightarrow> string \<Rightarrow> Account general_io" where
  "CreateAccount E i email passwordHash = (\<lambda>w.
     let a = new_account E i email passwordHash (gclock w) in
     on_error (seqE (g_stmt (insert_account a)) (ret a))
       (\<lambda>e. throw (if isUniqueViolation e then ErrEmailTaken else e)) w)"

definition one_account :: "Account option general_io \<Rightarrow> Account general_io" where
  "one_account m = bindE m (\<lambda>r. case r of None \<Rightarrow> throw ErrAccountNotFound | Some a \<Rightarrow> ret a)"

definition FindAccountByEmail :: "general_lib \<Rightarrow> string \<Rightarrow> Account general_io" where
  "FindAccountByEmail E email =
     one_account (g_query (find (\<lambda>a. Account_Email a = normal_email E email)))"

definition FindAccountByID :: "uuid \<Rightarrow> Account general_io" where
  "FindAccountByID i = one_account (g_query (find (\<lambda>a. Account_ID a = i)))"

definition update_admin :: "string \<Rightarrow> nat general_io" where
  "update_admin email = (\<lambda>w.
     (Inr (length (filter (\<lambda>a. Account_Email a = email) (accounts w))),
      w\<lparr>accounts := upd_rows (\<lambda>a. Account_Email a = email) (\<lambda>a. a\<lparr>Account_IsAdmin := True\<rparr>) (accounts w)\<rparr>))"

definition PromoteToAdmin :: "general_lib \<Rightarrow> string \<Rightarrow> unit general_io" where
  "PromoteToAdmin E email =
     bindE (g_stmt (update_admin (normal_email E email))) (\<lambda>n.
     if n = 0 then throw ErrAccountNotFound else ret ())"

definition ListAccounts :: "Account list general_io" where
  "ListAccounts = g_query (sort_key Account_CreatedAt)"

text \<open>\<open>runMigrations\<close> leaves an empty table.\<close>

definition general_runMigrations :: "Account list" where
  "general_runMigrations = []"

end
