(* ===== verification/General_Clients.thy ===== *)
theory General_Clients
  imports General_Models
begin

text \<open>
  The two HTTP clients of general-backend: \<open>betclient\<close> over the handlers of
  \<open>Bet_Handlers\<close>, \<open>walletclient\<close> over those of \<open>Wallet_Handlers\<close>. JSON
  carries a body from one side to the other unchanged, up to the fields the receiving struct
  has; a path parameter is the id put into the path.
\<close>

section \<open>The structs of \<open>types.go\<close>\<close>

record C_MarketDetails =
  CM_ID :: string
  CM_Question :: string
  CM_Outcomes :: "string list"
  CM_Status :: string
  CM_Seed :: int
  CM_WinningOutcome :: "string option"
  CM_Pools :: "(string \<times> int) list"
  CM_TotalPool :: int
  CM_LiveOdds :: "(string \<times> float64) list"
  CM_CreatedAt :: time

record C_Bet =
  CB_ID :: string
  CB_MarketID :: string
  CB_UserID :: string
  CB_Outcome :: string
  CB_Stake :: int
  CB_CreatedAt :: time

record C_CreateMarketResponse =
  CC_ID :: string
  CC_Question :: string
  CC_Outcomes :: "string list"
  CC_Status :: string
  CC_Seed :: int

record C_SyncUserResponse =
  CS_UserID :: string
  CS_Balance :: int

record C_User =
  CU_ID :: string
  CU_Balance :: int
  CU_CreatedAt :: time

record C_ListingDetails =
  CL_ID :: string
  CL_BetID :: string
  CL_MarketID :: string
  CL_SellerID :: string
  CL_BuyerID :: "string option"
  CL_AskingPrice :: int
  CL_Status :: string
  CL_CreatedAt :: time
  CL_SoldAt :: "time option"
  CL_CancelledAt :: "time option"
  CL_Outcome :: string
  CL_Stake :: int

definition to_details :: "MarketDetails \<Rightarrow> C_MarketDetails" where
  "to_details m = \<lparr>CM_ID = MD_ID m, CM_Question = MD_Question m, CM_Outcomes = MD_Outcomes m,
     CM_Status = MarketStatus_text (MD_Status m), CM_Seed = MD_Seed m,
     CM_WinningOutcome = MD_WinningOutcome m, CM_Pools = MD_Pools m, CM_TotalPool = MD_TotalPool m,
     CM_LiveOdds = MD_LiveOdds m, CM_CreatedAt = MD_CreatedAt m\<rparr>"

definition to_bet :: "Bet \<Rightarrow> C_Bet" where
  "to_bet b = \<lparr>CB_ID = Bet_ID b, CB_MarketID = Bet_MarketID b, CB_UserID = Bet_UserID b,
     CB_Outcome = Bet_Outcome b, CB_Stake = Bet_Stake b, CB_CreatedAt = Bet_CreatedAt b\<rparr>"

definition to_created :: "Market \<Rightarrow> C_CreateMarketResponse" where
  "to_created m = \<lparr>CC_ID = Market_ID m, CC_Question = Market_Question m,
     CC_Outcomes = Market_Outcomes m, CC_Status = MarketStatus_text (Market_Status m),
     CC_Seed = Market_Seed m\<rparr>"

definition to_user :: "User \<Rightarrow> C_User" where
  "to_user u = \<lparr>CU_ID = User_ID u, CU_Balance = User_Balance u, CU_CreatedAt = User_CreatedAt u\<rparr>"

definition to_listing :: "BetListingDetails \<Rightarrow> C_ListingDetails" where
  "to_listing l = \<lparr>CL_ID = Listing_ID l, CL_BetID = Listing_BetID l, CL_MarketID = Listing_MarketID l,
     CL_SellerID = Listing_SellerID l, CL_BuyerID = Listing_BuyerID l,
     CL_AskingPrice = Listing_AskingPrice l, CL_Status = BetListingStatus_text (Listing_Status l),
     CL_CreatedAt = Listing_CreatedAt l, CL_SoldAt = Listing_SoldAt l,
     CL_CancelledAt = Listing_CancelledAt l, CL_Outcome = Details_Outcome l, CL_Stake = Details_Stake l\<rparr>"


section \<open>The raw calls (\<open>client.go\<close>)\<close>

definition bc_SyncUser :: "general_lib \<Rightarrow> string \<Rightarrow> int \<Rightarrow> bet_response general_io" where
  "bc_SyncUser E i balance =
     to_engine (Bet_Handlers.SyncUser (bb_is_uuid E) (bb_drv E) (Some \<lparr>Sync_ID = i, Sync_Balance = balance\<rparr>))"

definition bc_GetUserRaw :: "general_lib \<Rightarrow> string \<Rightarrow> bet_response general_io" where
  "bc_GetUserRaw E i = to_engine (GetUser_handler (bb_drv E) i)"

definition bc_CreateMarket :: "general_lib \<Rightarrow> string \<Rightarrow> string list \<Rightarrow> int \<Rightarrow> bet_response general_io" where
  "bc_CreateMarket E question outcomes seed = to_engine (CreateMarket_handler (bb_drv E)
     (Some \<lparr>Create_Question = question, Create_Outcomes = outcomes, Create_Seed = seed\<rparr>))"

definition bc_GetMarket :: "general_lib \<Rightarrow> string \<Rightarrow> bet_response general_io" where
  "bc_GetMarket E marketID = to_engine (Bet_Handlers.GetMarket (bb_drv E) marketID)"

definition bc_ListMarketsRaw :: "general_lib \<Rightarrow> bet_response general_io" where
  "bc_ListMarketsRaw E = to_engine (ListMarkets_handler (bb_drv E))"

definition bc_ListMarketBetsRaw :: "general_lib \<Rightarrow> string \<Rightarrow> bet_response general_io" where
  "bc_ListMarketBetsRaw E marketID = to_engine (ListMarketBets_handler (bb_drv E) marketID)"

definition bc_ListUserBetsRaw :: "general_lib \<Rightarrow> string \<Rightarrow> bet_response general_io" where
  "bc_ListUserBetsRaw E userID = to_engine (ListUserBets_handler (bb_drv E) userID)"

definition bc_PlaceBet ::
    "general_lib \<Rightarrow> string \<Rightarrow> string \<Rightarrow> string \<Rightarrow> int \<Rightarrow> bet_response general_io" where
  "bc_PlaceBet E marketID userID outcome stake = to_engine (PlaceBet_handler (bb_is_uuid E) (bb_drv E) marketID
     (Some \<lparr>Place_UserID = userID, Place_Outcome = outcome, Place_Stake = stake\<rparr>))"

definition bc_LockMarket :: "general_lib \<Rightarrow> string \<Rightarrow> bet_response general_io" where
  "bc_LockMarket E marketID = to_engine (LockMarket_handler (bb_drv E) marketID)"

definition bc_ResolveMarket :: "general_lib \<Rightarrow> string \<Rightarrow> string \<Rightarrow> bet_response general_io" where
  "bc_ResolveMarket E marketID winner = to_engine (ResolveMarket_handler (bb_drv E) marketID (Some winner))"

definition bc_CancelMarket :: "general_lib \<Rightarrow> string \<Rightarrow> bet_response general_io" where
  "bc_CancelMarket E marketID = to_engine (CancelMarket_handler (bb_drv E) marketID)"

definition bc_ListBetForSale :: "general_lib \<Rightarrow> string \<Rightarrow> string \<Rightarrow> int \<Rightarrow> bet_response general_io" where
  "bc_ListBetForSale E betID sellerID askingPrice =
     to_engine (CreateListing (bb_is_uuid E) (bb_drv E) betID (Some (sellerID, askingPrice)))"

definition bc_CancelListing :: "general_lib \<Rightarrow> string \<Rightarrow> string \<Rightarrow> bet_response general_io" where
  "bc_CancelListing E listingID sellerID =
     to_engine (CancelListing_handler (bb_is_uuid E) (bb_drv E) listingID (Some sellerID))"

definition bc_BuyListing :: "general_lib \<Rightarrow> string \<Rightarrow> string \<Rightarrow> bet_response general_io" where
  "bc_BuyListing E listingID buyerID =
     to_engine (Bet_Handlers.BuyListing (bb_is_uuid E) (bb_drv E) listingID (Some buyerID))"

definition bc_ListMarketListingsRaw :: "general_lib \<Rightarrow> string \<Rightarrow> bet_response general_io" where
  "bc_ListMarketListingsRaw E marketID = to_engine (Bet_Handlers.ListMarketListings (bb_drv E) marketID)"

definition bc_ListUserListingsRaw :: "general_lib \<Rightarrow> string \<Rightarrow> bet_response general_io" where
  "bc_ListUserListingsRaw E userID = to_engine (Bet_Handlers.ListUserListings (bb_drv E) userID)"


section \<open>The typed calls (\<open>types.go\<close>)\<close>

fun body_message :: "bet_body \<Rightarrow> message" where
  "body_message (BError s) = (if s \<noteq> [] then EngineText s else RawBody (BError s))"
| "body_message BBind = BindText"
| "body_message b = RawBody b"

definition decodeErr :: "bet_response \<Rightarrow> general_error" where
  "decodeErr resp = (if fst resp = 404 then ErrMarketNotFound
                     else StatusError (fst resp) (body_message (snd resp)))"

text \<open>The shape of every typed call: the one good status, then the decoding.\<close>

definition decoded ::
    "nat \<Rightarrow> (bet_body \<Rightarrow> 'a option) \<Rightarrow> bet_response general_io \<Rightarrow> 'a general_io" where
  "decoded code decode m = bindE m (\<lambda>resp.
     if fst resp \<noteq> code then throw (decodeErr resp)
     else case decode (snd resp) of None \<Rightarrow> throw ErrDecode | Some x \<Rightarrow> ret x)"

fun as_details :: "bet_body \<Rightarrow> C_MarketDetails option" where
  "as_details (BDetails d) = Some (to_details d)"
| "as_details b = None"

fun as_markets :: "bet_body \<Rightarrow> C_MarketDetails list option" where
  "as_markets (BMarkets ms) = Some (map to_details ms)"
| "as_markets b = None"

fun as_bets :: "bet_body \<Rightarrow> C_Bet list option" where
  "as_bets (BBets bs) = Some (map to_bet bs)"
| "as_bets b = None"

fun as_bet :: "bet_body \<Rightarrow> C_Bet option" where
  "as_bet (BBet b) = Some (to_bet b)"
| "as_bet b = None"

fun as_created :: "bet_body \<Rightarrow> C_CreateMarketResponse option" where
  "as_created (BMarket m) = Some (to_created m)"
| "as_created b = None"

fun as_synced :: "bet_body \<Rightarrow> C_SyncUserResponse option" where
  "as_synced (BSynced u b) = Some \<lparr>CS_UserID = u, CS_Balance = b\<rparr>"
| "as_synced b = None"

fun as_user :: "bet_body \<Rightarrow> C_User option" where
  "as_user (BUser u) = Some (to_user u)"
| "as_user b = None"

fun as_listing :: "bet_body \<Rightarrow> C_ListingDetails option" where
  "as_listing (BListing l) = Some (to_listing l)"
| "as_listing b = None"

fun as_listings :: "bet_body \<Rightarrow> C_ListingDetails list option" where
  "as_listings (BListings ls) = Some (map to_listing ls)"
| "as_listings b = None"

definition bc_GetMarketDetails :: "general_lib \<Rightarrow> string \<Rightarrow> C_MarketDetails general_io" where
  "bc_GetMarketDetails E marketID = decoded 200 as_details (bc_GetMarket E marketID)"

definition bc_ListMarkets :: "general_lib \<Rightarrow> C_MarketDetails list general_io" where
  "bc_ListMarkets E = decoded 200 as_markets (bc_ListMarketsRaw E)"

definition bc_ListMarketBets :: "general_lib \<Rightarrow> string \<Rightarrow> C_Bet list general_io" where
  "bc_ListMarketBets E marketID = decoded 200 as_bets (bc_ListMarketBetsRaw E marketID)"

definition bc_ListUserBets :: "general_lib \<Rightarrow> string \<Rightarrow> C_Bet list general_io" where
  "bc_ListUserBets E userID = decoded 200 as_bets (bc_ListUserBetsRaw E userID)"

definition bc_CreateMarketTyped ::
    "general_lib \<Rightarrow> string \<Rightarrow> string list \<Rightarrow> int \<Rightarrow> C_CreateMarketResponse general_io" where
  "bc_CreateMarketTyped E question outcomes seed =
     decoded 201 as_created (bc_CreateMarket E question outcomes seed)"

definition bc_SyncUserTyped :: "general_lib \<Rightarrow> string \<Rightarrow> int \<Rightarrow> C_SyncUserResponse general_io" where
  "bc_SyncUserTyped E i balance = decoded 200 as_synced (bc_SyncUser E i balance)"

definition bc_GetUser :: "general_lib \<Rightarrow> string \<Rightarrow> C_User general_io" where
  "bc_GetUser E i = decoded 200 as_user (bc_GetUserRaw E i)"

definition bc_PlaceBetTyped :: "general_lib \<Rightarrow> string \<Rightarrow> string \<Rightarrow> string \<Rightarrow> int \<Rightarrow> C_Bet general_io" where
  "bc_PlaceBetTyped E marketID userID outcome stake =
     decoded 201 as_bet (bc_PlaceBet E marketID userID outcome stake)"

definition bc_ListBetForSaleTyped ::
    "general_lib \<Rightarrow> string \<Rightarrow> string \<Rightarrow> int \<Rightarrow> C_ListingDetails general_io" where
  "bc_ListBetForSaleTyped E betID sellerID askingPrice =
     decoded 201 as_listing (bc_ListBetForSale E betID sellerID askingPrice)"

definition bc_CancelListingTyped :: "general_lib \<Rightarrow> string \<Rightarrow> string \<Rightarrow> unit general_io" where
  "bc_CancelListingTyped E listingID sellerID =
     decoded 200 (\<lambda>_. Some ()) (bc_CancelListing E listingID sellerID)"

definition bc_BuyListingTyped :: "general_lib \<Rightarrow> string \<Rightarrow> string \<Rightarrow> C_ListingDetails general_io" where
  "bc_BuyListingTyped E listingID buyerID = decoded 200 as_listing (bc_BuyListing E listingID buyerID)"

definition bc_ListMarketListings :: "general_lib \<Rightarrow> string \<Rightarrow> C_ListingDetails list general_io" where
  "bc_ListMarketListings E marketID = decoded 200 as_listings (bc_ListMarketListingsRaw E marketID)"

definition bc_ListUserListings :: "general_lib \<Rightarrow> string \<Rightarrow> C_ListingDetails list general_io" where
  "bc_ListUserListings E userID = decoded 200 as_listings (bc_ListUserListingsRaw E userID)"


section \<open>\<open>walletclient/client.go\<close>\<close>

record C_DepositAddress =
  CD_AccountID :: string
  CD_Address :: string
  CD_USDCATA :: string

record C_Deposit =
  CE_Signature :: string
  CE_Asset :: string
  CE_RawAmount :: int
  CE_CreditedUSDC :: int
  CE_CreditedReais :: int
  CE_Status :: string

record C_Withdrawal =
  CW_ID :: string
  CW_DestAddress :: string
  CW_AmountReais :: int
  CW_AmountUSDC :: int
  CW_Status :: string
  CW_Signature :: "string option"

fun DepositStatus_text :: "DepositStatus \<Rightarrow> string" where
  "DepositStatus_text DepositDetected = ''DETECTED''"
| "DepositStatus_text DepositSwapping = ''SWAPPING''"
| "DepositStatus_text DepositCredited = ''CREDITED''"
| "DepositStatus_text DepositFailed = ''FAILED''"

fun WithdrawalStatus_text :: "WithdrawalStatus \<Rightarrow> string" where
  "WithdrawalStatus_text WithdrawalRequested = ''REQUESTED''"
| "WithdrawalStatus_text WithdrawalSigning = ''SIGNING''"
| "WithdrawalStatus_text WithdrawalSent = ''SENT''"
| "WithdrawalStatus_text WithdrawalConfirmed = ''CONFIRMED''"
| "WithdrawalStatus_text WithdrawalFailed = ''FAILED''"

definition to_deposit :: "Deposit \<Rightarrow> C_Deposit" where
  "to_deposit d = \<lparr>CE_Signature = Deposit_Signature d, CE_Asset = Deposit_Asset d,
     CE_RawAmount = Deposit_RawAmount d, CE_CreditedUSDC = Deposit_CreditedUSDC d,
     CE_CreditedReais = Deposit_CreditedReais d, CE_Status = DepositStatus_text (Deposit_Status d)\<rparr>"

definition to_withdrawal :: "Withdrawal \<Rightarrow> C_Withdrawal" where
  "to_withdrawal r = \<lparr>CW_ID = Withdrawal_ID r, CW_DestAddress = Withdrawal_DestAddress r,
     CW_AmountReais = Withdrawal_AmountReais r, CW_AmountUSDC = Withdrawal_AmountUSDC r,
     CW_Status = WithdrawalStatus_text (Withdrawal_Status r), CW_Signature = Withdrawal_Signature r\<rparr>"

text \<open>\<open>doStatus\<close>: a 2xx body is decoded, any other is dropped.\<close>

definition doStatus :: "(wallet_body \<Rightarrow> 'a option) \<Rightarrow> wallet_handler \<Rightarrow> (nat \<times> 'a option) general_io" where
  "doStatus decode h = bindE (to_wallet h) (\<lambda>(code, body).
     if 200 \<le> code \<and> code < 300 then
       (case decode body of None \<Rightarrow> throw wc_Decode | Some x \<Rightarrow> ret (code, Some x))
     else ret (code, None))"

definition wc_do :: "(wallet_body \<Rightarrow> 'a option) \<Rightarrow> wallet_handler \<Rightarrow> 'a general_io" where
  "wc_do decode h = bindE (doStatus decode h) (\<lambda>(code, out). case out of
     None \<Rightarrow> throw (wc_Status code) | Some x \<Rightarrow> ret x)"

fun as_address :: "wallet_body \<Rightarrow> C_DepositAddress option" where
  "as_address (WAddressView a addr ata) = Some \<lparr>CD_AccountID = a, CD_Address = addr, CD_USDCATA = ata\<rparr>"
| "as_address b = None"

fun as_signature :: "wallet_body \<Rightarrow> string option" where
  "as_signature (WSignature s) = Some s"
| "as_signature b = None"

fun as_withdrawal :: "wallet_body \<Rightarrow> C_Withdrawal option" where
  "as_withdrawal (WWithdrawalView i st reais usdc sig) = Some \<lparr>CW_ID = i, CW_DestAddress = [],
     CW_AmountReais = reais, CW_AmountUSDC = usdc, CW_Status = WithdrawalStatus_text st, CW_Signature = sig\<rparr>"
| "as_withdrawal b = None"

fun as_deposits :: "wallet_body \<Rightarrow> C_Deposit list option" where
  "as_deposits (WDeposits ds) = Some (map to_deposit ds)"
| "as_deposits b = None"

fun as_withdrawals :: "wallet_body \<Rightarrow> C_Withdrawal list option" where
  "as_withdrawals (WWithdrawals ws) = Some (map to_withdrawal ws)"
| "as_withdrawals b = None"

definition wc_ProvisionAccount :: "general_lib \<Rightarrow> string \<Rightarrow> C_DepositAddress general_io" where
  "wc_ProvisionAccount E accountID = wc_do as_address (provision (wb_service E) accountID)"

definition wc_LookupDepositAddress :: "string \<Rightarrow> C_DepositAddress general_io" where
  "wc_LookupDepositAddress accountID =
     bindE (doStatus as_address (getAddress accountID)) (\<lambda>(code, out). case (code = 200, out) of
       (True, Some x) \<Rightarrow> ret x
     | _ \<Rightarrow> throw (if code = 404 then wc_ErrDepositAddressNotFound else wc_Status code))"

definition wc_Faucet :: "general_lib \<Rightarrow> string \<Rightarrow> string general_io" where
  "wc_Faucet E accountID =
     bindE (doStatus as_signature (faucet (wb_service E) accountID)) (\<lambda>(code, out). case (code = 200, out) of
       (True, Some x) \<Rightarrow> ret x
     | _ \<Rightarrow> throw (if code = 409 then wc_ErrFaucetAlreadyClaimed else wc_Status code))"

definition wc_RequestWithdrawal :: "general_lib \<Rightarrow> string \<Rightarrow> string \<Rightarrow> int \<Rightarrow> C_Withdrawal general_io" where
  "wc_RequestWithdrawal E accountID dest amountReais =
     bindE (doStatus as_withdrawal (withdraw (wb_service E) accountID
              (Some \<lparr>Withdraw_DestAddress = dest, Withdraw_AmountReais = amountReais\<rparr>))) (\<lambda>(code, out).
     case (code = 200, out) of
       (True, Some x) \<Rightarrow> ret x
     | _ \<Rightarrow> throw (if code = 202 then wc_ErrManualReview
                 else if code = 402 then wc_ErrInsufficientBalance else wc_Status code))"

definition wc_ListDeposits :: "string \<Rightarrow> C_Deposit list general_io" where
  "wc_ListDeposits accountID = wc_do as_deposits (listDeposits accountID)"

definition wc_ListWithdrawals :: "string \<Rightarrow> C_Withdrawal list general_io" where
  "wc_ListWithdrawals accountID = wc_do as_withdrawals (listWithdrawals accountID)"

end
