(* ===== verification/General_Views.thy ===== *)
theory General_Views
  imports General_Clients
begin

text \<open>
  \<open>views/viewmodels.go\<close> and \<open>handlers/viewbuild.go\<close>: what the pages are given. The
  HTML made of it is in \<open>General_Templates\<close>. \<open>None\<close> is the panic of an index
  out of range, which gin answers with status 500.
\<close>

section \<open>View models\<close>

record NavVM =
  Nav_LoggedIn :: bool
  Nav_IsAdmin :: bool
  Nav_BalanceRs :: string

record MarketCardVM =
  Card_ID :: string
  Card_Question :: string
  Card_SimPct :: int
  Card_NaoPct :: int
  Card_VolumeLabel :: string
  Card_BettorCount :: int
  Card_IsLive :: bool
  Card_LowLiquidity :: bool

record ActivityItemVM =
  Item_MaskedLabel :: string
  Item_Outcome :: string
  Item_IsSim :: bool
  Item_StakeLabel :: string
  Item_RelativeTime :: string

record ListingItemVM =
  Sale_ListingID :: string
  Sale_BetID :: string
  Sale_Outcome :: string
  Sale_IsSim :: bool
  Sale_StakeLabel :: string
  Sale_AskingPriceLabel :: string
  Sale_SellerMaskedLabel :: string
  Sale_IsMine :: bool
  Sale_CreatedAtLabel :: string

record MarketDetailVM =
  Page_ID :: string
  Page_Question :: string
  Page_Status :: string
  Page_IsLive :: bool
  Page_CreatedAtLabel :: string
  Page_Bettors :: int
  Page_VolumeLabel :: string
  Page_SimPct :: int
  Page_NaoPct :: int
  Page_SimPriceLabel :: string
  Page_NaoPriceLabel :: string
  Page_LowLiquidity :: bool
  Page_SparklinePoly :: string
  Page_Activity :: "ActivityItemVM list"
  Page_CanBet :: bool
  Page_ForSale :: "ListingItemVM list"

record BetHistoryItemVM =
  Hist_BetID :: string
  Hist_MarketID :: string
  Hist_MarketQuestion :: string
  Hist_MarketStatus :: string
  Hist_Outcome :: string
  Hist_StakeLabel :: string
  Hist_CreatedAtLabel :: string
  Hist_IsListed :: bool
  Hist_ListingID :: string
  Hist_AskingPriceLabel :: string

record CryptoDepositVM =
  DepVM_Asset :: string
  DepVM_Short :: string
  DepVM_StatusLabel :: string
  DepVM_AmountLabel :: string

record CryptoWithdrawalVM =
  WdVM_Dest :: string
  WdVM_Short :: string
  WdVM_StatusLabel :: string
  WdVM_AmountLabel :: string

record ProfileVM =
  Prof_Email :: string
  Prof_BalanceRs :: string
  Prof_Bets :: "BetHistoryItemVM list"
  Prof_CryptoMode :: bool
  Prof_DepositAddress :: string
  Prof_DepositQR :: string
  Prof_NeedsDepositAddress :: bool
  Prof_DepositError :: string
  Prof_Deposits :: "CryptoDepositVM list"
  Prof_Withdrawals :: "CryptoWithdrawalVM list"

record AdminMarketRowVM =
  Row_ID :: string
  Row_Question :: string
  Row_Status :: string
  Row_VolumeLabel :: string

record AdminUserRowVM =
  Usr_ID :: string
  Usr_Email :: string
  Usr_IsAdmin :: bool
  Usr_CreatedAtLabel :: string


section \<open>Labels\<close>

text \<open>The loop over the bytes: a dot before each group of three counted from the right.\<close>

fun dotted :: "nat \<Rightarrow> nat \<Rightarrow> string \<Rightarrow> string" where
  "dotted i n [] = []"
| "dotted i n (c # cs) = (if 0 < i \<and> (n - i) mod 3 = 0 then ''.'' else []) @ c # dotted (Suc i) n cs"

definition FormatMoney :: "int \<Rightarrow> string" where
  "FormatMoney v =
     (let neg = v < 0; v' = (if neg then i64 (- v) else v); s = int_text v'
      in (if neg then ''-'' else []) @ ''R$ '' @ dotted 0 (length s) s @ '',00'')"

text \<open>\<open>string(b)\<close> of a byte is the UTF-8 text of that code point.\<close>

definition byte_rune :: "char \<Rightarrow> string" where
  "byte_rune c = (let k = of_char c :: nat in
     if k < 128 then [c] else utf8 [0xC0 + k div 64, 0x80 + k mod 64])"

definition MaskEmail :: "string \<Rightarrow> string option" where
  "MaskEmail email =
     (let loc = takeWhile (\<lambda>c. c \<noteq> CHR ''@'') email in
      if loc = [] then None
      else Some (byte_rune (hd loc) @ ''***'' @
                 (if length loc \<le> 3 then [] else drop (length loc - 2) loc)))"

text \<open>The float division by hours and days is the integer one for spans below a century.\<close>

definition RelativeTimePT :: "time \<Rightarrow> time \<Rightarrow> string" where
  "RelativeTimePT now t =
     (let d = now - t; ha = ''h'' @ utf8 [0xC3, 0xA1] @ '' '' in
      if d < 60000000 then ''agora''
      else if d < 3600000000 then ha @ int_text (d div 60000000) @ '' min''
      else if d < day_micros then ha @ int_text (d div 3600000000) @ ''h''
      else ha @ int_text (d div day_micros) @ ''d'')"

definition centsPriceLabel :: "int \<Rightarrow> string" where
  "centsPriceLabel p = ''R$ 0,'' @ two_digits p"


section \<open>Derived figures\<close>

definition lowLiquidityThreshold :: int where "lowLiquidityThreshold = 500"

definition houseUserID :: string where
  "houseUserID = ''00000000-0000-0000-0000-000000000000''"

definition hasRealBets :: "C_MarketDetails \<Rightarrow> bool" where
  "hasRealBets m \<longleftrightarrow> i64 (CM_Seed m * int (length (CM_Outcomes m))) < CM_TotalPool m"

definition pct :: "int \<Rightarrow> int \<Rightarrow> int" where
  "pct part tot = (if tot \<le> 0 then 0 else go_div (i64 (part * 100)) tot)"

definition pool_at :: "C_MarketDetails \<Rightarrow> string \<Rightarrow> int" where
  "pool_at m out = (case map_of (CM_Pools m) out of None \<Rightarrow> 0 | Some t \<Rightarrow> t)"

definition bettorCount :: "C_Bet list \<Rightarrow> int" where
  "bettorCount bs = int (card (CB_UserID ` set bs - {houseUserID}))"

definition buildMarketCardVM :: "C_MarketDetails \<Rightarrow> MarketCardVM" where
  "buildMarketCardVM m = (let simPct = pct (pool_at m ''SIM'') (CM_TotalPool m) in
     \<lparr>Card_ID = CM_ID m, Card_Question = CM_Question m, Card_SimPct = simPct, Card_NaoPct = 100 - simPct,
      Card_VolumeLabel = FormatMoney (CM_TotalPool m), Card_BettorCount = 0,
      Card_IsLive = (CM_Status m = ''OPEN'' \<and> hasRealBets m),
      Card_LowLiquidity = (CM_TotalPool m < lowLiquidityThreshold)\<rparr>)"


section \<open>The sparkline\<close>

text \<open>\<open>%.1f\<close>: the exact binary value rounded to one decimal, ties to even.\<close>

definition format1 :: "float64 \<Rightarrow> string" where
  "format1 x = (let n = round_half_even (\<bar>x\<bar> * 10) in
     (if x < 0 then ''-'' else []) @ int_text (n div 10) @ ''.'' @ int_text (n mod 10))"

definition f64_mul :: "float64 \<Rightarrow> float64 \<Rightarrow> float64" where
  "f64_mul a b = f64_round (a * b)"

definition height_of :: "float64 \<Rightarrow> float64" where
  "height_of p = f64_round (70 - f64_mul p (f64_round (7 / 10)))"

text \<open>The first loop: the share of SIM after each bet.\<close>

fun spark_shares :: "int \<Rightarrow> int \<Rightarrow> C_Bet list \<Rightarrow> float64 list" where
  "spark_shares sim nao [] = []"
| "spark_shares sim nao (b # bs) =
     (let sim' = (if CB_Outcome b = ''SIM'' then i64 (sim + CB_Stake b) else sim);
          nao' = (if CB_Outcome b = ''SIM'' then nao else i64 (nao + CB_Stake b));
          tot = i64 (sim' + nao');
          p = (if 0 < tot then f64_mul (f64_div (f64_of_int sim') (f64_of_int tot)) 100 else 50)
      in p # spark_shares sim' nao' bs)"

text \<open>The second: the points, with a space before each but the first.\<close>

fun spark_points :: "float64 \<Rightarrow> int \<Rightarrow> float64 list \<Rightarrow> string" where
  "spark_points step i [] = []"
| "spark_points step i (p # ps) =
     (if 0 < i then '' '' else []) @ format1 (f64_mul (f64_of_int i) step) @ '','' @
     format1 (height_of p) @ spark_points step (i + 1) ps"

definition buildSparklinePoly :: "C_MarketDetails \<Rightarrow> C_Bet list \<Rightarrow> string" where
  "buildSparklinePoly m bs =
     (let points = spark_shares 0 0 bs in
      if points = [] then
        let y = format1 (height_of (f64_of_int (pct (pool_at m ''SIM'') (CM_TotalPool m))))
        in ''0,'' @ y @ '' 500,'' @ y
      else
        let step = (if 1 < length points then f64_div 500 (f64_of_int (int (length points) - 1)) else 500)
        in spark_points step 0 points)"


section \<open>Lists of the market page\<close>

fun all_some :: "'a option list \<Rightarrow> 'a list option" where
  "all_some [] = Some []"
| "all_some (x # xs) = (case (x, all_some xs) of (Some a, Some as) \<Rightarrow> Some (a # as) | _ \<Rightarrow> None)"

text \<open>\<open>accountsByID\<close> is a map from account ids.\<close>

type_synonym account_map = "uuid \<Rightarrow> Account option"

definition label_of :: "account_map \<Rightarrow> uuid \<Rightarrow> string option" where
  "label_of accs u = (case accs u of
     None \<Rightarrow> Some (''algu'' @ utf8 [0xC3, 0xA9] @ ''m'') | Some a \<Rightarrow> MaskEmail (Account_Email a))"

definition activity_item :: "time \<Rightarrow> account_map \<Rightarrow> C_Bet \<Rightarrow> ActivityItemVM option" where
  "activity_item now accs b = map_option (\<lambda>label.
     \<lparr>Item_MaskedLabel = label, Item_Outcome = CB_Outcome b, Item_IsSim = (CB_Outcome b = ''SIM''),
      Item_StakeLabel = FormatMoney (CB_Stake b), Item_RelativeTime = RelativeTimePT now (CB_CreatedAt b)\<rparr>)
     (label_of accs (CB_UserID b))"

text \<open>\<open>sort.Slice\<close> leaves the order of bets of one time open; here it is the given order.\<close>

definition buildActivityFeed :: "time \<Rightarrow> C_Bet list \<Rightarrow> account_map \<Rightarrow> nat \<Rightarrow> ActivityItemVM list option" where
  "buildActivityFeed now bs accs limit =
     all_some (map (activity_item now accs)
       (take limit (sort_key (\<lambda>b. - CB_CreatedAt b) (filter (\<lambda>b. CB_UserID b \<noteq> houseUserID) bs))))"

definition sale_item :: "time \<Rightarrow> account_map \<Rightarrow> string \<Rightarrow> C_ListingDetails \<Rightarrow> ListingItemVM option" where
  "sale_item now accs viewerID l = map_option (\<lambda>label.
     \<lparr>Sale_ListingID = CL_ID l, Sale_BetID = CL_BetID l, Sale_Outcome = CL_Outcome l,
      Sale_IsSim = (CL_Outcome l = ''SIM''), Sale_StakeLabel = FormatMoney (CL_Stake l),
      Sale_AskingPriceLabel = FormatMoney (CL_AskingPrice l), Sale_SellerMaskedLabel = label,
      Sale_IsMine = (viewerID \<noteq> [] \<and> CL_SellerID l = viewerID),
      Sale_CreatedAtLabel = RelativeTimePT now (CL_CreatedAt l)\<rparr>)
     (label_of accs (CL_SellerID l))"

definition buildForSaleVM ::
    "time \<Rightarrow> C_ListingDetails list \<Rightarrow> account_map \<Rightarrow> string \<Rightarrow> ListingItemVM list option" where
  "buildForSaleVM now ls accs viewerID = all_some (map (sale_item now accs viewerID) ls)"

definition buildMarketDetailVM :: "time \<Rightarrow> C_MarketDetails \<Rightarrow> C_Bet list \<Rightarrow> account_map \<Rightarrow>
    C_ListingDetails list \<Rightarrow> string \<Rightarrow> MarketDetailVM option" where
  "buildMarketDetailVM now m bs accs ls viewerID =
     (let simPct = pct (pool_at m ''SIM'') (CM_TotalPool m); naoPct = 100 - simPct in
      case (buildActivityFeed now bs accs 10, buildForSaleVM now ls accs viewerID) of
        (Some feed, Some sales) \<Rightarrow> Some
          \<lparr>Page_ID = CM_ID m, Page_Question = CM_Question m, Page_Status = CM_Status m,
           Page_IsLive = (CM_Status m = ''OPEN'' \<and> hasRealBets m),
           Page_CreatedAtLabel = format_created (CM_CreatedAt m), Page_Bettors = bettorCount bs,
           Page_VolumeLabel = FormatMoney (CM_TotalPool m), Page_SimPct = simPct, Page_NaoPct = naoPct,
           Page_SimPriceLabel = centsPriceLabel simPct, Page_NaoPriceLabel = centsPriceLabel naoPct,
           Page_LowLiquidity = (CM_TotalPool m < lowLiquidityThreshold),
           Page_SparklinePoly = buildSparklinePoly m bs, Page_Activity = feed,
           Page_CanBet = (CM_Status m = ''OPEN''), Page_ForSale = sales\<rparr>
      | _ \<Rightarrow> None)"

end
