(* ===== verification/General_Handlers.thy ===== *)
theory General_Handlers
  imports General_Store General_Views
begin

text \<open>
  \<open>general-backend/handlers/handlers.go\<close>: the JSON surface, sanitize and relay; and what
  every handler is made of. A handler returns early by throwing its response. The session a
  request carries is the user id in its cookie; the response may set or clear it.
\<close>

section \<open>Responses\<close>

text \<open>A text as the code concatenates it: literals, the engine's message, a sanitizer's.\<close>

datatype piece = Lit string | Msg message | San sanitize_error

type_synonym texts = "piece list"

datatype page =
    AuthCard string texts string string string string string
  | HomePage NavVM nat "MarketCardVM list"
  | MarketGrid "MarketCardVM list"
  | MarketDetailPage NavVM MarketDetailVM
  | ProfilePage NavVM ProfileVM string
  | CryptoStatusPanel ProfileVM
  | AdminMarketsPage NavVM "AdminMarketRowVM list" string
  | AdminNewMarketPage NavVM texts "string list"
  | AdminUsersPage NavVM "AdminUserRowVM list" string

datatype content =
    BadBody
  | JsonSanitize sanitize_error
  | JsonError general_error
  | Relayed bet_body
  | TextBody texts
  | Redirect texts
  | Page page
  | Panicked

datatype session_op = KeepSession | SetUser uuid | ClearSession

record response =
  R_Status :: nat
  R_Session :: session_op
  R_Content :: content

definition answer :: "nat \<Rightarrow> content \<Rightarrow> response" where
  "answer code c = \<lparr>R_Status = code, R_Session = KeepSession, R_Content = c\<rparr>"

type_synonym 'a handler_io = "(general_world, response, 'a) io"

text \<open>\<open>x, err := f(); if err != nil { respond; return }\<close>, and the same with both branches.\<close>

definition trying :: "'a general_io \<Rightarrow> (general_error \<Rightarrow> response) \<Rightarrow> 'a handler_io" where
  "trying m r = (\<lambda>w. case m w of (Inl e, w') \<Rightarrow> (Inl (r e), w') | (Inr x, w') \<Rightarrow> (Inr x, w'))"

definition both :: "'a general_io \<Rightarrow> (general_error + 'a) handler_io" where
  "both m = (\<lambda>w. case m w of (r, w') \<Rightarrow> (Inr r, w'))"

definition sane :: "(sanitize_error + 'a) \<Rightarrow> (sanitize_error \<Rightarrow> response) \<Rightarrow> 'a handler_io" where
  "sane v r = (case v of Inl e \<Rightarrow> throw (r e) | Inr x \<Rightarrow> ret x)"

text \<open>\<open>ShouldBind\<close>: \<open>None\<close> is a body it cannot decode; the condition is the tags'.\<close>

definition bound :: "'a option \<Rightarrow> ('a \<Rightarrow> bool) \<Rightarrow> response \<Rightarrow> 'a handler_io" where
  "bound req ok r = (case req of Some q \<Rightarrow> if ok q then ret q else throw r | None \<Rightarrow> throw r)"

definition respond :: "response handler_io \<Rightarrow> general_world \<Rightarrow> response \<times> general_world" where
  "respond h w = (case h w of (Inl r, w') \<Rightarrow> (r, w') | (Inr r, w') \<Rightarrow> (r, w'))"


section \<open>Relaying\<close>

definition relay :: "bet_response general_io \<Rightarrow> response handler_io" where
  "relay m = bindE (both m) (\<lambda>r. ret (case r of
     Inl e \<Rightarrow> if e = ErrUnavailable then answer 502 (JsonError e) else answer 500 (JsonError e)
   | Inr (code, body) \<Rightarrow> answer code (Relayed body)))"

definition bad_json :: response where "bad_json = answer 400 BadBody"

definition bad_field :: "sanitize_error \<Rightarrow> response" where
  "bad_field e = answer 400 (JsonSanitize e)"

definition maxQuestionLen :: int where "maxQuestionLen = 500"
definition maxOutcomeLen :: int where "maxOutcomeLen = 100"
definition minOutcomes :: int where "minOutcomes = 2"
definition maxOutcomes :: int where "maxOutcomes = 10"
definition maxEmailLen :: int where "maxEmailLen = 254"
definition maxTeamLen :: int where "maxTeamLen = 60"


section \<open>The JSON handlers\<close>

record syncUserRequest =
  GSync_ID :: string
  GSync_Balance :: int

definition syncUser :: "general_lib \<Rightarrow> syncUserRequest option \<Rightarrow> response handler_io" where
  "syncUser E req =
     bindE (bound req (\<lambda>q. GSync_ID q \<noteq> []) bad_json) (\<lambda>q.
     bindE (sane (UUID (uuid_Parse E) (GSync_ID q)) bad_field) (\<lambda>i.
     bindE (sane (NonNegativeInt64 (GSync_Balance q) MaxSanityInt) bad_field) (\<lambda>balance.
     relay (bc_SyncUser E i balance))))"

text \<open>The handlers that take only an id: sanitize it, relay the call.\<close>

definition with_id :: "general_lib \<Rightarrow> string \<Rightarrow> (uuid \<Rightarrow> bet_response general_io) \<Rightarrow> response handler_io" where
  "with_id E pathID call = bindE (sane (UUID (uuid_Parse E) pathID) bad_field) (\<lambda>i. relay (call i))"

definition getUser :: "general_lib \<Rightarrow> string \<Rightarrow> response handler_io" where
  "getUser E pathID = with_id E pathID (bc_GetUserRaw E)"

text \<open>A nil slice of outcomes is \<open>None\<close>.\<close>

record createMarketRequest =
  GCreate_Question :: string
  GCreate_Outcomes :: "string list option"
  GCreate_Seed :: int

definition createMarket :: "general_lib \<Rightarrow> createMarketRequest option \<Rightarrow> response handler_io" where
  "createMarket E req =
     bindE (bound req (\<lambda>q. GCreate_Question q \<noteq> [] \<and> GCreate_Outcomes q \<noteq> None) bad_json) (\<lambda>q.
     bindE (sane (NonEmptyString (GCreate_Question q) maxQuestionLen) bad_field) (\<lambda>question.
     bindE (sane (Outcomes (unicode_lower E) (the (GCreate_Outcomes q)) minOutcomes maxOutcomes maxOutcomeLen)
              bad_field) (\<lambda>outcomes.
     bindE (sane (NonNegativeInt64 (GCreate_Seed q) MaxSanityInt) bad_field) (\<lambda>seed.
     relay (bc_CreateMarket E question outcomes seed)))))"

definition getMarket :: "general_lib \<Rightarrow> string \<Rightarrow> response handler_io" where
  "getMarket E pathID = with_id E pathID (bc_GetMarket E)"

definition listMarkets :: "general_lib \<Rightarrow> response handler_io" where
  "listMarkets E = relay (bc_ListMarketsRaw E)"

definition listMarketBets :: "general_lib \<Rightarrow> string \<Rightarrow> response handler_io" where
  "listMarketBets E pathID = with_id E pathID (bc_ListMarketBetsRaw E)"

definition listUserBets :: "general_lib \<Rightarrow> string \<Rightarrow> response handler_io" where
  "listUserBets E pathID = with_id E pathID (bc_ListUserBetsRaw E)"

record placeBetRequest =
  GPlace_UserID :: string
  GPlace_Outcome :: string
  GPlace_Stake :: int

definition placeBet :: "general_lib \<Rightarrow> string \<Rightarrow> placeBetRequest option \<Rightarrow> response handler_io" where
  "placeBet E pathID req =
     bindE (sane (UUID (uuid_Parse E) pathID) bad_field) (\<lambda>marketID.
     bindE (bound req (\<lambda>q. GPlace_UserID q \<noteq> [] \<and> GPlace_Outcome q \<noteq> [] \<and> GPlace_Stake q \<noteq> 0) bad_json) (\<lambda>q.
     bindE (sane (UUID (uuid_Parse E) (GPlace_UserID q)) bad_field) (\<lambda>userID.
     bindE (sane (NonEmptyString (GPlace_Outcome q) maxOutcomeLen) bad_field) (\<lambda>outcome.
     bindE (sane (PositiveInt64 (GPlace_Stake q) MaxSanityInt) bad_field) (\<lambda>stake.
     relay (bc_PlaceBet E marketID userID outcome stake))))))"

definition lockMarket :: "general_lib \<Rightarrow> string \<Rightarrow> response handler_io" where
  "lockMarket E pathID = with_id E pathID (bc_LockMarket E)"

definition resolveMarket :: "general_lib \<Rightarrow> string \<Rightarrow> string option \<Rightarrow> response handler_io" where
  "resolveMarket E pathID req =
     bindE (sane (UUID (uuid_Parse E) pathID) bad_field) (\<lambda>i.
     bindE (bound req (\<lambda>q. q \<noteq> []) bad_json) (\<lambda>q.
     bindE (sane (NonEmptyString q maxOutcomeLen) bad_field) (\<lambda>winner.
     relay (bc_ResolveMarket E i winner))))"

definition cancelMarket :: "general_lib \<Rightarrow> string \<Rightarrow> response handler_io" where
  "cancelMarket E pathID = with_id E pathID (bc_CancelMarket E)"

record createListingRequest =
  GList_SellerID :: string
  GList_AskingPrice :: int

definition createListing :: "general_lib \<Rightarrow> string \<Rightarrow> createListingRequest option \<Rightarrow> response handler_io" where
  "createListing E pathID req =
     bindE (sane (UUID (uuid_Parse E) pathID) bad_field) (\<lambda>betID.
     bindE (bound req (\<lambda>q. GList_SellerID q \<noteq> [] \<and> GList_AskingPrice q \<noteq> 0) bad_json) (\<lambda>q.
     bindE (sane (UUID (uuid_Parse E) (GList_SellerID q)) bad_field) (\<lambda>sellerID.
     bindE (sane (PositiveInt64 (GList_AskingPrice q) MaxSanityInt) bad_field) (\<lambda>askingPrice.
     relay (bc_ListBetForSale E betID sellerID askingPrice)))))"

definition cancelListing :: "general_lib \<Rightarrow> string \<Rightarrow> string option \<Rightarrow> response handler_io" where
  "cancelListing E pathID req =
     bindE (sane (UUID (uuid_Parse E) pathID) bad_field) (\<lambda>i.
     bindE (bound req (\<lambda>q. q \<noteq> []) bad_json) (\<lambda>q.
     bindE (sane (UUID (uuid_Parse E) q) bad_field) (\<lambda>sellerID.
     relay (bc_CancelListing E i sellerID))))"

definition buyListing :: "general_lib \<Rightarrow> string \<Rightarrow> string option \<Rightarrow> response handler_io" where
  "buyListing E pathID req =
     bindE (sane (UUID (uuid_Parse E) pathID) bad_field) (\<lambda>i.
     bindE (bound req (\<lambda>q. q \<noteq> []) bad_json) (\<lambda>q.
     bindE (sane (UUID (uuid_Parse E) q) bad_field) (\<lambda>buyerID.
     relay (bc_BuyListing E i buyerID))))"

definition listMarketListings :: "general_lib \<Rightarrow> string \<Rightarrow> response handler_io" where
  "listMarketListings E pathID = with_id E pathID (bc_ListMarketListingsRaw E)"

definition listUserListings :: "general_lib \<Rightarrow> string \<Rightarrow> response handler_io" where
  "listUserListings E pathID = with_id E pathID (bc_ListUserListingsRaw E)"

end
