(* ===== verification/General_Pages.thy ===== *)
theory General_Pages
  imports General_Handlers
begin

text \<open>
  The pages and forms: \<open>auth/session.go\<close> and \<open>handlers/nav.go\<close>, then
  \<open>auth_handlers.go\<close>, \<open>public_handlers.go\<close>, \<open>listing_handlers.go\<close>,
  \<open>admin_handlers.go\<close> and \<open>teams.go\<close>. \<open>sess\<close> is the user id the session
  cookie carries; the cookie is signed, so no client makes one up.
\<close>

section \<open>Session\<close>

definition CurrentUserID :: "uuid option \<Rightarrow> uuid option" where
  "CurrentUserID sess = (case sess of Some i \<Rightarrow> if i = [] then None else Some i | None \<Rightarrow> None)"

definition redirectToLogin :: "string \<Rightarrow> response" where
  "redirectToLogin uri = answer 302 (Redirect [Lit (''/login?next='' @ QueryEscape uri)])"

definition RequireUser ::
    "uuid option \<Rightarrow> string \<Rightarrow> (Account \<Rightarrow> response handler_io) \<Rightarrow> response handler_io" where
  "RequireUser sess uri k = (case CurrentUserID sess of
     None \<Rightarrow> throw (redirectToLogin uri)
   | Some i \<Rightarrow> bindE (trying (FindAccountByID i)
                      (\<lambda>_. (redirectToLogin uri)\<lparr>R_Session := ClearSession\<rparr>)) k)"

definition RequireAdmin :: "Account \<Rightarrow> response handler_io \<Rightarrow> response handler_io" where
  "RequireAdmin acct k =
     (if \<not> Account_IsAdmin acct then throw (answer 403 (TextBody [Lit ''admins only''])) else k)"

definition no_nav :: NavVM where
  "no_nav = \<lparr>Nav_LoggedIn = False, Nav_IsAdmin = False, Nav_BalanceRs = []\<rparr>"

definition buildNav :: "general_lib \<Rightarrow> uuid option \<Rightarrow> NavVM handler_io" where
  "buildNav E sess = (case CurrentUserID sess of
     None \<Rightarrow> ret no_nav
   | Some i \<Rightarrow> bindE (both (FindAccountByID i)) (\<lambda>r. case r of
       Inl _ \<Rightarrow> ret no_nav
     | Inr acct \<Rightarrow> bindE (both (bc_GetUser E i)) (\<lambda>u. ret
         \<lparr>Nav_LoggedIn = True, Nav_IsAdmin = Account_IsAdmin acct,
          Nav_BalanceRs = FormatMoney (case u of Inl _ \<Rightarrow> 0 | Inr x \<Rightarrow> CU_Balance x)\<rparr>)))"

definition page_of :: "page \<Rightarrow> response handler_io" where
  "page_of p = ret (answer 200 (Page p))"

definition redirect :: "string \<Rightarrow> response" where
  "redirect target = answer 302 (Redirect [Lit target])"

text \<open>The message of a \<open>StatusError\<close>, or the handler's own.\<close>

definition or_message :: "string \<Rightarrow> general_error \<Rightarrow> piece" where
  "or_message fallback e = (case e of StatusError _ m \<Rightarrow> Msg m | _ \<Rightarrow> Lit fallback)"

definition red_div :: "piece \<Rightarrow> texts" where
  \<open>red_div p = [Lit ''<div class="text-tche-red text-sm">'', p, Lit ''</div>'']\<close>

definition green_div :: "string \<Rightarrow> string \<Rightarrow> texts" where
  \<open>green_div done_text marketID = [Lit (''<div class="text-tche-green text-sm">'' @ done_text @
     '' <a href="/markets/'' @ marketID @ ''" class="underline">Atualizar p'' @ a_acute @ ''gina</a></div>'')]\<close>


section \<open>Accounts (\<open>auth_handlers.go\<close>)\<close>

record registerRequest =
  Reg_Email :: string
  Reg_Password :: string

definition register_card :: "texts \<Rightarrow> page" where
  "register_card msg = AuthCard ''Criar Conta'' msg ''/register'' ''CRIAR CONTA''
     (''J'' @ a_acute @ '' tem conta?'') ''/login'' ''Entrar''"

definition login_card :: "texts \<Rightarrow> page" where
  "login_card msg = AuthCard ''Entrar'' msg ''/login'' ''ENTRAR''
     (''N'' @ a_tilde @ ''o tem conta?'') ''/register'' ''Criar conta''"

definition RegisterPage :: "response handler_io" where
  "RegisterPage = page_of (register_card [])"

definition registerErr :: "texts \<Rightarrow> response" where
  "registerErr msg = answer 400 (Page (register_card msg))"

definition credentials_ok :: "general_lib \<Rightarrow> registerRequest \<Rightarrow> bool" where
  "credentials_ok E q \<longleftrightarrow> Reg_Email q \<noteq> [] \<and> email_ok E (Reg_Email q) \<and> Reg_Password q \<noteq> []"

definition invalid_login :: texts where
  "invalid_login = [Lit (''email/senha inv'' @ a_acute @ ''lidos'')]"

definition Register :: "general_lib \<Rightarrow> registerRequest option \<Rightarrow> response handler_io" where
  "Register E req =
     bindE (bound req (credentials_ok E) (registerErr invalid_login)) (\<lambda>q.
     bindE (sane (NonEmptyString (Reg_Email q) maxEmailLen) (\<lambda>e. registerErr [San e])) (\<lambda>email.
     if Reg_Password q = [] then throw (registerErr [Lit (''senha '' @ e_acute @ '' obrigat'' @ o_acute @ ''ria'')]) else
     bindE (trying (HashPassword E (Reg_Password q)) (\<lambda>_. registerErr [Lit ''falha ao processar senha''])) (\<lambda>hash.
     bindE (trying guuid_New (\<lambda>_. registerErr [])) (\<lambda>i.
     bindE (trying (CreateAccount E i email hash) (\<lambda>e.
              if e = ErrEmailTaken then registerErr [Lit (''email j'' @ a_acute @ '' cadastrado'')]
              else registerErr [Lit ''falha ao criar conta''])) (\<lambda>_.
     bindE (trying (bc_SyncUserTyped E i 0) (\<lambda>_. registerErr
              [Lit (''motor de apostas indispon'' @ i_acute @ ''vel, tente novamente'')])) (\<lambda>_.
     ret ((redirect ''/'')\<lparr>R_Session := SetUser i\<rparr>)))))))"

definition LoginPage :: "response handler_io" where
  "LoginPage = page_of (login_card [])"

text \<open>\<open>next\<close> is the query parameter, empty if it is absent.\<close>

definition Login :: "general_lib \<Rightarrow> registerRequest option \<Rightarrow> string \<Rightarrow> response handler_io" where
  "Login E req next_url =
     bindE (bound req (credentials_ok E) (answer 400 (Page (login_card invalid_login)))) (\<lambda>q.
     bindE (both (FindAccountByEmail E (Reg_Email q))) (\<lambda>r.
     case r of
       Inr acct \<Rightarrow>
         if CheckPassword E (Account_PasswordHash acct) (Reg_Password q)
         then ret ((redirect (if next_url = [] then ''/'' else next_url))\<lparr>R_Session := SetUser (Account_ID acct)\<rparr>)
         else ret (answer 401 (Page (login_card [Lit ''email ou senha incorretos''])))
     | Inl _ \<Rightarrow> ret (answer 401 (Page (login_card [Lit ''email ou senha incorretos''])))))"

definition Logout :: "response handler_io" where
  "Logout = ret ((redirect ''/'')\<lparr>R_Session := ClearSession\<rparr>)"


section \<open>Browsing (\<open>public_handlers.go\<close>)\<close>

definition unavailable :: response where
  "unavailable = answer 502 (TextBody [Lit ''betting engine unavailable''])"

text \<open>
  A time decoded from JSON is in UTC, \<open>now\<close> in the local zone; equal year and day of the
  year is an equal day number.
\<close>

definition keep_market :: "general_lib \<Rightarrow> time \<Rightarrow> string \<Rightarrow> C_MarketDetails \<Rightarrow> bool" where
  "keep_market E now f m \<longleftrightarrow> CM_Status m = ''OPEN'' \<and>
     (if f = ''hoje'' then CM_CreatedAt m div day_micros = (now + local_offset E) div day_micros
      else if f = ''semana'' then now - CM_CreatedAt m \<le> 7 * day_micros
      else True)"

definition loadFilteredCards ::
    "general_lib \<Rightarrow> string \<Rightarrow> (C_MarketDetails list \<times> MarketCardVM list) general_io" where
  "loadFilteredCards E f = bindE (bc_ListMarkets E) (\<lambda>ms. \<lambda>w.
     let kept = filter (keep_market E (gclock w) f) ms in (Inr (kept, map buildMarketCardVM kept), w))"

definition Home :: "general_lib \<Rightarrow> uuid option \<Rightarrow> response handler_io" where
  "Home E sess =
     bindE (trying (loadFilteredCards E ''todos'') (\<lambda>_. unavailable)) (\<lambda>(ms, cards).
     bindE (buildNav E sess) (\<lambda>nav. page_of (HomePage nav (length ms) cards)))"

definition MarketsPartial :: "general_lib \<Rightarrow> string option \<Rightarrow> response handler_io" where
  "MarketsPartial E f =
     bindE (trying (loadFilteredCards E (case f of None \<Rightarrow> ''todos'' | Some x \<Rightarrow> x)) (\<lambda>_. unavailable))
       (\<lambda>(_, cards). page_of (MarketGrid cards))"

fun loadAccountsFor :: "C_Bet list \<Rightarrow> uuid list \<Rightarrow> account_map \<Rightarrow> account_map handler_io" where
  "loadAccountsFor [] seen out = ret out"
| "loadAccountsFor (b # bs) seen out =
     (if CB_UserID b \<in> set seen \<or> CB_UserID b = houseUserID then loadAccountsFor bs seen out
      else bindE (both (FindAccountByID (CB_UserID b))) (\<lambda>r.
        loadAccountsFor bs (CB_UserID b # seen)
          (case r of Inr a \<Rightarrow> out(CB_UserID b \<mapsto> a) | Inl _ \<Rightarrow> out)))"

fun mergeAccountsForListings :: "C_ListingDetails list \<Rightarrow> account_map \<Rightarrow> account_map handler_io" where
  "mergeAccountsForListings [] accs = ret accs"
| "mergeAccountsForListings (l # ls) accs =
     (if accs (CL_SellerID l) \<noteq> None \<or> CL_SellerID l = houseUserID then mergeAccountsForListings ls accs
      else bindE (both (FindAccountByID (CL_SellerID l))) (\<lambda>r.
        mergeAccountsForListings ls
          (case r of Inr a \<Rightarrow> accs(CL_SellerID l \<mapsto> a) | Inl _ \<Rightarrow> accs)))"

definition gnow :: "time handler_io" where
  "gnow = (\<lambda>w. (Inr (gclock w), w))"

definition marketDetailPage :: "general_lib \<Rightarrow> uuid option \<Rightarrow> string \<Rightarrow> response handler_io" where
  "marketDetailPage E sess pathID =
     bindE (sane (UUID (uuid_Parse E) pathID) (\<lambda>_. answer 400 (TextBody [Lit ''invalid market id'']))) (\<lambda>i.
     bindE (trying (bc_GetMarketDetails E i) (\<lambda>_. answer 404 (TextBody [Lit ''market not found'']))) (\<lambda>details.
     bindE (trying (bc_ListMarketBets E i) (\<lambda>_. unavailable)) (\<lambda>bs.
     bindE (both (bc_ListMarketListings E i)) (\<lambda>r.
     let ls = (case r of Inl _ \<Rightarrow> [] | Inr ls \<Rightarrow> ls) in
     bindE (loadAccountsFor bs [] Map.empty) (\<lambda>accs.
     bindE (mergeAccountsForListings ls accs) (\<lambda>accs.
     bindE gnow (\<lambda>now.
     case buildMarketDetailVM now details bs accs ls
            (case CurrentUserID sess of None \<Rightarrow> [] | Some v \<Rightarrow> v) of
       None \<Rightarrow> throw (answer 500 Panicked)
     | Some vm \<Rightarrow> bindE (buildNav E sess) (\<lambda>nav. page_of (MarketDetailPage nav vm)))))))))"

definition marketDetailDispatch ::
    "general_lib \<Rightarrow> uuid option \<Rightarrow> string \<Rightarrow> string \<Rightarrow> response handler_io" where
  "marketDetailDispatch E sess accept pathID =
     (if contains accept ''text/html'' then marketDetailPage E sess pathID else getMarket E pathID)"

record placeBetFormRequest =
  Slip_Outcome :: string
  Slip_Stake :: int

definition PlaceBetPage ::
    "general_lib \<Rightarrow> uuid option \<Rightarrow> string \<Rightarrow> placeBetFormRequest option \<Rightarrow> response handler_io" where
  "PlaceBetPage E sess pathID req =
     bindE (sane (UUID (uuid_Parse E) pathID) (\<lambda>_. answer 400 (TextBody [Lit ''invalid market id'']))) (\<lambda>marketID.
     bindE (bound req (\<lambda>q. Slip_Outcome q \<noteq> [] \<and> Slip_Stake q \<noteq> 0)
              (answer 400 (TextBody (red_div (Lit (''dados inv'' @ a_acute @ ''lidos'')))))) (\<lambda>q.
     bindE (sane (NonEmptyString (Slip_Outcome q) maxOutcomeLen)
              (\<lambda>e. answer 400 (TextBody (red_div (San e))))) (\<lambda>outcome.
     bindE (sane (PositiveInt64 (Slip_Stake q) MaxSanityInt)
              (\<lambda>e. answer 400 (TextBody (red_div (San e))))) (\<lambda>stake.
     case CurrentUserID sess of
       None \<Rightarrow> throw (answer 401 (TextBody (red_div
                 (Lit (''fa'' @ c_cedil @ ''a login para apostar'')))))
     | Some userID \<Rightarrow>
     bindE (trying (bc_PlaceBetTyped E marketID userID outcome stake) (\<lambda>e. answer 200 (TextBody (red_div
              (or_message (''n'' @ a_tilde @ ''o foi poss'' @ i_acute @ ''vel registrar a aposta'') e))))) (\<lambda>_.
     ret (answer 200 (TextBody (green_div ''Aposta registrada!'' marketID))))))))"


section \<open>Listings (\<open>listing_handlers.go\<close>)\<close>

definition profile_flash :: "piece \<Rightarrow> response" where
  "profile_flash p = answer 302 (Redirect [Lit ''/profile?flash='', p])"

definition ListBetForSalePage ::
    "general_lib \<Rightarrow> uuid option \<Rightarrow> string \<Rightarrow> int option \<Rightarrow> response handler_io" where
  "ListBetForSalePage E sess pathID req =
     bindE (sane (UUID (uuid_Parse E) pathID) (\<lambda>_. profile_flash (Lit ''aposta+inv%C3%A1lida''))) (\<lambda>betID.
     bindE (bound req (\<lambda>p. p \<noteq> 0) (profile_flash (Lit ''pre%C3%A7o+inv%C3%A1lido''))) (\<lambda>p.
     bindE (sane (PositiveInt64 p MaxSanityInt) (\<lambda>_. profile_flash (Lit ''pre%C3%A7o+inv%C3%A1lido''))) (\<lambda>askingPrice.
     case CurrentUserID sess of
       None \<Rightarrow> throw (redirect ''/login'')
     | Some sellerID \<Rightarrow>
     bindE (trying (bc_ListBetForSaleTyped E betID sellerID askingPrice) (\<lambda>e. profile_flash
              (or_message ''n%C3%A3o+foi+poss%C3%ADvel+colocar+a+aposta+%C3%A0+venda'' e))) (\<lambda>_.
     ret (profile_flash (Lit ''Aposta+colocada+%C3%A0+venda''))))))"

definition CancelListingPage :: "general_lib \<Rightarrow> uuid option \<Rightarrow> string \<Rightarrow> response handler_io" where
  "CancelListingPage E sess pathID =
     bindE (sane (UUID (uuid_Parse E) pathID) (\<lambda>_. profile_flash (Lit ''listagem+inv%C3%A1lida''))) (\<lambda>listingID.
     case CurrentUserID sess of
       None \<Rightarrow> throw (redirect ''/login'')
     | Some sellerID \<Rightarrow>
     bindE (trying (bc_CancelListingTyped E listingID sellerID)
              (\<lambda>_. profile_flash (Lit ''falha+ao+cancelar+venda''))) (\<lambda>_.
     ret (profile_flash (Lit ''Venda+cancelada''))))"

definition BuyListingPage :: "general_lib \<Rightarrow> uuid option \<Rightarrow> string \<Rightarrow> response handler_io" where
  "BuyListingPage E sess pathID =
     bindE (sane (UUID (uuid_Parse E) pathID)
              (\<lambda>_. answer 400 (TextBody (red_div (Lit (''listagem inv'' @ a_acute @ ''lida'')))))) (\<lambda>listingID.
     case CurrentUserID sess of
       None \<Rightarrow> throw (answer 401 (TextBody (red_div
                 (Lit (''fa'' @ c_cedil @ ''a login para comprar'')))))
     | Some buyerID \<Rightarrow>
     bindE (trying (bc_BuyListingTyped E listingID buyerID) (\<lambda>e. answer 200 (TextBody (red_div
              (or_message (''n'' @ a_tilde @ ''o foi poss'' @ i_acute @ ''vel concluir a compra'') e))))) (\<lambda>l.
     ret (answer 200 (TextBody (green_div ''Compra realizada!'' (CL_MarketID l))))))"


section \<open>Administration (\<open>admin_handlers.go\<close>, \<open>teams.go\<close>)\<close>

definition Teams :: "string list" where
  "Teams = [''Trakinas Fc'', ''Legados Fc'', ''Los Quejitos Fc'', ''Vanguarda Fc'', ''Pelegos Fc'',
     ''Guerreiros do vale Fc'']"

definition isKnownTeam :: "string \<Rightarrow> bool" where
  "isKnownTeam name = list_ex (\<lambda>t. t = name) Teams"

definition binaryOutcomes :: "string list" where
  "binaryOutcomes = [''SIM'', ''N'' @ A_tilde @ ''O'']"

definition AdminMarkets :: "general_lib \<Rightarrow> uuid option \<Rightarrow> string \<Rightarrow> response handler_io" where
  "AdminMarkets E sess err =
     bindE (trying (bc_ListMarkets E) (\<lambda>_. unavailable)) (\<lambda>ms.
     bindE (buildNav E sess) (\<lambda>nav. page_of (AdminMarketsPage nav
       (map (\<lambda>m. \<lparr>Row_ID = CM_ID m, Row_Question = CM_Question m, Row_Status = CM_Status m,
                   Row_VolumeLabel = FormatMoney (CM_TotalPool m)\<rparr>) ms) err)))"

definition new_market_page :: "general_lib \<Rightarrow> uuid option \<Rightarrow> texts \<Rightarrow> response handler_io" where
  "new_market_page E sess msg =
     bindE (buildNav E sess) (\<lambda>nav. page_of (AdminNewMarketPage nav msg Teams))"

definition AdminNewMarketPageHandler :: "general_lib \<Rightarrow> uuid option \<Rightarrow> response handler_io" where
  "AdminNewMarketPageHandler E sess = new_market_page E sess []"

record createMarketFormRequest =
  Form_Question :: string
  Form_TeamA :: string
  Form_TeamB :: string
  Form_Seed :: int

definition buildQuestionFromTeams :: "string \<Rightarrow> string \<Rightarrow> string + string" where
  "buildQuestionFromTeams rawTeamA rawTeamB =
     (case NonEmptyString rawTeamA maxTeamLen of
        Inl _ \<Rightarrow> Inl (''time A inv'' @ a_acute @ ''lido'')
      | Inr teamA \<Rightarrow>
     (case NonEmptyString rawTeamB maxTeamLen of
        Inl _ \<Rightarrow> Inl (''time B inv'' @ a_acute @ ''lido'')
      | Inr teamB \<Rightarrow>
          if \<not> isKnownTeam teamA \<or> \<not> isKnownTeam teamB then Inl ''time desconhecido''
          else if teamA = teamB then Inl ''os times devem ser diferentes''
          else Inr (teamA @ '' vencer'' @ a_acute @ '' o '' @ teamB @ ''?'')))"

definition form_question :: "createMarketFormRequest \<Rightarrow> texts + string" where
  "form_question q =
     (if Form_TeamA q \<noteq> [] \<or> Form_TeamB q \<noteq> [] then
        (case buildQuestionFromTeams (Form_TeamA q) (Form_TeamB q) of Inl e \<Rightarrow> Inl [Lit e] | Inr x \<Rightarrow> Inr x)
      else (case NonEmptyString (Form_Question q) maxQuestionLen of Inl e \<Rightarrow> Inl [San e] | Inr x \<Rightarrow> Inr x))"

definition AdminCreateMarket ::
    "general_lib \<Rightarrow> uuid option \<Rightarrow> createMarketFormRequest option \<Rightarrow> response handler_io" where
  "AdminCreateMarket E sess req = (case req of
     None \<Rightarrow> new_market_page E sess [Lit (''dados inv'' @ a_acute @ ''lidos'')]
   | Some q \<Rightarrow>
     (case form_question q of
        Inl e \<Rightarrow> new_market_page E sess e
      | Inr question \<Rightarrow>
     (case NonNegativeInt64 (Form_Seed q) MaxSanityInt of
        Inl e \<Rightarrow> new_market_page E sess [San e]
      | Inr seed \<Rightarrow>
          bindE (both (bc_CreateMarketTyped E question binaryOutcomes seed)) (\<lambda>r. case r of
            Inr market \<Rightarrow> ret (redirect (''/markets/'' @ CC_ID market))
          | Inl (StatusError _ m) \<Rightarrow> new_market_page E sess [Lit ''falha ao criar mercado: '', Msg m]
          | Inl _ \<Rightarrow> new_market_page E sess [Lit ''falha ao criar mercado'']))))"

text \<open>The raw calls return no error for a refusal: only an unreachable engine is reported.\<close>

definition admin_market_call ::
    "general_lib \<Rightarrow> string \<Rightarrow> string \<Rightarrow> (uuid \<Rightarrow> bet_response general_io) \<Rightarrow> response handler_io" where
  "admin_market_call E pathID failure call =
     bindE (sane (UUID (uuid_Parse E) pathID) (\<lambda>_. redirect ''/admin/markets?error=id+inv%C3%A1lido'')) (\<lambda>i.
     bindE (trying (call i) (\<lambda>_. redirect (''/admin/markets?error='' @ failure))) (\<lambda>_.
     ret (redirect ''/admin/markets'')))"

definition AdminLockMarket :: "general_lib \<Rightarrow> string \<Rightarrow> response handler_io" where
  "AdminLockMarket E pathID = admin_market_call E pathID ''falha+ao+travar'' (bc_LockMarket E)"

definition AdminResolveMarket :: "general_lib \<Rightarrow> string \<Rightarrow> string option \<Rightarrow> response handler_io" where
  "AdminResolveMarket E pathID req =
     bindE (sane (UUID (uuid_Parse E) pathID) (\<lambda>_. redirect ''/admin/markets?error=id+inv%C3%A1lido'')) (\<lambda>i.
     bindE (bound req (\<lambda>q. q \<noteq> []) (redirect ''/admin/markets?error=resultado+inv%C3%A1lido'')) (\<lambda>q.
     bindE (sane (NonEmptyString q maxOutcomeLen)
              (\<lambda>_. redirect ''/admin/markets?error=resultado+inv%C3%A1lido'')) (\<lambda>outcome.
     bindE (trying (bc_ResolveMarket E i outcome) (\<lambda>_. redirect ''/admin/markets?error=falha+ao+resolver'')) (\<lambda>_.
     ret (redirect ''/admin/markets'')))))"

definition AdminCancelMarket :: "general_lib \<Rightarrow> string \<Rightarrow> response handler_io" where
  "AdminCancelMarket E pathID = admin_market_call E pathID ''falha+ao+cancelar'' (bc_CancelMarket E)"

definition AdminUsers :: "general_lib \<Rightarrow> uuid option \<Rightarrow> string \<Rightarrow> response handler_io" where
  "AdminUsers E sess err =
     bindE (trying ListAccounts (\<lambda>_. answer 500 (TextBody
              [Lit (''falha ao listar usu'' @ a_acute @ ''rios'')]))) (\<lambda>accs.
     bindE gnow (\<lambda>now.
     bindE (buildNav E sess) (\<lambda>nav. page_of (AdminUsersPage nav
       (map (\<lambda>a. \<lparr>Usr_ID = Account_ID a, Usr_Email = Account_Email a, Usr_IsAdmin = Account_IsAdmin a,
                   Usr_CreatedAtLabel = RelativeTimePT now (Account_CreatedAt a)\<rparr>) accs) err))))"

definition AdminPromoteUser :: "general_lib \<Rightarrow> string option \<Rightarrow> response handler_io" where
  "AdminPromoteUser E req =
     bindE (bound req (\<lambda>e. e \<noteq> [] \<and> email_ok E e) (redirect ''/admin/users?error=email+inv%C3%A1lido'')) (\<lambda>e.
     bindE (trying (PromoteToAdmin E e) (\<lambda>_. redirect ''/admin/users?error=falha+ao+promover'')) (\<lambda>_.
     ret (redirect ''/admin/users'')))"

end
