(* ===== verification/General_Profile.thy ===== *)
theory General_Profile
  imports General_Pages
begin

text \<open>
  \<open>handlers/profile_handlers.go\<close>: the profile, the play-money deposit, and in crypto mode
  the deposit address, withdrawals and the faucet.
\<close>

section \<open>Labels\<close>

definition base64_char :: "nat \<Rightarrow> char" where
  "base64_char k = (''ABCDEFGHIJKLMNOPQRSTUVWXYZabcdefghijklmnopqrstuvwxyz0123456789+/'') ! k"

text \<open>\<open>base64.StdEncoding\<close>, three bytes at a time.\<close>

fun base64 :: "nat list \<Rightarrow> string" where
  "base64 [] = []"
| "base64 [a] = [base64_char (a div 4), base64_char (a mod 4 * 16), CHR ''='', CHR ''='']"
| "base64 [a, b] = [base64_char (a div 4), base64_char (a mod 4 * 16 + b div 16),
     base64_char (b mod 16 * 4), CHR ''='']"
| "base64 (a # b # c # r) = [base64_char (a div 4), base64_char (a mod 4 * 16 + b div 16),
     base64_char (b mod 16 * 4 + c div 64), base64_char (c mod 64)] @ base64 r"

definition depositQR :: "general_lib \<Rightarrow> string \<Rightarrow> string" where
  "depositQR E address = (case qr_Encode E address of
     None \<Rightarrow> [] | Some png \<Rightarrow> ''data:image/png;base64,'' @ base64 (map unat png))"

definition depositAmountLabel :: "C_Deposit \<Rightarrow> string" where
  "depositAmountLabel d = (if 0 < CE_CreditedReais d then FormatMoney (CE_CreditedReais d) else em_dash)"

definition shortHash :: "string \<Rightarrow> string" where
  "shortHash s = (if length s \<le> 12 then s else take 6 s @ ellipsis @ drop (length s - 4) s)"

definition shortWithdrawalRef :: "C_Withdrawal \<Rightarrow> string" where
  "shortWithdrawalRef r = (case CW_Signature r of Some g \<Rightarrow> shortHash g | None \<Rightarrow> shortHash (CW_ID r))"

definition depositStatusPT :: "general_lib \<Rightarrow> string \<Rightarrow> string" where
  "depositStatusPT E s =
     (if s = ''DETECTED'' then ''detectado'' else if s = ''SWAPPING'' then ''convertendo''
      else if s = ''CREDITED'' then ''creditado'' else if s = ''FAILED'' then ''falhou''
      else ToLower (unicode_lower E) s)"

definition withdrawalStatusPT :: "general_lib \<Rightarrow> string \<Rightarrow> string" where
  "withdrawalStatusPT E s =
     (if s = ''REQUESTED'' then ''solicitado'' else if s = ''SIGNING'' then ''assinando''
      else if s = ''SENT'' then ''enviado'' else if s = ''CONFIRMED'' then ''confirmado''
      else if s = ''FAILED'' then ''falhou'' else ToLower (unicode_lower E) s)"


section \<open>The profile page\<close>

text \<open>The loop over the bets, with the markets fetched so far; a failed fetch is kept as nil.\<close>

definition history_item ::
    "time \<Rightarrow> (uuid \<Rightarrow> C_ListingDetails option) \<Rightarrow> C_MarketDetails option \<Rightarrow> C_Bet \<Rightarrow> BetHistoryItemVM" where
  "history_item now listingByBet details b =
     \<lparr>Hist_BetID = CB_ID b, Hist_MarketID = CB_MarketID b,
      Hist_MarketQuestion = (case details of None \<Rightarrow> CB_MarketID b | Some d \<Rightarrow> CM_Question d),
      Hist_MarketStatus = (case details of None \<Rightarrow> [] | Some d \<Rightarrow> CM_Status d),
      Hist_Outcome = CB_Outcome b, Hist_StakeLabel = FormatMoney (CB_Stake b),
      Hist_CreatedAtLabel = RelativeTimePT now (CB_CreatedAt b),
      Hist_IsListed = (listingByBet (CB_ID b) \<noteq> None),
      Hist_ListingID = (case listingByBet (CB_ID b) of None \<Rightarrow> [] | Some l \<Rightarrow> CL_ID l),
      Hist_AskingPriceLabel =
        (case listingByBet (CB_ID b) of None \<Rightarrow> [] | Some l \<Rightarrow> FormatMoney (CL_AskingPrice l))\<rparr>"

fun history :: "general_lib \<Rightarrow> (uuid \<Rightarrow> C_ListingDetails option) \<Rightarrow>
    (uuid \<Rightarrow> C_MarketDetails option option) \<Rightarrow> C_Bet list \<Rightarrow> BetHistoryItemVM list handler_io" where
  "history E listingByBet cache [] = ret []"
| "history E listingByBet cache (b # bs) =
     bindE (case cache (CB_MarketID b) of
         Some d \<Rightarrow> ret d
       | None \<Rightarrow> bindE (both (bc_GetMarketDetails E (CB_MarketID b))) (\<lambda>r. ret
           (case r of Inr d \<Rightarrow> Some d | Inl _ \<Rightarrow> None))) (\<lambda>details.
     bindE gnow (\<lambda>now.
     bindE (history E listingByBet (cache(CB_MarketID b \<mapsto> details)) bs) (\<lambda>rest.
     ret (history_item now listingByBet details b # rest))))"

definition deposit_line :: "general_lib \<Rightarrow> C_Deposit \<Rightarrow> CryptoDepositVM" where
  "deposit_line E d = \<lparr>DepVM_Asset = CE_Asset d, DepVM_Short = shortHash (CE_Signature d),
     DepVM_StatusLabel = depositStatusPT E (CE_Status d), DepVM_AmountLabel = depositAmountLabel d\<rparr>"

definition withdrawal_line :: "general_lib \<Rightarrow> C_Withdrawal \<Rightarrow> CryptoWithdrawalVM" where
  "withdrawal_line E r = \<lparr>WdVM_Dest = shortHash (CW_DestAddress r), WdVM_Short = shortWithdrawalRef r,
     WdVM_StatusLabel = withdrawalStatusPT E (CW_Status r), WdVM_AmountLabel = FormatMoney (CW_AmountReais r)\<rparr>"

definition with_address :: "general_lib \<Rightarrow> general_error + C_DepositAddress \<Rightarrow> ProfileVM \<Rightarrow> ProfileVM" where
  "with_address E r vm = (case r of
     Inr addr \<Rightarrow> vm\<lparr>Prof_DepositAddress := CD_Address addr, Prof_DepositQR := depositQR E (CD_Address addr)\<rparr>
   | Inl e \<Rightarrow> if e = wc_ErrDepositAddressNotFound then vm\<lparr>Prof_NeedsDepositAddress := True\<rparr>
             else vm\<lparr>Prof_DepositError := ''N'' @ a_tilde @ ''o foi poss'' @ i_acute @ ''vel consultar o endere'' @
                      c_cedil @ ''o de dep'' @ o_acute @ ''sito agora.''\<rparr>)"

definition enrichCrypto :: "general_lib \<Rightarrow> uuid \<Rightarrow> ProfileVM \<Rightarrow> ProfileVM handler_io" where
  "enrichCrypto E accountID vm =
     bindE (both (wc_LookupDepositAddress accountID)) (\<lambda>a.
     bindE (both (wc_ListDeposits accountID)) (\<lambda>ds.
     bindE (both (wc_ListWithdrawals accountID)) (\<lambda>ws.
     ret ((with_address E a (vm\<lparr>Prof_CryptoMode := True\<rparr>))\<lparr>
       Prof_Deposits := Prof_Deposits vm @
         (case ds of Inl _ \<Rightarrow> [] | Inr ds \<Rightarrow> map (deposit_line E) ds),
       Prof_Withdrawals := Prof_Withdrawals vm @
         (case ws of Inl _ \<Rightarrow> [] | Inr ws \<Rightarrow> map (withdrawal_line E) ws)\<rparr>))))"

definition plain_profile :: "string \<Rightarrow> int \<Rightarrow> BetHistoryItemVM list \<Rightarrow> ProfileVM" where
  "plain_profile email balance bs = \<lparr>Prof_Email = email, Prof_BalanceRs = FormatMoney balance, Prof_Bets = bs,
     Prof_CryptoMode = False, Prof_DepositAddress = [], Prof_DepositQR = [],
     Prof_NeedsDepositAddress = False, Prof_DepositError = [], Prof_Deposits = [], Prof_Withdrawals = []\<rparr>"

text \<open>\<open>crypto\<close>: the wallet client is not nil.\<close>

definition Profile :: "general_lib \<Rightarrow> bool \<Rightarrow> uuid option \<Rightarrow> string \<Rightarrow> Account \<Rightarrow> response handler_io" where
  "Profile E crypto sess flash acct =
     bindE (trying (bc_GetUser E (Account_ID acct)) (\<lambda>_. unavailable)) (\<lambda>user.
     bindE (trying (bc_ListUserBets E (Account_ID acct)) (\<lambda>_. unavailable)) (\<lambda>bs.
     bindE (both (bc_ListUserListings E (Account_ID acct))) (\<lambda>r.
     let ls = (case r of Inl _ \<Rightarrow> [] | Inr ls \<Rightarrow> ls);
         listingByBet = fold (\<lambda>l m. m(CL_BetID l \<mapsto> l)) ls Map.empty in
     bindE (history E listingByBet Map.empty bs) (\<lambda>items.
     let vm = plain_profile (Account_Email acct) (CU_Balance user) items in
     bindE (if crypto then enrichCrypto E (Account_ID acct) vm else ret vm) (\<lambda>vm.
     bindE (buildNav E sess) (\<lambda>nav. page_of (ProfilePage nav vm flash)))))))"

definition CryptoStatus :: "general_lib \<Rightarrow> Account \<Rightarrow> response handler_io" where
  "CryptoStatus E acct =
     bindE (trying (bc_GetUser E (Account_ID acct)) (\<lambda>_. unavailable)) (\<lambda>user.
     bindE (enrichCrypto E (Account_ID acct) (plain_profile (Account_Email acct) (CU_Balance user) [])) (\<lambda>vm.
     page_of (CryptoStatusPanel vm)))"


section \<open>Money in and out\<close>

definition flash_text :: "string \<Rightarrow> response" where
  "flash_text s = profile_flash (Lit (QueryEscape s))"

definition ProvisionDepositAddress :: "general_lib \<Rightarrow> Account \<Rightarrow> response handler_io" where
  "ProvisionDepositAddress E acct =
     bindE (trying (wc_ProvisionAccount E (Account_ID acct)) (\<lambda>_. flash_text (''N'' @ a_tilde @ ''o foi poss'' @
       i_acute @ ''vel criar o endere'' @ c_cedil @ ''o de dep'' @ o_acute @
       ''sito agora. Tente novamente em instantes.''))) (\<lambda>_.
     ret (flash_text (''Endere'' @ c_cedil @ ''o de dep'' @ o_acute @ ''sito criado.'')))"

text \<open>Reads the balance, adds, writes the sum back.\<close>

definition Deposit :: "general_lib \<Rightarrow> int option \<Rightarrow> Account \<Rightarrow> response handler_io" where
  "Deposit E req acct =
     bindE (bound req (\<lambda>n. n \<noteq> 0) (profile_flash (Lit ''valor+inv%C3%A1lido''))) (\<lambda>n.
     bindE (sane (PositiveInt64 n MaxSanityInt) (\<lambda>_. profile_flash (Lit ''valor+inv%C3%A1lido''))) (\<lambda>amount.
     bindE (trying (bc_GetUser E (Account_ID acct))
              (\<lambda>_. profile_flash (Lit ''motor+de+apostas+indispon%C3%ADvel''))) (\<lambda>user.
     bindE (trying (bc_SyncUserTyped E (Account_ID acct) (i64 (CU_Balance user + amount)))
              (\<lambda>_. profile_flash (Lit ''falha+ao+depositar''))) (\<lambda>_.
     ret (profile_flash (Lit ''Dep%C3%B3sito+realizado''))))))"

record withdrawFormRequest =
  WForm_DestAddress :: string
  WForm_Amount :: int

definition withdraw_flash :: "general_error + C_Withdrawal \<Rightarrow> response" where
  "withdraw_flash r = (case r of
     Inr _ \<Rightarrow> flash_text ''Saque enviado''
   | Inl wc_ErrManualReview \<Rightarrow> flash_text (''Saque em an'' @ a_acute @ ''lise manual'')
   | Inl wc_ErrInsufficientBalance \<Rightarrow> flash_text ''saldo insuficiente''
   | Inl _ \<Rightarrow> flash_text ''falha ao sacar'')"

definition Withdraw :: "general_lib \<Rightarrow> withdrawFormRequest option \<Rightarrow> Account \<Rightarrow> response handler_io" where
  "Withdraw E req acct =
     bindE (bound req (\<lambda>q. WForm_DestAddress q \<noteq> [] \<and> WForm_Amount q \<noteq> 0)
              (flash_text (''dados de saque inv'' @ a_acute @ ''lidos''))) (\<lambda>q.
     bindE (sane (SolanaAddress (WForm_DestAddress q))
              (\<lambda>_. flash_text (''endere'' @ c_cedil @ ''o de destino inv'' @ a_acute @ ''lido''))) (\<lambda>dest.
     bindE (sane (PositiveInt64 (WForm_Amount q) MaxSanityInt)
              (\<lambda>_. flash_text (''valor inv'' @ a_acute @ ''lido''))) (\<lambda>amount.
     bindE (both (wc_RequestWithdrawal E (Account_ID acct) dest amount)) (\<lambda>r. ret (withdraw_flash r)))))"

definition faucet_flash :: "general_error + string \<Rightarrow> response" where
  "faucet_flash r = (case r of
     Inr _ \<Rightarrow> flash_text (''USDC de teste enviado '' @ em_dash @ '' o saldo ser'' @ a_acute @
                '' creditado em instantes'')
   | Inl wc_ErrFaucetAlreadyClaimed \<Rightarrow> flash_text (''Voc'' @ e_circ @ '' j'' @ a_acute @ '' resgatou o USDC de teste'')
   | Inl _ \<Rightarrow> flash_text ''falha ao resgatar USDC de teste'')"

definition Faucet :: "general_lib \<Rightarrow> Account \<Rightarrow> response handler_io" where
  "Faucet E acct = bindE (both (wc_Faucet E (Account_ID acct))) (\<lambda>r. ret (faucet_flash r))"

end
