(* ===== verification/General_System.thy ===== *)
theory General_System
  imports General_Profile Wallet_System
begin

text \<open>
  \<open>general-backend/main.go\<close>: the routes, the middleware in front of them, and the server
  as a transition system over the accounts and the two services behind.
\<close>

section \<open>Requests\<close>

datatype public_request =
    SyncUserReq "syncUserRequest option"
  | GetUserReq string
  | CreateMarketReq "createMarketRequest option"
  | ListMarketsReq
  | MarketReq string string
  | MarketBetsReq string
  | PlaceBetReq string "placeBetRequest option"
  | LockReq string
  | ResolveReq string "string option"
  | CancelReq string
  | UserBetsReq string
  | CreateListingReq string "createListingRequest option"
  | CancelListingReq string "string option"
  | BuyListingReq string "string option"
  | MarketListingsReq string
  | UserListingsReq string
  | HomeReq
  | MarketsPartialReq "string option"
  | RegisterPageReq
  | RegisterReq "registerRequest option"
  | LoginPageReq
  | LoginReq "registerRequest option" string

datatype user_request =
    LogoutReq
  | ProfileReq string
  | DepositAddressReq
  | WithdrawReq "withdrawFormRequest option"
  | FaucetReq
  | CryptoStatusReq
  | DepositReq "int option"
  | SlipReq string "placeBetFormRequest option"
  | ListBetReq string "int option"
  | UnlistReq string
  | BuyReq string

datatype admin_request =
    AdminMarketsReq string
  | AdminNewReq
  | AdminCreateReq "createMarketFormRequest option"
  | AdminLockReq string
  | AdminResolveReq string "string option"
  | AdminCancelReq string
  | AdminUsersReq string
  | AdminPromoteReq "string option"

datatype route = Public public_request | Authed user_request | Admin admin_request

record http_request =
  Req_Visitor :: string
  Req_Host :: string
  Req_URI :: string
  Req_Session :: "uuid option"
  Req_Route :: route


section \<open>Routing\<close>

fun public_handler :: "general_lib \<Rightarrow> uuid option \<Rightarrow> public_request \<Rightarrow> response handler_io" where
  "public_handler E sess (SyncUserReq q) = syncUser E q"
| "public_handler E sess (GetUserReq i) = getUser E i"
| "public_handler E sess (CreateMarketReq q) = createMarket E q"
| "public_handler E sess ListMarketsReq = listMarkets E"
| "public_handler E sess (MarketReq accept i) = marketDetailDispatch E sess accept i"
| "public_handler E sess (MarketBetsReq i) = listMarketBets E i"
| "public_handler E sess (PlaceBetReq i q) = placeBet E i q"
| "public_handler E sess (LockReq i) = lockMarket E i"
| "public_handler E sess (ResolveReq i q) = resolveMarket E i q"
| "public_handler E sess (CancelReq i) = cancelMarket E i"
| "public_handler E sess (UserBetsReq i) = listUserBets E i"
| "public_handler E sess (CreateListingReq i q) = createListing E i q"
| "public_handler E sess (CancelListingReq i q) = cancelListing E i q"
| "public_handler E sess (BuyListingReq i q) = buyListing E i q"
| "public_handler E sess (MarketListingsReq i) = listMarketListings E i"
| "public_handler E sess (UserListingsReq i) = listUserListings E i"
| "public_handler E sess HomeReq = Home E sess"
| "public_handler E sess (MarketsPartialReq f) = MarketsPartial E f"
| "public_handler E sess RegisterPageReq = RegisterPage"
| "public_handler E sess (RegisterReq q) = Register E q"
| "public_handler E sess LoginPageReq = LoginPage"
| "public_handler E sess (LoginReq q next_url) = Login E q next_url"

fun user_handler ::
    "general_lib \<Rightarrow> bool \<Rightarrow> uuid option \<Rightarrow> user_request \<Rightarrow> Account \<Rightarrow> response handler_io" where
  "user_handler E crypto sess LogoutReq a = Logout"
| "user_handler E crypto sess (ProfileReq flash) a = Profile E crypto sess flash a"
| "user_handler E crypto sess DepositAddressReq a = ProvisionDepositAddress E a"
| "user_handler E crypto sess (WithdrawReq q) a = Withdraw E q a"
| "user_handler E crypto sess FaucetReq a = Faucet E a"
| "user_handler E crypto sess CryptoStatusReq a = CryptoStatus E a"
| "user_handler E crypto sess (DepositReq q) a = Deposit E q a"
| "user_handler E crypto sess (SlipReq i q) a = PlaceBetPage E sess i q"
| "user_handler E crypto sess (ListBetReq i q) a = ListBetForSalePage E sess i q"
| "user_handler E crypto sess (UnlistReq i) a = CancelListingPage E sess i"
| "user_handler E crypto sess (BuyReq i) a = BuyListingPage E sess i"

fun admin_handler :: "general_lib \<Rightarrow> uuid option \<Rightarrow> admin_request \<Rightarrow> response handler_io" where
  "admin_handler E sess (AdminMarketsReq err) = AdminMarkets E sess err"
| "admin_handler E sess AdminNewReq = AdminNewMarketPageHandler E sess"
| "admin_handler E sess (AdminCreateReq q) = AdminCreateMarket E sess q"
| "admin_handler E sess (AdminLockReq i) = AdminLockMarket E i"
| "admin_handler E sess (AdminResolveReq i q) = AdminResolveMarket E i q"
| "admin_handler E sess (AdminCancelReq i) = AdminCancelMarket E i"
| "admin_handler E sess (AdminUsersReq err) = AdminUsers E sess err"
| "admin_handler E sess (AdminPromoteReq q) = AdminPromoteUser E q"

text \<open>The routes that only one of the two deposit modes registers.\<close>

fun registered :: "bool \<Rightarrow> user_request \<Rightarrow> bool" where
  "registered crypto DepositAddressReq = crypto"
| "registered crypto (WithdrawReq q) = crypto"
| "registered crypto FaucetReq = crypto"
| "registered crypto CryptoStatusReq = crypto"
| "registered crypto (DepositReq q) = (\<not> crypto)"
| "registered crypto q = True"

definition not_found :: response where
  "not_found = answer 404 (TextBody [Lit ''404 page not found''])"

fun route_handler ::
    "general_lib \<Rightarrow> bool \<Rightarrow> uuid option \<Rightarrow> string \<Rightarrow> route \<Rightarrow> response handler_io" where
  "route_handler E crypto sess uri (Public q) = public_handler E sess q"
| "route_handler E crypto sess uri (Authed q) =
     (if registered crypto q then RequireUser sess uri (user_handler E crypto sess q) else ret not_found)"
| "route_handler E crypto sess uri (Admin q) =
     RequireUser sess uri (\<lambda>a. RequireAdmin a (admin_handler E sess q))"

definition visited_by_http :: "http_request \<Rightarrow> bool" where
  "visited_by_http q \<longleftrightarrow> contains (Req_Visitor q) ''\"scheme\":\"http\"''"

definition serve :: "general_lib \<Rightarrow> bool \<Rightarrow> http_request \<Rightarrow> general_world \<Rightarrow> response \<times> general_world" where
  "serve E crypto q w =
     (if visited_by_http q then (answer 301 (Redirect [Lit (''https://'' @ Req_Host q @ Req_URI q)]), w)
      else respond (route_handler E crypto (Req_Session q) (Req_URI q) (Req_Route q)) w)"


section \<open>What the handlers of the two services do\<close>

text \<open>A handler of the engine is some of its steps; one of the wallet some of both.\<close>

definition engine_like :: "bet_handler \<Rightarrow> bool" where
  "engine_like h \<longleftrightarrow> (\<forall>b. engine_step\<^sup>*\<^sup>* b (snd (h b)))"

definition upstream_steps :: "Service \<Rightarrow> wallet_world \<Rightarrow> wallet_world \<Rightarrow> bool" where
  "upstream_steps s v v' \<longleftrightarrow> (wallet_step s)\<^sup>*\<^sup>* v v' \<and> engine_step\<^sup>*\<^sup>* (bank v) (bank v')"

definition wallet_like :: "Service \<Rightarrow> wallet_handler \<Rightarrow> bool" where
  "wallet_like s h \<longleftrightarrow> (\<forall>v. upstream_steps s v (snd (h v)))"

named_theorems like_intro \<open>which handlers are steps of the service behind\<close>

lemma engine_like_step: "(\<And>b. engine_step b (snd (h b))) \<Longrightarrow> engine_like h"
  unfolding engine_like_def by blast

lemma engine_like_bad_request [like_intro]: "engine_like bad_request"
  by (rule engine_like_step) (simp add: bad_request_def engine_step.env)

lemma engine_like_read [like_intro]:
  assumes "\<And>d. keeps (\<lambda>w. tabs w = d) m"
  shows "engine_like (handle m ok err)"
proof (rule engine_like_step)
  fix b :: bet_world
  have "tabs (snd (m b)) = tabs b" using assms [of "tabs b"] by (simp add: keeps_def)
  then show "engine_step b (snd (handle m ok err b))" by (simp add: handle_world engine_step.env)
qed

lemma snd_void: "snd (void m w) = snd (m w)"
  by (simp add: void_def seqE_def bindE_def ret_def split: prod.splits sum.splits)

lemma engine_like_call:
  assumes "\<And>b. snd (m b) = snd (do_call c b)"
  shows "engine_like (handle m ok err)"
proof (rule engine_like_step)
  fix b :: bet_world
  show "engine_step b (snd (handle m ok err b))"
    using assms [of b] by (metis handle_world engine_step.call prod.collapse)
qed

lemma engine_like_calls [like_intro]:
  "engine_like (handle (SyncUser_exec u bal) ok1 err)" "engine_like (handle (AdjustBalance u delta) ok2 err)"
  "engine_like (handle (CreateMarket q outs seed) ok3 err)"
  "engine_like (handle (PlaceBet u mid out s) ok4 err)" "engine_like (handle (LockMarket mid) ok5 err)"
  "engine_like (handle (ResolveMarket mid out) ok6 err)" "engine_like (handle (CancelMarket mid) ok7 err)"
  "engine_like (handle (ListBetForSale b u p) ok8 err)" "engine_like (handle (CancelListing l u) ok9 err)"
  "engine_like (handle (BuyListedBet l u) ok10 err)"
  by (rule engine_like_call [where c = "CallSync u bal"], simp,
      rule engine_like_call [where c = "CallAdjust u delta"], simp add: snd_void,
      rule engine_like_call [where c = "CallCreate q outs seed"], simp add: snd_void,
      rule engine_like_call [where c = "CallBet u mid out s"], simp add: snd_void,
      rule engine_like_call [where c = "CallLock mid"], simp,
      rule engine_like_call [where c = "CallResolve mid out"], simp,
      rule engine_like_call [where c = "CallCancel mid"], simp,
      rule engine_like_call [where c = "CallList b u p"], simp add: snd_void,
      rule engine_like_call [where c = "CallUnlist l u"], simp,
      rule engine_like_call [where c = "CallBuy l u"], simp add: snd_void)

lemma keeps_listings [keeps_intro]: "keeps (\<lambda>w. P (tabs w)) (ListActiveListingsForMarket i)"
  "keeps (\<lambda>w. P (tabs w)) (ListActiveListingsForSeller i)"
  unfolding ListActiveListingsForMarket_def ListActiveListingsForSeller_def queryListingDetails_def
  by (intro keeps_intro)+

lemma engine_like_handlers [like_intro]:
  "engine_like (Bet_Handlers.SyncUser v drv r1)" "engine_like (GetUser_handler drv i)"
  "engine_like (CreateMarket_handler drv r2)" "engine_like (GetMarket drv i)"
  "engine_like (ListMarkets_handler drv)" "engine_like (ListMarketBets_handler drv i)"
  "engine_like (PlaceBet_handler v drv i r3)" "engine_like (LockMarket_handler drv i)"
  "engine_like (ResolveMarket_handler drv i r4)" "engine_like (CancelMarket_handler drv i)"
  "engine_like (ListUserBets_handler drv i)" "engine_like (CreateListing v drv i r5)"
  "engine_like (CancelListing_handler v drv i r6)" "engine_like (Bet_Handlers.BuyListing v drv i r7)"
  "engine_like (Bet_Handlers.ListMarketListings drv i)" "engine_like (Bet_Handlers.ListUserListings drv i)"
  unfolding Bet_Handlers.SyncUser_def GetUser_handler_def CreateMarket_handler_def GetMarket_def
    ListMarkets_handler_def ListMarketBets_handler_def PlaceBet_handler_def LockMarket_handler_def
    ResolveMarket_handler_def CancelMarket_handler_def ListUserBets_handler_def CreateListing_def
    CancelListing_handler_def Bet_Handlers.BuyListing_def Bet_Handlers.ListMarketListings_def
    Bet_Handlers.ListUserListings_def
  by (auto intro!: like_intro keeps_intro split: option.splits)

end
