(* ===== verification/General_Frames.thy ===== *)
theory General_Frames
  imports General_System
begin

text \<open>
  What survives a request. \<open>engine_wallet\<close> is the wallet's service with a ledger that is
  the engine: whatever it does to the engine is some of the engine's steps.
  \<open>general_invariant\<close> is a property of the server's world that the two services and the
  creation of an account keep; every route but promotion keeps it, and with promotion every
  route does.
\<close>

section \<open>The wallet's steps on the engine\<close>

locale engine_wallet = wallet_service s up for s :: Service and up :: "wallet_world \<Rightarrow> bool" +
  assumes ledger_steps: "svc_ledger s u delta v = (r, v') \<Longrightarrow> engine_step\<^sup>*\<^sup>* (bank v) (bank v')"
begin

definition after :: "bet_world \<Rightarrow> wallet_world \<Rightarrow> bool" where
  "after b v \<longleftrightarrow> engine_step\<^sup>*\<^sup>* b (bank v)"

lemma after_storing: "storing m \<Longrightarrow> keeps (after b) m"
  by (simp add: keeps_def storing_def outside_def after_def)

lemma after_pays: "(\<And>v r v'. m v = (r, v') \<Longrightarrow> \<exists>ps. pays ps v v') \<Longrightarrow> keeps (after b) m"
  unfolding keeps_def after_def by (metis pays_frame prod.collapse)

lemma after_calls [keeps_intro]:
  "keeps (after b) (EnsureUSDCATA (svc_chain s) k ow)" "keeps (after b) (TransferUSDC (svc_chain s) k ata amt)"
  "keeps (after b) (ConfirmTx (svc_chain s) sig)" "keeps (after b) (SwapSOLToUSDC (svc_swapper s) k lam slip)"
  by (rule after_pays, use ensure_pays in blast, rule after_pays, use transfer_pays in blast,
      rule after_pays, use confirm_pays in blast, rule after_pays, use swap_pays in blast)

lemma after_ledger [keeps_intro]: "keeps (after b) (svc_ledger s u delta)"
  unfolding keeps_def after_def by (metis ledger_steps prod.collapse rtranclp_trans)

lemma after_ops [keeps_intro]:
  "keeps (after b) (ProvisionAccount s a)" "keeps (after b) (FaucetTestUSDC s a)"
  "keeps (after b) (RequestWithdrawal s a dest amt)"
proof -
  note st = after_storing [OF storing_store(1)] after_storing [OF storing_store(2)]
    after_storing [OF storing_store(8)] after_storing [OF storing_store(9)] after_storing [OF storing_store(10)]
    after_storing [OF storing_store(16)] after_storing [OF storing_store(18)] after_storing [OF storing_store(19)]
    after_storing [OF storing_store(20)] after_storing [OF storing_store(21)]
  show p: "keeps (after b) (ProvisionAccount s a)" for a
    unfolding ProvisionAccount_def provision_new_def wrapping_def
    by (auto intro!: keeps_intro st split: prod.splits)
  show "keeps (after b) (FaucetTestUSDC s a)"
    unfolding FaucetTestUSDC_def wrapping_def by (auto intro!: keeps_intro st p)
  show "keeps (after b) (RequestWithdrawal s a dest amt)"
    unfolding RequestWithdrawal_def settleWithdrawal_def failAndRefund_def refund_def Let_def
    by (auto intro!: keeps_intro st split: sum.splits prod.splits)
qed

lemma steps_of_call:
  assumes "\<And>b. keeps (after b) m" and "\<And>v. (wallet_step s)\<^sup>*\<^sup>* v (snd (m v))"
  shows "wallet_like s (wallet_handle m ok err)"
  unfolding wallet_like_def upstream_steps_def
proof (intro allI conjI)
  fix v :: wallet_world
  have e: "snd (wallet_handle m ok err v) = snd (m v)"
    by (auto simp: wallet_handle_def split: prod.splits sum.splits)
  show "(wallet_step s)\<^sup>*\<^sup>* v (snd (wallet_handle m ok err v))" using assms(2) e by simp
  show "engine_step\<^sup>*\<^sup>* (bank v) (bank (snd (wallet_handle m ok err v)))"
    using assms(1) [of "bank v"] e by (simp add: keeps_def after_def)
qed

lemma wallet_like_call:
  assumes "\<And>b. keeps (after b) m" and "\<And>v. snd (m v) = wallet_do s c v"
  shows "wallet_like s (wallet_handle m ok err)"
  using steps_of_call [OF assms(1)] assms(2) wallet_step.call by (metis r_into_rtranclp)

lemma wallet_like_read:
  assumes "storing m" and "\<And>d. keeps (\<lambda>w. wdb w = d) m"
  shows "wallet_like s (wallet_handle m ok err)"
proof (rule steps_of_call [OF after_storing [OF assms(1)]])
  fix v :: wallet_world
  have "wdb (snd (m v)) = wdb v" using assms(2) by (simp add: keeps_def)
  then show "(wallet_step s)\<^sup>*\<^sup>* v (snd (m v))" by (blast intro: wallet_step.env)
qed

lemma wallet_like_handlers [like_intro]:
  "wallet_like s (provision s a)" "wallet_like s (faucet s a)" "wallet_like s (withdraw s a q)"
  "wallet_like s (getAddress a)" "wallet_like s (listDeposits a)" "wallet_like s (listWithdrawals a)"
proof -
  show "wallet_like s (provision s a)"
    unfolding provision_def by (rule wallet_like_call [where c = "CallProvision a", OF after_ops(1)]) simp
  show "wallet_like s (faucet s a)"
    unfolding faucet_def by (rule wallet_like_call [where c = "CallFaucet a", OF after_ops(2)]) simp
  have none: "wallet_like s (\<lambda>w. (x, w))" for x :: wallet_response
    by (simp add: wallet_like_def upstream_steps_def)
  show "wallet_like s (withdraw s a q)"
  proof (cases q)
    case (Some x)
    have "wallet_like s (wallet_handle (RequestWithdrawal s a (Withdraw_DestAddress x) (Withdraw_AmountReais x)) ok err)"
      for ok err
      by (rule wallet_like_call
            [where c = "CallWithdraw a (Withdraw_DestAddress x) (Withdraw_AmountReais x)", OF after_ops(3)]) simp
    then show ?thesis using Some none by (simp add: withdraw_def)
  qed (simp add: withdraw_def none)
  show "wallet_like s (getAddress a)" unfolding getAddress_def
    by (rule wallet_like_read [OF storing_store(2)])
       (auto simp: GetAddressByAccount_def found_or_def intro!: keeps_intro keeps_w_query split: option.splits)
  show "wallet_like s (listDeposits a)" unfolding listDeposits_def
    by (rule wallet_like_read [OF storing_store(15)])
       (auto simp: ListDepositsByAccount_def intro!: keeps_intro keeps_w_query)
  show "wallet_like s (listWithdrawals a)" unfolding listWithdrawals_def
    by (rule wallet_like_read [OF storing_store(17)])
       (auto simp: ListWithdrawalsByAccount_def intro!: keeps_intro keeps_w_query)
qed

end

lemma AdjustBalance_handler_steps: "engine_step\<^sup>*\<^sup>* b (snd (AdjustBalance_handler drv u q b))"
proof -
  have "engine_like (AdjustBalance_handler drv u q)"
    unfolding AdjustBalance_handler_def by (auto intro!: like_intro split: option.splits)
  then show ?thesis by (simp add: engine_like_def)
qed

interpretation live: engine_wallet "live_service C S mint drv m l r f" client_up for C S mint drv m l r f
proof (unfold_locales, goal_cases)
  case (1 u delta v r v')
  then show ?case
    using AdjustBalance_handler_steps [of "bank v" drv u "Some delta"]
    by (auto simp: Client_AdjustBalance_def Let_def split: fate.splits prod.splits)
qed


section \<open>The combinators\<close>

lemma keeps_trying [keeps_intro]: "keeps P m \<Longrightarrow> keeps P (trying m r)"
  by (auto simp: keeps_def trying_def split: prod.splits sum.splits)

lemma keeps_both [keeps_intro]: "keeps P m \<Longrightarrow> keeps P (both m)"
  by (auto simp: keeps_def both_def split: prod.splits)

lemma keeps_sane [keeps_intro]: "keeps P (sane v r)"
  by (auto simp: sane_def intro: keeps_intro split: sum.splits)

lemma keeps_bound [keeps_intro]: "keeps P (bound q ok r)"
  by (auto simp: bound_def intro: keeps_intro split: option.splits)

lemma keeps_gnow [keeps_intro]: "keeps P gnow"
  by (simp add: keeps_def gnow_def)

lemma keeps_decoded [keeps_intro]: "keeps P m \<Longrightarrow> keeps P (decoded code f m)"
  unfolding decoded_def by (auto intro!: keeps_intro split: option.splits)

lemma keeps_relay [keeps_intro]: "keeps P m \<Longrightarrow> keeps P (relay m)"
  unfolding relay_def by (auto intro!: keeps_intro)

lemma keeps_with_id [keeps_intro]: "(\<And>i. keeps P (c i)) \<Longrightarrow> keeps P (with_id E i c)"
  unfolding with_id_def by (auto intro!: keeps_intro)

lemma keeps_respond: "keeps P h \<Longrightarrow> P w \<Longrightarrow> P (snd (respond h w))"
  by (auto simp: keeps_def respond_def split: prod.splits sum.splits dest!: spec [of _ w])

lemma keeps_HashPassword [keeps_intro]: "keeps P (HashPassword E p)"
  by (simp add: keeps_def HashPassword_def split: option.splits)


section \<open>Invariants of the server\<close>

text \<open>The one request that makes an administrator of an account.\<close>

fun promotes :: "route \<Rightarrow> bool" where
  "promotes (Admin (AdminPromoteReq q)) = True"
| "promotes r = False"

locale general_invariant = engine_wallet "wb_service E" up for E :: general_lib and up :: "wallet_world \<Rightarrow> bool" +
  fixes P :: "general_world \<Rightarrow> bool"
  assumes behind: "P w \<Longrightarrow> accounts w' = accounts w \<Longrightarrow>
      upstream_steps (wb_service E) (wallet_side w) (wallet_side w') \<Longrightarrow> P w'"
    and created: "P w \<Longrightarrow> accounts w' = accounts w @ [new_account E i email h t] \<Longrightarrow>
      wallet_side w' = wallet_side w \<Longrightarrow>
      \<forall>a \<in> set (accounts w). Account_ID a \<noteq> i \<and> Account_Email a \<noteq> normal_email E email \<Longrightarrow> P w'"
begin

lemma same: "P w \<Longrightarrow> accounts w' = accounts w \<Longrightarrow> wallet_side w' = wallet_side w \<Longrightarrow> P w'"
  by (rule behind [of w]) (simp_all add: upstream_steps_def)

lemma keeps_to_engine [keeps_intro]: "engine_like h \<Longrightarrow> keeps P (to_engine h)"
  unfolding keeps_def
proof (intro allI impI)
  fix w :: general_world assume e: "engine_like h" and p: "P w"
  show "P (snd (to_engine h w))"
  proof (cases "next_fate (gnet_fates w) = RequestLost")
    case True
    then show ?thesis by (intro same [OF p]) (simp_all add: to_engine_def Let_def)
  next
    case False
    let ?w = "snd (to_engine h w)"
    have s: "accounts ?w = accounts w" "wallet_side ?w = (wallet_side w)\<lparr>bank := snd (h (engine w))\<rparr>"
      using False by (auto simp: to_engine_def Let_def split: fate.splits prod.splits)
    have "upstream_steps (wb_service E) (wallet_side w) (wallet_side ?w)"
      using e wallet_step.env [of "wallet_side ?w" "wallet_side w"]
      by (auto simp: upstream_steps_def engine_like_def s(2))
    then show ?thesis by (rule behind [OF p s(1)])
  qed
qed

lemma keeps_to_wallet [keeps_intro]: "wallet_like (wb_service E) h \<Longrightarrow> keeps P (to_wallet h)"
  unfolding keeps_def
proof (intro allI impI)
  fix w :: general_world assume e: "wallet_like (wb_service E) h" and p: "P w"
  show "P (snd (to_wallet h w))"
  proof (cases "next_fate (gnet_fates w) = RequestLost")
    case True
    then show ?thesis by (intro same [OF p]) (simp_all add: to_wallet_def Let_def)
  next
    case False
    let ?w = "snd (to_wallet h w)"
    have "accounts ?w = accounts w" "wallet_side ?w = snd (h (wallet_side w))"
      using False by (auto simp: to_wallet_def Let_def split: fate.splits prod.splits)
    then show ?thesis using behind [OF p, of ?w] e by (simp add: wallet_like_def)
  qed
qed

lemma keeps_g_stmt: "keeps P m \<Longrightarrow> keeps P (g_stmt m)"
  unfolding keeps_def
proof (intro allI impI)
  fix w assume k: "\<forall>w. P w \<longrightarrow> P (snd (m w))" and p: "P w"
  have "P (w\<lparr>gdb_fates := tl (gdb_fates w)\<rparr>)" by (rule same [OF p]) simp_all
  then show "P (snd (g_stmt m w))" using k by (simp add: g_stmt_def Let_def split: fate.splits)
qed

lemma keeps_g_query [keeps_intro]: "keeps P (g_query f)"
  unfolding g_query_def by (rule keeps_g_stmt) (simp add: keeps_def)

lemma keeps_guuid_New [keeps_intro]: "keeps P guuid_New"
  unfolding keeps_def guuid_New_def by (auto intro: same)

lemma keeps_finds [keeps_intro]: "keeps P (FindAccountByEmail E e)" "keeps P (FindAccountByID i)" "keeps P ListAccounts"
  unfolding FindAccountByEmail_def FindAccountByID_def ListAccounts_def one_account_def
  by (auto intro!: keeps_intro split: option.splits)

lemma keeps_CreateAccount [keeps_intro]: "keeps P (CreateAccount E i email h)"
  unfolding keeps_def
proof (intro allI impI)
  fix w assume p: "P w"
  let ?a = "new_account E i email h (gclock w)"
  have f: "Account_ID ?a = i" "Account_Email ?a = normal_email E email"
    by (simp_all add: new_account_def Let_def)
  have "P (snd (insert_account ?a v))" if "P v" for v
  proof (cases "list_ex (\<lambda>r. Account_ID r = Account_ID ?a \<or> Account_Email r = Account_Email ?a) (accounts v)")
    case False
    then have "\<forall>r \<in> set (accounts v). Account_ID r \<noteq> i \<and> Account_Email r \<noteq> normal_email E email"
      by (simp only: list_ex_iff f) blast
    then have "P (v\<lparr>accounts := accounts v @ [?a]\<rparr>)"
      by (intro created [OF that, of _ i email h "gclock w"]) simp_all
    then show ?thesis using False by (simp add: insert_account_def)
  qed (simp add: insert_account_def that)
  then have "keeps P (insert_account ?a)" by (simp add: keeps_def)
  then have "keeps P (on_error (seqE (g_stmt (insert_account ?a)) (ret ?a))
      (\<lambda>e. throw (if isUniqueViolation e then ErrEmailTaken else e)))"
    by (intro keeps_intro keeps_g_stmt)
  then show "P (snd (CreateAccount E i email h w))" using p by (simp add: keeps_def CreateAccount_def Let_def)
qed

lemma keeps_bc_raw [keeps_intro]:
  "keeps P (bc_SyncUser E i bal)" "keeps P (bc_GetUserRaw E i)" "keeps P (bc_CreateMarket E q outs seed)"
  "keeps P (bc_GetMarket E i)" "keeps P (bc_ListMarketsRaw E)" "keeps P (bc_ListMarketBetsRaw E i)"
  "keeps P (bc_ListUserBetsRaw E i)" "keeps P (bc_PlaceBet E i u out stake)" "keeps P (bc_LockMarket E i)"
  "keeps P (bc_ResolveMarket E i out)" "keeps P (bc_CancelMarket E i)" "keeps P (bc_ListBetForSale E i u price)"
  "keeps P (bc_CancelListing E i u)" "keeps P (bc_BuyListing E i u)" "keeps P (bc_ListMarketListingsRaw E i)"
  "keeps P (bc_ListUserListingsRaw E i)"
  unfolding bc_SyncUser_def bc_GetUserRaw_def bc_CreateMarket_def bc_GetMarket_def bc_ListMarketsRaw_def
    bc_ListMarketBetsRaw_def bc_ListUserBetsRaw_def bc_PlaceBet_def bc_LockMarket_def bc_ResolveMarket_def
    bc_CancelMarket_def bc_ListBetForSale_def bc_CancelListing_def bc_BuyListing_def
    bc_ListMarketListingsRaw_def bc_ListUserListingsRaw_def
  by (intro keeps_intro like_intro)+

lemma keeps_bc [keeps_intro]:
  "keeps P (bc_GetMarketDetails E i)" "keeps P (bc_ListMarkets E)" "keeps P (bc_ListMarketBets E i)"
  "keeps P (bc_ListUserBets E i)" "keeps P (bc_CreateMarketTyped E q outs seed)"
  "keeps P (bc_SyncUserTyped E i bal)" "keeps P (bc_GetUser E i)" "keeps P (bc_PlaceBetTyped E i u out stake)"
  "keeps P (bc_ListBetForSaleTyped E i u price)" "keeps P (bc_CancelListingTyped E i u)"
  "keeps P (bc_BuyListingTyped E i u)" "keeps P (bc_ListMarketListings E i)" "keeps P (bc_ListUserListings E i)"
  unfolding bc_GetMarketDetails_def bc_ListMarkets_def bc_ListMarketBets_def bc_ListUserBets_def
    bc_CreateMarketTyped_def bc_SyncUserTyped_def bc_GetUser_def bc_PlaceBetTyped_def
    bc_ListBetForSaleTyped_def bc_CancelListingTyped_def bc_BuyListingTyped_def bc_ListMarketListings_def
    bc_ListUserListings_def
  by (intro keeps_intro)+

lemma keeps_doStatus [keeps_intro]: "wallet_like (wb_service E) h \<Longrightarrow> keeps P (doStatus f h)"
  unfolding doStatus_def by (auto intro!: keeps_intro split: option.splits prod.splits)

lemma keeps_wc [keeps_intro]:
  "keeps P (wc_ProvisionAccount E i)" "keeps P (wc_LookupDepositAddress i)" "keeps P (wc_Faucet E i)"
  "keeps P (wc_RequestWithdrawal E i dest amt)" "keeps P (wc_ListDeposits i)" "keeps P (wc_ListWithdrawals i)"
  unfolding wc_ProvisionAccount_def wc_LookupDepositAddress_def wc_Faucet_def wc_RequestWithdrawal_def
    wc_ListDeposits_def wc_ListWithdrawals_def wc_do_def
  by (auto intro!: keeps_intro wallet_like_handlers split: option.splits prod.splits bool.splits)


text \<open>The JSON handlers, the pages, and the loops of the pages.\<close>

lemma keeps_json [keeps_intro]:
  "keeps P (syncUser E r1)" "keeps P (getUser E i)" "keeps P (createMarket E r2)" "keeps P (listMarkets E)"
  "keeps P (getMarket E i)" "keeps P (listMarketBets E i)" "keeps P (listUserBets E i)" "keeps P (placeBet E i r3)"
  "keeps P (lockMarket E i)" "keeps P (resolveMarket E i r4)" "keeps P (cancelMarket E i)"
  "keeps P (createListing E i r5)" "keeps P (cancelListing E i r6)" "keeps P (buyListing E i r7)"
  "keeps P (listMarketListings E i)" "keeps P (listUserListings E i)"
  unfolding syncUser_def getUser_def createMarket_def listMarkets_def getMarket_def listMarketBets_def
    listUserBets_def placeBet_def lockMarket_def resolveMarket_def cancelMarket_def createListing_def
    cancelListing_def buyListing_def listMarketListings_def listUserListings_def
  by (intro keeps_intro)+

lemma keeps_loadAccountsFor [keeps_intro]: "keeps P (loadAccountsFor bs seen out)"
  by (induction bs seen out rule: loadAccountsFor.induct) (auto intro!: keeps_intro split: sum.splits)

lemma keeps_mergeAccounts [keeps_intro]: "keeps P (mergeAccountsForListings ls accs)"
  by (induction ls accs rule: mergeAccountsForListings.induct) (auto intro!: keeps_intro split: sum.splits)

lemma keeps_history [keeps_intro]: "keeps P (history E l cache bs)"
  by (induction bs arbitrary: cache)
     (auto simp del: fun_upd_apply intro!: keeps_intro split: sum.splits option.splits)

lemma keeps_buildNav [keeps_intro]: "keeps P (buildNav E sess)"
  unfolding buildNav_def by (auto intro!: keeps_intro split: option.splits sum.splits)

lemma keeps_page_of [keeps_intro]: "keeps P (page_of p)"
  unfolding page_of_def by (intro keeps_intro)

lemma keeps_loadFilteredCards [keeps_intro]: "keeps P (loadFilteredCards E f)"
  unfolding loadFilteredCards_def by (intro keeps_intro) (simp add: keeps_def Let_def)

lemma keeps_enrichCrypto [keeps_intro]: "keeps P (enrichCrypto E i vm)"
  unfolding enrichCrypto_def by (intro keeps_intro)

lemma keeps_new_market_page [keeps_intro]: "keeps P (new_market_page E sess msg)"
  unfolding new_market_page_def by (intro keeps_intro)

lemma keeps_browsing [keeps_intro]:
  "keeps P (Home E sess)" "keeps P (MarketsPartial E f)" "keeps P (marketDetailPage E sess i)"
  "keeps P (marketDetailDispatch E sess accept i)" "keeps P RegisterPage" "keeps P LoginPage"
proof -
  show "keeps P (Home E sess)" "keeps P (MarketsPartial E f)" "keeps P RegisterPage" "keeps P LoginPage"
    unfolding Home_def MarketsPartial_def RegisterPage_def LoginPage_def
    by (auto intro!: keeps_intro split: prod.splits)
  show d: "keeps P (marketDetailPage E sess i)"
    unfolding marketDetailPage_def Let_def by (intro keeps_intro) (auto intro!: keeps_intro split: option.splits)
  show "keeps P (marketDetailDispatch E sess accept i)"
    unfolding marketDetailDispatch_def by (intro keeps_intro d)
qed

lemma keeps_accounts [keeps_intro]: "keeps P (Register E q)" "keeps P (Login E q next_url)" "keeps P Logout"
  unfolding Register_def Login_def Logout_def by (auto intro!: keeps_intro split: sum.splits)

lemma keeps_market_forms [keeps_intro]:
  "keeps P (PlaceBetPage E sess i r1)" "keeps P (ListBetForSalePage E sess i r2)"
  "keeps P (CancelListingPage E sess i)" "keeps P (BuyListingPage E sess i)"
  unfolding PlaceBetPage_def ListBetForSalePage_def CancelListingPage_def BuyListingPage_def
  by (auto intro!: keeps_intro split: option.splits)

lemma keeps_profile [keeps_intro]:
  "keeps P (Profile E crypto sess flash a)" "keeps P (CryptoStatus E a)" "keeps P (ProvisionDepositAddress E a)"
  "keeps P (Deposit E r1 a)" "keeps P (Withdraw E r2 a)" "keeps P (Faucet E a)"
  unfolding Profile_def CryptoStatus_def ProvisionDepositAddress_def Deposit_def Withdraw_def Faucet_def Let_def
  by (auto intro!: keeps_intro)

lemma keeps_admin [keeps_intro]:
  "keeps P (AdminMarkets E sess err)" "keeps P (AdminNewMarketPageHandler E sess)"
  "keeps P (AdminCreateMarket E sess r1)" "keeps P (AdminLockMarket E i)" "keeps P (AdminResolveMarket E i r2)"
  "keeps P (AdminCancelMarket E i)" "keeps P (AdminUsers E sess err)"
  unfolding AdminMarkets_def AdminNewMarketPageHandler_def AdminCreateMarket_def AdminLockMarket_def
    AdminResolveMarket_def AdminCancelMarket_def AdminUsers_def admin_market_call_def
  by (auto intro!: keeps_intro split: option.splits sum.splits general_error.splits)

lemma keeps_RequireUser [keeps_intro]: "(\<And>a. keeps P (k a)) \<Longrightarrow> keeps P (RequireUser sess uri k)"
  unfolding RequireUser_def by (auto intro!: keeps_intro split: option.splits)

lemma keeps_RequireAdmin [keeps_intro]: "(Account_IsAdmin a \<Longrightarrow> keeps P k) \<Longrightarrow> keeps P (RequireAdmin a k)"
  unfolding RequireAdmin_def by (auto intro!: keeps_intro)

lemma keeps_public [keeps_intro]: "keeps P (public_handler E sess q)"
  by (cases q) (simp_all add: keeps_intro)

lemma keeps_user [keeps_intro]: "keeps P (user_handler E crypto sess q a)"
  by (cases q) (simp_all add: keeps_intro)

lemma keeps_route: "\<not> promotes r \<Longrightarrow> keeps P (route_handler E crypto sess uri r)"
proof (cases r)
  case (Admin q)
  assume "\<not> promotes r"
  with Admin have "keeps P (admin_handler E sess q)" by (cases q) (simp_all add: keeps_intro)
  then show ?thesis using Admin by (auto intro!: keeps_intro)
qed (auto intro!: keeps_intro)

lemma serve_keeps: "\<not> promotes (Req_Route q) \<Longrightarrow> P w \<Longrightarrow> P (snd (serve E crypto q w))"
  unfolding serve_def by (auto intro: keeps_respond keeps_route)

end


text \<open>With promotion.\<close>

locale admin_invariant = general_invariant E up P for E up P +
  assumes promoted: "P w \<Longrightarrow> wallet_side w' = wallet_side w \<Longrightarrow>
      accounts w' = upd_rows (\<lambda>a. Account_Email a = e) (\<lambda>a. a\<lparr>Account_IsAdmin := True\<rparr>) (accounts w) \<Longrightarrow> P w'"
begin

lemma keeps_Promote [keeps_intro]: "keeps P (PromoteToAdmin E e)"
proof -
  have "keeps P (update_admin x)" for x
    unfolding keeps_def update_admin_def
    by (intro allI impI, erule promoted [of _ _ x]) simp_all
  then show ?thesis unfolding PromoteToAdmin_def by (intro keeps_intro keeps_g_stmt)
qed

lemma serve_keeps_all: "P w \<Longrightarrow> P (snd (serve E crypto q w))"
proof (cases "promotes (Req_Route q)")
  case True
  assume p: "P w"
  obtain r where r: "Req_Route q = Admin (AdminPromoteReq r)" using True by (cases "Req_Route q" rule: promotes.cases) auto
  have "keeps P (AdminPromoteUser E r)" unfolding AdminPromoteUser_def by (intro keeps_intro)
  then have "keeps P (route_handler E crypto sess uri (Req_Route q))" for sess uri
    unfolding r by (auto intro!: keeps_intro)
  then show ?thesis using p unfolding serve_def by (auto intro: keeps_respond)
qed (rule serve_keeps)

end


section \<open>The server as a transition system\<close>

text \<open>
  A step is a request, or whatever else happens: time passes, faults and sessions come and
  go, and the services behind go on, the poller among them; it leaves the accounts alone.
\<close>

inductive general_step :: "general_lib \<Rightarrow> bool \<Rightarrow> general_world \<Rightarrow> general_world \<Rightarrow> bool" for E crypto where
  request: "serve E crypto q w = (r, w') \<Longrightarrow> general_step E crypto w w'"
| env: "accounts w' = accounts w \<Longrightarrow> upstream_steps (wb_service E) (wallet_side w) (wallet_side w') \<Longrightarrow>
    general_step E crypto w w'"

inductive general_reachable :: "general_lib \<Rightarrow> bool \<Rightarrow> general_world \<Rightarrow> bool" for E crypto where
  init: "accounts w = general_runMigrations \<Longrightarrow> wdb (wallet_side w) = wallet_runMigrations \<Longrightarrow>
    tabs (engine w) = runMigrations t empty_db \<Longrightarrow> general_reachable E crypto w"
| step: "general_reachable E crypto w \<Longrightarrow> general_step E crypto w w' \<Longrightarrow> general_reachable E crypto w'"

inductive_cases general_stepE: "general_step E crypto w w'"

context admin_invariant
begin

lemma step_keeps: "general_step E crypto w w' \<Longrightarrow> P w \<Longrightarrow> P w'"
proof (elim general_stepE)
  fix q r assume "P w" and "serve E crypto q w = (r, w')"
  then show "P w'" using serve_keeps_all [of w crypto q] by simp
qed (rule behind)

lemma steps_keep: "(general_step E crypto)\<^sup>*\<^sup>* w w' \<Longrightarrow> P w \<Longrightarrow> P w'"
  by (induction rule: rtranclp_induct) (auto intro: step_keeps)

lemma reachable_invariant:
  assumes "general_reachable E crypto w"
    and "\<And>w t. accounts w = general_runMigrations \<Longrightarrow> wdb (wallet_side w) = wallet_runMigrations \<Longrightarrow>
      tabs (engine w) = runMigrations t empty_db \<Longrightarrow> P w"
  shows "P w"
  using assms(1) by (induction rule: general_reachable.induct) (auto intro: step_keeps assms(2))

end

end
