(* ===== verification/General_Correct.thy ===== *)
theory General_Correct
  imports General_Frames
begin

text \<open>
  The invariants of the server: the engine and the wallet behind it stay in their reachable
  states; the accounts keep their schema; an account lasts; and who may be an administrator.
  Then what registration, login and the money forms do.
\<close>

section \<open>The deployed server\<close>

text \<open>The two services behind it: bet-backend, and the live wallet that calls it.\<close>

definition deployed ::
    "general_lib \<Rightarrow> crypto_lib \<Rightarrow> solana \<Rightarrow> string \<Rightarrow> MasterWallet \<Rightarrow> Limits \<Rightarrow> int \<Rightarrow> int \<Rightarrow> general_lib" where
  "deployed E C S mint m l r f = E\<lparr>wb_service := live_service C S mint (bb_drv E) m l r f\<rparr>"

lemma deployed_simps [simp]:
  "wb_service (deployed E C S mint m l r f) = live_service C S mint (bb_drv E) m l r f"
  "normal_email (deployed E C S mint m l r f) = normal_email E"
  "env_InitialAdmin (deployed E C S mint m l r f) = env_InitialAdmin E"
  by (simp_all add: deployed_def normal_email_def fun_eq_iff)

lemma deployed_wallet: "engine_wallet (wb_service (deployed E C S mint m l r f)) client_up"
  by simp (rule live.engine_wallet_axioms)


section \<open>The services behind stay reachable\<close>

definition behind_reachable :: "Service \<Rightarrow> general_world \<Rightarrow> bool" where
  "behind_reachable s w \<longleftrightarrow> reachable (engine w) \<and> wallet_reachable s (wallet_side w)"

lemma engine_steps_reachable: "engine_step\<^sup>*\<^sup>* b b' \<Longrightarrow> reachable b \<Longrightarrow> reachable b'"
  by (induction rule: rtranclp_induct) (auto intro: reachable.step)

lemma wallet_steps_reachable: "(wallet_step s)\<^sup>*\<^sup>* v v' \<Longrightarrow> wallet_reachable s v \<Longrightarrow> wallet_reachable s v'"
  by (induction rule: rtranclp_induct) (auto intro: wallet_reachable.step)

interpretation composed: admin_invariant "deployed E C S mint m l r f" client_up
    "behind_reachable (live_service C S mint (bb_drv E) m l r f)" for E C S mint m l r f
  by (intro admin_invariant.intro general_invariant.intro deployed_wallet
        general_invariant_axioms.intro admin_invariant_axioms.intro)
     (auto simp: behind_reachable_def upstream_steps_def
       intro: engine_steps_reachable wallet_steps_reachable)


section \<open>The accounts\<close>

text \<open>Primary key, unique and normalised emails.\<close>

definition accounts_inv :: "general_lib \<Rightarrow> general_world \<Rightarrow> bool" where
  "accounts_inv E w \<longleftrightarrow> distinct (map Account_ID (accounts w)) \<and> distinct (map Account_Email (accounts w)) \<and>
     (\<forall>a \<in> set (accounts w). \<exists>x. Account_Email a = normal_email E x)"

lemma new_account_fields [simp]:
  "Account_ID (new_account E i email h t) = i" "Account_Email (new_account E i email h t) = normal_email E email"
  "Account_PasswordHash (new_account E i email h t) = h"
  "Account_IsAdmin (new_account E i email h t) \<longleftrightarrow>
     normal_email E (env_InitialAdmin E) \<noteq> [] \<and> normal_email E email = normal_email E (env_InitialAdmin E)"
  by (simp_all add: new_account_def Let_def)

interpretation schema: admin_invariant "deployed E C S mint m l r f" client_up "accounts_inv E" for E C S mint m l r f
  by (intro admin_invariant.intro general_invariant.intro deployed_wallet
        general_invariant_axioms.intro admin_invariant_axioms.intro)
     (auto simp: accounts_inv_def row_simps in_set_upd_rows)

text \<open>What is fixed about an account: its id, its email and its password.\<close>

definition lasts :: "Account \<Rightarrow> general_world \<Rightarrow> bool" where
  "lasts a w \<longleftrightarrow> (\<exists>b \<in> set (accounts w). Account_ID b = Account_ID a \<and> Account_Email b = Account_Email a \<and>
     Account_PasswordHash b = Account_PasswordHash a \<and> (Account_IsAdmin a \<longrightarrow> Account_IsAdmin b))"

lemma lasts_upd: "lasts a w \<Longrightarrow> accounts w' = upd_rows p (\<lambda>a. a\<lparr>Account_IsAdmin := True\<rparr>) (accounts w) \<Longrightarrow> lasts a w'"
  unfolding lasts_def by (elim bexE, rule_tac x = "if p b then b\<lparr>Account_IsAdmin := True\<rparr> else b" in bexI)
    (auto simp: in_set_upd_rows)

interpretation lasting_account: admin_invariant "deployed E C S mint m l r f" client_up "lasts a" for E C S mint m l r f a
  by (intro admin_invariant.intro general_invariant.intro deployed_wallet
        general_invariant_axioms.intro admin_invariant_axioms.intro)
     (auto intro: lasts_upd, auto simp: lasts_def)

text \<open>Only a promotion makes an administrator other than the initial one.\<close>

definition admins :: "general_world \<Rightarrow> string set" where
  "admins w = Account_Email ` {a \<in> set (accounts w). Account_IsAdmin a}"

interpretation no_new_admins: general_invariant "deployed E C S mint m l r f" client_up
    "\<lambda>w. admins w \<subseteq> A \<union> {normal_email E (env_InitialAdmin E)}" for E C S mint m l r f A
  by (intro general_invariant.intro deployed_wallet general_invariant_axioms.intro)
     (fastforce simp: admins_def)+


section \<open>Inverting a handler\<close>

lemma trying_inv [io_inv]:
  "trying m r w = (Inr x, w') \<longleftrightarrow> m w = (Inr x, w')"
  "trying m r w = (Inl y, w') \<longleftrightarrow> (\<exists>e. m w = (Inl e, w') \<and> y = r e)"
  by (auto simp: trying_def split: prod.splits sum.splits)

lemma both_inv [io_inv]:
  "both m w = (Inr x, w') \<longleftrightarrow> m w = (x, w')" "both m w = (Inl y, w') \<longleftrightarrow> False"
  by (auto simp: both_def split: prod.splits)

lemma sane_inv [io_inv]:
  "sane v r w = (Inr x, w') \<longleftrightarrow> v = Inr x \<and> w' = w"
  "sane v r w = (Inl y, w') \<longleftrightarrow> (\<exists>e. v = Inl e \<and> y = r e \<and> w' = w)"
  by (auto simp: sane_def throw_def ret_def split: sum.splits)

lemma bound_inv [io_inv]:
  "bound q ok r w = (Inr x, w') \<longleftrightarrow> q = Some x \<and> ok x \<and> w' = w"
  "bound q ok r w = (Inl y, w') \<longleftrightarrow> y = r \<and> w' = w \<and> \<not> (\<exists>x. q = Some x \<and> ok x)"
  by (auto simp: bound_def throw_def ret_def split: option.splits if_splits)

lemma respond_inv: "respond h w = (r, w') \<longleftrightarrow> h w = (Inl r, w') \<or> h w = (Inr r, w')"
  by (auto simp: respond_def split: prod.splits sum.splits)

text \<open>A call that is answered ran the handler once; the accounts are not touched.\<close>

lemma to_engine_Inr:
  "to_engine h w = (Inr x, w') \<Longrightarrow> h (engine w) = (x, engine w') \<and> accounts w' = accounts w \<and>
     wdb (wallet_side w') = wdb (wallet_side w) \<and> gdb_fates w' = gdb_fates w"
  by (auto simp: to_engine_def Let_def split: fate.splits prod.splits if_splits)

lemma to_wallet_Inr:
  "to_wallet h w = (Inr x, w') \<Longrightarrow> h (wallet_side w) = (x, wallet_side w') \<and> accounts w' = accounts w"
  by (auto simp: to_wallet_def Let_def split: fate.splits prod.splits if_splits)

lemma decoded_Inr [io_inv]:
  "decoded code f m w = (Inr x, w') \<longleftrightarrow> (\<exists>b. m w = (Inr (code, b), w') \<and> f b = Some x)"
  by (auto simp: decoded_def io_inv split: option.splits if_splits)

lemma g_query_Inr:
  "g_query f w = (Inr x, w') \<Longrightarrow> x = f (accounts w) \<and> accounts w' = accounts w \<and> wallet_side w' = wallet_side w"
  by (auto simp: g_query_def g_stmt_def Let_def split: fate.splits)

lemma one_account_Inr: "one_account m w = (Inr x, w') \<longleftrightarrow> m w = (Inr (Some x), w')"
  by (auto simp: one_account_def io_inv split: option.splits)

lemma FindAccount_Inr:
  "FindAccountByID i w = (Inr x, w') \<Longrightarrow>
     find (\<lambda>a. Account_ID a = i) (accounts w) = Some x \<and> accounts w' = accounts w \<and> wallet_side w' = wallet_side w"
  "FindAccountByEmail E e w = (Inr x, w') \<Longrightarrow>
     find (\<lambda>a. Account_Email a = normal_email E e) (accounts w) = Some x \<and> accounts w' = accounts w"
  by (auto simp: FindAccountByID_def FindAccountByEmail_def one_account_Inr dest!: g_query_Inr)

lemma FindAccountByEmail_live:
  assumes "gdb_fates w = []" and "find (\<lambda>a. Account_Email a = normal_email E e) (accounts w) = Some x"
  shows "FindAccountByEmail E e w = (Inr x, w)"
  using assms by (simp add: FindAccountByEmail_def one_account_def g_query_def g_stmt_def Let_def
      next_fate_def bindE_def ret_def)

end
