(* ===== verification/General_Effects.thy ===== *)
theory General_Effects
  imports General_Correct
begin

text \<open>
  What the handlers with an effect do: registration and login, the play-money deposit, the
  withdrawal and the forms of an administrator, each down to the tables of the service that
  does the work.
\<close>

section \<open>Registration and login\<close>

lemma normal_email_trim [simp]: "normal_email E (TrimSpace x) = normal_email E x"
  by (simp add: normal_email_def)

lemma new_account_trim [simp]: "new_account E i (TrimSpace x) h t = new_account E i x h t"
  by (simp add: new_account_def)

lemma CreateAccount_Inr:
  assumes "CreateAccount E i email h w = (Inr a, w')"
  shows "a = new_account E i email h (gclock w) \<and> accounts w' = accounts w @ [a] \<and>
    wallet_side w' = wallet_side w \<and> gdb_fates w' = tl (gdb_fates w)"
  using assms
  by (auto simp: CreateAccount_def Let_def on_error_def seqE_def bindE_def ret_def throw_def g_stmt_def
      insert_account_def split: fate.splits if_splits)

lemma bc_SyncUserTyped_Inr:
  assumes "bc_SyncUserTyped E i b w = (Inr x, w')" and "inv (tabs (engine w))"
  shows "balance_of (tabs (engine w')) j = (if j = i then Some b else balance_of (tabs (engine w)) j)"
    and "accounts w' = accounts w" and "gdb_fates w' = gdb_fates w" and "inv (tabs (engine w'))"
    and "escrow (tabs (engine w')) = escrow (tabs (engine w))"
proof -
  obtain body where t: "bc_SyncUser E i b w = (Inr (200, body), w')"
    using assms(1) by (auto simp: bc_SyncUserTyped_def io_inv)
  note e = to_engine_Inr [OF t [unfolded bc_SyncUser_def]]
  have "SyncUser_exec i b (engine w) = (Inr (), engine w')"
    using e by (auto simp: Bet_Handlers.SyncUser_def handle_def bad_request_def
        split: if_splits prod.splits sum.splits)
  then obtain t where u: "upsert_user i b t (tabs (engine w)) = Inr (tabs (engine w'))"
    using SyncUser_exec_Inr by blast
  show "balance_of (tabs (engine w')) j = (if j = i then Some b else balance_of (tabs (engine w)) j)"
    "inv (tabs (engine w'))" "escrow (tabs (engine w')) = escrow (tabs (engine w))"
    using upsert_user_step [OF u assms(2)] by auto
  show "accounts w' = accounts w" "gdb_fates w' = gdb_fates w" using e by simp_all
qed

text \<open>A response that opens a session is a registration that went all the way.\<close>

lemma Register_session:
  assumes "respond (Register E q) w = (r, w')" and "R_Session r = SetUser i" and "inv (tabs (engine w))"
  shows "\<exists>x h k t. q = Some x \<and> bcrypt_Generate E k (Reg_Password x) = Some h \<and>
    accounts w' = accounts w @ [new_account E i (Reg_Email x) h t] \<and>
    balance_of (tabs (engine w')) = (balance_of (tabs (engine w)))(i \<mapsto> 0)"
proof -
  have e: "R_Session (registerErr m) = KeepSession" for m
    by (simp add: registerErr_def answer_def)
  obtain x w1 email w2 h w3 a s where x: "q = Some x" "NonEmptyString (Reg_Email x) maxEmailLen = Inr email"
      "HashPassword E (Reg_Password x) w = (Inr h, w1)" "guuid_New w1 = (Inr i, w2)"
      "CreateAccount E i email h w2 = (Inr a, w3)" "bc_SyncUserTyped E i 0 w3 = (Inr s, w')"
    using assms(1,2) by (auto simp: respond_inv Register_def io_inv e split: if_splits)
  have w: "accounts w2 = accounts w" "wallet_side w2 = wallet_side w" "bcrypt_Generate E (guuid_ctr w) (Reg_Password x) = Some h"
    using x(3,4) by (auto simp: HashPassword_def guuid_New_def split: option.splits)
  have m: "email = TrimSpace (Reg_Email x)" using x(2) by (simp add: NonEmptyString_Inr)
  note c = CreateAccount_Inr [OF x(5)]
  have "inv (tabs (engine w3))" using c w assms(3) by simp
  note s = bc_SyncUserTyped_Inr [OF x(6) this]
  have "accounts w' = accounts w @ [new_account E i (Reg_Email x) h (gclock w2)]"
    using c s(2) w(1) m by simp
  moreover have "balance_of (tabs (engine w')) = (balance_of (tabs (engine w)))(i \<mapsto> 0)"
    using s(1) c w(2) by (auto simp: fun_eq_iff)
  ultimately show ?thesis using x(1) w(3) by blast
qed

lemma Login_session:
  assumes "respond (Login E q next_url) w = (r, w')" and "R_Session r = SetUser i"
  shows "\<exists>x. q = Some x \<and> (\<exists>a \<in> set (accounts w). Account_ID a = i \<and>
    Account_Email a = normal_email E (Reg_Email x) \<and> bcrypt_Compare E (Account_PasswordHash a) (Reg_Password x))"
proof -
  have e: "R_Session (answer k c) = KeepSession" for k c by (simp add: answer_def)
  show ?thesis
  proof (cases "\<exists>x. q = Some x \<and> credentials_ok E x")
    case False
    then show ?thesis using assms by (auto simp: respond_inv Login_def io_inv e)
  next
    case True
    then obtain x where x: "q = Some x" "credentials_ok E x" by blast
    obtain res w1 where f: "FindAccountByEmail E (Reg_Email x) w = (res, w1)" by force
    show ?thesis
    proof (cases res)
      case (Inl y)
      then show ?thesis using assms x f
        by (simp add: respond_def Login_def bound_def both_def bindE_def ret_def answer_def) auto
    next
      case (Inr a)
      then have "CheckPassword E (Account_PasswordHash a) (Reg_Password x) \<and> i = Account_ID a"
        using assms x f
        by (auto simp: respond_def Login_def bound_def both_def bindE_def ret_def answer_def split: if_splits)
      moreover have "a \<in> set (accounts w) \<and> Account_Email a = normal_email E (Reg_Email x)"
        using FindAccount_Inr(2) [OF f [unfolded Inr]] find_key_Some by metis
      ultimately show ?thesis using x by (auto simp: CheckPassword_def)
    qed
  qed
qed

lemma Login_live:
  assumes "gdb_fates w = []" and "accounts_inv E w" and "credentials_ok E x"
    and "a \<in> set (accounts w)" and "Account_Email a = normal_email E (Reg_Email x)"
    and "bcrypt_Compare E (Account_PasswordHash a) (Reg_Password x)"
  shows "R_Session (fst (respond (Login E (Some x) next_url) w)) = SetUser (Account_ID a)"
proof -
  have "find (\<lambda>a. Account_Email a = normal_email E (Reg_Email x)) (accounts w) = Some a"
    using assms(2,4,5) by (auto simp: accounts_inv_def intro: find_key_unique)
  from FindAccountByEmail_live [OF assms(1) this] show ?thesis
    using assms(3,6) by (simp add: Login_def bound_def both_def bindE_def ret_def respond_def CheckPassword_def)
qed


section \<open>The play-money deposit\<close>

lemma bc_GetUser_Inr:
  assumes "bc_GetUser E i w = (Inr u, w')"
  shows "balance_of (tabs (engine w)) i = Some (CU_Balance u) \<and> tabs (engine w') = tabs (engine w) \<and>
    accounts w' = accounts w"
proof -
  obtain body where t: "bc_GetUserRaw E i w = (Inr (200, body), w')" "as_user body = Some u"
    using assms by (auto simp: bc_GetUser_def io_inv)
  note e = to_engine_Inr [OF t(1) [unfolded bc_GetUserRaw_def]]
  obtain x where x: "GetUser i (engine w) = (Inr x, engine w')" "body = BUser x"
    using e by (auto simp: GetUser_handler_def handle_def status_error_def split: prod.splits sum.splits)
  have "select_user i (tabs (engine w)) = Some x"
    using no_rows_InrD [OF x(1) [unfolded GetUser_def]]
    by (auto simp: query_row_def stmt_def Let_def split: if_splits option.splits)
  moreover have "tabs (engine w') = tabs (engine w)"
    using keepsD [OF keeps_GetUser [of "\<lambda>d. d = tabs (engine w)" i] x(1)] by simp
  ultimately show ?thesis using t(2) x(2) e by (auto simp: balance_of_def to_user_def)
qed

text \<open>A synchronisation, answered or not, sets the balance to what was sent or leaves it.\<close>

lemma SyncUser_handler_cases:
  assumes "inv (tabs b)"
  shows "tabs (snd (Bet_Handlers.SyncUser v drv (Some q) b)) = tabs b \<or>
    0 \<le> Sync_Balance q \<and> balance_of (tabs (snd (Bet_Handlers.SyncUser v drv (Some q) b))) =
      (balance_of (tabs b))(Sync_ID q \<mapsto> Sync_Balance q)"
proof (cases "Sync_ID q = [] \<or> \<not> v (Sync_ID q) \<or> Sync_Balance q < 0")
  case True
  then show ?thesis by (simp add: Bet_Handlers.SyncUser_def bad_request_def)
next
  case False
  obtain res b' where r: "SyncUser_exec (Sync_ID q) (Sync_Balance q) b = (res, b')" by force
  have w: "snd (Bet_Handlers.SyncUser v drv (Some q) b) = b'"
    using False r by (simp add: Bet_Handlers.SyncUser_def handle_world)
  show ?thesis
  proof (cases res)
    case (Inl e)
    then show ?thesis using SyncUser_exec_Inl r w by blast
  next
    case (Inr x)
    then obtain t where "upsert_user (Sync_ID q) (Sync_Balance q) t (tabs b) = Inr (tabs b')"
      using SyncUser_exec_Inr r by blast
    from upsert_user_step(3) [OF this assms] show ?thesis using w False by (auto simp: fun_eq_iff)
  qed
qed

lemma to_engine_world: "engine (snd (to_engine h w)) = engine w \<or> engine (snd (to_engine h w)) = snd (h (engine w))"
  by (auto simp: to_engine_def Let_def split: fate.splits prod.splits)

lemma decoded_world: "snd (decoded code f m w) = snd (m w)"
  by (auto simp: decoded_def bindE_def throw_def ret_def split: prod.splits sum.splits option.splits)

lemma bc_SyncUserTyped_any:
  assumes "bc_SyncUserTyped E i n w = (res, w')" and "inv (tabs (engine w))"
  shows "balance_of (tabs (engine w')) = balance_of (tabs (engine w)) \<or>
    0 \<le> n \<and> balance_of (tabs (engine w')) = (balance_of (tabs (engine w)))(i \<mapsto> n)"
proof -
  have "w' = snd (bc_SyncUser E i n w)"
    using assms(1) decoded_world by (metis bc_SyncUserTyped_def snd_conv)
  then show ?thesis
    using to_engine_world [of _ w] SyncUser_handler_cases [OF assms(2), of _ _ "\<lparr>Sync_ID = i, Sync_Balance = n\<rparr>"]
    unfolding bc_SyncUser_def by (metis SyncUserRequest.select_convs(1,2))
qed

lemma bc_SyncUserTyped_nonneg: "bc_SyncUserTyped E i n w = (Inr x, w') \<Longrightarrow> 0 \<le> n"
  by (auto simp: bc_SyncUserTyped_def io_inv bc_SyncUser_def Bet_Handlers.SyncUser_def bad_request_def
      dest!: to_engine_Inr split: if_splits)

lemma i64_no_wrap:
  assumes "0 \<le> b" and "b \<le> 9223372036854775807" and "0 < n" and "n \<le> 1000000000" and "0 \<le> i64 (b + n)"
  shows "i64 (b + n) = b + n"
proof (rule i64_bounded)
  show "b + n \<le> 9223372036854775807"
  proof (rule ccontr)
    assume o: "\<not> b + n \<le> 9223372036854775807"
    have "(b + n + 9223372036854775808) mod 18446744073709551616 =
        (b + n - 9223372036854775808) mod 18446744073709551616"
      using minus_mod_self2 [of "b + n + 9223372036854775808" "18446744073709551616 :: int"] by simp
    also have "\<dots> = b + n - 9223372036854775808" using o assms by (intro mod_pos_pos_trivial) auto
    finally show False using assms by (simp add: i64_def)
  qed
qed (use assms in simp)

lemma balance_range:
  assumes "inv d" and "balance_of d i = Some b"
  shows "0 \<le> b \<and> b \<le> 9223372036854775807"
proof -
  obtain x where x: "select_user i d = Some x" "User_Balance x = b" using assms(2) by (auto simp: balance_of_def)
  have "x \<in> set (users d)" using find_key_Some x(1) unfolding select_user_def by metis
  then show ?thesis
    using assms(1) x(2) by (auto simp: inv_def wf_users_def in_int64_def int64_max_def)
qed

definition deposit_done :: response where
  "deposit_done = profile_flash (Lit ''Dep%C3%B3sito+realizado'')"

text \<open>
  Whatever the page says, the balance is the old one or has gained the amount, exactly; when
  it reports the deposit, it has.
\<close>

lemma Deposit_effect:
  assumes "Deposit E q a w = (res, w')" and "inv (tabs (engine w))"
  shows "balance_of (tabs (engine w')) = balance_of (tabs (engine w)) \<and> res \<noteq> Inr deposit_done \<or>
    (\<exists>n b. q = Some n \<and> 0 < n \<and> n \<le> MaxSanityInt \<and>
       balance_of (tabs (engine w)) (Account_ID a) = Some b \<and>
       balance_of (tabs (engine w')) = (balance_of (tabs (engine w)))(Account_ID a \<mapsto> b + n))"
proof (cases "\<exists>n. q = Some n \<and> PositiveInt64 n MaxSanityInt = Inr n")
  case False
  then show ?thesis using assms(1)
    by (cases q) (auto simp: Deposit_def bound_def sane_def bindE_def throw_def ret_def PositiveInt64_def
        split: if_splits)
next
  case True
  then obtain n where n: "q = Some n" "0 < n" "n \<le> MaxSanityInt" by (auto simp: PositiveInt64_Inr)
  obtain r1 w1 where g: "bc_GetUser E (Account_ID a) w = (r1, w1)" by force
  have d: "Deposit E q a w = bindE (trying (bc_GetUser E (Account_ID a))
       (\<lambda>_. profile_flash (Lit ''motor+de+apostas+indispon%C3%ADvel''))) (\<lambda>user.
     bindE (trying (bc_SyncUserTyped E (Account_ID a) (i64 (CU_Balance user + n)))
       (\<lambda>_. profile_flash (Lit ''falha+ao+depositar''))) (\<lambda>_. ret deposit_done)) w"
    using n by (simp add: Deposit_def bound_def sane_def PositiveInt64_def deposit_done_def)
  have t: "engine w1 = engine w \<or> tabs (engine w1) = tabs (engine w)"
  proof -
    have "w1 = snd (bc_GetUserRaw E (Account_ID a) w)"
      using g decoded_world by (metis bc_GetUser_def snd_conv)
    moreover have "tabs (snd (GetUser_handler drv i b)) = tabs b" for drv i b
      using keepsD [OF keeps_GetUser [of "\<lambda>d. d = tabs b" i] prod.collapse [symmetric]]
      by (simp add: GetUser_handler_def handle_world)
    ultimately show ?thesis using to_engine_world unfolding bc_GetUserRaw_def by metis
  qed
  show ?thesis
  proof (cases r1)
    case (Inl e)
    then show ?thesis using assms(1) g t d by (auto simp: bindE_def trying_def)
  next
    case (Inr u)
    note u = bc_GetUser_Inr [OF g [unfolded Inr]]
    obtain r2 w2 where s: "bc_SyncUserTyped E (Account_ID a) (i64 (CU_Balance u + n)) w1 = (r2, w2)" by force
    have w2: "w' = w2" "r2 = Inl e \<Longrightarrow> res \<noteq> Inr deposit_done" for e
      using assms(1) d g Inr s by (auto simp: bindE_def trying_def ret_def split: sum.splits)
    have i: "inv (tabs (engine w1))" using u assms(2) by simp
    have range: "0 \<le> CU_Balance u" "CU_Balance u \<le> 9223372036854775807"
      using u balance_range [OF assms(2)] by auto
    show ?thesis
    proof (cases "balance_of (tabs (engine w2)) = balance_of (tabs (engine w1)) \<and> isl r2")
      case True
      then show ?thesis using w2 u by (cases r2) auto
    next
      case False
      have p: "0 \<le> i64 (CU_Balance u + n) \<and>
          balance_of (tabs (engine w2)) = (balance_of (tabs (engine w1)))(Account_ID a \<mapsto> i64 (CU_Balance u + n))"
      proof (cases r2)
        case (Inr x)
        then show ?thesis
          using bc_SyncUserTyped_Inr(1) [OF s [unfolded Inr] i] bc_SyncUserTyped_nonneg s by (auto simp: fun_eq_iff)
      qed (use False bc_SyncUserTyped_any [OF s i] in auto)
      then have "i64 (CU_Balance u + n) = CU_Balance u + n"
        using i64_no_wrap [of "CU_Balance u" n] range n by (simp add: MaxSanityInt_def)
      then show ?thesis using p u w2 n by auto
    qed
  qed
qed


text \<open>An early return of the form is never the page of success.\<close>

lemma Deposit_fails: "Deposit E q a w \<noteq> (Inl deposit_done, w')"
proof -
  have "deposit_done \<noteq> profile_flash (Lit ''valor+inv%C3%A1lido'')"
    "deposit_done \<noteq> profile_flash (Lit ''motor+de+apostas+indispon%C3%ADvel'')"
    "deposit_done \<noteq> profile_flash (Lit ''falha+ao+depositar'')"
    by (simp_all add: deposit_done_def profile_flash_def answer_def)
  then show ?thesis by (auto simp: Deposit_def io_inv)
qed


section \<open>The withdrawal form\<close>

definition sent :: response where "sent = flash_text ''Saque enviado''"
definition in_review :: response where "in_review = flash_text (''Saque em an'' @ a_acute @ ''lise manual'')"
definition refused :: response where "refused = flash_text ''saldo insuficiente''"

lemma flashes:
  "sent \<noteq> in_review" "sent \<noteq> refused" "in_review \<noteq> refused"
  "flash_text ''falha ao sacar'' \<noteq> sent" "flash_text ''falha ao sacar'' \<noteq> in_review"
  "flash_text ''falha ao sacar'' \<noteq> refused"
  by code_simp+

lemma withdraw_flash_eq: "withdraw_flash r = (case r of Inr _ \<Rightarrow> sent
    | Inl e \<Rightarrow> if e = wc_ErrManualReview then in_review
             else if e = wc_ErrInsufficientBalance then refused else flash_text ''falha ao sacar'')"
  by (simp add: withdraw_flash_def sent_def in_review_def refused_def split: sum.splits general_error.splits)

lemma withdraw_flash_iff:
  "withdraw_flash r = sent \<longleftrightarrow> (\<exists>x. r = Inr x)"
  "withdraw_flash r = in_review \<longleftrightarrow> r = Inl wc_ErrManualReview"
  "withdraw_flash r = refused \<longleftrightarrow> r = Inl wc_ErrInsufficientBalance"
  using flashes by (auto simp: withdraw_flash_eq split: sum.splits)

lemma to_wallet_result: "to_wallet h w = (Inl e, w') \<Longrightarrow> e = wc_Unreachable"
  by (auto simp: to_wallet_def Let_def split: fate.splits prod.splits if_splits)

text \<open>The status the wallet answered, where the client's result tells it.\<close>

lemma doStatus_cases:
  assumes "doStatus f h w = (res, w')"
  obtains (lost) "res = Inl wc_Unreachable"
  | (undecoded) "res = Inl wc_Decode"
  | (answered) code body out where "to_wallet h w = (Inr (code, body), w')" "res = Inr (code, out)"
      "out \<noteq> None \<longleftrightarrow> 200 \<le> code \<and> code < 300"
proof (cases "fst (to_wallet h w)")
  case (Inl e)
  then show ?thesis using assms lost to_wallet_result [of h w e]
    by (cases "to_wallet h w") (auto simp: doStatus_def bindE_def)
next
  case (Inr y)
  then show ?thesis using assms undecoded answered [of "fst y" "snd y"]
    by (cases "to_wallet h w") (auto simp: doStatus_def bindE_def ret_def throw_def split: option.splits prod.splits if_splits)
qed

lemma wc_RequestWithdrawal_status:
  assumes "wc_RequestWithdrawal E i dest amt w = (res, w')"
    and "(\<exists>x. res = Inr x) \<or> res = Inl wc_ErrManualReview \<or> res = Inl wc_ErrInsufficientBalance"
  shows "\<exists>body. withdraw (wb_service E) i (Some \<lparr>Withdraw_DestAddress = dest, Withdraw_AmountReais = amt\<rparr>)
      (wallet_side w) = ((case res of Inr _ \<Rightarrow> 200 | Inl e \<Rightarrow> if e = wc_ErrManualReview then 202 else 402, body),
      wallet_side w') \<and> accounts w' = accounts w"
proof -
  let ?h = "withdraw (wb_service E) i (Some \<lparr>Withdraw_DestAddress = dest, Withdraw_AmountReais = amt\<rparr>)"
  obtain r1 w1 where d: "doStatus as_withdrawal ?h w = (r1, w1)" by force
  from d show ?thesis
  proof (cases rule: doStatus_cases)
    case (answered code body out)
    have "w' = w1" "res = (case (code = 200, out) of (True, Some x) \<Rightarrow> Inr x
      | _ \<Rightarrow> Inl (if code = 202 then wc_ErrManualReview
                 else if code = 402 then wc_ErrInsufficientBalance else wc_Status code))"
      using assms(1) d answered(2)
      by (auto simp: wc_RequestWithdrawal_def bindE_def ret_def throw_def split: bool.splits option.splits if_splits)
    then show ?thesis
      using assms(2) to_wallet_Inr [OF answered(1)]
      by (auto split: bool.splits option.splits if_splits)
  qed (use assms d in \<open>auto simp: wc_RequestWithdrawal_def bindE_def\<close>)
qed

lemma Withdraw_cases:
  assumes "Withdraw E q a w = (res, w')"
  obtains (form) "w' = w" "\<And>r. res \<noteq> Inr r"
  | (asked) x r where "q = Some x" "SolanaAddress (WForm_DestAddress x) = Inr (TrimSpace (WForm_DestAddress x))"
      "0 < WForm_Amount x" "WForm_Amount x \<le> MaxSanityInt"
      "wc_RequestWithdrawal E (Account_ID a) (TrimSpace (WForm_DestAddress x)) (WForm_Amount x) w = (r, w')"
      "res = Inr (withdraw_flash r)"
proof (cases "\<exists>x d n. q = Some x \<and> WForm_DestAddress x \<noteq> [] \<and> WForm_Amount x \<noteq> 0 \<and>
    SolanaAddress (WForm_DestAddress x) = Inr d \<and> PositiveInt64 (WForm_Amount x) MaxSanityInt = Inr n")
  case True
  then obtain x d n where x: "q = Some x" "WForm_DestAddress x \<noteq> []" "WForm_Amount x \<noteq> 0"
      "SolanaAddress (WForm_DestAddress x) = Inr d" "PositiveInt64 (WForm_Amount x) MaxSanityInt = Inr n"
    by blast
  have d: "d = TrimSpace (WForm_DestAddress x)" using x(4) by (auto simp: SolanaAddress_def Let_def split: if_splits)
  obtain r w1 where r: "wc_RequestWithdrawal E (Account_ID a) d (WForm_Amount x) w = (r, w1)" by force
  show ?thesis
    using assms x r asked [of x r] unfolding d
    by (auto simp: Withdraw_def bound_def sane_def bindE_def both_def ret_def PositiveInt64_Inr)
next
  case False
  then show ?thesis
    using assms form
    by (auto simp: Withdraw_def bound_def sane_def bindE_def throw_def ret_def split: option.splits sum.splits if_splits)
qed

lemma SolanaAddress_nonempty: "SolanaAddress s = Inr d \<Longrightarrow> d \<noteq> []"
  by (auto simp: SolanaAddress_def Let_def split: if_splits)


section \<open>Who may do what\<close>

definition admin_session :: "uuid option \<Rightarrow> general_world \<Rightarrow> bool" where
  "admin_session sess w \<longleftrightarrow> (\<exists>a \<in> set (accounts w). sess = Some (Account_ID a) \<and> Account_IsAdmin a)"

lemma g_query_world:
  "g_query f w = (r, w') \<Longrightarrow> w' = w\<lparr>gdb_fates := tl (gdb_fates w)\<rparr> \<and> (\<forall>x. r = Inr x \<longrightarrow> x = f (accounts w))"
  by (auto simp: g_query_def g_stmt_def Let_def split: fate.splits)

lemma one_account_world: "snd (one_account m w) = snd (m w)"
  by (auto simp: one_account_def bindE_def throw_def ret_def split: prod.splits sum.splits option.splits)

lemma FindAccountByID_world: "snd (FindAccountByID i w) = w\<lparr>gdb_fates := tl (gdb_fates w)\<rparr>"
  unfolding FindAccountByID_def one_account_world using g_query_world prod.collapse by metis

lemma FindAccountByID_found: "FindAccountByID i w = (Inr a, w') \<Longrightarrow> a \<in> set (accounts w) \<and> Account_ID a = i"
  using FindAccount_Inr(1) find_key_Some by metis

text \<open>A request with no session gets no further than the login page.\<close>

lemma RequireUser_none: "CurrentUserID sess = None \<Longrightarrow> RequireUser sess uri k w = (Inl (redirectToLogin uri), w)"
  by (simp add: RequireUser_def throw_def)

lemma RequireUser_fail:
  assumes "RequireUser sess uri k w = (res, w')"
  shows "(\<exists>x. res = Inl x \<and> (x = redirectToLogin uri \<or> x = (redirectToLogin uri)\<lparr>R_Session := ClearSession\<rparr>) \<and>
      accounts w' = accounts w \<and> wallet_side w' = wallet_side w) \<or>
    (\<exists>a \<in> set (accounts w). sess = Some (Account_ID a) \<and> k a (w\<lparr>gdb_fates := tl (gdb_fates w)\<rparr>) = (res, w'))"
proof (cases "CurrentUserID sess")
  case None
  then show ?thesis using assms by (auto simp: RequireUser_none)
next
  case (Some i)
  then have i: "sess = Some i" by (auto simp: CurrentUserID_def split: option.splits if_splits)
  let ?w = "w\<lparr>gdb_fates := tl (gdb_fates w)\<rparr>"
  obtain r where f: "FindAccountByID i w = (r, ?w)" using FindAccountByID_world by (metis prod.collapse)
  show ?thesis
  proof (cases r)
    case (Inl e)
    then show ?thesis using assms Some f by (auto simp: RequireUser_def trying_def bindE_def)
  next
    case (Inr a)
    then show ?thesis using assms Some f i FindAccountByID_found [of i w a]
      by (auto simp: RequireUser_def trying_def bindE_def)
  qed
qed

lemma RequireUser_cases:
  assumes "RequireUser sess uri k w = (res, w')"
  obtains (out) r where "res = Inl r" "R_Status r = 302" "accounts w' = accounts w" "wallet_side w' = wallet_side w"
  | (user) a where "sess = Some (Account_ID a)" "a \<in> set (accounts w)"
      "k a (w\<lparr>gdb_fates := tl (gdb_fates w)\<rparr>) = (res, w')"
  using RequireUser_fail [OF assms] that by (auto simp: redirectToLogin_def answer_def)

lemma admin_route_cases:
  assumes "route_handler E crypto sess uri (Admin q) w = (res, w')"
  obtains (refused) r where "res = Inl r" "R_Status r \<in> {302, 403}" "accounts w' = accounts w"
      "wallet_side w' = wallet_side w"
  | (granted) "admin_session sess w" "admin_handler E sess q (w\<lparr>gdb_fates := tl (gdb_fates w)\<rparr>) = (res, w')"
  using assms unfolding route_handler.simps
proof (cases rule: RequireUser_cases)
  case (user a)
  then show ?thesis using that
    by (cases "Account_IsAdmin a") (auto simp: RequireAdmin_def throw_def answer_def admin_session_def)
qed (use that in auto)

lemma g_stmt_world: "g_stmt m w = (r, w') \<Longrightarrow>
    w' = w\<lparr>gdb_fates := tl (gdb_fates w)\<rparr> \<or> w' = snd (m (w\<lparr>gdb_fates := tl (gdb_fates w)\<rparr>))"
  by (auto simp: g_stmt_def Let_def split: fate.splits dest: arg_cong [where f = snd])

lemma AdminPromoteUser_accounts:
  assumes "AdminPromoteUser E q w = (res, w')"
  shows "accounts w' = accounts w \<or> (\<exists>x. q = Some x \<and> accounts w' =
    upd_rows (\<lambda>a. Account_Email a = normal_email E x) (\<lambda>a. a\<lparr>Account_IsAdmin := True\<rparr>) (accounts w))"
proof (cases "\<exists>x. q = Some x \<and> x \<noteq> [] \<and> email_ok E x")
  case False
  then show ?thesis using assms
    by (auto simp: AdminPromoteUser_def bound_def bindE_def throw_def split: option.splits if_splits)
next
  case True
  then obtain x where x: "q = Some x" "x \<noteq> []" "email_ok E x" by blast
  obtain r w1 where g: "g_stmt (update_admin (normal_email E x)) w = (r, w1)" by force
  have "w' = w1"
    using assms x g
    by (auto simp: AdminPromoteUser_def bound_def bindE_def trying_def PromoteToAdmin_def throw_def ret_def
        split: sum.splits if_splits)
  then show ?thesis using g_stmt_world [OF g] x by (auto simp: update_admin_def)
qed

lemma serve_admins:
  assumes "serve (deployed E C S mint m l r f) crypto q w = (resp, w')"
    and "e \<in> admins w'" and "e \<notin> admins w"
  shows "e = normal_email E (env_InitialAdmin E) \<or> admin_session (Req_Session q) w \<and>
    (\<exists>x. Req_Route q = Admin (AdminPromoteReq (Some x)) \<and> e = normal_email E x)"
proof (cases "promotes (Req_Route q)")
  case False
  have "admins (snd (serve (deployed E C S mint m l r f) crypto q w)) \<subseteq>
      admins w \<union> {normal_email E (env_InitialAdmin E)}"
    by (rule no_new_admins.serve_keeps [OF False]) blast
  then show ?thesis using assms by auto
next
  case True
  then obtain p where p: "Req_Route q = Admin (AdminPromoteReq p)"
    by (cases "Req_Route q" rule: promotes.cases) auto
  let ?E = "deployed E C S mint m l r f"
  have "accounts w' \<noteq> accounts w" using assms(2,3) by (auto simp: admins_def)
  then obtain res where "route_handler ?E crypto (Req_Session q) (Req_URI q) (Admin (AdminPromoteReq p)) w = (res, w')"
    using assms(1) p by (auto simp: serve_def respond_inv split: if_splits)
  then show ?thesis
  proof (cases rule: admin_route_cases)
    case (refused x)
    then show ?thesis using \<open>accounts w' \<noteq> accounts w\<close> by blast
  next
    case granted
    obtain x where x: "p = Some x" "accounts w' =
        upd_rows (\<lambda>a. Account_Email a = normal_email E x) (\<lambda>a. a\<lparr>Account_IsAdmin := True\<rparr>) (accounts w)"
      using AdminPromoteUser_accounts [OF granted(2) [unfolded admin_handler.simps]] \<open>accounts w' \<noteq> accounts w\<close> by auto
    have "e = normal_email E x"
      using assms(2,3) by (auto simp: admins_def x(2) in_set_upd_rows split: if_splits)
    then show ?thesis using granted(1) p x(1) by blast
  qed
qed

lemma serve_respond: "\<not> visited_by_http q \<Longrightarrow>
    serve E crypto q w = respond (route_handler E crypto (Req_Session q) (Req_URI q) (Req_Route q)) w"
  by (simp add: serve_def)

lemma serve_http: "visited_by_http q \<Longrightarrow> serve E crypto q w = (r, w') \<Longrightarrow> w' = w \<and> R_Status r = 301"
  by (auto simp: serve_def answer_def)

text \<open>A route of a user, served.\<close>

lemma serve_user_cases:
  assumes "serve E crypto q w = (r, w')" and "Req_Route q = Authed u"
  obtains (out) "R_Status r \<in> {301, 302, 404}" "accounts w' = accounts w" "wallet_side w' = wallet_side w"
      "\<forall>p. r \<noteq> profile_flash p"
  | (user) a res where "registered crypto u" "Req_Session q = Some (Account_ID a)" "a \<in> set (accounts w)"
      "user_handler E crypto (Req_Session q) u a (w\<lparr>gdb_fates := tl (gdb_fates w)\<rparr>) = (res, w')"
      "res = Inl r \<or> res = Inr r"
proof -
  have l: "redirectToLogin x \<noteq> profile_flash p" "(redirectToLogin x)\<lparr>R_Session := ClearSession\<rparr> \<noteq> profile_flash p" for x p
    by (simp_all add: redirectToLogin_def profile_flash_def answer_def)
  consider (http) "visited_by_http q" | (absent) "\<not> visited_by_http q" "\<not> registered crypto u"
    | (routed) "\<not> visited_by_http q" "registered crypto u" by blast
  then show ?thesis
  proof cases
    case http
    then show ?thesis using assms out by (auto simp: serve_def answer_def profile_flash_def)
  next
    case absent
    then show ?thesis using assms out
      by (auto simp: serve_respond respond_def ret_def not_found_def answer_def profile_flash_def)
  next
    case routed
    let ?k = "user_handler E crypto (Req_Session q) u"
    obtain res where res: "RequireUser (Req_Session q) (Req_URI q) ?k w = (res, w')" "res = Inl r \<or> res = Inr r"
      using assms routed by (auto simp: serve_respond respond_inv)
    show ?thesis
    proof (cases "\<exists>a \<in> set (accounts w). Req_Session q = Some (Account_ID a) \<and>
        ?k a (w\<lparr>gdb_fates := tl (gdb_fates w)\<rparr>) = (res, w')")
      case True
      then show ?thesis using user routed res(2) by blast
    next
      case False
      obtain x where x: "res = Inl x" "x = redirectToLogin (Req_URI q) \<or>
          x = (redirectToLogin (Req_URI q))\<lparr>R_Session := ClearSession\<rparr>"
          "accounts w' = accounts w" "wallet_side w' = wallet_side w"
        using RequireUser_fail [OF res(1)] False by metis
      then show ?thesis using out res(2) l by (auto simp: redirectToLogin_def answer_def)
    qed
  qed
qed


section \<open>Synchronisation\<close>

text \<open>With the database up a synchronisation sets the balance, whoever asks for it.\<close>

lemma SyncUser_exec_live:
  assumes "faults b = []" and "0 \<le> n" and "in_int64 n"
  shows "\<exists>b'. SyncUser_exec u n b = (Inr (), b')"
proof -
  have "\<exists>d'. upsert_user u n t d = Inr d'" for t d
    using assms(2,3) by (auto simp: upsert_user_def update_balance_def list_ex_iff)
  then obtain d' where "upsert_user u n (clock b) (tabs b) = Inr d'" by blast
  then show ?thesis
    using assms(1) by (simp add: SyncUser_exec_def timeNow_def exec_def stmt_def Let_def bindE_def)
qed

lemma syncUser_live:
  assumes "GSync_ID q \<noteq> []" and "uuid_Parse E (TrimSpace (GSync_ID q)) = Some u" and "u \<noteq> []" and "bb_is_uuid E u"
    and "0 \<le> GSync_Balance q" and "GSync_Balance q \<le> MaxSanityInt"
    and "gnet_fates w = []" and "faults (engine w) = []" and "inv (tabs (engine w))"
  shows "\<exists>w'. respond (syncUser E (Some q)) w = (answer 200 (Relayed (BSynced u (GSync_Balance q))), w') \<and>
    balance_of (tabs (engine w')) = (balance_of (tabs (engine w)))(u \<mapsto> GSync_Balance q)"
proof -
  let ?n = "GSync_Balance q"
  have "in_int64 ?n" using assms(5,6) by (simp add: in_int64_def int64_min_def int64_max_def MaxSanityInt_def)
  from SyncUser_exec_live [OF assms(8,5) this] obtain b' where b: "SyncUser_exec u ?n (engine w) = (Inr (), b')" by blast
  have h: "Bet_Handlers.SyncUser (bb_is_uuid E) (bb_drv E) (Some \<lparr>Sync_ID = u, Sync_Balance = ?n\<rparr>) (engine w) =
      ((200, BSynced u ?n), b')"
    using assms(3,4,5) b by (simp add: Bet_Handlers.SyncUser_def handle_def)
  have "NonNegativeInt64 ?n MaxSanityInt = Inr ?n" using assms(5,6) by (simp add: NonNegativeInt64_Inr)
  moreover have "UUID (uuid_Parse E) (GSync_ID q) = Inr u" using assms(2) by (simp add: UUID_Inr)
  ultimately have r: "respond (syncUser E (Some q)) w = (answer 200 (Relayed (BSynced u ?n)),
      w\<lparr>gnet_fates := [], wallet_side := (wallet_side w)\<lparr>bank := b'\<rparr>\<rparr>)"
    using assms(1,7) h
    by (simp add: syncUser_def bound_def sane_def relay_def both_def bc_SyncUser_def to_engine_def next_fate_def
        respond_def bindE_def ret_def)
  obtain t where "upsert_user u ?n t (tabs (engine w)) = Inr (tabs b')" using SyncUser_exec_Inr [OF b] by blast
  from upsert_user_step(3) [OF this assms(9)]
  have "balance_of (tabs b') = (balance_of (tabs (engine w)))(u \<mapsto> ?n)" by (auto simp: fun_eq_iff)
  then show ?thesis using r by simp
qed


section \<open>Calls that are answered\<close>

lemma bc_SyncUserTyped_live:
  assumes "gnet_fates w = []" and "faults (engine w) = []" and "0 \<le> n" and "in_int64 n" and "u \<noteq> []" and "bb_is_uuid E u"
  shows "\<exists>x w'. bc_SyncUserTyped E u n w = (Inr x, w')"
proof -
  obtain b where "SyncUser_exec u n (engine w) = (Inr (), b)" using SyncUser_exec_live [OF assms(2-4)] by blast
  then have "Bet_Handlers.SyncUser (bb_is_uuid E) (bb_drv E) (Some \<lparr>Sync_ID = u, Sync_Balance = n\<rparr>) (engine w) =
      ((200, BSynced u n), b)"
    using assms(3,5,6) by (simp add: Bet_Handlers.SyncUser_def handle_def)
  then show ?thesis using assms(1)
    by (simp add: bc_SyncUserTyped_def decoded_def bc_SyncUser_def to_engine_def next_fate_def bindE_def ret_def)
qed

lemma bc_GetUser_live:
  assumes "gnet_fates w = []" and "faults (engine w) = []" and "select_user i (tabs (engine w)) = Some x"
  shows "\<exists>w'. bc_GetUser E i w = (Inr (to_user x), w') \<and> gnet_fates w' = [] \<and> faults (engine w') = []"
  using assms
  by (simp add: bc_GetUser_def decoded_def bc_GetUserRaw_def to_engine_def next_fate_def GetUser_handler_def
      handle_def GetUser_def no_rows_def on_error_def query_row_def stmt_def Let_def bindE_def ret_def)

lemma Deposit_live:
  assumes "gnet_fates w = []" and "faults (engine w) = []" and "select_user (Account_ID a) (tabs (engine w)) = Some x"
    and "0 < n" and "n \<le> MaxSanityInt" and "0 \<le> User_Balance x" and "in_int64 (User_Balance x + n)"
    and "Account_ID a \<noteq> []" and "bb_is_uuid E (Account_ID a)"
  shows "\<exists>w'. Deposit E (Some n) a w = (Inr deposit_done, w')"
proof -
  obtain w1 where g: "bc_GetUser E (Account_ID a) w = (Inr (to_user x), w1)" "gnet_fates w1 = []" "faults (engine w1) = []"
    using bc_GetUser_live [OF assms(1-3)] by blast
  have "0 \<le> User_Balance x + n" using assms(4,6) by simp
  from bc_SyncUserTyped_live [OF g(2,3) this assms(7-9)]
  obtain y w2 where "bc_SyncUserTyped E (Account_ID a) (User_Balance x + n) w1 = (Inr y, w2)" by blast
  then show ?thesis
    using g(1) assms(4,5,7)
    by (simp add: Deposit_def bound_def sane_def PositiveInt64_def trying_def bindE_def ret_def to_user_def
        i64_id deposit_done_def)
qed


section \<open>Where a login goes\<close>

lemma Login_target:
  assumes "respond (Login E x next_url) w = (r, w')" and "R_Session r = SetUser i"
  shows "R_Content r = Redirect [Lit (if next_url = [] then ''/'' else next_url)]"
proof (cases "\<exists>y a w1. x = Some y \<and> credentials_ok E y \<and> FindAccountByEmail E (Reg_Email y) w = (Inr a, w1)")
  case True
  then show ?thesis using assms
    by (auto simp: respond_def Login_def bound_def both_def bindE_def ret_def answer_def redirect_def split: if_splits)
next
  case False
  have "R_Session r = KeepSession"
  proof (cases "\<exists>y. x = Some y \<and> credentials_ok E y")
    case True
    then obtain y where y: "x = Some y" "credentials_ok E y" by blast
    then obtain e w1 where "FindAccountByEmail E (Reg_Email y) w = (Inl e, w1)"
      using False by (metis old.sum.exhaust prod.exhaust)
    then show ?thesis using assms(1) y
      by (auto simp: respond_def Login_def bound_def both_def bindE_def ret_def answer_def)
  qed (use assms(1) in \<open>auto simp: respond_inv Login_def io_inv answer_def\<close>)
  then show ?thesis using assms(2) by simp
qed

text \<open>The routes that need a user.\<close>

fun guarded :: "bool \<Rightarrow> route \<Rightarrow> bool" where
  "guarded crypto (Public q) = False"
| "guarded crypto (Authed q) = registered crypto q"
| "guarded crypto (Admin q) = True"

lemma serve_anonymous:
  assumes "\<not> visited_by_http q" and "guarded crypto (Req_Route q)" and "CurrentUserID (Req_Session q) = None"
  shows "serve E crypto q w = (redirectToLogin (Req_URI q), w)"
  using assms by (cases "Req_Route q") (simp_all add: serve_respond RequireUser_none respond_def)


section \<open>The withdrawal page\<close>

lemma Withdraw_early:
  assumes "Withdraw E q a w = (Inl r, w')"
  shows "r \<noteq> sent \<and> r \<noteq> in_review \<and> r \<noteq> refused"
proof -
  have "flash_text (''dados de saque inv'' @ a_acute @ ''lidos'') \<notin> {sent, in_review, refused}"
    "flash_text (''endere'' @ c_cedil @ ''o de destino inv'' @ a_acute @ ''lido'') \<notin> {sent, in_review, refused}"
    "flash_text (''valor inv'' @ a_acute @ ''lido'') \<notin> {sent, in_review, refused}"
    by code_simp+
  then show ?thesis using assms by (auto simp: Withdraw_def io_inv simp del: append.simps)
qed

end
