(* ===== verification/General_Format.thy ===== *)
theory General_Format
  imports General_Pages
begin

text \<open>
  Texts: \<open>FormatMoney\<close>'s loop against the reference that splits off groups of three
  digits, and \<open>url.QueryEscape\<close> against its decoder.
\<close>

section \<open>Groups of three\<close>

definition three_digits :: "nat \<Rightarrow> string" where
  "three_digits n = [digit_char (n div 100), digit_char (n div 10 mod 10), digit_char (n mod 10)]"

fun grouped :: "nat \<Rightarrow> string" where
  "grouped n = (if n < 1000 then nat_text n else grouped (n div 1000) @ ''.'' @ three_digits (n mod 1000))"

declare grouped.simps [simp del]

lemma dotted_append: "dotted i n (xs @ ys) = dotted i n xs @ dotted (i + length xs) n ys"
  by (induction xs arbitrary: i) auto

lemma dotted_shift: "i + length xs \<le> n \<Longrightarrow> dotted i (n + 3) xs = dotted i n xs"
proof (induction xs arbitrary: i)
  case (Cons x xs)
  obtain k where "n = i + k" using Cons.prems le_Suc_ex [of i n] by auto
  then have "(n + 3 - i) mod 3 = (n - i) mod 3" by simp
  then show ?case using Cons by simp
qed simp

lemma dotted_short: "n \<le> 3 \<Longrightarrow> i + length xs \<le> n \<Longrightarrow> dotted i n xs = xs"
proof (induction xs arbitrary: i)
  case (Cons x xs)
  have "0 < i \<Longrightarrow> n - i < 3 \<and> n - i \<noteq> 0" using Cons.prems by auto
  then have "i = 0 \<or> 0 < (n - i) mod 3" by (cases "i = 0") simp_all
  then show ?case using Cons by auto
qed simp

lemma dotted_three: "xs \<noteq> [] \<Longrightarrow>
    dotted 0 (length (xs @ [a, b, c])) (xs @ [a, b, c]) = dotted 0 (length xs) xs @ ''.'' @ [a, b, c]"
proof -
  assume "xs \<noteq> []"
  moreover have "length (xs @ [a, b, c]) = length xs + 3" by simp
  moreover have "dotted 0 (length xs + 3) xs = dotted 0 (length xs) xs" by (rule dotted_shift) simp
  ultimately show ?thesis by (simp only: dotted_append) simp
qed

lemma nat_text_nonempty: "nat_text n \<noteq> []"
  by (subst nat_text.simps) simp

lemma nat_text_three: "1000 \<le> n \<Longrightarrow> nat_text n = nat_text (n div 1000) @ three_digits (n mod 1000)"
proof -
  assume n: "1000 \<le> n"
  have d: "n div 10 div 10 div 10 = n div 1000" "n mod 1000 div 100 = n div 10 div 10 mod 10"
    "n mod 1000 div 10 mod 10 = n div 10 mod 10" "n mod 1000 mod 10 = n mod 10"
  proof -
    have "n mod 1000 = 100 * (n div 100 mod 10) + n mod 100" "n mod 1000 = 10 * (n div 10 mod 100) + n mod 10"
      using mod_mult2_eq [of n 100 10] mod_mult2_eq [of n 10 100] by simp_all
    then have "n mod 1000 div 100 = n div 100 mod 10" "n mod 1000 div 10 = n div 10 mod 100"
      by (metis mod_less_divisor div_mult_self4 div_less add_0_right zero_less_numeral zero_neq_numeral)+
    then show "n div 10 div 10 div 10 = n div 1000" "n mod 1000 div 100 = n div 10 div 10 mod 10"
      "n mod 1000 div 10 mod 10 = n div 10 mod 10" "n mod 1000 mod 10 = n mod 10"
      by (simp_all add: div_mult2_eq [symmetric] mod_mod_cancel)
  qed
  have "nat_text m = nat_text (m div 10) @ [digit_char (m mod 10)]" if "10 \<le> m" for m
    using that nat_text.simps [of m] by simp
  from this [of n] this [of "n div 10"] this [of "n div 10 div 10"]
  have "nat_text n = ((nat_text (n div 10 div 10 div 10) @ [digit_char (n div 10 div 10 mod 10)]) @
      [digit_char (n div 10 mod 10)]) @ [digit_char (n mod 10)]"
    using n by simp
  then show ?thesis by (simp only: d three_digits_def append_assoc append_Cons append_Nil)
qed

lemma nat_text_short: "n < 1000 \<Longrightarrow> length (nat_text n) \<le> 3"
proof -
  assume n: "n < 1000"
  have a: "length (nat_text n) = 1" if "n < 10" for n using that by (subst nat_text.simps) simp
  have b: "length (nat_text n) \<le> 2" if "n < 100" for n
    using that a [of "n div 10"] a [of n] by (subst nat_text.simps) auto
  show ?thesis using n b [of "n div 10"] by (subst nat_text.simps) auto
qed

lemma dotted_grouped: "dotted 0 (length (nat_text n)) (nat_text n) = grouped n"
proof (induction n rule: grouped.induct)
  case (1 n)
  show ?case
  proof (cases "n < 1000")
    case True
    then show ?thesis using dotted_short [OF nat_text_short] by (subst grouped.simps) simp
  next
    case False
    then have t: "nat_text n = nat_text (n div 1000) @ three_digits (n mod 1000)" using nat_text_three by simp
    have "grouped n = grouped (n div 1000) @ ''.'' @ three_digits (n mod 1000)"
      using False by (subst grouped.simps) simp
    then show ?thesis
      using 1 [OF False] by (simp only: t three_digits_def dotted_three [OF nat_text_nonempty])
  qed
qed

lemma FormatMoney_grouped:
  assumes "in_int64 n" and "n \<noteq> int64_min"
  shows "FormatMoney n = (if n < 0 then ''-'' else []) @ ''R$ '' @ grouped (nat \<bar>n\<bar>) @ '',00''"
proof -
  have "in_int64 (- n)" using assms by (auto simp: in_int64_def int64_min_def int64_max_def)
  then have "(if n < 0 then i64 (- n) else n) = \<bar>n\<bar>" by (simp add: i64_id)
  moreover have "int_text \<bar>n\<bar> = nat_text (nat \<bar>n\<bar>)" by (simp add: int_text_def)
  ultimately show ?thesis unfolding FormatMoney_def Let_def by (simp only: dotted_grouped)
qed


lemma digit_chars: "digit_char 0 = CHR ''0''" "digit_char (Suc 0) = CHR ''1''" "digit_char 2 = CHR ''2''"
  "digit_char 3 = CHR ''3''" "digit_char 4 = CHR ''4''" "digit_char 5 = CHR ''5''" "digit_char 6 = CHR ''6''"
  "digit_char 7 = CHR ''7''" "digit_char 8 = CHR ''8''" "digit_char 9 = CHR ''9''"
  by code_simp+


section \<open>Escaped queries\<close>

definition unhex :: "char \<Rightarrow> nat option" where
  "unhex c = (let k = of_char c :: nat in
     if 48 \<le> k \<and> k \<le> 57 then Some (k - 48) else if 65 \<le> k \<and> k \<le> 70 then Some (k - 55)
     else if 97 \<le> k \<and> k \<le> 102 then Some (k - 87) else None)"

text \<open>\<open>url.QueryUnescape\<close>, with which gin decodes a query parameter.\<close>

fun QueryUnescape :: "string \<Rightarrow> string option" where
  "QueryUnescape [] = Some []"
| "QueryUnescape (c # cs) =
     (if c = CHR ''%'' then
        (case cs of
           a # b # r \<Rightarrow> (case (unhex a, unhex b) of
             (Some x, Some y) \<Rightarrow> map_option ((#) (char_of (16 * x + y))) (QueryUnescape r)
           | _ \<Rightarrow> None)
         | _ \<Rightarrow> None)
      else map_option ((#) (if c = CHR ''+'' then CHR '' '' else c)) (QueryUnescape cs))"

lemma unhex_hex: "k < 16 \<Longrightarrow> unhex (hex_char k) = Some k"
  by (simp add: unhex_def hex_char_def Let_def)

lemma unescape_byte: "QueryUnescape (escape_byte c @ r) = map_option ((#) c) (QueryUnescape r)"
proof -
  define k where "k = (of_char c :: nat)"
  have k: "k < 256" "char_of k = c" by (simp_all add: k_def)
  have "k div 16 < 16" "k mod 16 < 16" using k(1) by auto
  moreover have "char_of (16 * (k div 16) + k mod 16) = c" using k(2) by simp
  moreover have "k = 37 \<longleftrightarrow> c = CHR ''%''" "k = 43 \<longleftrightarrow> c = CHR ''+''"
  proof -
    have n: "char_of (37 :: nat) = CHR ''%''" "char_of (43 :: nat) = CHR ''+''" by code_simp+
    have "k = 37 \<Longrightarrow> c = CHR ''%''" "k = 43 \<Longrightarrow> c = CHR ''+''" using k(2) n by auto
    then show "k = 37 \<longleftrightarrow> c = CHR ''%''" "k = 43 \<longleftrightarrow> c = CHR ''+''" by (auto simp: k_def)
  qed
  ultimately show ?thesis
    unfolding escape_byte_def Let_def k_def [symmetric]
    by (auto simp: unhex_hex)
qed

lemma QueryUnescape_Escape: "QueryUnescape (QueryEscape s) = Some s"
  by (induction s) (simp_all add: QueryEscape_def unescape_byte)

end
