(* ===== verification/General_Templates.thy ===== *)
theory General_Templates
  imports General_Handlers
begin

text \<open>
  \<open>general-backend/views/*_templ.go\<close>: the HTML of the pages. The files are the Go that the
  \<^verbatim>\<open>templ\<close> tool makes of the templates: each component writes literals and escaped
  expressions to a buffer, under the conditions and loops of the template, and returns at the
  first error. The literals are written out as they are. The functions of that tool's library
  are the fields of \<open>templ_lib\<close>.
\<close>

section \<open>Writing\<close>

text \<open>
  \<open>ctx_errs\<close> says of the next checks of the context whether it was cancelled, and
  \<open>write_errs\<close> of the next writes whether they fail.
\<close>

record page_writer =
  written :: string
  ctx_errs :: "bool list"
  write_errs :: "bool list"

datatype render_error = ContextDone | WriteFailed | LibFailed string

type_synonym html = "(page_writer, render_error, unit) io"

text \<open>The last two fields give the texts of errors that other libraries format.\<close>

record templ_lib =
  EscapeString :: "string \<Rightarrow> string"
  templ_URL :: "string \<Rightarrow> string"
  JoinStringErrs :: "string \<Rightarrow> string + string"
  JoinURLErrs :: "string \<Rightarrow> string + string"
  ResolveAttributeValue :: "string \<Rightarrow> string + string"
  ResolveSafeURL :: "string \<Rightarrow> string + string"
  SanitizeStyle :: "string \<Rightarrow> string + string"
  msg_text :: "message \<Rightarrow> string"
  san_text :: "sanitize_error \<Rightarrow> string"

definition skip :: html where "skip = ret ()"

definition lit :: "string \<Rightarrow> html" where
  "lit s = (\<lambda>w. let w' = w\<lparr>write_errs := tl (write_errs w)\<rparr> in
     if write_errs w \<noteq> [] \<and> hd (write_errs w) then (Inl WriteFailed, w')
     else (Inr (), w'\<lparr>written := written w @ s\<rparr>))"

definition lib_call :: "string + string \<Rightarrow> (page_writer, render_error, string) io" where
  "lib_call r = (case r of Inl e \<Rightarrow> throw (LibFailed e) | Inr s \<Rightarrow> ret s)"

text \<open>An expression in the text of an element, in an attribute with a URL, in another one.\<close>

definition expr :: "templ_lib \<Rightarrow> string \<Rightarrow> html" where
  "expr L x = bindE (lib_call (JoinStringErrs L x)) (\<lambda>v. lit (EscapeString L v))"

definition url :: "templ_lib \<Rightarrow> string \<Rightarrow> html" where
  "url L x = bindE (lib_call (JoinURLErrs L (templ_URL L x))) (\<lambda>v. lit (EscapeString L v))"

definition attr :: "templ_lib \<Rightarrow> string \<Rightarrow> html" where
  "attr L x = bindE (lib_call (ResolveAttributeValue L x)) lit"

definition attr_url :: "templ_lib \<Rightarrow> string \<Rightarrow> html" where
  "attr_url L x = bindE (lib_call (ResolveSafeURL L x)) lit"

definition style :: "templ_lib \<Rightarrow> string \<Rightarrow> html" where
  "style L x = bindE (lib_call (SanitizeStyle L x)) (\<lambda>v. lit (EscapeString L v))"

text \<open>The generated function of a component returns at once when the context is done.\<close>

definition component :: "html \<Rightarrow> html" where
  "component h = (\<lambda>w. let w' = w\<lparr>ctx_errs := tl (ctx_errs w)\<rparr> in
     if ctx_errs w \<noteq> [] \<and> hd (ctx_errs w) then (Inl ContextDone, w') else h w')"

fun parts :: "html list \<Rightarrow> html" where
  "parts [] = skip"
| "parts (h # hs) = seqE h (parts hs)"

definition each :: "('a \<Rightarrow> html) \<Rightarrow> 'a list \<Rightarrow> html" where
  "each f xs = parts (map f xs)"

definition zero_nav :: NavVM where
  "zero_nav = \<lparr>Nav_LoggedIn = False, Nav_IsAdmin = False, Nav_BalanceRs = []\<rparr>"


section \<open>The layout\<close>

definition Nav_html :: "templ_lib \<Rightarrow> NavVM \<Rightarrow> html" where
  "Nav_html L nav = component (
    parts [
      lit ''<nav class=\"fixed top-0 left-0 right-0 h-14 bg-tche-bg border-b border-tche-border flex items-center px-6 gap-3 z-50\"><a href=\"/\" class=\"flex items-baseline gap-0 select-none\"><span class=\"font-[family-name:var(--font-condensed)] font-extrabold text-2xl text-tche-gold tracking-tight\">TCHE</span><span class=\"font-[family-name:var(--font-condensed)] font-extrabold text-2xl text-tche-text tracking-tight\">BET</span></a> <span class=\"bg-tche-card border border-tche-border px-2 py-0.5 rounded text-[11px] text-tche-muted font-semibold uppercase tracking-wide\">Novo Hamburgo</span><div class=\"flex-1\"></div>'',
      (if Nav_LoggedIn nav then parts [
          lit ''<div id=\"nav-balance\" class=\"flex items-center gap-2 border border-tche-border px-3.5 py-1.5 rounded bg-tche-card\"><span class=\"text-xs text-tche-muted\">Saldo</span> <span class=\"font-[family-name:var(--font-condensed)] font-bold text-xl tracking-tight\">'',
          expr L (Nav_BalanceRs nav),
          lit ''</span></div><a href=\"/profile\" class=\"bg-tche-gold text-tche-bg px-5 py-2 font-[family-name:var(--font-condensed)] font-extrabold text-sm tracking-wide rounded hover:opacity-90\">DEPOSITAR</a> '',
          (if Nav_IsAdmin nav then parts [
              lit ''<a href=\"/admin/markets\" class=\"border border-tche-border text-tche-muted px-4 py-2 font-[family-name:var(--font-condensed)] font-bold text-sm rounded hover:text-tche-text\">ADMIN</a>''] else skip),
          lit '' <form method=\"POST\" action=\"/logout\"><button type=\"submit\" class=\"text-tche-muted text-sm hover:text-tche-text\">Sair</button></form>''] else parts [
          lit ''<a href=\"/login\" class=\"text-tche-muted text-sm hover:text-tche-text\">Entrar</a> <a href=\"/register\" class=\"bg-tche-gold text-tche-bg px-5 py-2 font-[family-name:var(--font-condensed)] font-extrabold text-sm tracking-wide rounded hover:opacity-90\">CRIAR CONTA</a>'']),
      lit ''</nav>''])"

definition Layout_html :: "templ_lib \<Rightarrow> string \<Rightarrow> NavVM \<Rightarrow> html \<Rightarrow> html" where
  "Layout_html L title nav children = component (
    parts [
      lit ''<!doctype html><html lang=\"pt-BR\"><head><meta charset=\"UTF-8\"><meta name=\"viewport\" content=\"width=device-width, initial-scale=1\"><title>'',
      expr L title,
      lit ('' '' @ [CHR 0xC2, CHR 0xB7] @ '' TCHEBET</title><link rel=\"preconnect\" href=\"https://fonts.googleapis.com\"><link href=\"https://fonts.googleapis.com/css2?family=Barlow+Condensed:wght@400;600;700;800&family=Barlow:wght@400;500;600&display=swap\" rel=\"stylesheet\"><link rel=\"stylesheet\" href=\"/static/css/tailwind.css\"><script src=\"/static/js/htmx.min.js\"></script><script src=\"/static/js/alpinejs.min.js\" defer></script></head><body class=\"min-h-screen bg-tche-bg text-tche-text font-[family-name:var(--font-body)] text-[15px] leading-relaxed\">''),
      Nav_html L nav,
      lit ''<div class=\"pt-14\">'',
      children,
      lit ''</div></body></html>''])"


section \<open>Registration and login\<close>

definition AuthCard_html :: "templ_lib \<Rightarrow> string \<Rightarrow> string \<Rightarrow> string \<Rightarrow> string \<Rightarrow> string \<Rightarrow> string \<Rightarrow> string \<Rightarrow> html" where
  "AuthCard_html L title errMsg formAction submitLabel footerText footerHref footerLinkLabel = component (
    parts [
      Layout_html L title zero_nav (component (
        parts [
          lit ''<div class=\"max-w-[380px] mx-auto mt-24 px-6\"><div class=\"bg-tche-card border border-tche-border rounded p-8\"><h1 class=\"font-[family-name:var(--font-condensed)] text-3xl font-extrabold tracking-tight mb-6\">'',
          expr L title,
          lit ''</h1>'',
          (if errMsg \<noteq> [] then parts [
              lit ''<div class=\"bg-tche-red/10 border border-tche-red/30 text-tche-red text-[13px] rounded p-3 mb-4\">'',
              expr L errMsg,
              lit ''</div>''] else skip),
          lit ''<form method=\"POST\" action=\"'',
          url L formAction,
          lit ''\" class=\"flex flex-col gap-3\"><input name=\"email\" type=\"email\" placeholder=\"email\" required class=\"bg-tche-bg border border-tche-border rounded px-3.5 py-2.5 text-tche-text placeholder-tche-muted outline-none focus:border-tche-dim\"> <input name=\"password\" type=\"password\" placeholder=\"senha\" required class=\"bg-tche-bg border border-tche-border rounded px-3.5 py-2.5 text-tche-text placeholder-tche-muted outline-none focus:border-tche-dim\"> <button type=\"submit\" class=\"bg-tche-gold text-tche-bg border-none py-3 font-[family-name:var(--font-condensed)] font-extrabold text-base tracking-wide rounded mt-2 hover:opacity-90\">'',
          expr L submitLabel,
          lit ''</button></form><div class=\"mt-5 text-center text-[13px] text-tche-muted\">'',
          expr L footerText,
          lit '' <a href=\"'',
          url L footerHref,
          lit ''\" class=\"text-tche-text underline underline-offset-2\">'',
          expr L footerLinkLabel,
          lit ''</a></div></div></div>'']))])"


section \<open>A market's card\<close>

definition MarketCard_html :: "templ_lib \<Rightarrow> MarketCardVM \<Rightarrow> html" where
  "MarketCard_html L m = component (
    parts [
      lit ''<a href=\"'',
      url L (''/markets/'' @ Card_ID m),
      lit ''\" class=\"block bg-tche-card border border-tche-border p-5 rounded hover:border-tche-dim transition-colors\"><div class=\"flex items-center justify-between mb-3.5\"><div class=\"flex items-center gap-2\">'',
      (if Card_IsLive m then parts [
          lit ''<div class=\"flex items-center gap-1 bg-tche-red/10 border border-tche-red/30 px-2 py-0.5 rounded\"><span class=\"w-1.5 h-1.5 bg-tche-red rounded-full inline-block\"></span> <span class=\"text-[11px] font-bold text-tche-red tracking-wide\">AO VIVO</span></div>''] else skip),
      lit ''</div>'',
      (if Card_LowLiquidity m then parts [
          lit (''<span class=\"text-[11px] text-tche-orange font-semibold\">'' @ [CHR 0xE2, CHR 0x9A, CHR 0xA0] @ '' Pouca liquidez</span>'')] else skip),
      lit ''</div><div class=\"text-base font-semibold text-tche-text mb-5 leading-tight min-h-[44px]\">'',
      expr L (Card_Question m),
      lit ''</div><div class=\"h-[5px] flex overflow-hidden rounded mb-3.5 bg-tche-border\"><div class=\"bg-tche-green\" style=\"'',
      style L (''width: '' @ int_text (Card_SimPct m) @ ''%''),
      lit ''\"></div><div class=\"flex-1 bg-tche-red\"></div></div><div class=\"flex justify-between items-end mb-5\"><div><div class=\"font-[family-name:var(--font-condensed)] text-5xl font-extrabold text-tche-green leading-none tracking-tight\">'',
      expr L (int_text (Card_SimPct m)),
      lit ''%</div><div class=\"text-[11px] text-tche-muted font-bold tracking-widest mt-1\">SIM</div></div><div class=\"text-right\"><div class=\"font-[family-name:var(--font-condensed)] text-5xl font-extrabold text-tche-red leading-none tracking-tight\">'',
      expr L (int_text (Card_NaoPct m)),
      lit (''%</div><div class=\"text-[11px] text-tche-muted font-bold tracking-widest mt-1\">N'' @ [CHR 0xC3, CHR 0x83] @ ''O</div></div></div><div class=\"flex gap-2 mb-2\"><div class=\"flex-1 border border-tche-green text-tche-green py-2.5 text-center font-[family-name:var(--font-condensed)] font-bold rounded\">APOSTAR SIM</div><div class=\"flex-1 border border-tche-red text-tche-red py-2.5 text-center font-[family-name:var(--font-condensed)] font-bold rounded\">APOSTAR N'' @ [CHR 0xC3, CHR 0x83] @ ''O</div></div><div class=\"text-xs text-tche-muted flex justify-between\"><span>''),
      expr L (int_text (Card_BettorCount m)),
      lit ('' apostas '' @ [CHR 0xC2, CHR 0xB7] @ '' Vol. ''),
      expr L (Card_VolumeLabel m),
      lit ''</span></div></a>''])"


section \<open>The home page\<close>

definition MarketGrid_html :: "templ_lib \<Rightarrow> MarketCardVM list \<Rightarrow> html" where
  "MarketGrid_html L ms = component (
    parts [
      (if ms = [] then parts [
          lit ''<div class=\"col-span-full text-tche-muted text-sm py-10 text-center\">Nenhum mercado aberto no momento.</div>''] else skip),
      each (\<lambda>m. parts [
          MarketCard_html L m]) ms])"

definition Home_html :: "templ_lib \<Rightarrow> NavVM \<Rightarrow> nat \<Rightarrow> MarketCardVM list \<Rightarrow> html" where
  "Home_html L nav marketCount ms = component (
    parts [
      Layout_html L (''In'' @ [CHR 0xC3, CHR 0xAD] @ ''cio'') nav (component (
        parts [
          lit (''<div class=\"border-b border-tche-border px-6 py-2.5 flex items-center gap-1.5 text-[13px] text-tche-muted flex-wrap\"><span class=\"font-semibold text-tche-text mr-1.5\">Como funciona:</span> <span>Escolha um jogo</span> <span class=\"text-tche-dim mx-1.5\">'' @ [CHR 0xE2, CHR 0x86, CHR 0x92] @ ''</span> <span>Aposte SIM ou N'' @ [CHR 0xC3, CHR 0x83] @ ''O</span> <span class=\"text-tche-dim mx-1.5\">'' @ [CHR 0xE2, CHR 0x86, CHR 0x92] @ ''</span> <span>Se acertar, voc'' @ [CHR 0xC3, CHR 0xAA] @ '' saca na hora</span><div class=\"flex-1\"></div><span class=\"text-xs text-tche-green font-semibold tracking-wide\">'' @ [CHR 0xE2, CHR 0x97, CHR 0x8F] @ '' ''),
          expr L (int_text (int marketCount)),
          lit '' mercados abertos</span></div><div class=\"max-w-[1100px] mx-auto px-6 py-7\"><div class=\"flex items-center gap-4 mb-5 flex-wrap\"><h1 class=\"font-[family-name:var(--font-condensed)] text-3xl font-extrabold tracking-tight\">JOGOS EM ABERTO</h1><div id=\"market-filters\" class=\"flex gap-1.5 flex-wrap\" x-data=\"{active:'todos'}\"><button hx-get=\"/partials/markets?filter=todos\" hx-target=\"#market-grid\" hx-swap=\"innerHTML\" class=\"bg-tche-gold text-tche-bg border-none px-3.5 py-1.5 font-[family-name:var(--font-condensed)] font-bold text-[13px] rounded\">TODOS</button> <button hx-get=\"/partials/markets?filter=hoje\" hx-target=\"#market-grid\" hx-swap=\"innerHTML\" class=\"bg-transparent text-tche-muted border border-tche-border px-3.5 py-1.5 font-[family-name:var(--font-condensed)] font-semibold text-[13px] rounded hover:text-tche-text\">HOJE</button> <button hx-get=\"/partials/markets?filter=semana\" hx-target=\"#market-grid\" hx-swap=\"innerHTML\" class=\"bg-transparent text-tche-muted border border-tche-border px-3.5 py-1.5 font-[family-name:var(--font-condensed)] font-semibold text-[13px] rounded hover:text-tche-text\">ESTA SEMANA</button></div></div><div id=\"market-grid\" class=\"grid gap-3\" style=\"grid-template-columns: repeat(auto-fit, minmax(420px, 1fr));\">'',
          MarketGrid_html L ms,
          lit ''</div></div>'']))])"


section \<open>A market's page\<close>

text \<open>The script of the bet slip: the two percentages are the only values in it.\<close>

definition betSlipData :: "int \<Rightarrow> int \<Rightarrow> string" where
  "betSlipData simPct naoPct =
     ''{'' @ [CHR 0x0A, CHR 0x09, CHR 0x09] @ ''side: 'sim','' @ [CHR 0x0A, CHR 0x09, CHR 0x09] @ ''amount: 100,'' @ [CHR 0x0A, CHR 0x09, CHR 0x09] @ ''simPct: '' @ int_text simPct @
     '','' @ [CHR 0x0A, CHR 0x09, CHR 0x09] @ ''naoPct: '' @ int_text naoPct @
     '','' @ [CHR 0x0A, CHR 0x09, CHR 0x09] @ ''chancePct() { return this.side === 'sim' ? this.simPct : this.naoPct; },'' @ [CHR 0x0A, CHR 0x09, CHR 0x09] @ ''winnings() {'' @ [CHR 0x0A, CHR 0x09, CHR 0x09, CHR 0x09] @ ''const pct = this.chancePct();'' @ [CHR 0x0A, CHR 0x09, CHR 0x09, CHR 0x09] @ ''if (pct <= 0) return 0;'' @ [CHR 0x0A, CHR 0x09, CHR 0x09, CHR 0x09] @ ''return this.amount * (100 / pct);'' @ [CHR 0x0A, CHR 0x09, CHR 0x09] @ ''},'' @ [CHR 0x0A, CHR 0x09, CHR 0x09] @ ''profit() { return this.winnings() - this.amount; },'' @ [CHR 0x0A, CHR 0x09, CHR 0x09] @ ''fmtMoney(n) {'' @ [CHR 0x0A, CHR 0x09, CHR 0x09, CHR 0x09] @ ''if (!isFinite(n) || n < 0) n = 0;'' @ [CHR 0x0A, CHR 0x09, CHR 0x09, CHR 0x09] @ ''const fixed = n.toFixed(2);'' @ [CHR 0x0A, CHR 0x09, CHR 0x09, CHR 0x09] @ ''const [i, d] = fixed.split('.');'' @ [CHR 0x0A, CHR 0x09, CHR 0x09, CHR 0x09] @ ''return 'R$ ' + i.replace(/'' @ [CHR 0x5C] @ ''B(?=('' @ [CHR 0x5C] @ ''d{3})+(?!'' @ [CHR 0x5C] @ ''d))/g, '.') + ',' + d;'' @ [CHR 0x0A, CHR 0x09, CHR 0x09] @ ''}'' @ [CHR 0x0A, CHR 0x09] @ ''}''"

definition MarketDetail_header :: "templ_lib \<Rightarrow> MarketDetailVM \<Rightarrow> html" where
  "MarketDetail_header L m =
    parts [
      lit (''<div class=\"max-w-[1100px] mx-auto p-6\"><a href=\"/\" class=\"text-tche-muted text-sm mb-6 inline-block hover:text-tche-text\">'' @ [CHR 0xE2, CHR 0x86, CHR 0x90] @ '' Todos os jogos</a><div class=\"mb-7\"><div class=\"flex items-center gap-2.5 mb-2.5\">''),
      (if Page_IsLive m then parts [
          lit ''<div class=\"flex items-center gap-1 bg-tche-red/10 border border-tche-red/30 px-2 py-0.5 rounded\"><span class=\"w-1.5 h-1.5 bg-tche-red rounded-full inline-block\"></span> <span class=\"text-[11px] font-bold text-tche-red tracking-wide\">AO VIVO</span></div>''] else skip),
      (if Page_Status m = ''LOCKED'' then parts [
          lit ''<div class=\"bg-tche-orange/10 border border-tche-orange/30 px-2 py-0.5 rounded\"><span class=\"text-[11px] font-bold text-tche-orange tracking-wide\">AGUARDANDO RESULTADO</span></div>''] else skip),
      (if Page_Status m = ''RESOLVED'' then parts [
          lit ''<div class=\"bg-tche-border px-2 py-0.5 rounded\"><span class=\"text-[11px] font-bold text-tche-muted tracking-wide\">RESOLVIDO</span></div>''] else skip),
      (if Page_Status m = ''CANCELLED'' then parts [
          lit ''<div class=\"bg-tche-border px-2 py-0.5 rounded\"><span class=\"text-[11px] font-bold text-tche-muted tracking-wide\">CANCELADO</span></div>''] else skip),
      lit ''<span class=\"text-[13px] text-tche-muted\">'',
      expr L (Page_CreatedAtLabel m),
      lit ''</span></div><h1 class=\"font-[family-name:var(--font-condensed)] text-4xl font-bold tracking-tight leading-tight max-w-[700px]\">'',
      expr L (Page_Question m),
      lit ''</h1><div class=\"mt-2.5 text-[13px] text-tche-muted\">'',
      expr L (int_text (Page_Bettors m)),
      lit ('' apostadores '' @ [CHR 0xC2, CHR 0xB7] @ '' Vol. ''),
      expr L (Page_VolumeLabel m),
      lit ''</div></div><div class=\"grid gap-5 items-start\" style=\"grid-template-columns: 1fr 340px;\"><div><div class=\"bg-tche-card border border-tche-border p-7 rounded mb-3.5\"><div class=\"flex justify-between items-end mb-5\"><div><div class=\"text-[11px] text-tche-muted font-bold tracking-widest uppercase mb-2\">SIM</div><div class=\"font-[family-name:var(--font-condensed)] text-7xl font-extrabold text-tche-green leading-none tracking-tighter\">'']"

definition MarketDetail_odds :: "templ_lib \<Rightarrow> MarketDetailVM \<Rightarrow> html" where
  "MarketDetail_odds L m =
    parts [
      expr L (int_text (Page_SimPct m)),
      lit ''%</div><div class=\"text-[13px] text-tche-muted mt-1.5\">'',
      expr L (Page_SimPriceLabel m),
      lit ('' por cota</div></div><div class=\"text-right\"><div class=\"text-[11px] text-tche-muted font-bold tracking-widest uppercase mb-2\">N'' @ [CHR 0xC3, CHR 0x83] @ ''O</div><div class=\"font-[family-name:var(--font-condensed)] text-7xl font-extrabold text-tche-red leading-none tracking-tighter\">''),
      expr L (int_text (Page_NaoPct m)),
      lit ''%</div><div class=\"text-[13px] text-tche-muted mt-1.5\">'',
      expr L (Page_NaoPriceLabel m),
      lit '' por cota</div></div></div><div class=\"h-2 flex overflow-hidden rounded bg-tche-border\"><div class=\"bg-tche-green\" style=\"'',
      style L (''width: '' @ int_text (Page_SimPct m) @ ''%''),
      lit ''\"></div><div class=\"flex-1 bg-tche-red\"></div></div><div class=\"mt-4.5 pt-4.5 border-t border-tche-border text-[13px] text-tche-muted leading-relaxed\">Cada cota SIM custa <strong class=\"text-tche-text font-semibold\">'',
      expr L (Page_SimPriceLabel m),
      lit (''</strong> '' @ [CHR 0xC2, CHR 0xB7] @ '' Cada cota N'' @ [CHR 0xC3, CHR 0x83] @ ''O custa <strong class=\"text-tche-text font-semibold\">''),
      expr L (Page_NaoPriceLabel m),
      lit (''</strong> '' @ [CHR 0xC2, CHR 0xB7] @ '' Se o resultado correto ganhar, cada cota vira R$ 1,00</div></div><div class=\"bg-tche-card border border-tche-border p-5 rounded mb-3.5\"><div class=\"text-[11px] font-bold text-tche-muted uppercase tracking-wide mb-4\">Hist'' @ [CHR 0xC3, CHR 0xB3] @ ''rico de Probabilidade '' @ [CHR 0xC2, CHR 0xB7] @ '' SIM</div><svg viewBox=\"0 0 500 70\" class=\"w-full h-[70px] block overflow-visible\"><polyline points=\"''),
      attr L (Page_SparklinePoly m),
      lit ''\" fill=\"none\" stroke=\"#3DB870\" stroke-width=\"1.5\" stroke-linejoin=\"round\" stroke-linecap=\"round\"></polyline></svg></div><div class=\"bg-tche-card border border-tche-border p-5 rounded mb-3.5\"><div class=\"text-[11px] font-bold text-tche-muted uppercase tracking-wide mb-4.5\">Atividade Recente</div><div class=\"flex flex-col gap-4\">'']"

definition MarketDetail_activity :: "templ_lib \<Rightarrow> MarketDetailVM \<Rightarrow> html" where
  "MarketDetail_activity L m =
    parts [
      (if Page_Activity m = [] then parts [
          lit ''<div class=\"text-tche-muted text-sm\">Nenhuma aposta ainda - seja o primeiro.</div>''] else skip),
      each (\<lambda>a. parts [
          lit ''<div class=\"flex justify-between items-center\"><div class=\"flex items-center gap-2 text-sm\">'',
          (if Item_IsSim a then parts [
              lit ''<span class=\"w-2 h-2 bg-tche-green rounded-sm inline-block flex-shrink-0\"></span> ''] else parts [
              lit ''<span class=\"w-2 h-2 bg-tche-red rounded-sm inline-block flex-shrink-0\"></span> '']),
          lit ''<span>'',
          expr L (Item_MaskedLabel a),
          lit '' apostou '',
          expr L (Item_Outcome a),
          lit ''</span></div><div class=\"flex items-center gap-4\">'',
          (if Item_IsSim a then parts [
              lit ''<span class=\"text-sm font-semibold text-tche-green\">'',
              expr L (Item_StakeLabel a),
              lit ''</span> ''] else parts [
              lit ''<span class=\"text-sm font-semibold text-tche-red\">'',
              expr L (Item_StakeLabel a),
              lit ''</span> '']),
          lit ''<span class=\"text-[13px] text-tche-dim min-w-[56px] text-right\">'',
          expr L (Item_RelativeTime a),
          lit ''</span></div></div>'']) (Page_Activity m),
      lit ''</div></div>'']"

definition MarketDetail_for_sale :: "templ_lib \<Rightarrow> NavVM \<Rightarrow> MarketDetailVM \<Rightarrow> html" where
  "MarketDetail_for_sale L nav m =
    parts [
      (if Page_ForSale m \<noteq> [] then parts [
          lit (''<div class=\"bg-tche-card border border-tche-border p-5 rounded\"><div class=\"text-[11px] font-bold text-tche-muted uppercase tracking-wide mb-4.5\">'' @ [CHR 0xC3, CHR 0x80] @ '' Venda</div><div class=\"flex flex-col gap-3\">''),
          each (\<lambda>item. parts [
              lit ''<div class=\"flex justify-between items-center\"><div class=\"flex items-center gap-2 text-sm\">'',
              (if Sale_IsSim item then parts [
                  lit ''<span class=\"w-2 h-2 bg-tche-green rounded-sm inline-block flex-shrink-0\"></span> ''] else parts [
                  lit ''<span class=\"w-2 h-2 bg-tche-red rounded-sm inline-block flex-shrink-0\"></span> '']),
              lit ''<span>'',
              expr L (Sale_SellerMaskedLabel item),
              lit '' vende '',
              expr L (Sale_Outcome item),
              lit '' ('',
              expr L (Sale_StakeLabel item),
              lit '')</span></div><div class=\"flex items-center gap-3\"><span class=\"text-sm font-semibold\">'',
              expr L (Sale_AskingPriceLabel item),
              lit ''</span> '',
              (if Sale_IsMine item then parts [
                  lit ''<span class=\"text-[13px] text-tche-muted\">Sua listagem</span>''] else if Nav_LoggedIn nav then parts [
                  lit ''<form hx-post=\"'',
                  attr L (''/buy-listing/'' @ Sale_ListingID item),
                  lit ''\" hx-target=\"'',
                  attr L (''#buy-result-'' @ Sale_ListingID item),
                  lit ''\" hx-swap=\"innerHTML\"><button type=\"submit\" class=\"bg-tche-gold text-tche-bg px-3 py-1.5 font-[family-name:var(--font-condensed)] font-bold text-[13px] rounded hover:opacity-90\">COMPRAR</button></form>''] else parts [
                  lit ''<a href=\"'',
                  url L (''/login?next=/markets/'' @ Page_ID m),
                  lit ''\" class=\"text-tche-gold text-[13px] hover:underline\">Entrar para comprar</a>'']),
              lit ''</div></div><div id=\"'',
              attr L (''buy-result-'' @ Sale_ListingID item),
              lit ''\"></div>'']) (Page_ForSale m),
          lit ''</div></div>''] else skip)]"

definition MarketDetail_slip :: "templ_lib \<Rightarrow> NavVM \<Rightarrow> MarketDetailVM \<Rightarrow> html" where
  "MarketDetail_slip L nav m =
    parts [
      lit ''</div><div class=\"bg-tche-card border border-tche-border p-6 rounded sticky top-[72px]\" x-data=\"'',
      attr L (betSlipData (Page_SimPct m) (Page_NaoPct m)),
      lit ''\">'',
      (if Page_CanBet m then parts [
          lit (''<div class=\"grid grid-cols-2 gap-2 mb-6\"><button @click=\"side='sim'\" :class=\"side==='sim' ? 'bg-tche-green text-tche-bg border-tche-green' : 'bg-transparent text-tche-muted border-tche-border'\" class=\"py-3.5 font-[family-name:var(--font-condensed)] font-extrabold text-xl tracking-wide rounded border-2\">SIM</button> <button @click=\"side='nao'\" :class=\"side==='nao' ? 'bg-tche-red text-white border-tche-red' : 'bg-transparent text-tche-muted border-tche-border'\" class=\"py-3.5 font-[family-name:var(--font-condensed)] font-extrabold text-xl tracking-wide rounded border-2\">N'' @ [CHR 0xC3, CHR 0x83] @ ''O</button></div><div class=\"text-[13px] text-tche-muted mb-2 font-medium\">Quanto quer apostar?</div><div class=\"grid grid-cols-4 gap-1.5 mb-2\"><button @click=\"amount=10\" class=\"bg-[#242422] border border-tche-border text-tche-text py-2 text-[13px] rounded hover:bg-[#2E2E2B]\">R$10</button> <button @click=\"amount=50\" class=\"bg-[#242422] border border-tche-border text-tche-text py-2 text-[13px] rounded hover:bg-[#2E2E2B]\">R$50</button> <button @click=\"amount=100\" class=\"bg-[#242422] border border-tche-border text-tche-text py-2 text-[13px] rounded hover:bg-[#2E2E2B]\">R$100</button> <button @click=\"amount=500\" class=\"bg-[#242422] border border-tche-border text-tche-text py-2 text-[13px] rounded hover:bg-[#2E2E2B]\">R$500</button></div><div class=\"flex items-stretch border border-tche-border rounded bg-tche-bg overflow-hidden mb-6\"><span class=\"px-3.5 text-tche-muted text-sm font-medium flex items-center border-r border-tche-border\">R$</span> <input type=\"number\" x-model.number=\"amount\" class=\"flex-1 min-w-0 bg-transparent border-none text-tche-text text-xl px-3.5 py-2.5 font-[family-name:var(--font-condensed)] font-bold outline-none\"></div><div class=\"h-px bg-tche-border mb-5\"></div><div class=\"mb-1.5 text-[13px] text-tche-muted\">Se <strong :class=\"side==='sim' ? 'text-tche-green' : 'text-tche-red'\" x-text=\"side==='sim' ? 'SIM' : 'N'' @ [CHR 0xC3, CHR 0x83] @ ''O'\"></strong> ganhar, voc'' @ [CHR 0xC3, CHR 0xAA] @ '' recebe:</div><div class=\"font-[family-name:var(--font-condensed)] text-5xl font-extrabold leading-none tracking-tight mb-2\" x-text=\"fmtMoney(winnings())\"></div><div class=\"text-sm text-tche-green font-semibold mb-5\" x-text=\"'+ ' + fmtMoney(profit()) + ' de lucro'\"></div><div class=\"flex justify-between items-center py-3 border-t border-b border-tche-border mb-5 text-[13px]\"><span class=\"text-tche-muted\">Chance de ganhar</span> <strong class=\"font-[family-name:var(--font-condensed)] text-[17px]\" x-text=\"chancePct() + '%'\"></strong></div>''),
          (if Page_LowLiquidity m then parts [
              lit ''<div class=\"bg-tche-orange/[0.07] border border-tche-orange/20 rounded p-3.5 mb-4 text-[13px] text-tche-orange leading-relaxed\">Pouca liquidez nessa aposta. Se a aposta for muito grande o preco pode mudar antes de vc confirmar.</div>''] else skip),
          lit '' '',
          (if Nav_LoggedIn nav then parts [
              lit ''<form hx-post=\"'',
              attr L (''/markets/'' @ Page_ID m @ ''/place-bet''),
              lit (''\" hx-target=\"#bet-result\" hx-swap=\"innerHTML\"><input type=\"hidden\" name=\"outcome\" x-bind:value=\"side==='sim' ? 'SIM' : 'N'' @ [CHR 0xC3, CHR 0x83] @ ''O'\"> <input type=\"hidden\" name=\"stake\" x-bind:value=\"amount\"> <button type=\"submit\" class=\"w-full bg-tche-gold text-tche-bg border-none py-4 font-[family-name:var(--font-condensed)] font-extrabold text-xl tracking-wide rounded block hover:opacity-90\">APOSTAR AGORA</button></form>'')] else parts [
              lit ''<a href=\"'',
              url L (''/login?next=/markets/'' @ Page_ID m),
              lit ''\" class=\"w-full bg-tche-gold text-tche-bg border-none py-4 font-[family-name:var(--font-condensed)] font-extrabold text-xl tracking-wide rounded block text-center hover:opacity-90\">ENTRAR PARA APOSTAR</a>'']),
          lit '' <div id=\"bet-result\" class=\"mt-4\"></div>''] else parts [
          lit (''<div class=\"text-tche-muted text-sm text-center py-6\">Este mercado n'' @ [CHR 0xC3, CHR 0xA3] @ ''o est'' @ [CHR 0xC3, CHR 0xA1] @ '' mais aberto para apostas (''),
          expr L (Page_Status m),
          lit '').</div>'']),
      lit ''<div class=\"mt-3.5 text-center text-[11px] text-tche-dim leading-relaxed\">Dinheiro fake btw</div></div></div></div>'']"

definition MarketDetail_html :: "templ_lib \<Rightarrow> NavVM \<Rightarrow> MarketDetailVM \<Rightarrow> html" where
  "MarketDetail_html L nav m = component (
    parts [
      Layout_html L (Page_Question m) nav (component (
        parts [
          MarketDetail_header L m,
          MarketDetail_odds L m,
          MarketDetail_activity L m,
          MarketDetail_for_sale L nav m,
          MarketDetail_slip L nav m]))])"


section \<open>The profile\<close>

definition WithdrawPanel_html :: "templ_lib \<Rightarrow> ProfileVM \<Rightarrow> html" where
  "WithdrawPanel_html L p = component (
    parts [
      lit (''<div class=\"bg-tche-card border border-tche-border rounded p-6 mb-5\"><div class=\"text-[11px] font-bold text-tche-muted uppercase tracking-wide mb-3\">Sacar '' @ [CHR 0xC2, CHR 0xB7] @ '' USDC</div><form method=\"POST\" action=\"/profile/withdraw\" class=\"flex flex-col gap-2\"><input type=\"text\" name=\"dest_address\" placeholder=\"Endere'' @ [CHR 0xC3, CHR 0xA7] @ ''o Solana de destino\" class=\"w-full bg-tche-bg border border-tche-border rounded text-tche-text font-mono text-[12px] px-3 py-2 outline-none\"><div class=\"flex gap-2\"><div class=\"flex items-stretch border border-tche-border rounded bg-tche-bg overflow-hidden flex-1\"><span class=\"px-3.5 text-tche-muted text-sm font-medium flex items-center border-r border-tche-border\">R$</span> <input type=\"number\" name=\"amount\" value=\"10\" min=\"1\" class=\"flex-1 min-w-0 bg-transparent border-none text-tche-text text-lg px-3.5 py-2 font-[family-name:var(--font-condensed)] font-bold outline-none\"></div><button type=\"submit\" class=\"bg-tche-gold text-tche-bg border-none px-6 font-[family-name:var(--font-condensed)] font-extrabold text-sm tracking-wide rounded hover:opacity-90\">SACAR</button></div></form>''),
      (if Prof_Withdrawals p \<noteq> [] then parts [
          lit ''<div class=\"mt-4 flex flex-col gap-1\">'',
          each (\<lambda>w. parts [
              lit ''<div class=\"flex justify-between items-center text-[12px] border-t border-tche-border pt-1.5\"><span class=\"text-tche-muted\">'',
              expr L (WdVM_Dest w),
              lit ('' '' @ [CHR 0xC2, CHR 0xB7] @ '' ''),
              expr L (WdVM_Short w),
              lit ''</span> <span class=\"flex items-center gap-2\"><span class=\"text-tche-dim\">'',
              expr L (WdVM_StatusLabel w),
              lit ''</span> <span class=\"text-tche-text\">'',
              expr L (WdVM_AmountLabel w),
              lit ''</span></span></div>'']) (Prof_Withdrawals p),
          lit ''</div>''] else skip),
      lit ''</div>''])"

definition CryptoStatusPanel_deposits :: "templ_lib \<Rightarrow> ProfileVM \<Rightarrow> html" where
  "CryptoStatusPanel_deposits L p =
    parts [
      (if Prof_Deposits p \<noteq> [] then parts [
          lit ''<div class=\"mt-4 flex flex-col gap-1\">'',
          each (\<lambda>d. parts [
              lit ''<div class=\"flex justify-between items-center text-[12px] border-t border-tche-border pt-1.5\"><span class=\"text-tche-muted\">'',
              expr L (DepVM_Asset d),
              lit ('' '' @ [CHR 0xC2, CHR 0xB7] @ '' ''),
              expr L (DepVM_Short d),
              lit ''</span> <span class=\"flex items-center gap-2\"><span class=\"text-tche-dim\">'',
              expr L (DepVM_StatusLabel d),
              lit ''</span> <span class=\"text-tche-text\">'',
              expr L (DepVM_AmountLabel d),
              lit ''</span></span></div>'']) (Prof_Deposits p),
          lit ''</div>''] else skip)]"

definition CryptoStatusPanel_html :: "templ_lib \<Rightarrow> ProfileVM \<Rightarrow> html" where
  "CryptoStatusPanel_html L p = component (
    parts [
      lit ''<div id=\"crypto-status\" hx-get=\"/profile/crypto-status\" hx-trigger=\"every 8s\" hx-swap=\"outerHTML\" class=\"bg-tche-card border border-tche-border rounded p-6 mb-5\"><div class=\"text-[13px] text-tche-muted mb-1\">'',
      expr L (Prof_Email p),
      lit ''</div><div class=\"font-[family-name:var(--font-condensed)] text-4xl font-extrabold tracking-tight mb-5\">'',
      expr L (Prof_BalanceRs p),
      lit (''</div><div class=\"text-[11px] font-bold text-tche-muted uppercase tracking-wide mb-3\">Depositar '' @ [CHR 0xC2, CHR 0xB7] @ '' USDC (Solana devnet)</div>''),
      (if Prof_NeedsDepositAddress p then parts [
          lit (''<div class=\"bg-tche-bg border border-tche-border rounded p-4\"><div class=\"text-[13px] text-tche-muted mb-3\">Crie seu endere'' @ [CHR 0xC3, CHR 0xA7] @ ''o USDC para receber o dinheiro de teste e dep'' @ [CHR 0xC3, CHR 0xB3] @ ''sitos.</div><form method=\"POST\" action=\"/profile/deposit-address\"><button type=\"submit\" class=\"w-full bg-tche-gold text-tche-bg border-none rounded px-4 py-2.5 font-[family-name:var(--font-condensed)] font-extrabold text-sm tracking-wide hover:opacity-90\">CRIAR ENDERE'' @ [CHR 0xC3, CHR 0x87] @ ''O USDC</button></form><div class=\"text-[11px] text-tche-dim mt-2\">A cria'' @ [CHR 0xC3, CHR 0xA7, CHR 0xC3, CHR 0xA3] @ ''o depende da Solana Devnet e pode levar alguns segundos.</div></div>'')] else if Prof_DepositError p \<noteq> [] then parts [
          lit ''<div class=\"bg-tche-red/10 border border-tche-red/30 text-tche-red text-[13px] rounded p-3\">'',
          expr L (Prof_DepositError p),
          lit ''</div>''] else parts [
          lit ''<div class=\"flex gap-4 items-start\">'',
          (if Prof_DepositQR p \<noteq> [] then parts [
              lit ''<img src=\"'',
              attr_url L (Prof_DepositQR p),
              lit (''\" alt=\"QR do endere'' @ [CHR 0xC3, CHR 0xA7] @ ''o de dep'' @ [CHR 0xC3, CHR 0xB3] @ ''sito\" class=\"w-32 h-32 rounded bg-white p-1 shrink-0\">'')] else skip),
          lit (''<div class=\"flex-1 min-w-0\"><div class=\"text-[12px] text-tche-muted mb-1\">Envie USDC (SPL) para este endere'' @ [CHR 0xC3, CHR 0xA7] @ ''o:</div><div class=\"font-mono text-[12px] break-all bg-tche-bg border border-tche-border rounded p-2 select-all\">''),
          expr L (Prof_DepositAddress p),
          lit (''</div><div class=\"text-[11px] text-tche-dim mt-2\">O saldo atualiza sozinho quando a rede confirmar.</div></div></div><div class=\"mt-4 border-t border-tche-border pt-4\"><form method=\"POST\" action=\"/profile/faucet\"><button type=\"submit\" class=\"w-full bg-tche-green/15 text-tche-green border border-tche-green/30 rounded px-4 py-2.5 font-[family-name:var(--font-condensed)] font-extrabold text-sm tracking-wide hover:bg-tche-green/25\">PEGAR USDC DE TESTE</button></form><div class=\"text-[11px] text-tche-dim mt-2\">Demo devnet: recebe USDC de teste da tesouraria para experimentar o fluxo dep'' @ [CHR 0xC3, CHR 0xB3] @ ''sito '' @ [CHR 0xE2, CHR 0x86, CHR 0x92] @ '' aposta '' @ [CHR 0xE2, CHR 0x86, CHR 0x92] @ '' saque. Uma vez por conta.</div></div>'')]),
      CryptoStatusPanel_deposits L p,
      lit ''</div>''])"

definition Profile_bet :: "templ_lib \<Rightarrow> BetHistoryItemVM \<Rightarrow> html" where
  "Profile_bet L b =
    parts [
      lit ''<div class=\"flex flex-col gap-2 border-b border-tche-border pb-3 last:border-none last:pb-0\"><a href=\"'',
      url L (''/markets/'' @ Hist_MarketID b),
      lit ''\" class=\"flex justify-between items-center hover:opacity-80\"><div><div class=\"text-sm text-tche-text\">'',
      expr L (Hist_MarketQuestion b),
      lit ''</div><div class=\"text-[13px] text-tche-muted\">Apostou '',
      expr L (Hist_Outcome b),
      lit ''</div></div><div class=\"flex items-center gap-4\"><span class=\"text-sm font-semibold\">'',
      expr L (Hist_StakeLabel b),
      lit ''</span> <span class=\"text-[13px] text-tche-dim min-w-[70px] text-right\">'',
      expr L (Hist_CreatedAtLabel b),
      lit ''</span></div></a> '',
      (if Hist_MarketStatus b = ''OPEN'' then parts [
          (if Hist_IsListed b then parts [
              lit (''<div class=\"flex items-center justify-between bg-tche-bg border border-tche-border rounded px-3 py-2\"><span class=\"text-[13px] text-tche-orange\">Aguardando comprador '' @ [CHR 0xC2, CHR 0xB7] @ '' ''),
              expr L (Hist_AskingPriceLabel b),
              lit ''</span><form method=\"POST\" action=\"'',
              url L (''/cancel-listing/'' @ Hist_ListingID b),
              lit ''\"><button type=\"submit\" class=\"text-tche-red text-[13px] hover:underline\">Cancelar venda</button></form></div>''] else parts [
              lit ''<form method=\"POST\" action=\"'',
              url L (''/list-bet/'' @ Hist_BetID b),
              lit (''\" class=\"flex items-center gap-2\"><div class=\"flex items-stretch border border-tche-border rounded bg-tche-bg overflow-hidden\"><span class=\"px-3.5 text-tche-muted text-[13px] flex items-center border-r border-tche-border\">R$</span> <input type=\"number\" name=\"asking_price\" placeholder=\"Pre'' @ [CHR 0xC3, CHR 0xA7] @ ''o\" min=\"1\" class=\"w-24 bg-transparent border-none text-tche-text text-[13px] px-3 py-1.5 outline-none\"></div><button type=\"submit\" class=\"text-tche-gold text-[13px] hover:underline\">Vender</button></form>'')])] else skip),
      lit ''</div>'']"

definition Profile_html :: "templ_lib \<Rightarrow> NavVM \<Rightarrow> ProfileVM \<Rightarrow> string \<Rightarrow> html" where
  "Profile_html L nav p flash = component (
    parts [
      Layout_html L ''Perfil'' nav (component (
        parts [
          lit ''<div class=\"max-w-[700px] mx-auto p-6\"><h1 class=\"font-[family-name:var(--font-condensed)] text-3xl font-extrabold tracking-tight mb-6\">Minha Conta</h1>'',
          (if flash \<noteq> [] then parts [
              lit ''<div class=\"bg-tche-green/10 border border-tche-green/30 text-tche-green text-[13px] rounded p-3 mb-4\">'',
              expr L flash,
              lit ''</div>''] else skip),
          (if Prof_CryptoMode p then parts [
              CryptoStatusPanel_html L p,
              lit '' '',
              (if Prof_DepositAddress p \<noteq> [] then parts [
                  WithdrawPanel_html L p] else skip)] else parts [
              lit ''<div class=\"bg-tche-card border border-tche-border rounded p-6 mb-5\"><div class=\"text-[13px] text-tche-muted mb-1\">'',
              expr L (Prof_Email p),
              lit ''</div><div class=\"font-[family-name:var(--font-condensed)] text-4xl font-extrabold tracking-tight mb-5\">'',
              expr L (Prof_BalanceRs p),
              lit ''</div><form method=\"POST\" action=\"/profile/deposit\" class=\"flex gap-2\"><div class=\"flex items-stretch border border-tche-border rounded bg-tche-bg overflow-hidden flex-1\"><span class=\"px-3.5 text-tche-muted text-sm font-medium flex items-center border-r border-tche-border\">R$</span> <input type=\"number\" name=\"amount\" value=\"100\" min=\"1\" class=\"flex-1 min-w-0 bg-transparent border-none text-tche-text text-lg px-3.5 py-2 font-[family-name:var(--font-condensed)] font-bold outline-none\"></div><button type=\"submit\" class=\"bg-tche-gold text-tche-bg border-none px-6 font-[family-name:var(--font-condensed)] font-extrabold text-sm tracking-wide rounded hover:opacity-90\">DEPOSITAR</button></form></div>'']),
          lit (''<div class=\"bg-tche-card border border-tche-border rounded p-6\"><div class=\"text-[11px] font-bold text-tche-muted uppercase tracking-wide mb-4\">Hist'' @ [CHR 0xC3, CHR 0xB3] @ ''rico de Apostas</div>''),
          (if Prof_Bets p = [] then parts [
              lit ''<div class=\"text-tche-muted text-sm\">Nenhuma aposta ainda.</div>''] else skip),
          lit ''<div class=\"flex flex-col gap-3\">'',
          each (\<lambda>b. Profile_bet L b) (Prof_Bets p),
          lit ''</div></div></div>'']))])"


section \<open>Administration\<close>

definition AdminMarkets_row :: "templ_lib \<Rightarrow> AdminMarketRowVM \<Rightarrow> html" where
  "AdminMarkets_row L m =
    parts [
      lit ''<tr id=\"'',
      attr L (''market-row-'' @ Row_ID m),
      lit ''\" class=\"border-t border-tche-border\"><td class=\"px-4 py-3\"><a href=\"'',
      url L (''/markets/'' @ Row_ID m),
      lit ''\" class=\"hover:underline\">'',
      expr L (Row_Question m),
      lit ''</a></td><td class=\"px-4 py-3 text-tche-muted\">'',
      expr L (Row_Status m),
      lit ''</td><td class=\"px-4 py-3 text-tche-muted\">'',
      expr L (Row_VolumeLabel m),
      lit ''</td><td class=\"px-4 py-3\">'',
      (if Row_Status m = ''OPEN'' then parts [
          lit ''<form method=\"POST\" action=\"'',
          url L (''/admin/markets/'' @ Row_ID m @ ''/lock''),
          lit ''\" class=\"inline\"><button type=\"submit\" class=\"text-tche-orange text-[13px] hover:underline\">Travar</button></form>''] else skip),
      (if Row_Status m = ''LOCKED'' then parts [
          lit ''<form method=\"POST\" action=\"'',
          url L (''/admin/markets/'' @ Row_ID m @ ''/resolve''),
          lit (''\" class=\"inline flex gap-2 items-center\"><select name=\"winning_outcome\" class=\"bg-tche-bg border border-tche-border rounded text-[13px] px-1.5 py-1\"><option value=\"SIM\">SIM</option> <option value=\"N'' @ [CHR 0xC3, CHR 0x83] @ ''O\">N'' @ [CHR 0xC3, CHR 0x83] @ ''O</option></select> <button type=\"submit\" class=\"text-tche-green text-[13px] hover:underline\">Resolver</button></form>'')] else skip),
      (if Row_Status m = ''OPEN'' \<or> Row_Status m = ''LOCKED'' then parts [
          lit ''<form method=\"POST\" action=\"'',
          url L (''/admin/markets/'' @ Row_ID m @ ''/cancel''),
          lit ''\" class=\"inline ml-2\"><button type=\"submit\" class=\"text-tche-red text-[13px] hover:underline\">Cancelar</button></form>''] else skip),
      lit ''</td></tr>'']"

definition AdminMarketsPage_html :: "templ_lib \<Rightarrow> NavVM \<Rightarrow> AdminMarketRowVM list \<Rightarrow> string \<Rightarrow> html" where
  "AdminMarketsPage_html L nav ms errMsg = component (
    parts [
      Layout_html L ''Admin'' nav (component (
        parts [
          lit (''<div class=\"max-w-[900px] mx-auto p-6\"><div class=\"flex items-center justify-between mb-6\"><h1 class=\"font-[family-name:var(--font-condensed)] text-3xl font-extrabold tracking-tight\">Admin '' @ [CHR 0xC2, CHR 0xB7] @ '' Mercados</h1><div class=\"flex items-center gap-2\"><a href=\"/admin/users\" class=\"border border-tche-border text-tche-muted px-4 py-2.5 font-[family-name:var(--font-condensed)] font-bold text-sm rounded hover:text-tche-text\">USU'' @ [CHR 0xC3, CHR 0x81] @ ''RIOS</a> <a href=\"/admin/markets/new\" class=\"bg-tche-gold text-tche-bg px-5 py-2.5 font-[family-name:var(--font-condensed)] font-extrabold text-sm tracking-wide rounded hover:opacity-90\">+ NOVO MERCADO</a></div></div>''),
          (if errMsg \<noteq> [] then parts [
              lit ''<div class=\"bg-tche-red/10 border border-tche-red/30 text-tche-red text-[13px] rounded p-3 mb-4\">'',
              expr L errMsg,
              lit ''</div>''] else skip),
          lit (''<table class=\"w-full border border-tche-border rounded overflow-hidden text-sm\"><thead><tr class=\"bg-tche-card text-tche-muted text-[11px] uppercase tracking-wide text-left\"><th class=\"px-4 py-3 font-semibold\">Pergunta</th><th class=\"px-4 py-3 font-semibold\">Status</th><th class=\"px-4 py-3 font-semibold\">Volume</th><th class=\"px-4 py-3 font-semibold\">A'' @ [CHR 0xC3, CHR 0xA7, CHR 0xC3, CHR 0xB5] @ ''es</th></tr></thead> <tbody>''),
          each (\<lambda>m. AdminMarkets_row L m) ms,
          lit ''</tbody></table></div>'']))])"

definition AdminNewMarketPage_html :: "templ_lib \<Rightarrow> NavVM \<Rightarrow> string \<Rightarrow> string list \<Rightarrow> html" where
  "AdminNewMarketPage_html L nav errMsg teams = component (
    parts [
      Layout_html L ''Novo Mercado'' nav (component (
        parts [
          lit (''<div class=\"max-w-[500px] mx-auto p-6\" x-data=\"{mode: 'times', teamA: '' @ [CHR 0x27, CHR 0x27] @ '', teamB: '' @ [CHR 0x27, CHR 0x27] @ ''}\"><h1 class=\"font-[family-name:var(--font-condensed)] text-3xl font-extrabold tracking-tight mb-6\">Novo Mercado</h1>''),
          (if errMsg \<noteq> [] then parts [
              lit ''<div class=\"bg-tche-red/10 border border-tche-red/30 text-tche-red text-[13px] rounded p-3 mb-4\">'',
              expr L errMsg,
              lit ''</div>''] else skip),
          lit (''<div class=\"grid grid-cols-2 gap-2 mb-4\"><button type=\"button\" @click=\"mode='times'\" :class=\"mode==='times' ? 'bg-tche-gold text-tche-bg border-tche-gold' : 'bg-transparent text-tche-muted border-tche-border'\" class=\"py-2.5 font-[family-name:var(--font-condensed)] font-extrabold text-sm tracking-wide rounded border-2\">ESCOLHER TIMES</button> <button type=\"button\" @click=\"mode='manual'\" :class=\"mode==='manual' ? 'bg-tche-gold text-tche-bg border-tche-gold' : 'bg-transparent text-tche-muted border-tche-border'\" class=\"py-2.5 font-[family-name:var(--font-condensed)] font-extrabold text-sm tracking-wide rounded border-2\">MANUAL</button></div><form method=\"POST\" action=\"/admin/markets\" class=\"bg-tche-card border border-tche-border rounded p-6 flex flex-col gap-3\"><div x-show=\"mode==='times'\"><label class=\"text-[13px] text-tche-muted\">Time A (SIM)</label> <select name=\"team_a\" x-model=\"teamA\" class=\"w-full bg-tche-bg border border-tche-border rounded px-3.5 py-2.5 text-tche-text outline-none focus:border-tche-dim mb-2\"><option value=\"\">Selecione...</option> ''),
          each (\<lambda>team. parts [
              lit ''<option value=\"'',
              attr L team,
              lit ''\">'',
              expr L team,
              lit ''</option>'']) teams,
          lit (''</select> <label class=\"text-[13px] text-tche-muted\">Time B (N'' @ [CHR 0xC3, CHR 0x83] @ ''O)</label> <select name=\"team_b\" x-model=\"teamB\" class=\"w-full bg-tche-bg border border-tche-border rounded px-3.5 py-2.5 text-tche-text outline-none focus:border-tche-dim\"><option value=\"\">Selecione...</option> ''),
          each (\<lambda>team. parts [
              lit ''<option value=\"'',
              attr L team,
              lit ''\">'',
              expr L team,
              lit ''</option>'']) teams,
          lit (''</select><div class=\"text-[13px] text-tche-muted mt-3\" x-show=\"teamA &amp;&amp; teamB\" x-text=\"teamA + ' vencer'' @ [CHR 0xC3, CHR 0xA1] @ '' o ' + teamB + '?'\"></div></div><div x-show=\"mode==='manual'\"><label class=\"text-[13px] text-tche-muted\">Pergunta (SIM/N'' @ [CHR 0xC3, CHR 0x83] @ ''O)</label> <input name=\"question\" type=\"text\" placeholder=\"Ex: Time X vai vencer o Time Y?\" x-bind:required=\"mode==='manual'\" class=\"w-full bg-tche-bg border border-tche-border rounded px-3.5 py-2.5 text-tche-text placeholder-tche-muted outline-none focus:border-tche-dim\"></div><label class=\"text-[13px] text-tche-muted mt-2\">Seed inicial (por lado, opcional)</label> <input name=\"seed\" type=\"number\" value=\"0\" min=\"0\" class=\"bg-tche-bg border border-tche-border rounded px-3.5 py-2.5 text-tche-text outline-none focus:border-tche-dim\"> <button type=\"submit\" class=\"bg-tche-gold text-tche-bg border-none py-3 font-[family-name:var(--font-condensed)] font-extrabold text-base tracking-wide rounded mt-3 hover:opacity-90\">CRIAR MERCADO</button></form></div>'')]))])"

definition AdminUsersPage_html :: "templ_lib \<Rightarrow> NavVM \<Rightarrow> AdminUserRowVM list \<Rightarrow> string \<Rightarrow> html" where
  "AdminUsersPage_html L nav rows errMsg = component (
    parts [
      Layout_html L (''Admin '' @ [CHR 0xC2, CHR 0xB7] @ '' Usu'' @ [CHR 0xC3, CHR 0xA1] @ ''rios'') nav (component (
        parts [
          lit (''<div class=\"max-w-[700px] mx-auto p-6\"><h1 class=\"font-[family-name:var(--font-condensed)] text-3xl font-extrabold tracking-tight mb-6\">Admin '' @ [CHR 0xC2, CHR 0xB7] @ '' Usu'' @ [CHR 0xC3, CHR 0xA1] @ ''rios</h1>''),
          (if errMsg \<noteq> [] then parts [
              lit ''<div class=\"bg-tche-red/10 border border-tche-red/30 text-tche-red text-[13px] rounded p-3 mb-4\">'',
              expr L errMsg,
              lit ''</div>''] else skip),
          lit (''<table class=\"w-full border border-tche-border rounded overflow-hidden text-sm\"><thead><tr class=\"bg-tche-card text-tche-muted text-[11px] uppercase tracking-wide text-left\"><th class=\"px-4 py-3 font-semibold\">Email</th><th class=\"px-4 py-3 font-semibold\">Desde</th><th class=\"px-4 py-3 font-semibold\">Admin</th><th class=\"px-4 py-3 font-semibold\">A'' @ [CHR 0xC3, CHR 0xA7, CHR 0xC3, CHR 0xB5] @ ''es</th></tr></thead> <tbody>''),
          each (\<lambda>row. parts [
              lit ''<tr class=\"border-t border-tche-border\"><td class=\"px-4 py-3\">'',
              expr L (Usr_Email row),
              lit ''</td><td class=\"px-4 py-3 text-tche-muted\">'',
              expr L (Usr_CreatedAtLabel row),
              lit ''</td><td class=\"px-4 py-3 text-tche-muted\">'',
              (if Usr_IsAdmin row then parts [
                  lit ''<span class=\"text-tche-green\">Sim</span>''] else parts [
                  lit (''<span>N'' @ [CHR 0xC3, CHR 0xA3] @ ''o</span>'')]),
              lit ''</td><td class=\"px-4 py-3\">'',
              (if \<not> Usr_IsAdmin row then parts [
                  lit ''<form method=\"POST\" action=\"/admin/users/promote\" class=\"inline\"><input type=\"hidden\" name=\"email\" value=\"'',
                  attr L (Usr_Email row),
                  lit ''\"> <button type=\"submit\" class=\"text-tche-gold text-[13px] hover:underline\">Promover</button></form>''] else skip),
              lit ''</td></tr>'']) rows,
          lit ''</tbody></table></div>'']))])"

section \<open>Pages\<close>

fun piece_text :: "templ_lib \<Rightarrow> piece \<Rightarrow> string" where
  "piece_text L (Lit s) = s"
| "piece_text L (Msg (EngineText s)) = s"
| "piece_text L (Msg m) = msg_text L m"
| "piece_text L (San e) = san_text L e"

definition texts_text :: "templ_lib \<Rightarrow> texts \<Rightarrow> string" where
  "texts_text L ps = concat (map (piece_text L) ps)"

fun page_html :: "templ_lib \<Rightarrow> page \<Rightarrow> html" where
  "page_html L (AuthCard title e action submit foot href link) =
     AuthCard_html L title (texts_text L e) action submit foot href link"
| "page_html L (HomePage nav n ms) = Home_html L nav n ms"
| "page_html L (MarketGrid ms) = MarketGrid_html L ms"
| "page_html L (MarketDetailPage nav m) = MarketDetail_html L nav m"
| "page_html L (ProfilePage nav p flash) = Profile_html L nav p flash"
| "page_html L (CryptoStatusPanel p) = CryptoStatusPanel_html L p"
| "page_html L (AdminMarketsPage nav ms e) = AdminMarketsPage_html L nav ms e"
| "page_html L (AdminNewMarketPage nav e ts) = AdminNewMarketPage_html L nav (texts_text L e) ts"
| "page_html L (AdminUsersPage nav rs e) = AdminUsersPage_html L nav rs e"

text \<open>The page in full: nothing fails.\<close>

definition blank_writer :: page_writer where
  "blank_writer = \<lparr>written = [], ctx_errs = [], write_errs = []\<rparr>"

definition rendered :: "templ_lib \<Rightarrow> page \<Rightarrow> string" where
  "rendered L p = written (snd (page_html L p blank_writer))"

end
