(* ===== verification/General_Markup.thy ===== *)
theory General_Markup
  imports General_Templates "HOL-Library.Sublist"
begin

text \<open>
  What a page's markup depends on. The markup of a text is its angle brackets and quotes, in
  order. Two renderings are alike when there is one markup that each of them writes if it
  succeeds, and writes a beginning of if it fails. A page is alike every page of the same shape:
  the shape keeps the flags, which texts are empty, the lengths of lists and the statuses the
  templates compare, and forgets every other text and number.
\<close>

named_theorems alike_intro \<open>which renderings have the same markup\<close>

definition markup_char :: "char \<Rightarrow> bool" where
  "markup_char c \<longleftrightarrow> c = CHR ''<'' \<or> c = CHR ''>'' \<or> c = CHR 0x22 \<or> c = CHR 0x27"

definition markup :: "string \<Rightarrow> string" where
  "markup s = filter markup_char s"

lemma markup_append: "markup (s @ t) = markup s @ markup t"
  by (simp add: markup_def)

lemma markup_nil [simp]: "markup [] = []"
  by (simp add: markup_def)

text \<open>What \<open>templ\<close> documents: text and attribute values are escaped.\<close>

definition escaping :: "templ_lib \<Rightarrow> bool" where
  "escaping L \<longleftrightarrow> (\<forall>s. markup (EscapeString L s) = []) \<and>
     (\<forall>s v. ResolveAttributeValue L s = Inr v \<longrightarrow> markup v = []) \<and>
     (\<forall>s v. ResolveSafeURL L s = Inr v \<longrightarrow> markup v = [])"


section \<open>Emitted markup\<close>

definition emits :: "html \<Rightarrow> string \<Rightarrow> bool" where
  "emits h ms \<longleftrightarrow> (\<forall>w. \<exists>ps. markup (written (snd (h w))) = markup (written w) @ ps \<and>
     prefix ps ms \<and> (\<not> isl (fst (h w)) \<longrightarrow> ps = ms))"

definition alike :: "html \<Rightarrow> html \<Rightarrow> bool" where
  "alike g h \<longleftrightarrow> (\<exists>ms. emits g ms \<and> emits h ms)"

lemma emitsD:
  assumes "emits h ms"
  obtains ps where "markup (written (snd (h w))) = markup (written w) @ ps" "prefix ps ms"
    "\<not> isl (fst (h w)) \<longrightarrow> ps = ms"
  using assms unfolding emits_def by blast

lemma emits_skip: "emits skip []"
  by (simp add: emits_def skip_def ret_def)

lemma emits_lit: "emits (lit s) (markup s)"
  unfolding emits_def lit_def Let_def by (auto simp: markup_append)

lemma emits_throw: "emits (throw e) ms"
  by (simp add: emits_def throw_def)

lemma emits_lib:
  assumes "\<And>v. r = Inr v \<Longrightarrow> emits (k v) []"
  shows "emits (bindE (lib_call r) k) []"
  using assms by (auto simp: emits_def lib_call_def bindE_def ret_def throw_def split: sum.splits)

lemma emits_seq:
  assumes "emits g ms" and "emits h ns"
  shows "emits (seqE g h) (ms @ ns)"
  unfolding emits_def
proof (rule allI)
  fix w
  obtain ps where g: "markup (written (snd (g w))) = markup (written w) @ ps" "prefix ps ms"
    "\<not> isl (fst (g w)) \<longrightarrow> ps = ms" by (rule emitsD [OF assms(1)])
  obtain qs where h: "markup (written (snd (h (snd (g w))))) = markup (written (snd (g w))) @ qs" "prefix qs ns"
    "\<not> isl (fst (h (snd (g w)))) \<longrightarrow> qs = ns" by (rule emitsD [OF assms(2)])
  show "\<exists>rs. markup (written (snd (seqE g h w))) = markup (written w) @ rs \<and> prefix rs (ms @ ns) \<and>
      (\<not> isl (fst (seqE g h w)) \<longrightarrow> rs = ms @ ns)"
  proof (cases "fst (g w)")
    case (Inl e)
    then have "seqE g h w = (Inl e, snd (g w))" by (cases "g w") (simp add: seqE_def bindE_def)
    then show ?thesis using g by (auto simp: prefix_def)
  next
    case (Inr x)
    then have "seqE g h w = h (snd (g w))" by (cases "g w") (simp add: seqE_def bindE_def)
    then show ?thesis using g h Inr by (auto simp: prefix_def)
  qed
qed

lemma emits_component: "emits h ms \<Longrightarrow> emits (component h) ms"
  unfolding emits_def component_def Let_def
proof (rule allI)
  fix w :: page_writer
  assume e: "\<forall>w. \<exists>ps. markup (written (snd (h w))) = markup (written w) @ ps \<and> prefix ps ms \<and>
      (\<not> isl (fst (h w)) \<longrightarrow> ps = ms)"
  let ?w = "w\<lparr>ctx_errs := tl (ctx_errs w)\<rparr>"
  show "\<exists>ps. markup (written (snd (if ctx_errs w \<noteq> [] \<and> hd (ctx_errs w) then (Inl ContextDone, ?w) else h ?w))) =
      markup (written w) @ ps \<and> prefix ps ms \<and>
      (\<not> isl (fst (if ctx_errs w \<noteq> [] \<and> hd (ctx_errs w) then (Inl ContextDone, ?w) else h ?w)) \<longrightarrow> ps = ms)"
    using spec [OF e, of ?w] by auto
qed

lemma emits_escaped: "escaping L \<Longrightarrow> emits (lit (EscapeString L s)) []"
  using emits_lit [of "EscapeString L s"] by (simp add: escaping_def)

lemma emits_values:
  assumes "escaping L"
  shows "emits (expr L x) []" "emits (url L x) []" "emits (style L x) []" "emits (attr L x) []" "emits (attr_url L x) []"
proof -
  show "emits (expr L x) []" "emits (url L x) []" "emits (style L x) []"
    unfolding expr_def url_def style_def by (intro emits_lib emits_escaped [OF assms])+
  have "emits (lit v) []" if "markup v = []" for v using emits_lit [of v] that by simp
  then show "emits (attr L x) []" "emits (attr_url L x) []"
    using assms unfolding attr_def attr_url_def escaping_def by (blast intro: emits_lib)+
qed


section \<open>Alike\<close>

lemma alike_lit [alike_intro]: "alike (lit s) (lit s)"
  unfolding alike_def using emits_lit by blast

lemma alike_skip [alike_intro]: "alike skip skip"
  unfolding alike_def using emits_skip by blast

lemma alike_values [alike_intro]:
  assumes "escaping L"
  shows "alike (expr L x) (expr L y)" "alike (url L x) (url L y)" "alike (style L x) (style L y)"
    "alike (attr L x) (attr L y)" "alike (attr_url L x) (attr_url L y)"
  unfolding alike_def using emits_values [OF assms] by blast+

lemma alike_component [alike_intro]: "alike g h \<Longrightarrow> alike (component g) (component h)"
  unfolding alike_def using emits_component by blast

lemma alike_parts_nil [alike_intro]: "alike (parts []) (parts [])"
  by (simp add: alike_skip)

lemma alike_parts [alike_intro]: "alike g h \<Longrightarrow> alike (parts gs) (parts hs) \<Longrightarrow> alike (parts (g # gs)) (parts (h # hs))"
  unfolding alike_def using emits_seq by (metis parts.simps(2))

lemma alike_if [alike_intro]:
  "b = c \<Longrightarrow> alike g h \<Longrightarrow> alike g' h' \<Longrightarrow> alike (if b then g else g') (if c then h else h')"
  by simp

lemma alike_each:
  assumes "\<And>x y. s x = s y \<Longrightarrow> alike (f x) (g y)" and "map s xs = map s ys"
  shows "alike (each f xs) (each g ys)"
  using assms(2)
proof (induction xs arbitrary: ys)
  case Nil
  then show ?case by (simp add: each_def alike_skip)
next
  case (Cons x xs)
  then obtain y zs where y: "ys = y # zs" "s x = s y" "map s xs = map s zs" by (cases ys) auto
  then show ?case using Cons.IH [OF y(3)] assms(1) [OF y(2)]
    by (simp add: y(1) each_def alike_parts del: parts.simps)
qed

lemma same_empty: "map f xs = map f ys \<Longrightarrow> xs = [] \<longleftrightarrow> ys = []"
  by (metis map_is_Nil_conv)


section \<open>Shapes\<close>

definition among :: "string list \<Rightarrow> string \<Rightarrow> string" where
  "among ss s = (if s \<in> set ss then s else [])"

definition shape_nav :: "NavVM \<Rightarrow> NavVM" where
  "shape_nav n = n\<lparr>Nav_BalanceRs := []\<rparr>"

definition shape_card :: "MarketCardVM \<Rightarrow> bool \<times> bool" where
  "shape_card m = (Card_IsLive m, Card_LowLiquidity m)"

definition shape_sale :: "ListingItemVM \<Rightarrow> bool \<times> bool" where
  "shape_sale s = (Sale_IsSim s, Sale_IsMine s)"

definition shape_detail :: "MarketDetailVM \<Rightarrow> string \<times> bool list \<times> bool list \<times> (bool \<times> bool) list" where
  "shape_detail m = (among [''LOCKED'', ''RESOLVED'', ''CANCELLED''] (Page_Status m),
     [Page_IsLive m, Page_LowLiquidity m, Page_CanBet m], map Item_IsSim (Page_Activity m),
     map shape_sale (Page_ForSale m))"

definition shape_bet :: "BetHistoryItemVM \<Rightarrow> bool \<times> bool" where
  "shape_bet b = (Hist_MarketStatus b = ''OPEN'', Hist_IsListed b)"

definition shape_profile :: "ProfileVM \<Rightarrow> bool list \<times> (bool \<times> bool) list \<times> nat \<times> nat" where
  "shape_profile p = ([Prof_CryptoMode p, Prof_DepositAddress p = [], Prof_DepositQR p = [],
      Prof_NeedsDepositAddress p, Prof_DepositError p = []], map shape_bet (Prof_Bets p),
     length (Prof_Deposits p), length (Prof_Withdrawals p))"

definition shape_row :: "AdminMarketRowVM \<Rightarrow> string" where
  "shape_row m = among [''OPEN'', ''LOCKED''] (Row_Status m)"

datatype page_shape =
    AuthShape bool
  | HomeShape NavVM "(bool \<times> bool) list"
  | GridShape "(bool \<times> bool) list"
  | DetailShape NavVM "string \<times> bool list \<times> bool list \<times> (bool \<times> bool) list"
  | ProfileShape NavVM "bool list \<times> (bool \<times> bool) list \<times> nat \<times> nat" bool
  | PanelShape "bool list \<times> (bool \<times> bool) list \<times> nat \<times> nat"
  | MarketsShape NavVM "string list" bool
  | NewMarketShape NavVM bool nat
  | UsersShape NavVM "bool list" bool

fun shape_page :: "templ_lib \<Rightarrow> page \<Rightarrow> page_shape" where
  "shape_page L (AuthCard _ e _ _ _ _ _) = AuthShape (texts_text L e = [])"
| "shape_page L (HomePage n _ ms) = HomeShape (shape_nav n) (map shape_card ms)"
| "shape_page L (MarketGrid ms) = GridShape (map shape_card ms)"
| "shape_page L (MarketDetailPage n m) = DetailShape (shape_nav n) (shape_detail m)"
| "shape_page L (ProfilePage n p f) = ProfileShape (shape_nav n) (shape_profile p) (f = [])"
| "shape_page L (CryptoStatusPanel p) = PanelShape (shape_profile p)"
| "shape_page L (AdminMarketsPage n ms e) = MarketsShape (shape_nav n) (map shape_row ms) (e = [])"
| "shape_page L (AdminNewMarketPage n e ts) = NewMarketShape (shape_nav n) (texts_text L e = []) (length ts)"
| "shape_page L (AdminUsersPage n rs e) = UsersShape (shape_nav n) (map Usr_IsAdmin rs) (e = [])"


section \<open>The components\<close>

lemma alike_Nav [alike_intro]:
  "escaping L \<Longrightarrow> shape_nav n = shape_nav n' \<Longrightarrow> alike (Nav_html L n) (Nav_html L n')"
  unfolding Nav_html_def by (intro alike_intro; cases n; cases n'; simp add: shape_nav_def)

lemma alike_Layout [alike_intro]:
  "escaping L \<Longrightarrow> shape_nav n = shape_nav n' \<Longrightarrow> alike c c' \<Longrightarrow> alike (Layout_html L t n c) (Layout_html L t' n' c')"
  unfolding Layout_html_def by (intro alike_intro)

lemma alike_AuthCard:
  "escaping L \<Longrightarrow> (e = [] \<longleftrightarrow> e' = []) \<Longrightarrow>
   alike (AuthCard_html L t e a s f h l) (AuthCard_html L t' e' a' s' f' h' l')"
  unfolding AuthCard_html_def by (intro alike_intro refl; simp)

lemma alike_MarketCard:
  "escaping L \<Longrightarrow> shape_card m = shape_card m' \<Longrightarrow> alike (MarketCard_html L m) (MarketCard_html L m')"
  unfolding MarketCard_html_def by (intro alike_intro; simp add: shape_card_def)

lemma alike_MarketGrid [alike_intro]:
  "escaping L \<Longrightarrow> map shape_card ms = map shape_card ms' \<Longrightarrow> alike (MarketGrid_html L ms) (MarketGrid_html L ms')"
  unfolding MarketGrid_html_def
  by (intro alike_intro alike_each [where s = shape_card] alike_MarketCard; auto)

lemma alike_Home:
  "escaping L \<Longrightarrow> shape_nav n = shape_nav n' \<Longrightarrow> map shape_card ms = map shape_card ms' \<Longrightarrow>
   alike (Home_html L n k ms) (Home_html L n' k' ms')"
  unfolding Home_html_def by (intro alike_intro)

lemma alike_MarketDetail_header [alike_intro]:
  "escaping L \<Longrightarrow> shape_detail m = shape_detail m' \<Longrightarrow> alike (MarketDetail_header L m) (MarketDetail_header L m')"
  unfolding MarketDetail_header_def
  by (intro alike_intro; auto simp: shape_detail_def among_def split: if_splits)

lemma alike_MarketDetail_odds [alike_intro]:
  "escaping L \<Longrightarrow> alike (MarketDetail_odds L m) (MarketDetail_odds L m')"
  unfolding MarketDetail_odds_def by (intro alike_intro)

lemma alike_MarketDetail_activity [alike_intro]:
  "escaping L \<Longrightarrow> shape_detail m = shape_detail m' \<Longrightarrow>
   alike (MarketDetail_activity L m) (MarketDetail_activity L m')"
  unfolding MarketDetail_activity_def
  by (intro alike_intro alike_each [where s = Item_IsSim]; auto simp: shape_detail_def dest: same_empty)

lemma alike_MarketDetail_for_sale [alike_intro]:
  "escaping L \<Longrightarrow> shape_nav n = shape_nav n' \<Longrightarrow> shape_detail m = shape_detail m' \<Longrightarrow>
   alike (MarketDetail_for_sale L n m) (MarketDetail_for_sale L n' m')"
  unfolding MarketDetail_for_sale_def
  by (intro alike_intro alike_each [where s = shape_sale]; cases n; cases n';
      auto simp: shape_detail_def shape_sale_def shape_nav_def dest: same_empty)

lemma alike_MarketDetail_slip [alike_intro]:
  "escaping L \<Longrightarrow> shape_nav n = shape_nav n' \<Longrightarrow> shape_detail m = shape_detail m' \<Longrightarrow>
   alike (MarketDetail_slip L n m) (MarketDetail_slip L n' m')"
  unfolding MarketDetail_slip_def
  by (intro alike_intro; cases n; cases n'; simp add: shape_detail_def shape_nav_def)

lemma alike_MarketDetail:
  "escaping L \<Longrightarrow> shape_nav n = shape_nav n' \<Longrightarrow> shape_detail m = shape_detail m' \<Longrightarrow>
   alike (MarketDetail_html L n m) (MarketDetail_html L n' m')"
  unfolding MarketDetail_html_def by (intro alike_intro)

lemma alike_WithdrawPanel [alike_intro]:
  "escaping L \<Longrightarrow> shape_profile p = shape_profile p' \<Longrightarrow> alike (WithdrawPanel_html L p) (WithdrawPanel_html L p')"
  unfolding WithdrawPanel_html_def
  by (intro alike_intro alike_each [where s = "\<lambda>_. ()"]; auto simp: shape_profile_def map_replicate_const)

lemma alike_CryptoStatusPanel_deposits [alike_intro]:
  "escaping L \<Longrightarrow> shape_profile p = shape_profile p' \<Longrightarrow>
   alike (CryptoStatusPanel_deposits L p) (CryptoStatusPanel_deposits L p')"
  unfolding CryptoStatusPanel_deposits_def
  by (intro alike_intro alike_each [where s = "\<lambda>_. ()"]; auto simp: shape_profile_def map_replicate_const)

lemma alike_CryptoStatusPanel [alike_intro]:
  "escaping L \<Longrightarrow> shape_profile p = shape_profile p' \<Longrightarrow>
   alike (CryptoStatusPanel_html L p) (CryptoStatusPanel_html L p')"
  unfolding CryptoStatusPanel_html_def by (intro alike_intro; simp add: shape_profile_def)

lemma alike_Profile_bet [alike_intro]:
  "escaping L \<Longrightarrow> shape_bet b = shape_bet b' \<Longrightarrow> alike (Profile_bet L b) (Profile_bet L b')"
  unfolding Profile_bet_def by (intro alike_intro; simp add: shape_bet_def)

lemma alike_Profile:
  "escaping L \<Longrightarrow> shape_nav n = shape_nav n' \<Longrightarrow> shape_profile p = shape_profile p' \<Longrightarrow> (f = [] \<longleftrightarrow> f' = []) \<Longrightarrow>
   alike (Profile_html L n p f) (Profile_html L n' p' f')"
  unfolding Profile_html_def
  by (intro alike_intro alike_each [where s = shape_bet]; auto simp: shape_profile_def dest: same_empty)

lemma alike_AdminMarkets_row [alike_intro]:
  "escaping L \<Longrightarrow> shape_row m = shape_row m' \<Longrightarrow> alike (AdminMarkets_row L m) (AdminMarkets_row L m')"
  unfolding AdminMarkets_row_def
  by (intro alike_intro; auto simp: shape_row_def among_def split: if_splits)

lemma alike_AdminMarketsPage:
  "escaping L \<Longrightarrow> shape_nav n = shape_nav n' \<Longrightarrow> map shape_row ms = map shape_row ms' \<Longrightarrow> (e = [] \<longleftrightarrow> e' = []) \<Longrightarrow>
   alike (AdminMarketsPage_html L n ms e) (AdminMarketsPage_html L n' ms' e')"
  unfolding AdminMarketsPage_html_def by (intro alike_intro alike_each [where s = shape_row]; simp)

lemma alike_AdminNewMarketPage:
  "escaping L \<Longrightarrow> shape_nav n = shape_nav n' \<Longrightarrow> (e = [] \<longleftrightarrow> e' = []) \<Longrightarrow> length ts = length ts' \<Longrightarrow>
   alike (AdminNewMarketPage_html L n e ts) (AdminNewMarketPage_html L n' e' ts')"
  unfolding AdminNewMarketPage_html_def
  by (intro alike_intro alike_each [where s = "\<lambda>_. ()"]; simp add: map_replicate_const)

lemma alike_AdminUsersPage:
  "escaping L \<Longrightarrow> shape_nav n = shape_nav n' \<Longrightarrow> map Usr_IsAdmin rs = map Usr_IsAdmin rs' \<Longrightarrow> (e = [] \<longleftrightarrow> e' = []) \<Longrightarrow>
   alike (AdminUsersPage_html L n rs e) (AdminUsersPage_html L n' rs' e')"
  unfolding AdminUsersPage_html_def by (intro alike_intro alike_each [where s = Usr_IsAdmin]; simp)

lemma alike_page: "escaping L \<Longrightarrow> shape_page L p = shape_page L q \<Longrightarrow> alike (page_html L p) (page_html L q)"
  by (cases p; cases q)
     (simp_all add: alike_AuthCard alike_Home alike_MarketGrid alike_MarketDetail alike_Profile
        alike_CryptoStatusPanel alike_AdminMarketsPage alike_AdminNewMarketPage alike_AdminUsersPage)



section \<open>Complete pages\<close>

text \<open>With no faults, and a library that returns no errors, a page is written to its end.\<close>

named_theorems completes_intro \<open>renderings that succeed while nothing fails\<close>

definition fault_free :: "page_writer \<Rightarrow> bool" where
  "fault_free w \<longleftrightarrow> ctx_errs w = [] \<and> write_errs w = []"

definition completes :: "html \<Rightarrow> bool" where
  "completes h \<longleftrightarrow> (\<forall>w. fault_free w \<longrightarrow> fst (h w) = Inr () \<and> fault_free (snd (h w)))"

definition lib_total :: "templ_lib \<Rightarrow> bool" where
  "lib_total L \<longleftrightarrow> (\<forall>s. \<not> isl (JoinStringErrs L s) \<and> \<not> isl (JoinURLErrs L s) \<and>
     \<not> isl (ResolveAttributeValue L s) \<and> \<not> isl (ResolveSafeURL L s) \<and> \<not> isl (SanitizeStyle L s))"

lemma completes_lit [completes_intro]: "completes (lit s)"
  by (simp add: completes_def lit_def fault_free_def Let_def)

lemma completes_skip [completes_intro]: "completes skip"
  by (simp add: completes_def skip_def ret_def)

lemma completes_lib: "\<not> isl r \<Longrightarrow> (\<And>v. completes (k v)) \<Longrightarrow> completes (bindE (lib_call r) k)"
  by (cases r) (auto simp: completes_def lib_call_def bindE_def ret_def)

lemma completes_values [completes_intro]:
  assumes "lib_total L"
  shows "completes (expr L x)" "completes (url L x)" "completes (style L x)" "completes (attr L x)"
    "completes (attr_url L x)"
  unfolding expr_def url_def style_def attr_def attr_url_def
  using assms by (auto intro!: completes_lib completes_lit simp: lib_total_def)

lemma completes_component [completes_intro]: "completes h \<Longrightarrow> completes (component h)"
  by (simp add: completes_def component_def fault_free_def Let_def)

lemma completes_parts_nil [completes_intro]: "completes (parts [])"
  by (simp add: completes_skip)

lemma completes_parts [completes_intro]: "completes h \<Longrightarrow> completes (parts hs) \<Longrightarrow> completes (parts (h # hs))"
  unfolding completes_def
proof (intro allI impI)
  fix w assume h: "\<forall>w. fault_free w \<longrightarrow> fst (h w) = Inr () \<and> fault_free (snd (h w))"
    and hs: "\<forall>w. fault_free w \<longrightarrow> fst (parts hs w) = Inr () \<and> fault_free (snd (parts hs w))"
    and w: "fault_free w"
  have "fst (h w) = Inr ()" using h w by simp
  then have "parts (h # hs) w = parts hs (snd (h w))" by (cases "h w") (simp add: seqE_def bindE_def)
  then show "fst (parts (h # hs) w) = Inr () \<and> fault_free (snd (parts (h # hs) w))" using h hs w by simp
qed

lemma completes_if [completes_intro]: "completes g \<Longrightarrow> completes h \<Longrightarrow> completes (if b then g else h)"
  by simp

lemma completes_each [completes_intro]: "(\<And>x. completes (f x)) \<Longrightarrow> completes (each f xs)"
  unfolding each_def by (induction xs) (simp_all add: completes_skip completes_parts del: parts.simps(2))

lemma completes_Nav_html [completes_intro]: "lib_total L \<Longrightarrow> completes (Nav_html L n)"
  unfolding Nav_html_def by (intro completes_intro)

lemma completes_Layout_html [completes_intro]: "lib_total L \<Longrightarrow> completes c \<Longrightarrow> completes (Layout_html L t n c)"
  unfolding Layout_html_def by (intro completes_intro)

lemma completes_AuthCard_html [completes_intro]: "lib_total L \<Longrightarrow> completes (AuthCard_html L t e a s f h l)"
  unfolding AuthCard_html_def by (intro completes_intro)

lemma completes_MarketCard_html [completes_intro]: "lib_total L \<Longrightarrow> completes (MarketCard_html L m)"
  unfolding MarketCard_html_def by (intro completes_intro)

lemma completes_MarketGrid_html [completes_intro]: "lib_total L \<Longrightarrow> completes (MarketGrid_html L ms)"
  unfolding MarketGrid_html_def by (intro completes_intro)

lemma completes_Home_html [completes_intro]: "lib_total L \<Longrightarrow> completes (Home_html L n k ms)"
  unfolding Home_html_def by (intro completes_intro)

lemma completes_MarketDetail_header [completes_intro]: "lib_total L \<Longrightarrow> completes (MarketDetail_header L m)"
  unfolding MarketDetail_header_def by (intro completes_intro)

lemma completes_MarketDetail_odds [completes_intro]: "lib_total L \<Longrightarrow> completes (MarketDetail_odds L m)"
  unfolding MarketDetail_odds_def by (intro completes_intro)

lemma completes_MarketDetail_activity [completes_intro]: "lib_total L \<Longrightarrow> completes (MarketDetail_activity L m)"
  unfolding MarketDetail_activity_def by (intro completes_intro)

lemma completes_MarketDetail_for_sale [completes_intro]: "lib_total L \<Longrightarrow> completes (MarketDetail_for_sale L n m)"
  unfolding MarketDetail_for_sale_def by (intro completes_intro)

lemma completes_MarketDetail_slip [completes_intro]: "lib_total L \<Longrightarrow> completes (MarketDetail_slip L n m)"
  unfolding MarketDetail_slip_def by (intro completes_intro)

lemma completes_MarketDetail_html [completes_intro]: "lib_total L \<Longrightarrow> completes (MarketDetail_html L n m)"
  unfolding MarketDetail_html_def by (intro completes_intro)

lemma completes_WithdrawPanel_html [completes_intro]: "lib_total L \<Longrightarrow> completes (WithdrawPanel_html L p)"
  unfolding WithdrawPanel_html_def by (intro completes_intro)

lemma completes_CryptoStatusPanel_deposits [completes_intro]: "lib_total L \<Longrightarrow> completes (CryptoStatusPanel_deposits L p)"
  unfolding CryptoStatusPanel_deposits_def by (intro completes_intro)

lemma completes_CryptoStatusPanel_html [completes_intro]: "lib_total L \<Longrightarrow> completes (CryptoStatusPanel_html L p)"
  unfolding CryptoStatusPanel_html_def by (intro completes_intro)

lemma completes_Profile_bet [completes_intro]: "lib_total L \<Longrightarrow> completes (Profile_bet L b)"
  unfolding Profile_bet_def by (intro completes_intro)

lemma completes_Profile_html [completes_intro]: "lib_total L \<Longrightarrow> completes (Profile_html L n p f)"
  unfolding Profile_html_def by (intro completes_intro)

lemma completes_AdminMarkets_row [completes_intro]: "lib_total L \<Longrightarrow> completes (AdminMarkets_row L m)"
  unfolding AdminMarkets_row_def by (intro completes_intro)

lemma completes_AdminMarketsPage_html [completes_intro]: "lib_total L \<Longrightarrow> completes (AdminMarketsPage_html L n ms e)"
  unfolding AdminMarketsPage_html_def by (intro completes_intro)

lemma completes_AdminNewMarketPage_html [completes_intro]: "lib_total L \<Longrightarrow> completes (AdminNewMarketPage_html L n e ts)"
  unfolding AdminNewMarketPage_html_def by (intro completes_intro)

lemma completes_AdminUsersPage_html [completes_intro]: "lib_total L \<Longrightarrow> completes (AdminUsersPage_html L n rs e)"
  unfolding AdminUsersPage_html_def by (intro completes_intro)

lemma completes_page: "lib_total L \<Longrightarrow> completes (page_html L p)"
  by (cases p) (simp_all add: completes_intro)

end
