(* ===== verification/General_Demo.thy ===== *)
theory General_Demo
  imports General_Effects General_Format General_Markup Wallet_Status
begin

text \<open>
  A concrete server, the input of the witnesses: passwords hashed by a prefix, every string a
  uuid, the initial administrator \<open>root@x\<close>, over the demo engine and the demo wallet.
\<close>

definition demo_lib :: general_lib where
  "demo_lib = \<lparr>uuid_Parse = Some, unicode_lower = (\<lambda>s. s), email_ok = (\<lambda>_. True),
     bcrypt_Generate = (\<lambda>k p. Some (CHR ''h'' # p)), bcrypt_Compare = (\<lambda>h p. h = CHR ''h'' # p),
     qr_Encode = (\<lambda>_. None), env_InitialAdmin = ''root@x'', local_offset = 0,
     bb_is_uuid = (\<lambda>_. True), bb_drv = (\<lambda>_. ''sql''), wb_service = demo_service Confirmed\<rparr>"

lemma demo_deployed: "deployed demo_lib demo_crypto (demo_solana Confirmed) ''mint'' demo_master demo_limits
    5000000 25000000 = demo_lib"
  by (simp add: deployed_def demo_lib_def demo_service_def)

definition demo_account :: "uuid \<Rightarrow> string \<Rightarrow> bool \<Rightarrow> Account" where
  "demo_account i email adm = \<lparr>Account_ID = i, Account_Email = email, Account_PasswordHash = ''hpw'',
     Account_IsAdmin = adm, Account_CreatedAt = 0\<rparr>"

definition demo_general :: "Account list \<Rightarrow> wallet_world \<Rightarrow> general_world" where
  "demo_general as v = \<lparr>accounts = as, gdb_fates = [], gnet_fates = [], guuid_src = (\<lambda>n. CHR ''g'' # nat_text n),
     guuid_ctr = 0, gclock = 0, wallet_side = v\<rparr>"

text \<open>The first state, and one with a user \<open>a\<close>, who has 800, and an administrator.\<close>

definition demo_g0 :: general_world where
  "demo_g0 = demo_general [] (demo_wallet wallet_runMigrations\<lparr>bank := demo_start\<rparr>)"

definition demo_g :: general_world where
  "demo_g = demo_general [demo_account ''a'' ''a@x'' False, demo_account ''r'' ''root@x'' True] demo_w"

definition demo_request :: "uuid option \<Rightarrow> route \<Rightarrow> http_request" where
  "demo_request sess r = \<lparr>Req_Visitor = [], Req_Host = ''h'', Req_URI = ''/profile?x=1'', Req_Session = sess, Req_Route = r\<rparr>"

lemma demo_request_https [simp]: "\<not> visited_by_http (demo_request sess r)"
  by (simp add: demo_request_def visited_by_http_def contains_def)

lemma demo_request_simps [simp]: "Req_Session (demo_request sess r) = sess" "Req_Route (demo_request sess r) = r"
  by (simp_all add: demo_request_def)

lemma demo_g_simps [simp]:
  "accounts demo_g = [demo_account ''a'' ''a@x'' False, demo_account ''r'' ''root@x'' True]"
  "wallet_side demo_g = demo_w" "gdb_fates demo_g = []" "gnet_fates demo_g = []"
  by (simp_all add: demo_g_def demo_general_def)

lemma demo_g0_reachable: "general_reachable demo_lib crypto demo_g0"
  by (rule general_reachable.init [of _ 0])
    (simp_all add: demo_g0_def demo_general_def general_runMigrations_def demo_wallet_def demo_start_def demo_world_def)

text \<open>A registration from the first state.\<close>

definition demo_form :: "string \<Rightarrow> registerRequest" where
  "demo_form email = \<lparr>Reg_Email = email, Reg_Password = ''pw''\<rparr>"

definition demo_register :: http_request where
  "demo_register = demo_request None (Public (RegisterReq (Some (demo_form '' Ana@X ''))))"

lemma space_runes_bytes: "space_runes = [
    [CHR 0x09], [CHR 0x0A], [CHR 0x0B], [CHR 0x0C], [CHR 0x0D], [CHR '' ''], [CHR 0xC2, CHR 0x85],
    [CHR 0xC2, CHR 0xA0], [CHR 0xE1, CHR 0x9A, CHR 0x80], [CHR 0xE2, CHR 0x80, CHR 0xA8],
    [CHR 0xE2, CHR 0x80, CHR 0xA9], [CHR 0xE2, CHR 0x80, CHR 0xAF], [CHR 0xE2, CHR 0x81, CHR 0x9F],
    [CHR 0xE3, CHR 0x80, CHR 0x80], [CHR 0xE2, CHR 0x80, CHR 0x80], [CHR 0xE2, CHR 0x80, CHR 0x81],
    [CHR 0xE2, CHR 0x80, CHR 0x82], [CHR 0xE2, CHR 0x80, CHR 0x83], [CHR 0xE2, CHR 0x80, CHR 0x84],
    [CHR 0xE2, CHR 0x80, CHR 0x85], [CHR 0xE2, CHR 0x80, CHR 0x86], [CHR 0xE2, CHR 0x80, CHR 0x87],
    [CHR 0xE2, CHR 0x80, CHR 0x88], [CHR 0xE2, CHR 0x80, CHR 0x89], [CHR 0xE2, CHR 0x80, CHR 0x8A]]"
  by code_simp

lemma demo_emails: "normal_email demo_lib '' Ana@X '' = ''ana@x''" "normal_email demo_lib ''ana@x'' = ''ana@x''"
    "normal_email demo_lib ''root@x'' = ''root@x''" "normal_email demo_lib ''Ana@X'' = ''ana@x''"
    "NonEmptyString '' Ana@X '' maxEmailLen = Inr ''Ana@X''"
proof -
  have l: "unicode_lower demo_lib = (\<lambda>s. s)" by (simp add: demo_lib_def)
  have t: "TrimSpace '' Ana@X '' = ''Ana@X''" "TrimSpace ''ana@x'' = ''ana@x''" "TrimSpace ''root@x'' = ''root@x''"
    "TrimSpace ''Ana@X'' = ''Ana@X''"
    by (simp_all add: TrimSpace_def strip.simps space_runes_bytes)
  have "ToLower (\<lambda>s. s) ''Ana@X'' = ''ana@x''" "ToLower (\<lambda>s. s) ''ana@x'' = ''ana@x''"
    "ToLower (\<lambda>s. s) ''root@x'' = ''root@x''" by code_simp+
  then show "normal_email demo_lib '' Ana@X '' = ''ana@x''" "normal_email demo_lib ''ana@x'' = ''ana@x''"
    "normal_email demo_lib ''root@x'' = ''root@x''" "normal_email demo_lib ''Ana@X'' = ''ana@x''"
    by (simp_all add: normal_email_def l t)
  show "NonEmptyString '' Ana@X '' maxEmailLen = Inr ''Ana@X''" by (simp add: NonEmptyString_Inr t maxEmailLen_def)
qed

lemma demo_sync:
  assumes "gnet_fates w = []" and "engine w = demo_start"
  shows "\<exists>w'. bc_SyncUserTyped demo_lib ''g0'' 0 w = (Inr \<lparr>CS_UserID = ''g0'', CS_Balance = 0\<rparr>, w')"
proof -
  have "fst (Bet_Handlers.SyncUser (\<lambda>_. True) (\<lambda>_. ''sql'') (Some \<lparr>Sync_ID = ''g0'', Sync_Balance = 0\<rparr>) demo_start) =
      (200, BSynced ''g0'' 0)" by code_simp
  then obtain b where "Bet_Handlers.SyncUser (\<lambda>_. True) (\<lambda>_. ''sql'') (Some \<lparr>Sync_ID = ''g0'', Sync_Balance = 0\<rparr>)
      demo_start = ((200, BSynced ''g0'' 0), b)" by (metis prod.collapse)
  then show ?thesis
    using assms by (simp add: bc_SyncUserTyped_def decoded_def bc_SyncUser_def to_engine_def next_fate_def
        demo_lib_def bindE_def ret_def)
qed

lemma demo_registered: "R_Session (fst (serve demo_lib crypto demo_register demo_g0)) = SetUser ''g0''"
proof -
  have l: "bcrypt_Generate demo_lib = (\<lambda>k p. Some (CHR ''h'' # p))" "email_ok demo_lib = (\<lambda>_. True)"
    "env_InitialAdmin demo_lib = ''root@x''" by (simp_all add: demo_lib_def)
  have w: "gdb_fates demo_g0 = []" "accounts demo_g0 = []" "guuid_src demo_g0 (guuid_ctr demo_g0) = ''g0''"
    by (simp_all add: demo_g0_def demo_general_def) code_simp
  let ?a = "new_account demo_lib ''g0'' ''Ana@X'' ''hpw'' (gclock demo_g0)"
  let ?w = "demo_g0\<lparr>guuid_ctr := Suc (guuid_ctr demo_g0), gdb_fates := [], accounts := [?a]\<rparr>"
  obtain w' where s: "bc_SyncUserTyped demo_lib ''g0'' 0 ?w = (Inr \<lparr>CS_UserID = ''g0'', CS_Balance = 0\<rparr>, w')"
    using demo_sync [of ?w] by (auto simp: demo_g0_def demo_general_def)
  have c: "CreateAccount demo_lib ''g0'' ''Ana@X'' ''hpw'' (demo_g0\<lparr>guuid_ctr := Suc (guuid_ctr demo_g0)\<rparr>) = (Inr ?a, ?w)"
    by (simp add: CreateAccount_def Let_def on_error_def seqE_def bindE_def ret_def g_stmt_def insert_account_def
        next_fate_def w)
  show ?thesis
    by (simp add: demo_register_def serve_respond demo_form_def Register_def bound_def credentials_ok_def l w sane_def
        demo_emails trying_def HashPassword_def guuid_New_def c s bindE_def ret_def respond_def redirect_def answer_def)
qed

definition demo_g1 :: general_world where
  "demo_g1 = snd (serve demo_lib True demo_register demo_g0)"

lemma demo_g1_reachable: "general_reachable demo_lib True demo_g1"
  by (rule general_reachable.step [OF demo_g0_reachable general_step.request])
    (simp add: demo_g1_def prod_eq_iff)

lemma demo_g0_inv: "inv (tabs (engine demo_g0))"
  using inv_demo(1) by (simp add: demo_g0_def demo_general_def)

lemma demo_g1_accounts: "\<exists>t. accounts demo_g1 = [new_account demo_lib ''g0'' '' Ana@X '' ''hpw'' t]"
proof -
  have r: "respond (Register demo_lib (Some (demo_form '' Ana@X ''))) demo_g0 =
      (fst (serve demo_lib True demo_register demo_g0), demo_g1)"
    by (simp add: demo_g1_def demo_register_def serve_respond)
  from Register_session [OF r demo_registered demo_g0_inv] show ?thesis
    by (auto simp: demo_form_def demo_lib_def demo_g0_def demo_general_def)
qed

lemma demo_email_a: "normal_email demo_lib ''a@x'' = ''a@x''"
proof -
  have "TrimSpace ''a@x'' = ''a@x''" by (simp add: TrimSpace_def strip.simps space_runes_bytes)
  moreover have "ToLower (\<lambda>s. s) ''a@x'' = ''a@x''" by code_simp
  ultimately show ?thesis by (simp add: normal_email_def demo_lib_def)
qed

lemma demo_g1_fates: "gdb_fates demo_g1 = []"
proof -
  let ?P = "\<lambda>w. gdb_fates w = []"
  have "keeps ?P (Register demo_lib q)" for q
  proof -
    have c: "keeps ?P (CreateAccount demo_lib i e h)" for i e h
      by (auto simp: keeps_def CreateAccount_def Let_def on_error_def seqE_def bindE_def ret_def throw_def g_stmt_def
          insert_account_def next_fate_def)
    have s: "keeps ?P (bc_SyncUserTyped demo_lib i b)" for i b
      by (auto simp: keeps_def bc_SyncUserTyped_def decoded_world bc_SyncUser_def to_engine_def Let_def
          split: fate.splits prod.splits)
    have u: "keeps ?P guuid_New" by (simp add: keeps_def guuid_New_def)
    show ?thesis unfolding Register_def by (intro keeps_intro c s u)
  qed
  from keeps_respond [OF this] show ?thesis
    by (simp add: demo_g1_def demo_register_def serve_respond demo_g0_def demo_general_def)
qed

lemma demo_open_balance: "balance_of (tabs demo_open) ''a'' = Some 800" "faults demo_open = []"
  by code_simp+

definition demo_dest :: string where
  "demo_dest = ''11111111111111111111111111111111''"

lemma demo_dest_ok: "demo_dest \<noteq> []" "TrimSpace demo_dest = demo_dest" "SolanaAddress demo_dest = Inr demo_dest"
proof -
  show t: "demo_dest \<noteq> []" "TrimSpace demo_dest = demo_dest"
    by (simp_all add: demo_dest_def TrimSpace_def strip.simps space_runes_bytes)
  have "length demo_dest = 32" "set demo_dest = {CHR ''1''}" by (simp_all add: demo_dest_def)
  then show "SolanaAddress demo_dest = Inr demo_dest"
    by (simp add: SolanaAddress_def t Let_def list_all_iff base58Alphabet_def)
qed


text \<open>A template library: Go's \<open>html.EscapeString\<close>, and values passed through it.\<close>

fun html_char :: "char \<Rightarrow> string" where
  "html_char c = (if c = CHR ''&'' then ''&amp;'' else if c = CHR 0x27 then ''&#39;''
     else if c = CHR ''<'' then ''&lt;'' else if c = CHR ''>'' then ''&gt;''
     else if c = CHR 0x22 then ''&#34;'' else [c])"

definition html_escape :: "string \<Rightarrow> string" where
  "html_escape s = concat (map html_char s)"

definition demo_templ :: templ_lib where
  "demo_templ = \<lparr>EscapeString = html_escape, templ_URL = (\<lambda>s. s), JoinStringErrs = Inr, JoinURLErrs = Inr,
     ResolveAttributeValue = (\<lambda>s. Inr (html_escape s)), ResolveSafeURL = (\<lambda>s. Inr (html_escape s)),
     SanitizeStyle = Inr, msg_text = (\<lambda>_. []), san_text = (\<lambda>_. [])\<rparr>"

lemma markup_html_escape: "markup (html_escape s) = []"
  by (induction s) (auto simp: html_escape_def markup_def markup_char_def)

lemma demo_templ_ok: "escaping demo_templ" "lib_total demo_templ"
  by (simp_all add: escaping_def lib_total_def demo_templ_def markup_html_escape)

definition demo_card :: "string \<Rightarrow> MarketCardVM" where
  "demo_card q = \<lparr>Card_ID = ''u0'', Card_Question = q, Card_SimPct = 50, Card_NaoPct = 50,
     Card_VolumeLabel = [], Card_BettorCount = 0, Card_IsLive = False, Card_LowLiquidity = True\<rparr>"

end
