(* ===== verification/General_Properties.thy ===== *)
theory General_Properties
  imports General_Demo
begin

text \<open>
  What general-backend promises, over the two services behind it, with a witness for each
  promise that has hypotheses.
\<close>

section \<open>The composed system\<close>



text \<open>
  C30: In every reachable state the accounts are well-formed: no two share an id or an email,
  and every email is a normalised one.
\<close>

theorem accounts_wellformed:
  assumes "general_reachable (deployed E C S mint m l r f) crypto w"
  shows "distinct (map Account_ID (accounts w)) \<and> distinct (map Account_Email (accounts w)) \<and>
    (\<forall>a \<in> set (accounts w). \<exists>x. Account_Email a = normal_email E x)"
  using schema.reachable_invariant [OF assms]
  by (simp add: accounts_inv_def general_runMigrations_def)

theorem accounts_wellformed_witness:
  "distinct (map Account_Email (accounts demo_g1)) \<and> map Account_Email (accounts demo_g1) \<noteq> []"
  using demo_g1_accounts accounts_wellformed [of demo_lib demo_crypto "demo_solana Confirmed" "''mint''" demo_master
      demo_limits 5000000 25000000, unfolded demo_deployed, OF demo_g1_reachable] by auto


section \<open>Accounts\<close>

text \<open>
  C18: Whoever registered can log in. Once a registration has opened a session for an id, then
  after any further steps of the system, with the database answering, a login with the same
  password and any spelling of the email that normalises alike opens a session for the same
  id. The law of \<open>bcrypt\<close>: a password compares equal to each of its hashes.
\<close>

theorem register_then_login:
  assumes "general_reachable (deployed E C S mint m l r f) crypto w"
    and "\<And>k p h. bcrypt_Generate E k p = Some h \<Longrightarrow> bcrypt_Compare E h p"
    and "\<not> visited_by_http q1" and "Req_Route q1 = Public (RegisterReq (Some x))"
    and "serve (deployed E C S mint m l r f) crypto q1 w = (resp, w1)" and "R_Session resp = SetUser i"
    and "(general_step (deployed E C S mint m l r f) crypto)\<^sup>*\<^sup>* w1 v" and "gdb_fates v = []"
    and "\<not> visited_by_http q2" and "Req_Route q2 = Public (LoginReq (Some y) next_url)"
    and "normal_email E (Reg_Email y) = normal_email E (Reg_Email x)" and "Reg_Password y = Reg_Password x"
    and "credentials_ok E y"
  shows "R_Session (fst (serve (deployed E C S mint m l r f) crypto q2 v)) = SetUser i"
proof -
  let ?E = "deployed E C S mint m l r f"
  have e: "bcrypt_Generate ?E = bcrypt_Generate E" "bcrypt_Compare ?E = bcrypt_Compare E"
    "credentials_ok ?E y = credentials_ok E y" "accounts_inv ?E = accounts_inv E"
    by (simp_all add: deployed_def credentials_ok_def accounts_inv_def normal_email_def fun_eq_iff)
  have p: "respond (Register ?E (Some x)) w = (resp, w1)" using assms(3-5) by (simp add: serve_respond)
  have "inv (tabs (engine w))"
    using composed.reachable_invariant [OF assms(1)]
    by (simp add: behind_reachable_def reachable.init wallet_reachable.init inv_reachable)
  from Register_session [OF p assms(6) this]
  obtain h k t where a: "bcrypt_Generate E k (Reg_Password x) = Some h"
      "accounts w1 = accounts w @ [new_account ?E i (Reg_Email x) h t]" by (auto simp: e)
  have "lasts (new_account ?E i (Reg_Email x) h t) w1" unfolding lasts_def a(2) by (rule bexI) auto
  from lasting_account.steps_keep [OF assms(7) this]
  obtain b where b: "b \<in> set (accounts v)" "Account_ID b = i" "Account_Email b = normal_email E (Reg_Email x)"
      "Account_PasswordHash b = h" by (auto simp: lasts_def)
  have "accounts_inv E w1"
    using schema.step_keeps [OF general_step.request [OF assms(5)]] schema.reachable_invariant [OF assms(1)]
    by (simp add: accounts_inv_def general_runMigrations_def)
  then have inv: "accounts_inv ?E v" unfolding e by (rule schema.steps_keep [OF assms(7)])
  have "bcrypt_Compare ?E (Account_PasswordHash b) (Reg_Password y)" using assms(2,12) a(1) b(4) e by simp
  then have "R_Session (fst (respond (Login ?E (Some y) next_url) v)) = SetUser (Account_ID b)"
    using Login_live [OF assms(8) inv _ b(1)] b(3) assms(11,13) by (simp add: e)
  then show ?thesis using assms(9,10) b(2) by (simp add: serve_respond)
qed

theorem register_then_login_witness:
  "R_Session (fst (serve demo_lib True (demo_request None (Public (LoginReq (Some (demo_form ''Ana@X'')) []))) demo_g1)) =
     SetUser ''g0''"
proof -
  have q: "\<not> visited_by_http demo_register" "Req_Route demo_register = Public (RegisterReq (Some (demo_form '' Ana@X '')))"
    by (simp_all add: demo_register_def)
  have b: "bcrypt_Compare demo_lib h p" if "bcrypt_Generate demo_lib k p = Some h" for k p h
    using that by (auto simp: demo_lib_def)
  have d: "gdb_fates demo_g1 = []"
    using demo_g1_fates .
  have y: "normal_email demo_lib (Reg_Email (demo_form ''Ana@X'')) = normal_email demo_lib (Reg_Email (demo_form '' Ana@X ''))"
      "Reg_Password (demo_form ''Ana@X'') = Reg_Password (demo_form '' Ana@X '')" "credentials_ok demo_lib (demo_form ''Ana@X'')"
    by (simp_all add: demo_form_def demo_emails credentials_ok_def) (simp add: demo_lib_def)
  show ?thesis
    by (rule register_then_login [of demo_lib demo_crypto "demo_solana Confirmed" "''mint''" demo_master demo_limits
          5000000 25000000 True demo_g0 demo_register "demo_form '' Ana@X ''" _ demo_g1 "''g0''" demo_g1 _
          "demo_form ''Ana@X''" "[]", unfolded demo_deployed,
          OF demo_g0_reachable b q _ demo_registered rtranclp.rtrancl_refl d _ _ y])
      (simp_all add: demo_g1_def prod_eq_iff)
qed

text \<open>
  C12: An administrator's route is closed to everybody else. Without the session of an account
  that is an administrator the answer is a redirect or 403, and no account, no market and
  no balance changes.
\<close>

theorem admin_routes_guarded:
  assumes "serve E crypto q w = (resp, w')" and "Req_Route q = Admin a" and "\<not> admin_session (Req_Session q) w"
  shows "R_Status resp \<in> {301, 302, 403} \<and> accounts w' = accounts w \<and> wallet_side w' = wallet_side w"
proof (cases "visited_by_http q")
  case True
  then show ?thesis using serve_http [OF True assms(1)] by simp
next
  case False
  obtain res where r: "route_handler E crypto (Req_Session q) (Req_URI q) (Admin a) w = (res, w')"
      "res = Inl resp \<or> res = Inr resp"
    using assms(1,2) False by (auto simp: serve_respond respond_inv)
  from r(1) show ?thesis
    by (cases rule: admin_route_cases) (use r(2) assms(3) in auto)
qed

theorem admin_routes_guarded_witness:
  "accounts (snd (serve demo_lib True (demo_request (Some ''a'') (Admin (AdminPromoteReq (Some ''a@x'')))) demo_g)) =
     accounts demo_g"
  using admin_routes_guarded [OF prod.collapse [symmetric], of "demo_request (Some ''a'') (Admin (AdminPromoteReq (Some ''a@x'')))"
      "AdminPromoteReq (Some ''a@x'')" demo_g demo_lib True]
  by (simp add: admin_session_def demo_account_def)

text \<open>
  C11: Only an administrator makes an administrator. If a request leaves an email with an
  administrator's account that had none, it is the configured initial one, or
  the request was its promotion, sent with an administrator's session.
\<close>

theorem only_admins_promote:
  assumes "serve (deployed E C S mint m l r f) crypto q w = (resp, w')"
    and "e \<in> admins w'" and "e \<notin> admins w"
  shows "e = normal_email E (env_InitialAdmin E) \<or> admin_session (Req_Session q) w \<and>
    (\<exists>x. Req_Route q = Admin (AdminPromoteReq (Some x)) \<and> e = normal_email E x)"
  using serve_admins [OF assms] .

theorem only_admins_promote_witness:
  "\<exists>w'. snd (serve demo_lib True (demo_request (Some ''r'') (Admin (AdminPromoteReq (Some ''a@x'')))) demo_g) = w' \<and>
     ''a@x'' \<in> admins w' \<and> ''a@x'' \<notin> admins demo_g \<and> admin_session (Some ''r'') demo_g"
proof -
  let ?q = "demo_request (Some ''r'') (Admin (AdminPromoteReq (Some ''a@x'')))"
  obtain r w' where s: "serve demo_lib True ?q demo_g = (r, w')" by force
  have ok: "email_ok demo_lib = (\<lambda>_. True)" by (simp add: demo_lib_def)
  have "w' = demo_g\<lparr>accounts := [demo_account ''a'' ''a@x'' True, demo_account ''r'' ''root@x'' True]\<rparr>"
    using s
    by (simp add: serve_respond RequireUser_def CurrentUserID_def FindAccountByID_def one_account_def g_query_def
        g_stmt_def next_fate_def Let_def trying_def RequireAdmin_def AdminPromoteUser_def bound_def PromoteToAdmin_def
        update_admin_def demo_email_a bindE_def ret_def respond_def demo_account_def ok)
      (auto simp: demo_g_def demo_general_def demo_account_def)
  then have "demo_account ''a'' ''a@x'' True \<in> {a \<in> set (accounts w'). Account_IsAdmin a}"
    by (simp add: demo_account_def)
  then have a: "''a@x'' \<in> admins w'" unfolding admins_def by (rule rev_image_eqI) (simp add: demo_account_def)
  have a': "''a@x'' \<notin> admins demo_g" by (auto simp: admins_def demo_account_def)
  have "''a@x'' \<noteq> normal_email demo_lib (env_InitialAdmin demo_lib)"
    using demo_emails(3) by (simp add: demo_lib_def)
  then have "admin_session (Some ''r'') demo_g"
    using only_admins_promote [of demo_lib demo_crypto "demo_solana Confirmed" "''mint''" demo_master demo_limits
        5000000 25000000, unfolded demo_deployed, OF s a a'] by simp
  then show ?thesis using s a a' by simp
qed


section \<open>Money\<close>

text \<open>
  C19: The play-money deposit. Whatever the request is answered, and whatever fails on the way,
  either no balance changed and the page does not report a deposit, or the server is in fake
  mode and the balance of the session's account, and no other, grew by exactly the amount
  asked for, between 1 and a thousand million.
\<close>

theorem play_deposit:
  assumes "serve E crypto q w = (resp, w')" and "Req_Route q = Authed (DepositReq amount)"
    and "inv (tabs (engine w))"
  shows "balance_of (tabs (engine w')) = balance_of (tabs (engine w)) \<and> resp \<noteq> deposit_done \<or>
    \<not> crypto \<and> (\<exists>n i b. amount = Some n \<and> 0 < n \<and> n \<le> 1000000000 \<and> Req_Session q = Some i \<and>
      balance_of (tabs (engine w)) i = Some b \<and>
      balance_of (tabs (engine w')) = (balance_of (tabs (engine w)))(i \<mapsto> b + n))"
  using assms(1,2)
proof (cases rule: serve_user_cases)
  case out
  then show ?thesis by (simp add: deposit_done_def)
next
  case (user a res)
  let ?w = "w\<lparr>gdb_fates := tl (gdb_fates w)\<rparr>"
  have d: "Deposit E amount a ?w = (res, w')" using user(4) by simp
  have "inv (tabs (engine ?w))" using assms(3) by simp
  from Deposit_effect [OF d this] show ?thesis
  proof
    assume n: "balance_of (tabs (engine w')) = balance_of (tabs (engine ?w)) \<and> res \<noteq> Inr deposit_done"
    have "res \<noteq> Inl deposit_done" using Deposit_fails [of E amount a ?w] d by auto
    then show ?thesis using n user(5) by auto
  next
    assume "\<exists>n b. amount = Some n \<and> 0 < n \<and> n \<le> MaxSanityInt \<and>
       balance_of (tabs (engine ?w)) (Account_ID a) = Some b \<and>
       balance_of (tabs (engine w')) = (balance_of (tabs (engine ?w)))(Account_ID a \<mapsto> b + n)"
    then show ?thesis using user(1,2) by (auto simp: MaxSanityInt_def)
  qed
qed

theorem play_deposit_witness:
  "\<exists>resp w'. serve demo_lib False (demo_request (Some ''a'') (Authed (DepositReq (Some 50)))) demo_g = (resp, w') \<and>
     resp = deposit_done \<and> balance_of (tabs (engine w')) ''a'' = Some 850"
proof -
  let ?q = "demo_request (Some ''a'') (Authed (DepositReq (Some 50)))" and ?a = "demo_account ''a'' ''a@x'' False"
  obtain x where x: "select_user ''a'' (tabs demo_open) = Some x" "User_Balance x = 800"
    using demo_open_balance by (auto simp: balance_of_def)
  obtain w' where d: "Deposit demo_lib (Some 50) ?a demo_g = (Inr deposit_done, w')"
    using Deposit_live [of demo_g ?a x 50 demo_lib] x demo_open_balance
    by (auto simp: demo_w_simps demo_account_def demo_lib_def MaxSanityInt_def in_int64_def int64_min_def int64_max_def)
  have e: "demo_g\<lparr>gdb_fates := []\<rparr> = demo_g" by (simp add: demo_g_def demo_general_def)
  have s: "serve demo_lib False ?q demo_g = (deposit_done, w')"
    using d by (simp add: serve_respond RequireUser_def CurrentUserID_def FindAccountByID_def one_account_def
        g_query_def g_stmt_def next_fate_def Let_def trying_def bindE_def ret_def respond_def demo_account_def e)
  from play_deposit [OF s, of "Some 50"] show ?thesis
    using s demo_open_balance inv_demo(2) by (auto simp: demo_w_simps)
qed

text \<open>
  C37: Anyone can set anyone's balance. With the services up, a request that carries no session
  and needs none leaves the account it names with the balance it names, at most a thousand
  million: the hole the comment in \<open>auth_handlers.go\<close> speaks of is open.
\<close>

theorem anyone_sets_balance:
  assumes "\<not> visited_by_http q" and "Req_Session q = None" and "Req_Route q = Public (SyncUserReq (Some x))"
    and "uuid_Parse E (TrimSpace (GSync_ID x)) = Some u" and "GSync_ID x \<noteq> []" and "u \<noteq> []" and "bb_is_uuid E u"
    and "0 \<le> GSync_Balance x" and "GSync_Balance x \<le> 1000000000"
    and "gnet_fates w = []" and "faults (engine w) = []" and "inv (tabs (engine w))"
  shows "R_Status (fst (serve E crypto q w)) = 200 \<and>
    balance_of (tabs (engine (snd (serve E crypto q w)))) = (balance_of (tabs (engine w)))(u \<mapsto> GSync_Balance x)"
  using syncUser_live [OF assms(5,4,6-8) _ assms(10-12)] assms(1,3,9)
  by (auto simp: serve_respond answer_def MaxSanityInt_def)

theorem anyone_sets_balance_witness:
  "balance_of (tabs (engine demo_g)) ''a'' = Some 800 \<and>
   balance_of (tabs (engine (snd (serve demo_lib True (demo_request None (Public (SyncUserReq
     (Some \<lparr>GSync_ID = ''a'', GSync_Balance = 7\<rparr>)))) demo_g)))) ''a'' = Some 7"
proof -
  have t: "TrimSpace ''a'' = ''a''" by (simp add: TrimSpace_def strip.simps space_runes_bytes)
  have b: "balance_of (tabs demo_open) ''a'' = Some 800" "faults demo_open = []" by code_simp+
  show ?thesis
    using anyone_sets_balance [of "demo_request None (Public (SyncUserReq (Some \<lparr>GSync_ID = ''a'', GSync_Balance = 7\<rparr>)))"
        "\<lparr>GSync_ID = ''a'', GSync_Balance = 7\<rparr>" demo_lib "''a''" demo_g True] t b inv_demo(2)
    by (simp add: demo_w_simps demo_lib_def)
qed






section \<open>Texts\<close>

text \<open>
  C33: Amounts on the pages. The loop of \<open>FormatMoney\<close> prints the digits in groups of three,
  as the reference that splits off the last three digits does, for every \<open>int64\<close> but
  the least, whose negation wraps: that one is printed with its sign twice.
\<close>

theorem format_money:
  assumes "in_int64 n"
  shows "FormatMoney n =
    (if n = int64_min then ''-R$ -9.223.372.036.854.775.808,00''
     else (if n < 0 then ''-'' else []) @ ''R$ '' @ grouped (nat \<bar>n\<bar>) @ '',00'')"
proof (cases "n = int64_min")
  case True
  have "i64 (- int64_min) = int64_min" by (simp add: i64_def int64_min_def)
  moreover have "int_text int64_min = ''-9223372036854775808''"
    by (simp add: int_text_def int64_min_def nat_text.simps digit_chars)
  ultimately show ?thesis using True by (simp add: FormatMoney_def Let_def int64_min_def)
qed (simp add: FormatMoney_grouped [OF assms])

theorem format_money_witness: "FormatMoney (- 1234567) = ''-R$ 1.234.567,00''"
proof -
  have "in_int64 (- 1234567)" "- 1234567 \<noteq> int64_min" by (simp_all add: in_int64_def int64_min_def int64_max_def)
  moreover have "grouped 1234567 = ''1.234.567''"
    by (simp add: grouped.simps nat_text.simps three_digits_def digit_chars)
  ultimately show ?thesis using format_money [of "- 1234567"] by simp
qed




text \<open>
  C31: No text becomes markup. With a template library that escapes and returns no errors, two
  pages of the same shape, whatever questions, outcomes, emails and messages they show, have the
  same angle brackets and quotes in the same order; a rendering that is cut short by a failed
  write or a cancelled context has a beginning of them.
\<close>

theorem page_markup:
  assumes "escaping L" and "lib_total L" and "shape_page L p = shape_page L q"
    and "page_html L q w = (r, w')" and "written w = []"
  shows "fst (page_html L p blank_writer) = Inr () \<and>
    (\<exists>ps. markup (rendered L p) = markup (written w') @ ps \<and> (r = Inr () \<longrightarrow> ps = []))"
proof -
  have f: "fst (page_html L p blank_writer) = Inr ()"
    using completes_page [OF assms(2)] by (simp add: completes_def fault_free_def blank_writer_def)
  obtain ms where ms: "emits (page_html L p) ms" "emits (page_html L q) ms"
    using alike_page [OF assms(1,3)] unfolding alike_def by blast
  have p: "markup (rendered L p) = ms"
  proof (rule emitsD [OF ms(1), of blank_writer])
    fix ps
    assume "markup (written (snd (page_html L p blank_writer))) = markup (written blank_writer) @ ps"
      and "\<not> isl (fst (page_html L p blank_writer)) \<longrightarrow> ps = ms"
    then show ?thesis using f by (simp add: rendered_def) (simp add: blank_writer_def)
  qed
  obtain qs where q: "markup (written w') = qs" "prefix qs ms" "\<not> isl r \<longrightarrow> qs = ms"
    by (rule emitsD [OF ms(2), of w]) (simp add: assms(4,5))
  obtain zs where z: "ms = qs @ zs" using q(2) by (rule prefixE)
  have "r = Inr () \<longrightarrow> zs = []" using q(3) z by (cases r) auto
  then show ?thesis using f p q(1) z by blast
qed

theorem page_markup_witness:
  "markup (rendered demo_templ (MarketGrid [demo_card ''Flu?''])) =
     markup (rendered demo_templ (MarketGrid [demo_card ''<script>alert(1)</script>''])) \<and>
   fst (page_html demo_templ (MarketGrid [demo_card ''Flu?'']) blank_writer) = Inr ()"
proof -
  let ?p = "MarketGrid [demo_card ''Flu?'']" let ?q = "MarketGrid [demo_card ''<script>alert(1)</script>'']"
  have s: "shape_page demo_templ ?p = shape_page demo_templ ?q" by (simp add: shape_card_def demo_card_def)
  have b: "written blank_writer = []" by (simp add: blank_writer_def)
  have r: "fst (page_html demo_templ ?q blank_writer) = Inr ()"
    using page_markup [OF demo_templ_ok s [symmetric] surjective_pairing b] by (rule conjunct1)
  obtain ps where ps: "markup (rendered demo_templ ?p) = markup (written (snd (page_html demo_templ ?q blank_writer))) @ ps"
    "fst (page_html demo_templ ?q blank_writer) = Inr () \<longrightarrow> ps = []"
    using conjunct2 [OF page_markup [OF demo_templ_ok s surjective_pairing b]] by blast
  have "fst (page_html demo_templ ?p blank_writer) = Inr ()"
    using page_markup [OF demo_templ_ok s surjective_pairing b] by (rule conjunct1)
  moreover have "written (snd (page_html demo_templ ?q blank_writer)) = rendered demo_templ ?q"
    by (simp only: rendered_def)
  ultimately show ?thesis using ps r by (metis append_Nil2)
qed

end
