(* ===== verification/Proxy.thy ===== *)
theory Proxy
  imports Prelude
begin

text \<open>
  \<open>solana-rpc-proxy/main.go\<close>: the filter in front of the Solana RPC endpoint. It rests on Go's
  parsers of addresses, \<open>net.SplitHostPort\<close>, \<open>netip.ParseAddr\<close> and
  \<open>netip.ParsePrefix\<close>, which are written out: an address is its width in bits, its value and
  its zone. The reverse proxy behind the filter is an argument; \<open>None\<close> is its error.
\<close>

section \<open>Addresses\<close>

record ip_addr =
  Addr_bits :: nat
  Addr_value :: int
  Addr_zone :: string

record ip_prefix =
  Prefix_addr :: ip_addr
  Prefix_bits :: nat

definition digit_value :: "char \<Rightarrow> nat option" where
  "digit_value c = (let k = of_char c :: nat in if 48 \<le> k \<and> k \<le> 57 then Some (k - 48) else None)"

definition hex_value :: "char \<Rightarrow> nat option" where
  "hex_value c = (let k = of_char c :: nat in
     if 48 \<le> k \<and> k \<le> 57 then Some (k - 48)
     else if 97 \<le> k \<and> k \<le> 102 then Some (k - 87)
     else if 65 \<le> k \<and> k \<le> 70 then Some (k - 55) else None)"

text \<open>
  The loop over the bytes, with the octets found, the value and the number of digits of the
  current one. A dot at the start or after a dot is a dot after no digit.
\<close>

fun ipv4_loop :: "string \<Rightarrow> nat list \<Rightarrow> nat \<Rightarrow> nat \<Rightarrow> nat list option" where
  "ipv4_loop [] octets val digLen = (if length octets < 3 then None else Some (octets @ [val]))"
| "ipv4_loop (c # cs) octets val digLen = (case digit_value c of
     Some d \<Rightarrow>
       if digLen = 1 \<and> val = 0 then None
       else if 255 < val * 10 + d then None
       else ipv4_loop cs octets (val * 10 + d) (Suc digLen)
   | None \<Rightarrow>
       if c \<noteq> CHR ''.'' then None
       else if digLen = 0 \<or> cs = [] then None
       else if length octets = 3 then None
       else ipv4_loop cs (octets @ [val]) 0 0)"

definition parseIPv4Fields :: "string \<Rightarrow> nat list option" where
  "parseIPv4Fields s = ipv4_loop s [] 0 0"

definition bytes_value :: "nat list \<Rightarrow> int" where
  "bytes_value bs = foldl (\<lambda>v b. v * 256 + int b) 0 bs"

text \<open>A group of hexadecimal digits: their number, the value and what follows them.\<close>

fun hex_run :: "string \<Rightarrow> nat \<Rightarrow> nat \<Rightarrow> (nat \<times> nat \<times> string) option" where
  "hex_run [] off acc = Some (off, acc, [])"
| "hex_run (c # cs) off acc = (case hex_value c of
     None \<Rightarrow> Some (off, acc, c # cs)
   | Some d \<Rightarrow> if 3 < off then None else hex_run cs (Suc off) (acc * 16 + d))"

text \<open>The loop over the groups; the counter is what is left of its eight rounds.\<close>

fun ipv6_loop :: "nat \<Rightarrow> string \<Rightarrow> nat list \<Rightarrow> nat option \<Rightarrow> (string \<times> nat list \<times> nat option) option" where
  "ipv6_loop 0 s ip ellipsis = Some (s, ip, ellipsis)"
| "ipv6_loop (Suc k) s ip ellipsis = (case hex_run s 0 0 of
     None \<Rightarrow> None
   | Some (off, acc, rest) \<Rightarrow>
       if off = 0 then None
       else if rest \<noteq> [] \<and> hd rest = CHR ''.'' then
         (if ellipsis = None \<and> length ip \<noteq> 12 then None
          else if 16 < length ip + 4 then None
          else map_option (\<lambda>f. ([], ip @ f, ellipsis)) (parseIPv4Fields s))
       else let ip' = ip @ [acc div 256, acc mod 256] in
         if rest = [] then Some ([], ip', ellipsis)
         else if hd rest \<noteq> CHR '':'' then None
         else if tl rest = [] then None
         else if hd (tl rest) = CHR '':'' then
           (if ellipsis \<noteq> None then None
            else if tl (tl rest) = [] then Some ([], ip', Some (length ip'))
            else ipv6_loop k (tl (tl rest)) ip' (Some (length ip')))
         else ipv6_loop k (tl rest) ip' ellipsis)"

definition parseIPv6 :: "string \<Rightarrow> ip_addr option" where
  "parseIPv6 full =
     (let s = takeWhile (\<lambda>c. c \<noteq> CHR ''%'') full;
          rest = dropWhile (\<lambda>c. c \<noteq> CHR ''%'') full;
          zone = tl rest;
          addr = (\<lambda>bs. \<lparr>Addr_bits = 128, Addr_value = bytes_value bs, Addr_zone = zone\<rparr>)
      in if rest \<noteq> [] \<and> zone = [] then None
         else if take 2 s = ''::'' \<and> drop 2 s = [] then Some (addr (replicate 16 0))
         else let (s', ellipsis) = (if take 2 s = ''::'' then (drop 2 s, Some 0) else (s, None)) in
           case ipv6_loop 8 s' [] ellipsis of
             None \<Rightarrow> None
           | Some (left, ip, e) \<Rightarrow>
               if left \<noteq> [] then None
               else if length ip < 16 then
                 (case e of
                    None \<Rightarrow> None
                  | Some k \<Rightarrow> Some (addr (take k ip @ replicate (16 - length ip) 0 @ drop k ip)))
               else if e \<noteq> None then None
               else Some (addr ip))"

fun parse_kind :: "string \<Rightarrow> char option" where
  "parse_kind [] = None"
| "parse_kind (c # cs) = (if c = CHR ''.'' \<or> c = CHR '':'' \<or> c = CHR ''%'' then Some c else parse_kind cs)"

definition ParseAddr :: "string \<Rightarrow> ip_addr option" where
  "ParseAddr s =
     (if parse_kind s = Some (CHR ''.'') then
        map_option (\<lambda>f. \<lparr>Addr_bits = 32, Addr_value = bytes_value f, Addr_zone = []\<rparr>) (parseIPv4Fields s)
      else if parse_kind s = Some (CHR '':'') then parseIPv6 s
      else None)"

fun Atoi :: "string \<Rightarrow> nat \<Rightarrow> nat option" where
  "Atoi [] val = Some val"
| "Atoi (c # cs) val = (case digit_value c of None \<Rightarrow> None | Some d \<Rightarrow> Atoi cs (val * 10 + d))"

text \<open>
  The text around the last slash. A length of more than one digit does not begin with a zero or
  a sign; one too long for an \<open>int\<close> is above the width as well.
\<close>

definition ParsePrefix :: "string \<Rightarrow> ip_prefix option" where
  "ParsePrefix s =
     (let len = takeWhile (\<lambda>c. c \<noteq> CHR ''/'') (rev s);
          addr = drop (Suc (length len)) (rev s);
          bitsStr = rev len
      in if CHR ''/'' \<notin> set s then None
         else case ParseAddr (rev addr) of
           None \<Rightarrow> None
         | Some ip \<Rightarrow>
             if Addr_zone ip \<noteq> [] then None
             else if bitsStr = [] then None
             else if 1 < length bitsStr \<and> hd bitsStr = CHR ''0'' then None
             else case Atoi bitsStr 0 of
               None \<Rightarrow> None
             | Some bits \<Rightarrow>
                 if Addr_bits ip < bits then None
                 else Some \<lparr>Prefix_addr = ip, Prefix_bits = bits\<rparr>)"

text \<open>\<open>Contains\<close>: of one width, no zone, the leading bits equal.\<close>

definition prefix_Contains :: "ip_prefix \<Rightarrow> ip_addr \<Rightarrow> bool" where
  "prefix_Contains p ip \<longleftrightarrow> Addr_zone ip = [] \<and> Addr_bits (Prefix_addr p) = Addr_bits ip \<and>
     Addr_value ip div 2 ^ (Addr_bits ip - Prefix_bits p) =
     Addr_value (Prefix_addr p) div 2 ^ (Addr_bits ip - Prefix_bits p)"

text \<open>\<open>net.SplitHostPort\<close>: \<open>None\<close> is an error.\<close>

definition SplitHostPort :: "string \<Rightarrow> (string \<times> string) option" where
  "SplitHostPort s =
     (let port = rev (takeWhile (\<lambda>c. c \<noteq> CHR '':'') (rev s));
          i = length s - Suc (length port);
          fin = length (takeWhile (\<lambda>c. c \<noteq> CHR '']'') s)
      in if CHR '':'' \<notin> set s then None
         else if hd s = CHR ''['' then
           (if fin = length s then None
            else if Suc fin \<noteq> i then None
            else if CHR ''['' \<in> set (drop 1 s) \<or> CHR '']'' \<in> set (drop (Suc fin) s) then None
            else Some (drop 1 (take fin s), port))
         else if CHR '':'' \<in> set (take i s) then None
         else if CHR ''['' \<in> set s \<or> CHR '']'' \<in> set s then None
         else Some (take i s, port))"


section \<open>The filter\<close>

record rpc_request =
  Rpc_RemoteAddr :: string
  Rpc_Path :: string
  Rpc_Method :: string
  Rpc_Body :: string

definition envOr :: "(string \<Rightarrow> string) \<Rightarrow> string \<Rightarrow> string \<Rightarrow> string" where
  "envOr env name fallback = (if env name \<noteq> [] then env name else fallback)"

definition defaultAllowedSubnet :: string where "defaultAllowedSubnet = ''172.24.0.0/16''"
definition defaultListenAddress :: string where "defaultListenAddress = ''192.168.1.5:8899''"
definition defaultUpstreamURL :: string where "defaultUpstreamURL = ''https://api.devnet.solana.com''"

definition allowedClient :: "rpc_request \<Rightarrow> ip_prefix \<Rightarrow> bool" where
  "allowedClient r subnet = (case SplitHostPort (Rpc_RemoteAddr r) of
     None \<Rightarrow> False
   | Some (host, port) \<Rightarrow>
       (case ParseAddr host of None \<Rightarrow> False | Some ip \<Rightarrow> prefix_Contains subnet ip))"

text \<open>\<open>http.Error\<close> ends the text with a newline.\<close>

definition http_error :: "nat \<Rightarrow> string \<Rightarrow> nat \<times> string" where
  "http_error code s = (code, s @ [CHR 0x0A])"

text \<open>What the upstream is asked, and the answer: the upstream's, or one of the filter's own.\<close>

definition proxy_handler :: "ip_prefix \<Rightarrow> (rpc_request \<Rightarrow> (nat \<times> string) option) \<Rightarrow> rpc_request
    \<Rightarrow> rpc_request list \<times> nat \<times> string" where
  "proxy_handler allowedSubnet upstream r =
     (if \<not> allowedClient r allowedSubnet then ([], http_error 403 ''forbidden'')
      else if Rpc_Path r = ''/health'' then ([], 204, [])
      else if Rpc_Method r \<noteq> ''POST'' then ([], http_error 405 ''method not allowed'')
      else ([r], case upstream r of
             None \<Rightarrow> http_error 502 ''solana rpc unavailable''
           | Some a \<Rightarrow> a))"

text \<open>
  What \<open>main\<close> serves: the address it listens on, the upstream's URL and the handler's subnet,
  unless one of them does not parse. \<open>url.Parse\<close> is an argument.
\<close>

definition proxy_main :: "(string \<Rightarrow> 'u option) \<Rightarrow> (string \<Rightarrow> string) \<Rightarrow> (string \<times> 'u \<times> ip_prefix) option" where
  "proxy_main url_Parse env =
     (case url_Parse (envOr env ''SOLANA_RPC_UPSTREAM'' defaultUpstreamURL) of
        None \<Rightarrow> None
      | Some upstream \<Rightarrow>
          (case ParsePrefix (envOr env ''RPC_PROXY_ALLOWED_SUBNET'' defaultAllowedSubnet) of
             None \<Rightarrow> None
           | Some subnet \<Rightarrow>
               Some (envOr env ''RPC_PROXY_LISTEN_ADDR'' defaultListenAddress, upstream, subnet)))"

end
