(* ===== verification/Proxy_Properties.thy ===== *)
theory Proxy_Properties
  imports Proxy
begin

text \<open>
  The filter lets through what it is configured to: an IPv4 client's address is in the subnet
  when the first bits of the two dotted texts agree, whatever its port.
\<close>

section \<open>Dotted quads\<close>

definition quad :: "nat list \<Rightarrow> string" where
  "quad bs = nat_text (bs ! 0) @ ''.'' @ nat_text (bs ! 1) @ ''.'' @ nat_text (bs ! 2) @ ''.'' @ nat_text (bs ! 3)"

definition octets4 :: "nat list \<Rightarrow> bool" where
  "octets4 bs \<longleftrightarrow> length bs = 4 \<and> list_all (\<lambda>b. b < 256) bs"

lemma octets4_cases:
  assumes "octets4 bs"
  obtains a b c d where "bs = [a, b, c, d]" "a < 256" "b < 256" "c < 256" "d < 256"
proof -
  obtain a b c d where "bs = [a, b, c, d]"
    using assms by (auto simp: octets4_def numeral_eq_Suc length_Suc_conv)
  then show ?thesis using assms that by (simp add: octets4_def)
qed

lemma digit_value_char: "n < 10 \<Longrightarrow> digit_value (digit_char n) = Some n"
  by (simp add: digit_value_def digit_char_def Let_def)

lemma nat_text_parts:
  "n < 10 \<Longrightarrow> nat_text n = [digit_char n]"
  "10 \<le> n \<Longrightarrow> n < 100 \<Longrightarrow> nat_text n = [digit_char (n div 10), digit_char (n mod 10)]"
  "100 \<le> n \<Longrightarrow> n < 1000 \<Longrightarrow> nat_text n = [digit_char (n div 100), digit_char (n div 10 mod 10), digit_char (n mod 10)]"
proof -
  show one: "nat_text n = [digit_char n]" if "n < 10" for n using that by (simp add: nat_text.simps)
  show two: "nat_text n = [digit_char (n div 10), digit_char (n mod 10)]" if "10 \<le> n" "n < 100" for n
    using that one [of "n div 10"] by (simp add: nat_text.simps [of n])
  show "nat_text n = [digit_char (n div 100), digit_char (n div 10 mod 10), digit_char (n mod 10)]"
    if "100 \<le> n" "n < 1000"
    using that two [of "n div 10"] by (simp add: nat_text.simps [of n] div_mult2_eq [symmetric])
qed

lemma ipv4_digits:
  assumes "n < 256"
  shows "ipv4_loop (nat_text n @ rest) fs 0 0 = ipv4_loop rest fs n (length (nat_text n))"
proof -
  consider "n < 10" | "10 \<le> n" "n < 100" | "100 \<le> n" "n < 1000" using assms by linarith
  then show ?thesis
  proof cases
    case 1
    then show ?thesis by (simp add: nat_text_parts digit_value_char)
  next
    case 2
    then have "n div 10 * 10 + n mod 10 = n" "n div 10 < 10" "n div 10 \<noteq> 0" by simp_all
    then show ?thesis using 2 by (simp add: nat_text_parts digit_value_char)
  next
    case 3
    have "n div 100 * 10 + n div 10 mod 10 = n div 10"
      using div_mult_mod_eq [of "n div 10" 10] by (simp add: div_mult2_eq [symmetric])
    moreover have "n div 100 < 10" "n div 100 \<noteq> 0" "n div 10 \<le> 255" using 3 assms by (simp_all add: div_le_mono)
    ultimately show ?thesis using 3 assms by (simp add: nat_text_parts digit_value_char div_mult_mod_eq)
  qed
qed

lemma nat_text_digits: "c \<in> set (nat_text n) \<Longrightarrow> \<exists>d < 10. c = digit_char d"
proof (induction n rule: nat_text.induct)
  case (1 n)
  then show ?case
    by (cases "n < 10") (auto simp: nat_text.simps [of n] intro: exI [of _ n] exI [of _ "n mod 10"])
qed

lemma nat_text_nil: "nat_text n \<noteq> []"
  by (simp add: nat_text.simps [of n])

lemma digit_char_not:
  assumes "d < 10"
  shows "digit_char d \<noteq> CHR ''.''" "digit_char d \<noteq> CHR '':''" "digit_char d \<noteq> CHR ''%''"
    "digit_char d \<noteq> CHR ''/''" "digit_char d \<noteq> CHR ''[''" "digit_char d \<noteq> CHR '']''"
proof -
  have e: "of_char c = (48 + d :: nat)" if "digit_char d = c" for c using assms by (auto simp: digit_char_def that [symmetric])
  show "digit_char d \<noteq> CHR ''.''" "digit_char d \<noteq> CHR '':''" "digit_char d \<noteq> CHR ''%''"
    "digit_char d \<noteq> CHR ''/''" "digit_char d \<noteq> CHR ''[''" "digit_char d \<noteq> CHR '']''"
    using e assms by fastforce+
qed

lemma nat_text_not [simp]:
  "CHR ''.'' \<notin> set (nat_text n)" "CHR '':'' \<notin> set (nat_text n)" "CHR ''%'' \<notin> set (nat_text n)"
  "CHR ''/'' \<notin> set (nat_text n)" "CHR ''['' \<notin> set (nat_text n)" "CHR '']'' \<notin> set (nat_text n)"
  by (rule notI, drule nat_text_digits, elim exE conjE, drule digit_char_not, simp)+

lemma parse_quad: "octets4 bs \<Longrightarrow> parseIPv4Fields (quad bs) = Some bs"
proof (erule octets4_cases)
  fix a b c d assume bs: "bs = [a, b, c, d]" and l: "a < 256" "b < 256" "c < 256" "d < 256"
  have dot: "ipv4_loop (CHR ''.'' # nat_text k @ rest) fs n (length (nat_text m)) =
      ipv4_loop (nat_text k @ rest) (fs @ [n]) 0 0" if "length fs < 3" for k m n fs rest
    using that by (simp add: digit_value_def nat_text_nil)
  show ?thesis
    using l by (simp add: bs quad_def parseIPv4Fields_def ipv4_digits dot
        ipv4_digits [where rest = "[]", unfolded append_Nil2] dot [where rest = "[]", unfolded append_Nil2]
        ipv4_loop.simps(1) del: ipv4_loop.simps(2))
qed

lemma parse_kind_quad: "parse_kind (quad bs) = Some CHR ''.''"
proof -
  have "parse_kind (s @ CHR ''.'' # t) = Some CHR ''.''"
    if "CHR ''.'' \<notin> set s" "CHR '':'' \<notin> set s" "CHR ''%'' \<notin> set s" for s t
    using that by (induction s) auto
  then show ?thesis by (simp add: quad_def)
qed

lemma ParseAddr_quad:
  "octets4 bs \<Longrightarrow> ParseAddr (quad bs) = Some \<lparr>Addr_bits = 32, Addr_value = bytes_value bs, Addr_zone = []\<rparr>"
  by (simp add: ParseAddr_def parse_kind_quad parse_quad)

lemma quad_chars [simp]:
  "CHR '':'' \<notin> set (quad bs)" "CHR ''/'' \<notin> set (quad bs)" "CHR ''['' \<notin> set (quad bs)" "CHR '']'' \<notin> set (quad bs)"
  by (simp_all add: quad_def)

lemma quad_nil: "quad bs \<noteq> []"
  by (simp add: quad_def nat_text_nil)

section \<open>Hosts and subnets\<close>

lemma split_plain:
  assumes "CHR '':'' \<notin> set host" "CHR ''['' \<notin> set host" "CHR '']'' \<notin> set host" "host \<noteq> []"
    and "CHR '':'' \<notin> set port" "CHR ''['' \<notin> set port" "CHR '']'' \<notin> set port"
  shows "SplitHostPort (host @ CHR '':'' # port) = Some (host, port)"
proof -
  have "takeWhile (\<lambda>c. c \<noteq> CHR '':'') (rev port @ CHR '':'' # rev host) = rev port"
    using assms(5) by (subst takeWhile_append2) auto
  moreover have "hd (host @ CHR '':'' # port) \<noteq> CHR ''[''" using assms(2,4) by (cases host) auto
  ultimately show ?thesis using assms by (simp add: SplitHostPort_def Let_def)
qed

lemma Atoi_length: "n \<le> 32 \<Longrightarrow> Atoi (nat_text n) 0 = Some n \<and> \<not> (1 < length (nat_text n) \<and> hd (nat_text n) = CHR ''0'')"
proof -
  assume "n \<le> 32"
  then consider "n < 10" | "10 \<le> n" "n < 40" by linarith
  then show ?thesis
  proof cases
    case 1
    then show ?thesis by (simp add: nat_text_parts digit_value_char)
  next
    case 2
    then have "n div 10 \<in> {1, 2, 3}" by auto
    moreover have "of_char (digit_char (n div 10)) = (48 + n div 10 :: nat)" using 2 by (simp add: digit_char_def)
    ultimately have "digit_char (n div 10) \<noteq> CHR ''0''" by auto
    then show ?thesis using 2 by (simp add: nat_text_parts digit_value_char div_mult_mod_eq)
  qed
qed

lemma ParsePrefix_quad:
  assumes "octets4 bs" and "n \<le> 32"
  shows "ParsePrefix (quad bs @ CHR ''/'' # nat_text n) = Some \<lparr>Prefix_addr =
    \<lparr>Addr_bits = 32, Addr_value = bytes_value bs, Addr_zone = []\<rparr>, Prefix_bits = n\<rparr>"
proof -
  have "takeWhile (\<lambda>c. c \<noteq> CHR ''/'') (rev (nat_text n) @ CHR ''/'' # rev (quad bs)) = rev (nat_text n)"
    by (subst takeWhile_append2) auto
  then show ?thesis
    using ParseAddr_quad [OF assms(1)] Atoi_length [OF assms(2)] assms(2)
    by (auto simp: ParsePrefix_def Let_def nat_text_nil)
qed

lemma bytes_value_bound: "octets4 bs \<Longrightarrow> 0 \<le> bytes_value bs \<and> bytes_value bs < 2 ^ 32"
  by (erule octets4_cases) (simp add: bytes_value_def)

lemma leading_bits:
  fixes x y :: int
  assumes "0 \<le> x" "x < 2 ^ 32" "0 \<le> y" "y < 2 ^ 32" "n \<le> 32"
  shows "x div 2 ^ (32 - n) = y div 2 ^ (32 - n) \<longleftrightarrow> (\<forall>k < n. bit x (31 - k) = bit y (31 - k))"
proof -
  have high: "\<not> bit z i" if "0 \<le> z" "z < 2 ^ 32" "32 \<le> i" for z :: int and i
  proof -
    have "z < 2 ^ i" using that(2) power_increasing [OF that(3), of "2::int"] by simp
    then show ?thesis using that(1) by (simp add: bit_iff_odd)
  qed
  have "x div 2 ^ (32 - n) = y div 2 ^ (32 - n) \<longleftrightarrow> drop_bit (32 - n) x = drop_bit (32 - n) y"
    by (simp add: drop_bit_eq_div)
  also have "\<dots> \<longleftrightarrow> (\<forall>i. bit x (32 - n + i) = bit y (32 - n + i))"
    by (simp add: bit_eq_iff bit_drop_bit_eq)
  also have "\<dots> \<longleftrightarrow> (\<forall>k < n. bit x (31 - k) = bit y (31 - k))"
  proof (rule iffI; intro allI impI)
    fix k assume a: "\<forall>i. bit x (32 - n + i) = bit y (32 - n + i)" and k: "k < n"
    have "32 - n + (n - 1 - k) = 31 - k" using k assms(5) by simp
    then show "bit x (31 - k) = bit y (31 - k)" using a by metis
  next
    fix i assume a: "\<forall>k < n. bit x (31 - k) = bit y (31 - k)"
    show "bit x (32 - n + i) = bit y (32 - n + i)"
    proof (cases "i < n")
      case True
      then have "n - 1 - i < n" "31 - (n - 1 - i) = 32 - n + i" using assms(5) by simp_all
      then show ?thesis using a by metis
    next
      case False
      then show ?thesis using high assms by simp
    qed
  qed
  finally show ?thesis .
qed

lemma allowed_quad:
  assumes "octets4 client" and "octets4 net" and "n \<le> 32"
    and "CHR '':'' \<notin> set port" "CHR ''['' \<notin> set port" "CHR '']'' \<notin> set port"
    and "Rpc_RemoteAddr r = quad client @ CHR '':'' # port"
  shows "allowedClient r \<lparr>Prefix_addr = \<lparr>Addr_bits = 32, Addr_value = bytes_value net, Addr_zone = []\<rparr>,
      Prefix_bits = n\<rparr> \<longleftrightarrow> (\<forall>k < n. bit (bytes_value client) (31 - k) = bit (bytes_value net) (31 - k))"
  using bytes_value_bound [OF assms(1)] bytes_value_bound [OF assms(2)] leading_bits [OF _ _ _ _ assms(3)]
  by (simp add: allowedClient_def assms(7) split_plain [OF _ _ _ quad_nil assms(4-6)] ParseAddr_quad [OF assms(1)]
      prefix_Contains_def)


section \<open>The property\<close>

text \<open>
  C32: The proxy passes on exactly what it is meant to. Configured with an IPv4 subnet, it asks the
  upstream for a client at an IPv4 address only what the client posted, and only when the first
  bits of the address are the subnet's; a client outside it gets 403, also for the health check.
\<close>

theorem proxy_filters:
  assumes "octets4 client" and "octets4 net" and "n \<le> 32"
    and "CHR '':'' \<notin> set port" "CHR ''['' \<notin> set port" "CHR '']'' \<notin> set port"
    and "Rpc_RemoteAddr r = quad client @ CHR '':'' # port"
    and "env ''RPC_PROXY_ALLOWED_SUBNET'' = quad net @ CHR ''/'' # nat_text n"
    and "proxy_main url_Parse env = Some (addr, u, subnet)"
  shows "fst (proxy_handler subnet upstream r) =
      (if (\<forall>k < n. bit (bytes_value client) (31 - k) = bit (bytes_value net) (31 - k)) \<and>
          Rpc_Path r \<noteq> ''/health'' \<and> Rpc_Method r = ''POST'' then [r] else []) \<and>
    ((\<exists>k < n. bit (bytes_value client) (31 - k) \<noteq> bit (bytes_value net) (31 - k)) \<longrightarrow>
      fst (snd (proxy_handler subnet upstream r)) = 403)"
proof -
  have "subnet = \<lparr>Prefix_addr = \<lparr>Addr_bits = 32, Addr_value = bytes_value net, Addr_zone = []\<rparr>, Prefix_bits = n\<rparr>"
    using assms(8,9) ParsePrefix_quad [OF assms(2,3)]
    by (auto simp: proxy_main_def envOr_def quad_nil split: option.splits)
  then show ?thesis using allowed_quad [OF assms(1-7)] by (auto simp: proxy_handler_def http_error_def)
qed

text \<open>A client of the default subnet, and one outside it.\<close>

definition demo_rpc :: "string \<Rightarrow> rpc_request" where
  "demo_rpc a = \<lparr>Rpc_RemoteAddr = a, Rpc_Path = ''/'', Rpc_Method = ''POST'', Rpc_Body = []\<rparr>"

definition demo_env :: "string \<Rightarrow> string" where
  "demo_env name = (if name = ''RPC_PROXY_ALLOWED_SUBNET'' then quad [172, 24, 0, 0] @ CHR ''/'' # nat_text 16 else [])"

theorem proxy_filters_witness:
  "(case proxy_main Some demo_env of None \<Rightarrow> False
    | Some (addr, u, subnet) \<Rightarrow>
        fst (proxy_handler subnet (\<lambda>_. None) (demo_rpc (quad [172, 24, 3, 7] @ '':5000''))) =
          [demo_rpc (quad [172, 24, 3, 7] @ '':5000'')] \<and>
        fst (snd (proxy_handler subnet (\<lambda>_. None) (demo_rpc (quad [172, 25, 3, 7] @ '':5000'')))) = 403)"
proof -
  have o: "octets4 [172, 24, 3, 7]" "octets4 [172, 25, 3, 7]" "octets4 [172, 24, 0, 0]" by (simp_all add: octets4_def)
  have e: "demo_env ''RPC_PROXY_ALLOWED_SUBNET'' = quad [172, 24, 0, 0] @ CHR ''/'' # nat_text 16"
    by (simp add: demo_env_def)
  obtain addr u subnet where m: "proxy_main Some demo_env = Some (addr, u, subnet)"
    using ParsePrefix_quad [OF o(3), of 16] e
    by (simp add: proxy_main_def envOr_def quad_nil)
  have k: "\<forall>k < 16. bit (bytes_value [172, 24, 3, 7]) (31 - k) = bit (bytes_value [172, 24, 0, 0]) (31 - k)"
    using leading_bits [of "bytes_value [172, 24, 3, 7]" "bytes_value [172, 24, 0, 0]" 16] by (simp add: bytes_value_def)
  have "\<not> (\<forall>k < 16. bit (bytes_value [172, 25, 3, 7]) (31 - k) = bit (bytes_value [172, 24, 0, 0]) (31 - k))"
    using leading_bits [of "bytes_value [172, 25, 3, 7]" "bytes_value [172, 24, 0, 0]" 16] by (simp add: bytes_value_def)
  then show ?thesis
    using proxy_filters [OF o(1,3) _ _ _ _ _ e m, of "''5000''" "demo_rpc (quad [172, 24, 3, 7] @ '':5000'')" "\<lambda>_. None"] k
      proxy_filters [OF o(2,3) _ _ _ _ _ e m, of "''5000''" "demo_rpc (quad [172, 25, 3, 7] @ '':5000'')" "\<lambda>_. None"]
    by (simp add: m demo_rpc_def)
qed

end
