(* ===== verification/Wallet_Main.thy ===== *)
theory Wallet_Main
  imports Wallet_Service Wallet_Config
begin

text \<open>
  Starting the wallet: \<open>wallet-backend/main.go\<close>, the constructors it calls, and the two
  command line tools \<open>cmd/treasury\<close> and \<open>cmd/mnemonic\<close>. The database is up; a fatal
  error is the text that is logged, with the error behind it.
\<close>

section \<open>The service\<close>

definition NewSolanaClient :: "crypto_lib \<Rightarrow> solana \<Rightarrow> string \<Rightarrow> wallet_error + chain_Client" where
  "NewSolanaClient C S usdcMint =
     (if key_ok S usdcMint then Inr (SolanaClient C S usdcMint)
      else Inl (WErrWrap ''invalid USDC mint'' (WErrLib usdcMint)))"

definition NewSolanaScanner :: "solana \<Rightarrow> string \<Rightarrow> wallet_error + scanner" where
  "NewSolanaScanner S usdcMint =
     (if key_ok S usdcMint then Inr (Sol_ScanDeposits S usdcMint) else Inl (WErrLib usdcMint))"

text \<open>\<open>log.Fatalf(s + ": %v", err)\<close>.\<close>

definition fatal :: "string \<Rightarrow> wallet_error + 'a \<Rightarrow> wallet_error + 'a" where
  "fatal s r = (case r of Inl e \<Rightarrow> Inl (WErrWrap s e) | Inr x \<Rightarrow> Inr x)"

text \<open>
  The service, the poller's scanner and interval in nanoseconds, and the port. The product is a
  \<open>time.Duration\<close>, an \<open>int64\<close>.
\<close>

definition wallet_main :: "(string \<Rightarrow> float_value option) \<Rightarrow> crypto_lib \<Rightarrow> solana \<Rightarrow> (sql_error \<Rightarrow> string) \<Rightarrow> env
    \<Rightarrow> wallet_error + (Service \<times> scanner \<times> int \<times> string)" where
  "wallet_main ParseFloat C S drv env =
     (case fatal ''config'' (Load ParseFloat env) of Inl e \<Rightarrow> Inl e | Inr cfg \<Rightarrow>
     (case fatal ''master wallet'' (NewMasterWalletFromMnemonic C (Config_MasterMnemonic cfg) []) of
        Inl e \<Rightarrow> Inl e | Inr master \<Rightarrow>
     (case fatal ''solana client'' (NewSolanaClient C S (Config_USDCMint cfg)) of Inl e \<Rightarrow> Inl e | Inr client \<Rightarrow>
     (case fatal ''solana scanner'' (NewSolanaScanner S (Config_USDCMint cfg)) of Inl e \<Rightarrow> Inl e | Inr scan \<Rightarrow>
        Inr (\<lparr>svc_crypto = C, svc_master = master, svc_ledger = Client_AdjustBalance drv, svc_chain = client,
               svc_swapper = JupiterSwapper C S (Config_USDCMint cfg),
               svc_limits = \<lparr>Limit_Min = Config_WithdrawalMinMicroUSDC cfg,
                 Limit_Max = Config_WithdrawalMaxMicroUSDC cfg,
                 Limit_ManualReviewOver = Config_WithdrawalManualReviewOver cfg\<rparr>,
               svc_rateMicros = Config_BRLPerUSDMicros cfg, svc_faucet = Config_FaucetMicroUSDC cfg\<rparr>,
             scan, i64 (Config_DepositPollSeconds cfg * 1000000000), Config_Port cfg)))))"

text \<open>\<open>time.NewTicker\<close> panics on an interval that is not positive, and the process ends.\<close>

definition poller_starts :: "int \<Rightarrow> bool" where
  "poller_starts interval \<longleftrightarrow> 0 < interval"

text \<open>What is started is a live service, at a positive rate, for a mint that is a key.\<close>

lemma Load_Inr: "Load ParseFloat env = Inr cfg \<Longrightarrow> 0 < Config_BRLPerUSDMicros cfg \<and> Config_MasterMnemonic cfg \<noteq> []"
  by (auto simp: Load_def Let_def split: if_splits)

lemma wallet_main_live:
  assumes "wallet_main ParseFloat C S drv env = Inr (s, scan, interval, port)"
  obtains mint master limits rate faucet where
    "s = live_service C S mint drv master limits rate faucet" "scan = Sol_ScanDeposits S mint"
    "0 < rate" "key_ok S mint"
proof -
  obtain cfg master where
    l: "Load ParseFloat env = Inr cfg"
    and k: "key_ok S (Config_USDCMint cfg)"
    and s: "s = live_service C S (Config_USDCMint cfg) drv master \<lparr>Limit_Min = Config_WithdrawalMinMicroUSDC cfg,
        Limit_Max = Config_WithdrawalMaxMicroUSDC cfg,
        Limit_ManualReviewOver = Config_WithdrawalManualReviewOver cfg\<rparr>
        (Config_BRLPerUSDMicros cfg) (Config_FaucetMicroUSDC cfg)"
    and sc: "scan = Sol_ScanDeposits S (Config_USDCMint cfg)"
    using assms
    by (auto simp: wallet_main_def fatal_def NewSolanaClient_def NewSolanaScanner_def live_service_def
        split: sum.splits if_splits)
  show thesis using that [OF s sc _ k] Load_Inr [OF l] by blast
qed


section \<open>The tools\<close>

text \<open>What a command prints: \<open>Inl\<close> on the standard error, with exit code 1.\<close>

definition treasury_main :: "crypto_lib \<Rightarrow> env \<Rightarrow> (string \<times> wallet_error option) + string" where
  "treasury_main C env =
     (let mnemonic = (case env ''WALLET_MNEMONIC'' of Some v \<Rightarrow> v | None \<Rightarrow> []) in
      if mnemonic = [] then Inl (''WALLET_MNEMONIC is required'', None)
      else case NewMasterWalletFromMnemonic C mnemonic [] of
        Inl e \<Rightarrow> Inl (''invalid mnemonic:'', Some e)
      | Inr master \<Rightarrow> Inr (Address C (DeriveAccount C master 0)))"

text \<open>\<open>bip39\<close>'s entropy source and its words are arguments.\<close>

definition GenerateMnemonic :: "(nat \<Rightarrow> string + byte list) \<Rightarrow> (byte list \<Rightarrow> string + string) \<Rightarrow> wallet_error + string" where
  "GenerateMnemonic NewEntropy NewMnemonic =
     (case NewEntropy 256 of
        Inl e \<Rightarrow> Inl (WErrWrap ''generating entropy'' (WErrLib e))
      | Inr entropy \<Rightarrow> (case NewMnemonic entropy of Inl e \<Rightarrow> Inl (WErrLib e) | Inr m \<Rightarrow> Inr m))"

definition mnemonic_main ::
    "(nat \<Rightarrow> string + byte list) \<Rightarrow> (byte list \<Rightarrow> string + string) \<Rightarrow> (string \<times> wallet_error option) + string" where
  "mnemonic_main NewEntropy NewMnemonic = (case GenerateMnemonic NewEntropy NewMnemonic of
     Inl e \<Rightarrow> Inl (''failed to generate mnemonic:'', Some e) | Inr m \<Rightarrow> Inr m)"

text \<open>The tool prints the address of the treasury of the service started with the same environment.\<close>

lemma treasury_main_service:
  assumes "wallet_main ParseFloat C S drv env = Inr (s, scan, interval, port)"
  shows "treasury_main C env = Inr (Address C (treasury s))"
proof -
  obtain cfg where l: "Load ParseFloat env = Inr cfg"
    using assms by (auto simp: wallet_main_def fatal_def split: sum.splits)
  have "Config_MasterMnemonic cfg = (case env ''WALLET_MNEMONIC'' of Some v \<Rightarrow> v | None \<Rightarrow> [])"
    using l by (auto simp: Load_def Let_def split: if_splits)
  then show ?thesis
    using assms l Load_Inr [OF l]
    by (auto simp: wallet_main_def fatal_def treasury_main_def treasury_def treasuryIndex_def
        split: sum.splits)
qed

end
