(* ===== verification/Startup.thy ===== *)
theory Startup
  imports Wallet_Main General_System
begin

text \<open>
  How the services come up: \<open>InitDB\<close>, \<open>ensureDatabaseExists\<close> and
  \<open>runMigrations\<close> of the three \<open>db.go\<close> files, \<open>InitRedis\<close>, and the
  \<open>main\<close> functions up to the call that listens. A database is its schema: the tables with their columns, and the names of its sequences and indexes. The rows a
  migration touches are those of \<open>Bet_Handlers.runMigrations\<close>.
\<close>

section \<open>Schemas\<close>

record pg_schema =
  pg_tables :: "(string \<times> string list) list"
  pg_names :: "string list"

text \<open>
  The statements of the migrations. A foreign key needs the table it refers to, an index or a
  row statement the columns it names.
\<close>

datatype ddl =
    CreateTable string "string list" "string list"
  | AddColumn string string "string list"
  | CreateIndex string string "string list"
  | CreateSequence string
  | WriteRows string "string list"

definition has_table :: "pg_schema \<Rightarrow> string \<Rightarrow> bool" where
  "has_table d t = list_ex (\<lambda>r. fst r = t) (pg_tables d)"

definition has_column :: "pg_schema \<Rightarrow> string \<Rightarrow> string \<Rightarrow> bool" where
  "has_column d t c = list_ex (\<lambda>r. fst r = t \<and> c \<in> set (snd r)) (pg_tables d)"

definition add_column :: "string \<Rightarrow> string \<Rightarrow> pg_schema \<Rightarrow> pg_schema" where
  "add_column t c d = d\<lparr>pg_tables := map (\<lambda>r. if fst r = t then (t, snd r @ [c]) else r) (pg_tables d)\<rparr>"

text \<open>\<open>None\<close>: a relation or a column does not exist. What \<open>IF NOT EXISTS\<close> finds is left alone.\<close>

fun run_ddl :: "ddl \<Rightarrow> pg_schema \<Rightarrow> pg_schema option" where
  "run_ddl (CreateTable t cs refs) d =
     (if has_table d t then Some d
      else if \<not> list_all (has_table d) refs then None
      else Some (d\<lparr>pg_tables := pg_tables d @ [(t, cs)]\<rparr>))"
| "run_ddl (AddColumn t c refs) d =
     (if \<not> has_table d t then None
      else if has_column d t c then Some d
      else if \<not> list_all (has_table d) refs then None
      else Some (add_column t c d))"
| "run_ddl (CreateIndex n t cs) d =
     (if \<not> list_all (has_column d t) cs then None
      else if n \<in> set (pg_names d) then Some d
      else Some (d\<lparr>pg_names := pg_names d @ [n]\<rparr>))"
| "run_ddl (CreateSequence n) d =
     (if n \<in> set (pg_names d) then Some d else Some (d\<lparr>pg_names := pg_names d @ [n]\<rparr>))"
| "run_ddl (WriteRows t cs) d = (if list_all (has_column d t) cs then Some d else None)"

fun run_all :: "ddl list \<Rightarrow> pg_schema \<Rightarrow> pg_schema option" where
  "run_all [] d = Some d"
| "run_all (q # qs) d = (case run_ddl q d of None \<Rightarrow> None | Some d' \<Rightarrow> run_all qs d')"


section \<open>The server\<close>

text \<open>
  \<open>pings\<close> says of the next pings whether the server answers, \<open>stmt_errs\<close> of the next
  statements whether they fail; both lists when exhausted mean that all is well. \<open>naps\<close>
  counts the waits of two seconds. \<open>redis_pings\<close> is the same for Redis.
\<close>

record pg_server =
  pings :: "bool list"
  stmt_errs :: "bool list"
  databases :: "(string \<times> pg_schema) list"
  naps :: nat
  redis_pings :: "bool list"

datatype start_error =
    NoConnection
  | StatementFailed
  | StartWallet wallet_error
  | StartWrap string start_error

type_synonym 'a start_io = "(pg_server, start_error, 'a) io"

text \<open>
  Library code: whether \<open>sql.Open\<close> takes a data source name, and the identifier that
  Postgres reads in a quoted text.
\<close>

record pg_lib =
  sql_Open :: "string \<Rightarrow> bool"
  read_ident :: "string \<Rightarrow> string"

text \<open>\<open>fmt\<close>'s \<open>%q\<close>, for a text that is UTF-8 and has no unprintable characters beyond ASCII.\<close>

definition lower_hex :: "nat \<Rightarrow> char" where
  "lower_hex k = char_of (if k < 10 then 48 + k else 87 + k)"

definition quoted_char :: "char \<Rightarrow> string" where
  "quoted_char c = (let k = of_char c :: nat in
     if c = CHR 0x22 \<or> c = CHR 0x5C then [CHR 0x5C, c]
     else case map_of (zip [7, 8, 9, 10, 11, 12, 13] ''abtnvfr'') k of
       Some e \<Rightarrow> [CHR 0x5C, e]
     | None \<Rightarrow>
         if k < 32 \<or> k = 127 then [CHR 0x5C, CHR ''x'', lower_hex (k div 16), lower_hex (k mod 16)] else [c])"

definition fmt_q :: "string \<Rightarrow> string" where
  "fmt_q s = CHR 0x22 # concat (map quoted_char s) @ [CHR 0x22]"

definition empty_schema :: pg_schema where
  "empty_schema = \<lparr>pg_tables = [], pg_names = []\<rparr>"

definition wrap :: "string \<Rightarrow> 'a start_io \<Rightarrow> 'a start_io" where
  "wrap s m = on_error m (\<lambda>e. throw (StartWrap s e))"

text \<open>\<open>Ping\<close>: a server that is up refuses a database it does not have.\<close>

definition Ping :: "string \<Rightarrow> bool start_io" where
  "Ping dbname = (\<lambda>s. (Inr ((pings s = [] \<or> hd (pings s)) \<and> dbname \<in> fst ` set (databases s)),
     s\<lparr>pings := tl (pings s)\<rparr>))"

definition Sleep :: "unit start_io" where
  "Sleep = (\<lambda>s. (Inr (), s\<lparr>naps := Suc (naps s)\<rparr>))"

definition pg_stmt :: "(pg_server \<Rightarrow> ('a \<times> pg_server) option) \<Rightarrow> 'a start_io" where
  "pg_stmt f = (\<lambda>s. let s' = s\<lparr>stmt_errs := tl (stmt_errs s)\<rparr> in
     if stmt_errs s \<noteq> [] \<and> hd (stmt_errs s) then (Inl StatementFailed, s')
     else case f s' of None \<Rightarrow> (Inl StatementFailed, s') | Some (x, s'') \<Rightarrow> (Inr x, s''))"

definition schema_of :: "pg_server \<Rightarrow> string \<Rightarrow> pg_schema" where
  "schema_of s dbname = (case map_of (databases s) dbname of None \<Rightarrow> empty_schema | Some d \<Rightarrow> d)"

definition set_schema :: "string \<Rightarrow> pg_schema \<Rightarrow> pg_server \<Rightarrow> pg_server" where
  "set_schema dbname d s = s\<lparr>databases := map (\<lambda>r. if fst r = dbname then (dbname, d) else r) (databases s)\<rparr>"


section \<open>Connecting\<close>

text \<open>The attempts that are left: open and ping, or wait two seconds and go on.\<close>

fun connect_loop :: "pg_lib \<Rightarrow> string \<Rightarrow> string \<Rightarrow> nat \<Rightarrow> unit start_io" where
  "connect_loop P dsn dbname 0 = throw NoConnection"
| "connect_loop P dsn dbname (Suc n) =
     bindE (if sql_Open P dsn then Ping dbname else ret False) (\<lambda>ok.
     if ok then ret () else seqE Sleep (connect_loop P dsn dbname n))"

definition dsn_text :: "string \<Rightarrow> string \<Rightarrow> string \<Rightarrow> string \<Rightarrow> string \<Rightarrow> string" where
  "dsn_text user password host port dbname =
     ''postgres://'' @ user @ '':'' @ password @ ''@'' @ host @ '':'' @ port @ ''/'' @ dbname @ ''?sslmode=disable''"

definition ensureDatabaseExists ::
    "pg_lib \<Rightarrow> string \<Rightarrow> string \<Rightarrow> string \<Rightarrow> string \<Rightarrow> string \<Rightarrow> unit start_io" where
  "ensureDatabaseExists P host port user password dbname =
     seqE (wrap ''failed to connect to maintenance database''
             (connect_loop P (dsn_text user password host port ''postgres'') ''postgres'' 10))
    (bindE (wrap ''failed to check for existing database''
             (pg_stmt (\<lambda>s. Some (dbname \<in> fst ` set (databases s), s)))) (\<lambda>exists.
     if exists then ret ()
     else wrap (''failed to create database '' @ fmt_q dbname)
            (pg_stmt (\<lambda>s. Some ((), s\<lparr>databases := databases s @ [(read_ident P (fmt_q dbname), empty_schema)]\<rparr>)))))"

definition wallet_ensureDatabaseExists ::
    "pg_lib \<Rightarrow> string \<Rightarrow> string \<Rightarrow> string \<Rightarrow> string \<Rightarrow> string \<Rightarrow> unit start_io" where
  "wallet_ensureDatabaseExists = ensureDatabaseExists"

text \<open>The loop over the queries, each on its own: what is done before a failure stays.\<close>

fun migrate :: "string \<Rightarrow> ddl list \<Rightarrow> unit start_io" where
  "migrate dbname [] = ret ()"
| "migrate dbname (q # qs) =
     seqE (wrap ''migration query failed'' (pg_stmt (\<lambda>s.
             map_option (\<lambda>d. ((), set_schema dbname d s)) (run_ddl q (schema_of s dbname)))))
          (migrate dbname qs)"


section \<open>The migrations\<close>

definition bet_queries :: "ddl list" where
  "bet_queries =
     [CreateTable ''users'' [''id'', ''balance'', ''created_at''] [],
      CreateTable ''markets'' [''id'', ''question'', ''outcomes'', ''status'', ''seed'', ''winning_outcome'', ''created_at''] [],
      CreateTable ''pools'' [''market_id'', ''outcome'', ''total''] [''markets''],
      CreateTable ''bets'' [''id'', ''market_id'', ''user_id'', ''outcome'', ''stake'', ''created_at''] [''markets'', ''users''],
      WriteRows ''users'' [''id'', ''balance'', ''created_at''],
      AddColumn ''bets'' ''original_user_id'' [''users''],
      WriteRows ''bets'' [''original_user_id'', ''user_id''],
      CreateIndex ''idx_bets_user_id'' ''bets'' [''user_id''],
      CreateIndex ''idx_bets_market_id'' ''bets'' [''market_id''],
      CreateTable ''bet_listings'' [''id'', ''bet_id'', ''market_id'', ''seller_id'', ''buyer_id'', ''asking_price'',
        ''status'', ''created_at'', ''sold_at'', ''cancelled_at''] [''bets'', ''markets'', ''users''],
      CreateIndex ''idx_bet_listings_one_active_per_bet'' ''bet_listings'' [''bet_id'', ''status''],
      CreateIndex ''idx_bet_listings_market_status'' ''bet_listings'' [''market_id'', ''status''],
      CreateIndex ''idx_bet_listings_seller_status'' ''bet_listings'' [''seller_id'', ''status'']]"

definition wallet_queries :: "ddl list" where
  "wallet_queries =
     [CreateSequence ''wallet_derivation_index_seq'',
      CreateTable ''wallet_addresses'' [''account_id'', ''derivation_index'', ''address'', ''usdc_ata'', ''created_at''] [],
      CreateTable ''deposits'' [''id'', ''signature'', ''account_id'', ''asset'', ''raw_amount'', ''credited_usdc'',
        ''status'', ''created_at'', ''credited_at''] [''wallet_addresses''],
      CreateIndex ''idx_deposits_account'' ''deposits'' [''account_id''],
      AddColumn ''deposits'' ''credited_reais'' [],
      CreateTable ''deposit_cursors'' [''address'', ''last_sig'', ''updated_at''] [],
      CreateTable ''withdrawals'' [''id'', ''account_id'', ''dest_address'', ''asset'', ''amount_usdc'', ''status'',
        ''signature'', ''created_at'', ''settled_at''] [''wallet_addresses''],
      CreateIndex ''idx_withdrawals_account'' ''withdrawals'' [''account_id''],
      AddColumn ''withdrawals'' ''amount_reais'' [],
      CreateTable ''faucet_claims'' [''account_id'', ''claimed_at''] [''wallet_addresses'']]"

definition general_queries :: "ddl list" where
  "general_queries =
     [CreateTable ''accounts'' [''id'', ''email'', ''password_hash'', ''is_admin'', ''created_at''] []]"


section \<open>\<open>InitDB\<close>\<close>

text \<open>The fallbacks of the environment are those of all three files, but for the database's name.\<close>

definition env_dsn :: "env \<Rightarrow> string \<Rightarrow> string" where
  "env_dsn env dbname = dsn_text (getEnv env ''DB_USER'' ''bulga'') (getEnv env ''DB_PASSWORD'' ''waaglub4242@'')
     (getEnv env ''DB_HOST'' ''localhost'') (getEnv env ''DB_PORT'' ''5432'') dbname"

definition connect_and_migrate :: "pg_lib \<Rightarrow> env \<Rightarrow> string \<Rightarrow> ddl list \<Rightarrow> unit start_io" where
  "connect_and_migrate P env dbname qs =
     seqE (wrap ''failed to connect to database'' (connect_loop P (env_dsn env dbname) dbname 10))
          (wrap ''failed to run database migrations'' (migrate dbname qs))"

definition bet_InitDB :: "pg_lib \<Rightarrow> env \<Rightarrow> unit start_io" where
  "bet_InitDB P env = connect_and_migrate P env (getEnv env ''DB_NAME'' ''tchebet_betting'') bet_queries"

definition general_InitDB :: "pg_lib \<Rightarrow> env \<Rightarrow> unit start_io" where
  "general_InitDB P env = (let dbname = getEnv env ''DB_NAME'' ''tchebet_general'' in
     seqE (wrap ''failed to ensure database exists'' (ensureDatabaseExists P (getEnv env ''DB_HOST'' ''localhost'')
             (getEnv env ''DB_PORT'' ''5432'') (getEnv env ''DB_USER'' ''bulga'')
             (getEnv env ''DB_PASSWORD'' ''waaglub4242@'') dbname))
          (connect_and_migrate P env dbname general_queries))"

definition wallet_InitDB :: "pg_lib \<Rightarrow> env \<Rightarrow> unit start_io" where
  "wallet_InitDB P env = (let dbname = getEnv env ''DB_NAME'' ''tchebet_wallet'' in
     seqE (wrap ''failed to ensure database exists'' (wallet_ensureDatabaseExists P (getEnv env ''DB_HOST'' ''localhost'')
             (getEnv env ''DB_PORT'' ''5432'') (getEnv env ''DB_USER'' ''bulga'')
             (getEnv env ''DB_PASSWORD'' ''waaglub4242@'') dbname))
          (connect_and_migrate P env dbname wallet_queries))"


section \<open>\<open>InitRedis\<close> and the \<open>main\<close> functions\<close>

text \<open>The client that is returned is its address. One ping, no retry.\<close>

definition InitRedis :: "env \<Rightarrow> string start_io" where
  "InitRedis env = (\<lambda>s. let s' = s\<lparr>redis_pings := tl (redis_pings s)\<rparr> in
     if redis_pings s = [] \<or> hd (redis_pings s) then (Inr (getEnv env ''REDIS_HOST'' ''localhost:6379''), s')
     else (Inl (StartWrap ''failed to connect to redis'' NoConnection), s'))"

text \<open>What the process listens on, or the text and error of \<open>log.Fatalf\<close>.\<close>

definition bet_main :: "pg_lib \<Rightarrow> env \<Rightarrow> (string \<times> string) start_io" where
  "bet_main P env =
     seqE (wrap ''Critical error initializing database'' (bet_InitDB P env))
    (bindE (wrap ''Critical error initializing Redis'' (InitRedis env)) (\<lambda>redisClient.
     let port = (case env ''PORT'' of Some v \<Rightarrow> v | None \<Rightarrow> []) in
     ret (redisClient, '':'' @ (if port = [] then ''8080'' else port))))"

definition lift_wallet :: "wallet_error + 'a \<Rightarrow> 'a start_io" where
  "lift_wallet r = (case r of Inl e \<Rightarrow> throw (StartWallet e) | Inr x \<Rightarrow> ret x)"

text \<open>
  The configuration is read first, then the database is opened; what follows needs neither and is
  \<open>wallet_main\<close>.
\<close>

definition wallet_start :: "pg_lib \<Rightarrow> (string \<Rightarrow> float_value option) \<Rightarrow> crypto_lib \<Rightarrow> solana
    \<Rightarrow> (sql_error \<Rightarrow> string) \<Rightarrow> env \<Rightarrow> (Service \<times> scanner \<times> int \<times> string) start_io" where
  "wallet_start P ParseFloat C S drv env =
     bindE (lift_wallet (fatal ''config'' (Load ParseFloat env))) (\<lambda>cfg.
     seqE (wrap ''database'' (wallet_InitDB P env))
          (lift_wallet (wallet_main ParseFloat C S drv env)))"

text \<open>The cookie's options, and what \<open>main\<close> of the web server hands to its routes.\<close>

record cookie_options =
  Cookie_Path :: string
  Cookie_HttpOnly :: bool
  Cookie_Secure :: bool
  Cookie_SameSiteLax :: bool
  Cookie_MaxAge :: int

definition session_cookie :: "env \<Rightarrow> cookie_options" where
  "session_cookie env = \<lparr>Cookie_Path = ''/'', Cookie_HttpOnly = True,
     Cookie_Secure = (getEnv env ''COOKIE_SECURE'' ''false'' = ''true''),
     Cookie_SameSiteLax = True, Cookie_MaxAge = 60 * 60 * 24 * 7\<rparr>"

record web_process =
  Web_BetBackendURL :: string
  Web_WalletURL :: "string option"
  Web_SessionSecret :: string
  Web_SessionName :: string
  Web_Cookie :: cookie_options
  Web_Listen :: string

definition general_main :: "pg_lib \<Rightarrow> env \<Rightarrow> web_process start_io" where
  "general_main P env =
     seqE (wrap ''Failed to initialize general-backend database'' (general_InitDB P env))
     (ret \<lparr>Web_BetBackendURL = getEnv env ''BET_BACKEND_URL'' ''http://bet-backend:8080'',
       Web_WalletURL = (if getEnv env ''DEPOSIT_MODE'' ''fake'' = ''crypto''
         then Some (getEnv env ''WALLET_BACKEND_URL'' ''http://wallet-backend:8082'') else None),
       Web_SessionSecret = getEnv env ''SESSION_SECRET'' ''dev-only-secret-change-me'',
       Web_SessionName = ''tchebet_session'',
       Web_Cookie = session_cookie env,
       Web_Listen = '':'' @ getEnv env ''PORT'' ''8081''\<rparr>)"

text \<open>The mode of the routes of \<open>General_System\<close>: \<open>wc != nil\<close>.\<close>

definition crypto_mode :: "web_process \<Rightarrow> bool" where
  "crypto_mode p = (Web_WalletURL p \<noteq> None)"

definition web_serve :: "general_lib \<Rightarrow> web_process \<Rightarrow> http_request \<Rightarrow> general_world \<Rightarrow> response \<times> general_world" where
  "web_serve E p = serve E (crypto_mode p)"

end
