(* ===== verification/Startup_Correct.thy ===== *)
theory Startup_Correct
  imports Startup
begin

text \<open>
  Why the migrations may be interrupted anywhere and run again: a statement that has run finds
  nothing left to do, in its own schema and in every later one. The locale \<open>migration\<close> follows a
  list of such statements through the loop; it is interpreted on the lists of the three services.
\<close>

section \<open>Statements\<close>

lemma has_table_add [simp]: "has_table (add_column t c d) u = has_table d u"
proof -
  have "list_ex (\<lambda>r. fst r = u) (map (\<lambda>r. if fst r = t then (t, snd r @ [c]) else r) rs) =
      list_ex (\<lambda>r. fst r = u) rs" for rs :: "(string \<times> string list) list"
    by (induction rs) auto
  then show ?thesis by (simp add: has_table_def add_column_def)
qed

lemma has_column_add [simp]:
  "has_column (add_column t c d) u e \<longleftrightarrow> has_column d u e \<or> u = t \<and> e = c \<and> has_table d t"
proof -
  have "list_ex (\<lambda>r. fst r = u \<and> e \<in> set (snd r)) (map (\<lambda>r. if fst r = t then (t, snd r @ [c]) else r) rs) \<longleftrightarrow>
      list_ex (\<lambda>r. fst r = u \<and> e \<in> set (snd r)) rs \<or> u = t \<and> e = c \<and> list_ex (\<lambda>r. fst r = t) rs"
    for rs :: "(string \<times> string list) list"
    by (induction rs) auto
  then show ?thesis by (simp add: has_table_def has_column_def add_column_def)
qed

lemma schema_add_table [simp]:
  "has_table (d\<lparr>pg_tables := pg_tables d @ [(t, cs)]\<rparr>) u \<longleftrightarrow> has_table d u \<or> u = t"
  "has_column (d\<lparr>pg_tables := pg_tables d @ [(t, cs)]\<rparr>) u e \<longleftrightarrow> has_column d u e \<or> u = t \<and> e \<in> set cs"
  by (auto simp: has_table_def has_column_def)

lemma schema_add_name [simp]:
  "has_table (d\<lparr>pg_names := ns\<rparr>) u = has_table d u"
  "has_column (d\<lparr>pg_names := ns\<rparr>) u e = has_column d u e"
  "pg_names (add_column t c d) = pg_names d"
  by (simp_all add: has_table_def has_column_def add_column_def)

lemma run_ddl_grows:
  assumes "run_ddl q d = Some d'"
  shows "has_table d t \<Longrightarrow> has_table d' t" and "has_column d t c \<Longrightarrow> has_column d' t c"
    and "set (pg_names d) \<subseteq> set (pg_names d')"
  using assms by (cases q; force split: if_splits)+

text \<open>What a statement that has run leaves behind.\<close>

fun in_place :: "pg_schema \<Rightarrow> ddl \<Rightarrow> bool" where
  "in_place d (CreateTable t cs refs) = has_table d t"
| "in_place d (AddColumn t c refs) = (has_table d t \<and> has_column d t c)"
| "in_place d (CreateIndex n t cs) = (n \<in> set (pg_names d) \<and> list_all (has_column d t) cs)"
| "in_place d (CreateSequence n) = (n \<in> set (pg_names d))"
| "in_place d (WriteRows t cs) = list_all (has_column d t) cs"

lemma run_ddl_in_place: "run_ddl q d = Some d' \<Longrightarrow> in_place d' q"
  by (cases q) (auto simp: list_all_iff split: if_splits)

lemma in_place_stays: "run_ddl r d = Some d' \<Longrightarrow> in_place d q \<Longrightarrow> in_place d' q"
  using run_ddl_grows [of r d d'] by (cases q) (auto simp: list_all_iff)

lemma in_place_noop: "in_place d q \<Longrightarrow> run_ddl q d = Some d"
  by (cases q) auto

lemma run_all_append: "run_all (xs @ ys) d = (case run_all xs d of None \<Rightarrow> None | Some d' \<Rightarrow> run_all ys d')"
  by (induction xs arbitrary: d) (auto split: option.splits)

lemma run_all_keeps: "run_all qs d = Some d' \<Longrightarrow> in_place d q \<Longrightarrow> in_place d' q"
  by (induction qs arbitrary: d) (auto split: option.splits dest: in_place_stays)

lemma run_all_in_place: "run_all qs d = Some d' \<Longrightarrow> q \<in> set qs \<Longrightarrow> in_place d' q"
  by (induction qs arbitrary: d) (auto split: option.splits dest: run_ddl_in_place run_all_keeps)


section \<open>A list of migrations\<close>

locale migration =
  fixes qs :: "ddl list" and full :: pg_schema
  assumes complete: "run_all qs empty_schema = Some full"
begin

definition stage :: "nat \<Rightarrow> pg_schema" where
  "stage k = the (run_all (take k qs) empty_schema)"

lemma stage: "run_all (take k qs) empty_schema = Some (stage k)"
  using complete run_all_append [of "take k qs" "drop k qs" empty_schema]
  by (auto simp: stage_def split: option.splits)

lemma stage_0 [simp]: "stage 0 = empty_schema"
  by (simp add: stage_def)

lemma stage_empty: "\<exists>k. empty_schema = stage k"
  by (rule exI [of _ 0]) simp

lemma stage_end: "length qs \<le> k \<Longrightarrow> stage k = full"
  by (simp add: stage_def complete)

lemma stage_next: "k < length qs \<Longrightarrow> run_ddl (qs ! k) (stage k) = Some (stage (Suc k))"
  using stage [of "Suc k"] stage [of k]
  by (auto simp: take_Suc_conv_app_nth run_all_append split: option.splits)

lemma stage_past: "i < k \<Longrightarrow> i < length qs \<Longrightarrow> run_ddl (qs ! i) (stage k) = Some (stage k)"
  by (rule in_place_noop, rule run_all_in_place [OF stage [of k]])
     (auto simp: in_set_conv_nth intro!: exI [of _ i])

lemma stage_step:
  "i \<le> k \<Longrightarrow> i < length qs \<Longrightarrow> \<exists>k'. run_ddl (qs ! i) (stage k) = Some (stage k') \<and> Suc i \<le> k'"
  using stage_past [of i k] stage_next [of i] by (cases "i = k") (auto intro: exI [of _ k])

end


section \<open>The server's side\<close>

text \<open>What a start may do to the other databases of the server: nothing.\<close>

definition elsewhere :: "string \<Rightarrow> pg_server \<Rightarrow> pg_server \<Rightarrow> bool" where
  "elsewhere db s s' \<longleftrightarrow> (\<forall>x. x \<noteq> db \<longrightarrow> map_of (databases s') x = map_of (databases s) x) \<and>
     fst ` set (databases s) \<subseteq> fst ` set (databases s')"

lemma elsewhere_same [simp]: "databases s' = databases s \<Longrightarrow> elsewhere db s s'"
  by (simp add: elsewhere_def)

lemma elsewhere_trans: "elsewhere db s s1 \<Longrightarrow> elsewhere db s1 s2 \<Longrightarrow> elsewhere db s s2"
  unfolding elsewhere_def by (intro conjI) (simp, elim conjE, erule (1) order_trans)

lemma set_schema_keys [simp]: "map fst (databases (set_schema db d s)) = map fst (databases s)"
  by (simp add: set_schema_def)

lemma set_schema_frame [simp]:
  "pings (set_schema db d s) = pings s" "stmt_errs (set_schema db d s) = stmt_errs s"
  "naps (set_schema db d s) = naps s" "redis_pings (set_schema db d s) = redis_pings s"
  by (simp_all add: set_schema_def)

lemma set_schema_map_of:
  "map_of (databases (set_schema db d s)) x =
     (if x = db \<and> map_of (databases s) x \<noteq> None then Some d else map_of (databases s) x)"
proof -
  have "map_of (map (\<lambda>r. if fst r = db then (db, d) else r) rs) x =
      (if x = db \<and> map_of rs x \<noteq> None then Some d else map_of rs x)" for rs :: "(string \<times> pg_schema) list"
    by (induction rs) auto
  then show ?thesis by (simp add: set_schema_def)
qed

lemma set_schema_elsewhere [simp]: "elsewhere db s (set_schema db d s)"
  by (auto simp: elsewhere_def set_schema_map_of)
     (metis list.set_map set_schema_keys image_eqI fst_conv)

text \<open>A map and its keys determine the list.\<close>

lemma map_of_determines:
  assumes "map fst xs = map fst ys" and "distinct (map fst xs)" and "map_of xs = map_of ys"
  shows "xs = ys"
proof -
  have "zs = map (\<lambda>k. (k, the (map_of zs k))) (map fst zs)" if "distinct (map fst zs)" for zs :: "('a \<times> 'b) list"
  proof (rule nth_equalityI)
    fix i assume "i < length zs"
    then have "map_of zs (fst (zs ! i)) = Some (snd (zs ! i))"
      by (intro map_of_is_SomeI that) simp
    then show "zs ! i = map (\<lambda>k. (k, the (map_of zs k))) (map fst zs) ! i"
      using \<open>i < length zs\<close> by (simp add: prod_eq_iff)
  qed simp
  from this [of xs] this [of ys] show ?thesis using assms by metis
qed

lemma connect_loop_frame:
  assumes "connect_loop P dsn db n s = (r, s')"
  shows "databases s' = databases s \<and> stmt_errs s' = stmt_errs s \<and> naps s' \<le> naps s + n \<and>
    (r = Inr () \<longrightarrow> db \<in> fst ` set (databases s))"
  using assms
  by (induction n arbitrary: s)
     (fastforce simp: throw_def seqE_def bindE_def ret_def Ping_def Sleep_def split: if_splits)+

text \<open>A server that answers within the attempts is waited for.\<close>

lemma connect_loop_ok:
  assumes "sql_Open P dsn" and "db \<in> fst ` set (databases s)"
  shows "pings s = replicate k False \<Longrightarrow> k < n \<Longrightarrow>
    connect_loop P dsn db n s = (Inr (), s\<lparr>pings := [], naps := naps s + k\<rparr>)"
  using assms(2)
proof (induction n arbitrary: s k)
  case (Suc n)
  then show ?case
    using assms(1) by (cases k) (simp_all add: seqE_def bindE_def ret_def Ping_def Sleep_def)
qed simp

lemma drop_Cons: "x # xs = drop i ys \<Longrightarrow> i < length ys \<and> x = ys ! i \<and> xs = drop (Suc i) ys"
  by (cases "i < length ys") (auto simp: Cons_nth_drop_Suc [symmetric])

text \<open>The loop over the migrations, whatever fails: it moves the schema from one stage to a later one.\<close>

context migration
begin

definition sound :: "string \<Rightarrow> pg_server \<Rightarrow> bool" where
  "sound db s \<longleftrightarrow> distinct (map fst (databases s)) \<and> ''postgres'' \<in> fst ` set (databases s) \<and>
     (\<forall>d. map_of (databases s) db = Some d \<longrightarrow> (\<exists>k. d = stage k))"

lemma sound_databases: "databases s' = databases s \<Longrightarrow> sound db s \<Longrightarrow> sound db s'"
  by (simp add: sound_def)

lemma migrate_stages:
  assumes "migrate db qs' s = (r, s')" and "qs' = drop i qs" and "i \<le> k"
    and "map_of (databases s) db = Some (stage k)"
  shows "elsewhere db s s' \<and> map fst (databases s') = map fst (databases s) \<and>
    pings s' = pings s \<and> naps s' = naps s \<and> redis_pings s' = redis_pings s \<and>
    (stmt_errs s = [] \<longrightarrow> r = Inr () \<and> stmt_errs s' = []) \<and>
    (\<exists>k'. map_of (databases s') db = Some (stage k') \<and> (r = Inr () \<longrightarrow> length qs \<le> k'))"
  using assms
proof (induction qs' arbitrary: s i k)
  case Nil
  then show ?case by (auto simp: ret_def)
next
  case (Cons q qs'')
  have i: "i < length qs" and q: "q = qs ! i" and d: "qs'' = drop (Suc i) qs"
    using drop_Cons [OF Cons.prems(2)] by simp_all
  obtain k' where k: "run_ddl q (stage k) = Some (stage k')" "Suc i \<le> k'"
    using stage_step [OF Cons.prems(3) i] q by auto
  note run = Cons.prems(1) [simplified, unfolded seqE_def bindE_def wrap_def on_error_def pg_stmt_def throw_def Let_def schema_of_def]
  let ?s = "s\<lparr>stmt_errs := tl (stmt_errs s)\<rparr>"
  show ?case
  proof (cases "stmt_errs s \<noteq> [] \<and> hd (stmt_errs s)")
    case True
    then show ?thesis using run Cons.prems(4) by auto
  next
    case False
    then have m: "migrate db qs'' (set_schema db (stage k') ?s) = (r, s')"
      using run Cons.prems(4) k(1) by (auto split: if_splits)
    have e: "elsewhere db s (set_schema db (stage k') ?s)"
      using set_schema_elsewhere [of db ?s] by (simp add: elsewhere_def)
    show ?thesis
      using Cons.IH [OF m d k(2)] Cons.prems(4) elsewhere_trans [OF e]
      by (simp add: set_schema_map_of)
  qed
qed

lemma connect_and_migrate_stages:
  assumes "connect_and_migrate P env db qs s = (r, s')" and "sound db s"
  shows "sound db s' \<and> elsewhere db s s' \<and> naps s' \<le> naps s + 10 \<and>
    (r = Inr () \<longrightarrow> map_of (databases s') db = Some full)"
proof -
  obtain r1 s1 where c: "connect_loop P (env_dsn env db) db 10 s = (r1, s1)" by fastforce
  note f = connect_loop_frame [OF c]
  show ?thesis
  proof (cases "r1 = Inr ()")
    case False
    then have "s' = s1 \<and> r \<noteq> Inr ()"
      using assms(1) c by (auto simp: connect_and_migrate_def seqE_def bindE_def wrap_def on_error_def throw_def
          split: sum.splits)
    then show ?thesis using f assms(2) by (simp add: sound_def)
  next
    case True
    obtain r2 where m: "migrate db qs s1 = (r2, s')" "r = Inr () \<longrightarrow> r2 = Inr ()"
      using assms(1) c True by (auto simp: connect_and_migrate_def seqE_def bindE_def wrap_def on_error_def throw_def
          split: sum.splits prod.splits)
    obtain k where k: "map_of (databases s1) db = Some (stage k)"
      using f True assms(2) by (auto simp: sound_def image_iff dest: weak_map_of_SomeI)
    note g = migrate_stages [OF m(1), of 0 k, simplified, OF k]
    then obtain k' where "map_of (databases s') db = Some (stage k')" "r2 = Inr () \<longrightarrow> length qs \<le> k'" by blast
    moreover have "elsewhere db s s'"
      using g f elsewhere_trans [of db s s1 s'] by simp
    ultimately show ?thesis
      using f g m(2) assms(2) stage_end by (auto simp: sound_def elsewhere_def)
  qed
qed

lemma connect_and_migrate_ok:
  assumes "sound db s" and "db \<in> fst ` set (databases s)" and "sql_Open P (env_dsn env db)"
    and "pings s = replicate k False" and "k < 10" and "stmt_errs s = []"
  shows "\<exists>s'. connect_and_migrate P env db qs s = (Inr (), s') \<and> map_of (databases s') db = Some full \<and>
    map fst (databases s') = map fst (databases s) \<and> elsewhere db s s' \<and> pings s' = [] \<and>
    stmt_errs s' = [] \<and> naps s' = naps s + k \<and> redis_pings s' = redis_pings s"
proof -
  let ?s = "s\<lparr>pings := [], naps := naps s + k\<rparr>"
  obtain j where j: "map_of (databases ?s) db = Some (stage j)"
    using assms(1,2) by (auto simp: sound_def image_iff dest: weak_map_of_SomeI)
  obtain r s' where m: "migrate db qs ?s = (r, s')" by fastforce
  note g = migrate_stages [OF m, of 0 j, simplified, OF j [simplified], unfolded assms(6), simplified]
  have "connect_and_migrate P env db qs s = (Inr (), s')"
    using connect_loop_ok [OF assms(3,2,4,5)] m g
    by (simp add: connect_and_migrate_def seqE_def bindE_def wrap_def on_error_def)
  then show ?thesis
    using g stage_end by (auto simp: elsewhere_def)
qed

lemma ensure_stages:
  assumes "ensureDatabaseExists P h p u w db s = (r, s')" and "sound db s" and "read_ident P (fmt_q db) = db"
  shows "sound db s' \<and> elsewhere db s s' \<and> naps s' \<le> naps s + 10"
proof -
  obtain r1 s1 where c: "connect_loop P (dsn_text u w h p ''postgres'') ''postgres'' 10 s = (r1, s1)" by fastforce
  note f = connect_loop_frame [OF c]
  have "databases s' = databases s1 \<or> db \<notin> fst ` set (databases s1) \<and> databases s' = databases s1 @ [(db, empty_schema)]"
    and "naps s' = naps s1"
    using assms(1,3) c
    by (auto simp: ensureDatabaseExists_def seqE_def bindE_def wrap_def on_error_def throw_def ret_def pg_stmt_def
        Let_def split: sum.splits prod.splits if_splits)
  then show ?thesis
    using f assms(2) stage_empty
    by (auto simp: sound_def elsewhere_def map_add_def image_iff split: option.splits)
qed

lemma ensure_ok:
  assumes "sound db s" and "sql_Open P (dsn_text u w h p ''postgres'')" and "read_ident P (fmt_q db) = db"
    and "pings s = replicate k False" and "k < 10" and "stmt_errs s = []"
  shows "\<exists>s'. ensureDatabaseExists P h p u w db s = (Inr (), s') \<and> sound db s' \<and> db \<in> fst ` set (databases s') \<and>
    elsewhere db s s' \<and> pings s' = [] \<and> stmt_errs s' = [] \<and> naps s' = naps s + k \<and> redis_pings s' = redis_pings s \<and>
    (db \<in> fst ` set (databases s) \<longrightarrow> databases s' = databases s)"
proof -
  have p: "''postgres'' \<in> fst ` set (databases s)" using assms(1) by (simp add: sound_def)
  let ?t = "s\<lparr>pings := [], naps := naps s + k\<rparr>"
  let ?s = "if db \<in> fst ` set (databases s) then ?t else ?t\<lparr>databases := databases s @ [(db, empty_schema)]\<rparr>"
  have e: "ensureDatabaseExists P h p u w db s = (Inr (), ?s)"
    using connect_loop_ok [OF assms(2) p assms(4,5)] assms(3,6)
    by (simp add: ensureDatabaseExists_def seqE_def bindE_def wrap_def on_error_def ret_def pg_stmt_def)
  show ?thesis
    using ensure_stages [OF e assms(1,3)] e assms(6) by (intro exI [of _ ?s]) auto
qed

end


section \<open>The three services\<close>

datatype backend = Bet_Backend | Wallet_Backend | General_Backend

fun start_database :: "backend \<Rightarrow> pg_lib \<Rightarrow> env \<Rightarrow> unit start_io" where
  "start_database Bet_Backend = bet_InitDB"
| "start_database Wallet_Backend = wallet_InitDB"
| "start_database General_Backend = general_InitDB"

fun database_name :: "backend \<Rightarrow> env \<Rightarrow> string" where
  "database_name Bet_Backend env = getEnv env ''DB_NAME'' ''tchebet_betting''"
| "database_name Wallet_Backend env = getEnv env ''DB_NAME'' ''tchebet_wallet''"
| "database_name General_Backend env = getEnv env ''DB_NAME'' ''tchebet_general''"

fun queries_of :: "backend \<Rightarrow> ddl list" where
  "queries_of Bet_Backend = bet_queries"
| "queries_of Wallet_Backend = wallet_queries"
| "queries_of General_Backend = general_queries"

text \<open>The schemas the stores are written for, the columns of later migrations included.\<close>

fun schema_for :: "backend \<Rightarrow> pg_schema" where
  "schema_for Bet_Backend = \<lparr>pg_tables =
     [(''users'', [''id'', ''balance'', ''created_at'']),
      (''markets'', [''id'', ''question'', ''outcomes'', ''status'', ''seed'', ''winning_outcome'', ''created_at'']),
      (''pools'', [''market_id'', ''outcome'', ''total'']),
      (''bets'', [''id'', ''market_id'', ''user_id'', ''outcome'', ''stake'', ''created_at'', ''original_user_id'']),
      (''bet_listings'', [''id'', ''bet_id'', ''market_id'', ''seller_id'', ''buyer_id'', ''asking_price'',
        ''status'', ''created_at'', ''sold_at'', ''cancelled_at''])],
     pg_names = [''idx_bets_user_id'', ''idx_bets_market_id'', ''idx_bet_listings_one_active_per_bet'',
       ''idx_bet_listings_market_status'', ''idx_bet_listings_seller_status'']\<rparr>"
| "schema_for Wallet_Backend = \<lparr>pg_tables =
     [(''wallet_addresses'', [''account_id'', ''derivation_index'', ''address'', ''usdc_ata'', ''created_at'']),
      (''deposits'', [''id'', ''signature'', ''account_id'', ''asset'', ''raw_amount'', ''credited_usdc'',
        ''status'', ''created_at'', ''credited_at'', ''credited_reais'']),
      (''deposit_cursors'', [''address'', ''last_sig'', ''updated_at'']),
      (''withdrawals'', [''id'', ''account_id'', ''dest_address'', ''asset'', ''amount_usdc'', ''status'',
        ''signature'', ''created_at'', ''settled_at'', ''amount_reais'']),
      (''faucet_claims'', [''account_id'', ''claimed_at''])],
     pg_names = [''wallet_derivation_index_seq'', ''idx_deposits_account'', ''idx_withdrawals_account'']\<rparr>"
| "schema_for General_Backend = \<lparr>pg_tables =
     [(''accounts'', [''id'', ''email'', ''password_hash'', ''is_admin'', ''created_at''])], pg_names = []\<rparr>"

lemma queries_complete: "run_all (queries_of B) empty_schema = Some (schema_for B)"
proof (cases B)
  case Bet_Backend
  show ?thesis unfolding Bet_Backend by code_simp
next
  case Wallet_Backend
  show ?thesis unfolding Wallet_Backend by code_simp
next
  case General_Backend
  show ?thesis unfolding General_Backend by code_simp
qed

interpretation mig: migration "queries_of B" "schema_for B" for B
  by unfold_locales (rule queries_complete)

lemma start_database_steps:
  "start_database B P env = (let db = database_name B env; main = connect_and_migrate P env db (queries_of B) in
     if B = Bet_Backend then main
     else seqE (wrap ''failed to ensure database exists'' (ensureDatabaseExists P (getEnv env ''DB_HOST'' ''localhost'')
       (getEnv env ''DB_PORT'' ''5432'') (getEnv env ''DB_USER'' ''bulga'')
       (getEnv env ''DB_PASSWORD'' ''waaglub4242@'') db)) main)"
  by (cases B) (simp_all add: fun_eq_iff bet_InitDB_def wallet_InitDB_def general_InitDB_def
      wallet_ensureDatabaseExists_def Let_def)

declare start_database.simps [simp del] database_name.simps [simp del] queries_of.simps [simp del]
  schema_for.simps [simp del]

text \<open>Whatever fails, a start returns within twenty waits, and harms neither its database nor the others.\<close>

lemma start_database_stages:
  assumes "start_database B P env s = (r, s')" and "mig.sound B (database_name B env) s"
    and "read_ident P (fmt_q (database_name B env)) = database_name B env"
  shows "mig.sound B (database_name B env) s' \<and> elsewhere (database_name B env) s s' \<and> naps s' \<le> naps s + 20 \<and>
    (r = Inr () \<longrightarrow> map_of (databases s') (database_name B env) = Some (schema_for B))"
proof (cases "B = Bet_Backend")
  case True
  then show ?thesis
    using mig.connect_and_migrate_stages [of P env "database_name B env" B s r s'] assms(1,2)
    by (simp add: start_database_steps Let_def)
next
  case False
  obtain r1 s1 where e: "ensureDatabaseExists P (getEnv env ''DB_HOST'' ''localhost'')
       (getEnv env ''DB_PORT'' ''5432'') (getEnv env ''DB_USER'' ''bulga'')
       (getEnv env ''DB_PASSWORD'' ''waaglub4242@'') (database_name B env) s = (r1, s1)" by fastforce
  note f = mig.ensure_stages [OF e assms(2,3)]
  show ?thesis
  proof (cases r1)
    case (Inl x)
    then show ?thesis
      using assms(1) False e f by (auto simp: start_database_steps Let_def seqE_def bindE_def wrap_def on_error_def throw_def)
  next
    case (Inr u)
    then have "connect_and_migrate P env (database_name B env) (queries_of B) s1 = (r, s')"
      using assms(1) False e by (simp add: start_database_steps Let_def seqE_def bindE_def wrap_def on_error_def)
    note g = mig.connect_and_migrate_stages [OF this conjunct1 [OF f]]
    then show ?thesis using f elsewhere_trans [of _ s s1 s'] by auto
  qed
qed

lemma start_database_ok:
  assumes "mig.sound B db s" and "db = database_name B env" and "B = Bet_Backend \<longrightarrow> db \<in> fst ` set (databases s)"
    and "sql_Open P (env_dsn env db)" and "sql_Open P (env_dsn env ''postgres'')" and "read_ident P (fmt_q db) = db"
    and "pings s = replicate k False" and "k < 10" and "stmt_errs s = []"
  shows "\<exists>s'. start_database B P env s = (Inr (), s') \<and> map_of (databases s') db = Some (schema_for B) \<and>
    elsewhere db s s' \<and> pings s' = [] \<and> stmt_errs s' = [] \<and> naps s' = naps s + k \<and> redis_pings s' = redis_pings s \<and>
    (db \<in> fst ` set (databases s) \<longrightarrow> map fst (databases s') = map fst (databases s))"
proof (cases "B = Bet_Backend")
  case True
  then show ?thesis
    using mig.connect_and_migrate_ok [OF assms(1) _ assms(4,7-9)] assms(2,3)
    by (auto simp: start_database_steps Let_def)
next
  case False
  obtain s1 where e: "ensureDatabaseExists P (getEnv env ''DB_HOST'' ''localhost'')
       (getEnv env ''DB_PORT'' ''5432'') (getEnv env ''DB_USER'' ''bulga'')
       (getEnv env ''DB_PASSWORD'' ''waaglub4242@'') db s = (Inr (), s1)"
    and f: "mig.sound B db s1" "db \<in> fst ` set (databases s1)" "elsewhere db s s1" "pings s1 = []" "stmt_errs s1 = []"
      "naps s1 = naps s + k" "redis_pings s1 = redis_pings s" "db \<in> fst ` set (databases s) \<longrightarrow> databases s1 = databases s"
    using mig.ensure_ok [OF assms(1) assms(5) [unfolded env_dsn_def] assms(6-9)] by blast
  obtain s2 where g: "connect_and_migrate P env db (queries_of B) s1 = (Inr (), s2)"
      "map_of (databases s2) db = Some (schema_for B)" "map fst (databases s2) = map fst (databases s1)"
      "elsewhere db s1 s2" "pings s2 = []" "stmt_errs s2 = []" "naps s2 = naps s1" "redis_pings s2 = redis_pings s1"
    using mig.connect_and_migrate_ok [OF f(1,2) assms(4), of 0] f(4,5) by auto
  have "start_database B P env s = (Inr (), s2)"
    using False e g(1) assms(2) by (simp add: start_database_steps Let_def seqE_def bindE_def wrap_def on_error_def)
  then show ?thesis using f g elsewhere_trans [OF f(3) g(4)] by auto
qed

text \<open>
  A service that is started any number of times, each time with failures of its own, which may
  leave its database half migrated.
\<close>

inductive restarts :: "unit start_io \<Rightarrow> pg_server \<Rightarrow> pg_server \<Rightarrow> bool" for m where
  never: "restarts m s s"
| again: "restarts m s s1 \<Longrightarrow> m s1 = (r, s2) \<Longrightarrow> restarts m s (s2\<lparr>pings := ps, stmt_errs := es\<rparr>)"

lemma restarts_sound:
  assumes "restarts (start_database B P env) s s1" and "mig.sound B (database_name B env) s"
    and "read_ident P (fmt_q (database_name B env)) = database_name B env"
  shows "mig.sound B (database_name B env) s1 \<and> elsewhere (database_name B env) s s1"
  using assms
proof (induction rule: restarts.induct)
  case (again s s1 r s2 es ps)
  let ?db = "database_name B env" and ?s = "s2\<lparr>pings := ps, stmt_errs := es\<rparr>"
  have i: "mig.sound B ?db s1" "elsewhere ?db s s1" using again by auto
  note f = start_database_stages [OF again.hyps(2) i(1) again.prems(2)]
  have "elsewhere ?db s2 ?s" by simp
  then have "elsewhere ?db s ?s" using f i(2) elsewhere_trans by blast
  then show ?case using f mig.sound_databases [of ?s s2 B ?db] by simp
qed simp

text \<open>A wallet that starts has its schema, and is a live service at a positive rate.\<close>

lemma wallet_start_live:
  assumes "wallet_start P ParseFloat C S drv env s = (Inr (svc, scan, interval, port), s')"
    and "mig.sound Wallet_Backend (database_name Wallet_Backend env) s"
    and "read_ident P (fmt_q (database_name Wallet_Backend env)) = database_name Wallet_Backend env"
  obtains mint master limits rate faucet where
    "svc = live_service C S mint drv master limits rate faucet" "scan = Sol_ScanDeposits S mint" "0 < rate" "key_ok S mint"
    "map_of (databases s') (database_name Wallet_Backend env) = Some (schema_for Wallet_Backend)"
proof -
  obtain r s1 where d: "wallet_InitDB P env s = (r, s1)" by fastforce
  have m: "r = Inr ()" "wallet_main ParseFloat C S drv env = Inr (svc, scan, interval, port)" "s' = s1"
    using assms(1) d
    by (auto simp: wallet_start_def lift_wallet_def seqE_def bindE_def wrap_def on_error_def throw_def ret_def
        split: sum.splits prod.splits)
  note f = start_database_stages [of Wallet_Backend, unfolded start_database.simps, OF d assms(2,3)]
  show thesis
    using wallet_main_live [OF m(2)] that f m(1,3) by metis
qed

end
