(* ===== verification/Startup_Properties.thy ===== *)
theory Startup_Properties
  imports Startup_Correct
begin

text \<open>The properties of starting the services.\<close>

text \<open>
  C21: Starting heals what an interrupted start left behind. Take a server on which the
  service's database is missing or empty (the engine's must be there: only the other two create
  theirs), and start the service any number of times, each start broken off by whatever
  failures. As soon as the server answers within ten pings and no statement fails, the next start
  succeeds after one wait per ping that failed; its database then has exactly the schema the
  store is written for, however far the earlier starts had come; the other databases of the
  server are what they were, and a further start changes nothing.
\<close>

theorem startup_heals:
  assumes "db = database_name B env"
    and "distinct (map fst (databases s))" and "''postgres'' \<in> fst ` set (databases s)"
    and "map_of (databases s) db = (if new then None else Some empty_schema)" and "B = Bet_Backend \<longrightarrow> \<not> new"
    and "sql_Open P (env_dsn env db)" and "sql_Open P (env_dsn env ''postgres'')" and "read_ident P (fmt_q db) = db"
    and "restarts (start_database B P env) s s1"
    and "pings s1 = replicate k False" and "k < 10" and "stmt_errs s1 = []"
  shows "\<exists>s2. start_database B P env s1 = (Inr (), s2) \<and> naps s2 = naps s1 + k \<and>
    map_of (databases s2) db = Some (schema_for B) \<and>
    (\<forall>x. x \<noteq> db \<longrightarrow> map_of (databases s2) x = map_of (databases s) x) \<and>
    start_database B P env s2 = (Inr (), s2)"
proof -
  have a: "mig.sound B db s"
    using assms(2-4) mig.stage_empty by (auto simp: mig.sound_def split: if_splits)
  have i: "mig.sound B db s1" "elsewhere db s s1"
    using restarts_sound [OF assms(9)] a assms(1,8) by auto
  have b: "B = Bet_Backend \<longrightarrow> db \<in> fst ` set (databases s1)"
  proof
    assume "B = Bet_Backend"
    then have "map_of (databases s) db \<noteq> None" using assms(4,5) by simp
    then have "db \<in> fst ` set (databases s)" by (simp only: map_of_eq_None_iff not_not)
    then show "db \<in> fst ` set (databases s1)" using i(2) by (simp only: elsewhere_def) blast
  qed
  obtain s2 where s: "start_database B P env s1 = (Inr (), s2)" "map_of (databases s2) db = Some (schema_for B)"
      "elsewhere db s1 s2" "pings s2 = []" "stmt_errs s2 = []" "naps s2 = naps s1 + k"
    using start_database_ok [OF i(1) assms(1) b assms(6-8) assms(10-12)] by blast
  have c: "mig.sound B db s2" "db \<in> fst ` set (databases s2)"
    using start_database_stages [OF s(1)] i(1) assms(1,8) s(2) map_of_eq_None_iff [of "databases s2" db] by auto
  obtain s3 where t: "start_database B P env s2 = (Inr (), s3)" "map_of (databases s3) db = Some (schema_for B)"
      "elsewhere db s2 s3" "pings s3 = []" "stmt_errs s3 = []" "naps s3 = naps s2"
      "redis_pings s3 = redis_pings s2" "map fst (databases s3) = map fst (databases s2)"
    using start_database_ok [OF c(1) assms(1) _ assms(6-8), of 0] c(2) s(4,5) by auto
  have "map_of (databases s3) = map_of (databases s2)"
  proof
    show "map_of (databases s3) x = map_of (databases s2) x" for x
      using t(2,3) s(2) by (cases "x = db") (simp_all add: elsewhere_def)
  qed
  then have "databases s3 = databases s2"
    using t(8) c(1) by (intro map_of_determines) (simp_all add: mig.sound_def)
  then have "s3 = s2" using t s by (intro pg_server.equality) simp_all
  then show ?thesis using s t elsewhere_trans [OF i(2) s(3)] by (auto simp: elsewhere_def)
qed

text \<open>
  The wallet on a fresh server: its first start creates the database and fails at the fourth
  statement of the migrations, its second finds a server that answers the third ping.
\<close>

definition demo_pg :: pg_lib where
  "demo_pg = \<lparr>sql_Open = (\<lambda>_. True), read_ident = (\<lambda>t. butlast (tl t))\<rparr>"

definition demo_env :: env where
  "demo_env = (\<lambda>_. None)"

definition fresh_server :: pg_server where
  "fresh_server = \<lparr>pings = [], stmt_errs = [False, False, False, False, False, True],
     databases = [(''postgres'', empty_schema)], naps = 0, redis_pings = []\<rparr>"

definition broken_server :: pg_server where
  "broken_server = (snd (start_database Wallet_Backend demo_pg demo_env fresh_server))
     \<lparr>pings := [False, False], stmt_errs := []\<rparr>"

lemma broken_server_schema:
  "map_of (databases broken_server) ''tchebet_wallet'' =
     Some \<lparr>pg_tables = [(''wallet_addresses'', [''account_id'', ''derivation_index'', ''address'', ''usdc_ata'', ''created_at'']),
       (''deposits'', [''id'', ''signature'', ''account_id'', ''asset'', ''raw_amount'', ''credited_usdc'',
         ''status'', ''created_at'', ''credited_at''])],
       pg_names = [''wallet_derivation_index_seq'']\<rparr>"
  by code_simp

theorem startup_heals_witness:
  "map_of (databases broken_server) ''tchebet_wallet'' \<noteq> Some (schema_for Wallet_Backend) \<and>
   (\<exists>s2. start_database Wallet_Backend demo_pg demo_env broken_server = (Inr (), s2) \<and>
     naps s2 = naps broken_server + 2 \<and>
     map_of (databases s2) ''tchebet_wallet'' = Some (schema_for Wallet_Backend))"
proof
  show "map_of (databases broken_server) ''tchebet_wallet'' \<noteq> Some (schema_for Wallet_Backend)"
    by (simp add: broken_server_schema schema_for.simps)
  have n: "''tchebet_wallet'' = database_name Wallet_Backend demo_env" by code_simp
  have "restarts (start_database Wallet_Backend demo_pg demo_env) fresh_server broken_server"
    unfolding broken_server_def by (rule restarts.again [OF restarts.never]) (rule prod.collapse [symmetric])
  from startup_heals [OF n _ _ _ _ _ _ _ this, of True 2]
  show "\<exists>s2. start_database Wallet_Backend demo_pg demo_env broken_server = (Inr (), s2) \<and>
     naps s2 = naps broken_server + 2 \<and>
     map_of (databases s2) ''tchebet_wallet'' = Some (schema_for Wallet_Backend)"
    by (auto simp: fresh_server_def demo_pg_def broken_server_def fmt_q_def quoted_char_def numeral_2_eq_2)
qed

end
