(* ===== verification/General_Races.thy ===== *)
theory General_Races
  imports General_Demo
begin

text \<open>
  The form of the play-money deposit as two exchanges with the engine: the one that reads the
  balance and the one that writes the sum. Other calls of the engine may run between them.
\<close>

definition deposit_read :: "general_lib \<Rightarrow> int option \<Rightarrow> Account \<Rightarrow> (int \<times> C_User) handler_io" where
  "deposit_read E req who =
     bindE (bound req (\<lambda>n. n \<noteq> 0) (profile_flash (Lit ''valor+inv%C3%A1lido''))) (\<lambda>n.
     bindE (sane (PositiveInt64 n MaxSanityInt) (\<lambda>_. profile_flash (Lit ''valor+inv%C3%A1lido''))) (\<lambda>amount.
     bindE (trying (bc_GetUser E (Account_ID who))
              (\<lambda>_. profile_flash (Lit ''motor+de+apostas+indispon%C3%ADvel''))) (\<lambda>user.
     ret (amount, user))))"

definition deposit_write :: "general_lib \<Rightarrow> Account \<Rightarrow> int \<times> C_User \<Rightarrow> response handler_io" where
  "deposit_write E who = (\<lambda>(amount, user).
     bindE (trying (bc_SyncUserTyped E (Account_ID who) (i64 (CU_Balance user + amount)))
              (\<lambda>_. profile_flash (Lit ''falha+ao+depositar''))) (\<lambda>_.
     ret (profile_flash (Lit ''Dep%C3%B3sito+realizado''))))"

lemma Deposit_phases: "Deposit E req who = bindE (deposit_read E req who) (deposit_write E who)"
  by (rule ext) (auto simp: Deposit_def deposit_read_def deposit_write_def bindE_def ret_def
      split: prod.splits sum.splits)

lemma deposit_read_Inr:
  assumes "deposit_read E q a w = (Inr (n, u), w1)"
  shows "q = Some n \<and> 0 < n \<and> n \<le> MaxSanityInt \<and>
    balance_of (tabs (engine w)) (Account_ID a) = Some (CU_Balance u) \<and> tabs (engine w1) = tabs (engine w)"
  using assms
  by (auto simp: deposit_read_def bound_def sane_def trying_def io_inv PositiveInt64_Inr
      dest!: bc_GetUser_Inr split: option.splits if_splits sum.splits prod.splits)

lemma deposit_write_Inr:
  assumes "deposit_write E a (n, u) w = (Inr r, w')" and "inv (tabs (engine w))"
  shows "r = deposit_done \<and> 0 \<le> i64 (CU_Balance u + n) \<and>
    balance_of (tabs (engine w')) = (balance_of (tabs (engine w)))(Account_ID a \<mapsto> i64 (CU_Balance u + n))"
proof -
  obtain x where s: "bc_SyncUserTyped E (Account_ID a) (i64 (CU_Balance u + n)) w = (Inr x, w')" "r = deposit_done"
    using assms(1) by (auto simp: deposit_write_def trying_def deposit_done_def bindE_def ret_def
        split: prod.splits sum.splits)
  then show ?thesis
    using bc_SyncUserTyped_Inr(1) [OF s(1) assms(2)] bc_SyncUserTyped_nonneg by (auto simp: fun_eq_iff)
qed

lemma engine_run_inv: "engine_step\<^sup>*\<^sup>* b b' \<Longrightarrow> inv (tabs b) \<Longrightarrow> inv (tabs b')"
  by (induction rule: rtranclp_induct) (auto intro: engine_step_inv)

text \<open>
  C38: The deposit loses what happens while it runs. The form is the read of the balance and then
  the write of the sum. Let any calls of the engine run between the two, a credit of the wallet,
  a bet, a settlement. If the form then reports the deposit, the balance of its account is the one
  it had at the read plus the amount: whatever the calls in between did to it is undone, and no
  other balance is touched.
\<close>

theorem deposit_overwrites:
  assumes "deposit_read E q a w = (Inr (n, u), w1)" and "inv (tabs (engine w))"
    and "engine_step\<^sup>*\<^sup>* (engine w1) (engine w2)"
    and "deposit_write E a (n, u) w2 = (Inr r, w3)"
  shows "Deposit E q a = bindE (deposit_read E q a) (deposit_write E a) \<and> r = deposit_done \<and>
    (\<exists>b. balance_of (tabs (engine w)) (Account_ID a) = Some b \<and>
      balance_of (tabs (engine w3)) = (balance_of (tabs (engine w2)))(Account_ID a \<mapsto> b + n))"
proof -
  note d = deposit_read_Inr [OF assms(1)]
  have "inv (tabs (engine w2))" using engine_run_inv [OF assms(3)] d assms(2) by simp
  note p = deposit_write_Inr [OF assms(4) this]
  have "i64 (CU_Balance u + n) = CU_Balance u + n"
    using i64_no_wrap [of "CU_Balance u" n] p d balance_range [OF assms(2)] by (auto simp: MaxSanityInt_def)
  then show ?thesis using p d by (auto simp: Deposit_phases)
qed

lemma void_world: "snd (void m w) = snd (m w)"
  by (simp add: void_def seqE_def bindE_def ret_def split: prod.splits sum.splits)

text \<open>The user has 800, asks for 50, and is credited 100 in between: 850 are left, not 950.\<close>

definition demo_credited :: bet_world where
  "demo_credited = snd (AdjustBalance ''a'' 100 demo_open)"

lemma demo_credited_balance: "balance_of (tabs demo_credited) ''a'' = Some 900" "faults demo_credited = []"
  by code_simp+

theorem deposit_overwrites_witness:
  "\<exists>w1 w2 w3 n u r. deposit_read demo_lib (Some 50) (demo_account ''a'' ''a@x'' False) demo_g = (Inr (n, u), w1) \<and>
     engine w2 = demo_credited \<and> balance_of (tabs (engine w2)) ''a'' = Some 900 \<and>
     deposit_write demo_lib (demo_account ''a'' ''a@x'' False) (n, u) w2 = (Inr r, w3) \<and>
     balance_of (tabs (engine w3)) ''a'' = Some 850"
proof -
  let ?a = "demo_account ''a'' ''a@x'' False"
  obtain x where x: "select_user ''a'' (tabs demo_open) = Some x" "User_Balance x = 800"
    using demo_open_balance by (auto simp: balance_of_def)
  obtain w1 where g: "bc_GetUser demo_lib ''a'' demo_g = (Inr (to_user x), w1)"
    using bc_GetUser_live [of demo_g "''a''" x demo_lib] x demo_open_balance by (auto simp: demo_w_simps)
  then have d: "deposit_read demo_lib (Some 50) ?a demo_g = (Inr (50, to_user x), w1)"
    by (simp add: deposit_read_def bound_def sane_def trying_def PositiveInt64_def MaxSanityInt_def bindE_def ret_def
        demo_account_def)
  let ?w2 = "demo_g\<lparr>wallet_side := (wallet_side demo_g)\<lparr>bank := demo_credited\<rparr>\<rparr>"
  obtain y w3 where s: "bc_SyncUserTyped demo_lib ''a'' 850 ?w2 = (Inr y, w3)"
    using bc_SyncUserTyped_live [of ?w2 850 "''a''" demo_lib] demo_credited_balance
    by (auto simp: demo_lib_def in_int64_def int64_min_def int64_max_def)
  have e: "deposit_write demo_lib ?a (50, to_user x) ?w2 = (Inr deposit_done, w3)"
    using s x(2) by (simp add: deposit_write_def trying_def bindE_def ret_def deposit_done_def demo_account_def
        to_user_def i64_def)
  have t: "tabs (engine w1) = tabs demo_open" using bc_GetUser_Inr [OF g] by (simp add: demo_w_simps)
  have "engine_step (engine w1) demo_open" using t by (intro engine_step.env) simp
  moreover obtain rr where "do_call (CallAdjust ''a'' 100) demo_open = (rr, demo_credited)"
    using void_world [of "AdjustBalance ''a'' 100" demo_open]
    by (metis do_call.simps(2) demo_credited_def prod.collapse)
  then have "engine_step demo_open demo_credited" by (rule engine_step.call)
  ultimately have "engine_step\<^sup>*\<^sup>* (engine w1) demo_credited"
    by (meson rtranclp.rtrancl_into_rtrancl r_into_rtranclp)
  then have "engine_step\<^sup>*\<^sup>* (engine w1) (engine ?w2)" by simp
  from deposit_overwrites [OF d _ this e]
  have b: "balance_of (tabs (engine w3)) ''a'' = Some 850"
    using inv_demo(2) demo_open_balance by (auto simp: demo_w_simps demo_account_def)
  show ?thesis
    by (rule exI [of _ w1], rule exI [of _ ?w2], rule exI [of _ w3], rule exI [of _ "50 :: int"],
        rule exI [of _ "to_user x"], rule exI [of _ deposit_done]) (simp add: d e [simplified] b demo_credited_balance)
qed

end
