(* ===== verification/Api_Routes.thy ===== *)
theory Api_Routes
  imports General_Clients
begin

text \<open>
  The wire between the services: the routes the two backends register, the JSON their handlers
  bind, and the requests their clients send. A request is a method, a path and a JSON object;
  the texts of numbers and strings in JSON are the standard library's business and left out.
\<close>

section \<open>Requests\<close>

datatype json = JString string | JInt int | JStrings "string list"

type_synonym json_object = "(string \<times> json) list"

record api_request =
  Api_Method :: string
  Api_Path :: string
  Api_Body :: "json_object option"

text \<open>
  \<open>encoding/json\<close> into a struct: a field that is absent keeps its zero value, one of
  another type is an error, and so is a body that is not there.
\<close>

definition string_field :: "string \<Rightarrow> json_object \<Rightarrow> string option" where
  "string_field k b = (case map_of b k of
     None \<Rightarrow> Some [] | Some (JString s) \<Rightarrow> Some s | Some _ \<Rightarrow> None)"

definition int64_field :: "string \<Rightarrow> json_object \<Rightarrow> int option" where
  "int64_field k b = (case map_of b k of
     None \<Rightarrow> Some 0 | Some (JInt n) \<Rightarrow> (if in_int64 n then Some n else None) | Some _ \<Rightarrow> None)"

definition strings_field :: "string \<Rightarrow> json_object \<Rightarrow> string list option" where
  "strings_field k b = (case map_of b k of
     None \<Rightarrow> Some [] | Some (JStrings ss) \<Rightarrow> Some ss | Some _ \<Rightarrow> None)"

definition bind_SyncUser :: "json_object \<Rightarrow> SyncUserRequest option" where
  "bind_SyncUser b = (case (string_field ''id'' b, int64_field ''balance'' b) of
     (Some i, Some n) \<Rightarrow> Some \<lparr>Sync_ID = i, Sync_Balance = n\<rparr> | _ \<Rightarrow> None)"

definition bind_CreateMarket :: "json_object \<Rightarrow> CreateMarketRequest option" where
  "bind_CreateMarket b = (case (string_field ''question'' b, strings_field ''outcomes'' b, int64_field ''seed'' b) of
     (Some q, Some outs, Some n) \<Rightarrow> Some \<lparr>Create_Question = q, Create_Outcomes = outs, Create_Seed = n\<rparr> | _ \<Rightarrow> None)"

definition bind_PlaceBet :: "json_object \<Rightarrow> PlaceBetRequest option" where
  "bind_PlaceBet b = (case (string_field ''user_id'' b, string_field ''outcome'' b, int64_field ''stake'' b) of
     (Some u, Some out, Some n) \<Rightarrow> Some \<lparr>Place_UserID = u, Place_Outcome = out, Place_Stake = n\<rparr> | _ \<Rightarrow> None)"

definition bind_Listing :: "json_object \<Rightarrow> (string \<times> int) option" where
  "bind_Listing b = (case (string_field ''seller_id'' b, int64_field ''asking_price'' b) of
     (Some u, Some n) \<Rightarrow> Some (u, n) | _ \<Rightarrow> None)"

definition bind_Withdraw :: "json_object \<Rightarrow> withdrawRequest option" where
  "bind_Withdraw b = (case (string_field ''dest_address'' b, int64_field ''amount_reais'' b) of
     (Some a, Some n) \<Rightarrow> Some \<lparr>Withdraw_DestAddress = a, Withdraw_AmountReais = n\<rparr> | _ \<Rightarrow> None)"


section \<open>Routes\<close>

type_synonym 'h route_table = "(string \<times> string \<times> (string \<Rightarrow> json_object option \<Rightarrow> 'h)) list"

definition bet_routes :: "(string \<Rightarrow> bool) \<Rightarrow> (sql_error \<Rightarrow> string) \<Rightarrow> bet_handler route_table" where
  "bet_routes is_uuid drv =
     [(''POST'', ''/users/sync'', \<lambda>i b. SyncUser is_uuid drv (Option.bind b bind_SyncUser)),
      (''GET'', ''/users/:id'', \<lambda>i b. GetUser_handler drv i),
      (''POST'', ''/users/:id/adjust'', \<lambda>i b. AdjustBalance_handler drv i (Option.bind b (int64_field ''delta''))),
      (''POST'', ''/markets'', \<lambda>i b. CreateMarket_handler drv (Option.bind b bind_CreateMarket)),
      (''GET'', ''/markets'', \<lambda>i b. ListMarkets_handler drv),
      (''GET'', ''/markets/:id'', \<lambda>i b. GetMarket drv i),
      (''GET'', ''/markets/:id/bets'', \<lambda>i b. ListMarketBets_handler drv i),
      (''POST'', ''/markets/:id/bet'', \<lambda>i b. PlaceBet_handler is_uuid drv i (Option.bind b bind_PlaceBet)),
      (''POST'', ''/markets/:id/lock'', \<lambda>i b. LockMarket_handler drv i),
      (''POST'', ''/markets/:id/resolve'',
         \<lambda>i b. ResolveMarket_handler drv i (Option.bind b (string_field ''winning_outcome''))),
      (''POST'', ''/markets/:id/cancel'', \<lambda>i b. CancelMarket_handler drv i),
      (''GET'', ''/users/:id/bets'', \<lambda>i b. ListUserBets_handler drv i)]"

definition listing_routes :: "(string \<Rightarrow> bool) \<Rightarrow> (sql_error \<Rightarrow> string) \<Rightarrow> bet_handler route_table" where
  "listing_routes is_uuid drv =
     [(''POST'', ''/bets/:id/listings'', \<lambda>i b. CreateListing is_uuid drv i (Option.bind b bind_Listing)),
      (''POST'', ''/listings/:id/cancel'',
         \<lambda>i b. CancelListing_handler is_uuid drv i (Option.bind b (string_field ''seller_id''))),
      (''POST'', ''/listings/:id/buy'',
         \<lambda>i b. Bet_Handlers.BuyListing is_uuid drv i (Option.bind b (string_field ''buyer_id''))),
      (''GET'', ''/markets/:id/listings'', \<lambda>i b. ListMarketListings drv i),
      (''GET'', ''/users/:id/listings'', \<lambda>i b. ListUserListings drv i)]"

definition wallet_routes :: "Service \<Rightarrow> wallet_handler route_table" where
  "wallet_routes s =
     [(''GET'', ''/health'', \<lambda>i b. health),
      (''GET'', ''/accounts/:id/address'', \<lambda>i b. getAddress i),
      (''POST'', ''/accounts/:id/provision'', \<lambda>i b. provision s i),
      (''POST'', ''/accounts/:id/faucet'', \<lambda>i b. faucet s i),
      (''POST'', ''/accounts/:id/withdraw'', \<lambda>i b. withdraw s i (Option.bind b bind_Withdraw)),
      (''GET'', ''/accounts/:id/deposits'', \<lambda>i b. listDeposits i),
      (''GET'', ''/accounts/:id/withdrawals'', \<lambda>i b. listWithdrawals i)]"

text \<open>
  The router is \<^verbatim>\<open>gin\<close>'s, so a parameter: given the methods and patterns that are
  registered and a request's method and path, the number of the route and the value of \<open>:id\<close>.
  \<open>gin_ok\<close> is what its documentation promises: when one route of the method, and no other,
  matches the path segment by segment, a parameter standing for any segment that is not empty, that
  route is taken.
\<close>

type_synonym gin_router = "(string \<times> string) list \<Rightarrow> string \<Rightarrow> string \<Rightarrow> (nat \<times> string) option"

fun segments :: "string \<Rightarrow> string list" where
  "segments [] = [[]]"
| "segments (c # s) = (if c = CHR ''/'' then [] # segments s
     else case segments s of [] \<Rightarrow> [[c]] | x # xs \<Rightarrow> (c # x) # xs)"

fun match_segments :: "string list \<Rightarrow> string list \<Rightarrow> string option" where
  "match_segments [] [] = Some []"
| "match_segments (p # ps) (s # ss) =
     (case match_segments ps ss of None \<Rightarrow> None
      | Some i \<Rightarrow> if p = '':id'' then (if s = [] then None else Some s) else if p = s then Some i else None)"
| "match_segments _ _ = None"

definition match_path :: "string \<Rightarrow> string \<Rightarrow> string option" where
  "match_path pat path = match_segments (segments pat) (segments path)"

fun matching :: "nat \<Rightarrow> (string \<times> string) list \<Rightarrow> string \<Rightarrow> string \<Rightarrow> (nat \<times> string) list" where
  "matching k [] m path = []"
| "matching k (r # rs) m path =
     (case (if fst r = m then match_path (snd r) path else None) of
        None \<Rightarrow> matching (Suc k) rs m path
      | Some i \<Rightarrow> (k, i) # matching (Suc k) rs m path)"

definition gin_ok :: "gin_router \<Rightarrow> bool" where
  "gin_ok G \<longleftrightarrow> (\<forall>rs m path r. matching 0 rs m path = [r] \<longrightarrow> G rs m path = Some r)"

text \<open>\<open>None\<close>: the request reaches no handler.\<close>

definition dispatch :: "gin_router \<Rightarrow> 'h route_table \<Rightarrow> api_request \<Rightarrow> 'h option" where
  "dispatch G table q =
     map_option (\<lambda>(k, i). snd (snd (table ! k)) i (Api_Body q))
       (G (map (\<lambda>(m, p, h). (m, p)) table) (Api_Method q) (Api_Path q))"

definition bet_dispatch :: "gin_router \<Rightarrow> (string \<Rightarrow> bool) \<Rightarrow> (sql_error \<Rightarrow> string) \<Rightarrow> api_request \<Rightarrow> bet_handler option" where
  "bet_dispatch G is_uuid drv = dispatch G (bet_routes is_uuid drv @ listing_routes is_uuid drv)"

definition wallet_dispatch :: "gin_router \<Rightarrow> Service \<Rightarrow> api_request \<Rightarrow> wallet_handler option" where
  "wallet_dispatch G s = dispatch G (wallet_routes s)"

end
