(* ===== verification/Api_Clients.thy ===== *)
theory Api_Clients
  imports Api_Routes
begin

text \<open>
  The requests of the three clients, and that each reaches the handler the client models call
  directly, with the arguments that were sent.
\<close>

section \<open>What the clients send\<close>

datatype engine_request =
    SendSyncUser string int
  | SendGetUser string
  | SendCreateMarket string "string list" int
  | SendGetMarket string
  | SendListMarkets
  | SendListMarketBets string
  | SendListUserBets string
  | SendPlaceBet string string string int
  | SendLockMarket string
  | SendResolveMarket string string
  | SendCancelMarket string
  | SendListBetForSale string string int
  | SendCancelListing string string
  | SendBuyListing string string
  | SendListMarketListings string
  | SendListUserListings string

definition api_get :: "string \<Rightarrow> api_request" where
  "api_get path = \<lparr>Api_Method = ''GET'', Api_Path = path, Api_Body = None\<rparr>"

definition api_post :: "string \<Rightarrow> json_object option \<Rightarrow> api_request" where
  "api_post path body = \<lparr>Api_Method = ''POST'', Api_Path = path, Api_Body = body\<rparr>"

fun sent_to_engine :: "engine_request \<Rightarrow> api_request" where
  "sent_to_engine (SendSyncUser i balance) =
     api_post ''/users/sync'' (Some [(''id'', JString i), (''balance'', JInt balance)])"
| "sent_to_engine (SendGetUser i) = api_get (''/users/'' @ i)"
| "sent_to_engine (SendCreateMarket question outcomes seed) =
     api_post ''/markets'' (Some [(''question'', JString question), (''outcomes'', JStrings outcomes), (''seed'', JInt seed)])"
| "sent_to_engine (SendGetMarket marketID) = api_get (''/markets/'' @ marketID)"
| "sent_to_engine SendListMarkets = api_get ''/markets''"
| "sent_to_engine (SendListMarketBets marketID) = api_get (''/markets/'' @ marketID @ ''/bets'')"
| "sent_to_engine (SendListUserBets userID) = api_get (''/users/'' @ userID @ ''/bets'')"
| "sent_to_engine (SendPlaceBet marketID userID outcome stake) = api_post (''/markets/'' @ marketID @ ''/bet'')
     (Some [(''user_id'', JString userID), (''outcome'', JString outcome), (''stake'', JInt stake)])"
| "sent_to_engine (SendLockMarket marketID) = api_post (''/markets/'' @ marketID @ ''/lock'') None"
| "sent_to_engine (SendResolveMarket marketID winningOutcome) = api_post (''/markets/'' @ marketID @ ''/resolve'')
     (Some [(''winning_outcome'', JString winningOutcome)])"
| "sent_to_engine (SendCancelMarket marketID) = api_post (''/markets/'' @ marketID @ ''/cancel'') None"
| "sent_to_engine (SendListBetForSale betID sellerID askingPrice) = api_post (''/bets/'' @ betID @ ''/listings'')
     (Some [(''seller_id'', JString sellerID), (''asking_price'', JInt askingPrice)])"
| "sent_to_engine (SendCancelListing listingID sellerID) = api_post (''/listings/'' @ listingID @ ''/cancel'')
     (Some [(''seller_id'', JString sellerID)])"
| "sent_to_engine (SendBuyListing listingID buyerID) = api_post (''/listings/'' @ listingID @ ''/buy'')
     (Some [(''buyer_id'', JString buyerID)])"
| "sent_to_engine (SendListMarketListings marketID) = api_get (''/markets/'' @ marketID @ ''/listings'')"
| "sent_to_engine (SendListUserListings userID) = api_get (''/users/'' @ userID @ ''/listings'')"

text \<open>The call that the web server makes for it in the model.\<close>

fun engine_client :: "general_lib \<Rightarrow> engine_request \<Rightarrow> bet_response general_io" where
  "engine_client E (SendSyncUser i balance) = bc_SyncUser E i balance"
| "engine_client E (SendGetUser i) = bc_GetUserRaw E i"
| "engine_client E (SendCreateMarket question outcomes seed) = bc_CreateMarket E question outcomes seed"
| "engine_client E (SendGetMarket marketID) = bc_GetMarket E marketID"
| "engine_client E SendListMarkets = bc_ListMarketsRaw E"
| "engine_client E (SendListMarketBets marketID) = bc_ListMarketBetsRaw E marketID"
| "engine_client E (SendListUserBets userID) = bc_ListUserBetsRaw E userID"
| "engine_client E (SendPlaceBet marketID userID outcome stake) = bc_PlaceBet E marketID userID outcome stake"
| "engine_client E (SendLockMarket marketID) = bc_LockMarket E marketID"
| "engine_client E (SendResolveMarket marketID winner) = bc_ResolveMarket E marketID winner"
| "engine_client E (SendCancelMarket marketID) = bc_CancelMarket E marketID"
| "engine_client E (SendListBetForSale betID sellerID price) = bc_ListBetForSale E betID sellerID price"
| "engine_client E (SendCancelListing listingID sellerID) = bc_CancelListing E listingID sellerID"
| "engine_client E (SendBuyListing listingID buyerID) = bc_BuyListing E listingID buyerID"
| "engine_client E (SendListMarketListings marketID) = bc_ListMarketListingsRaw E marketID"
| "engine_client E (SendListUserListings userID) = bc_ListUserListingsRaw E userID"

text \<open>The request of \<open>wallet-backend/betclient\<close>.\<close>

definition sent_adjust :: "string \<Rightarrow> int \<Rightarrow> api_request" where
  "sent_adjust userID delta = api_post (''/users/'' @ userID @ ''/adjust'') (Some [(''delta'', JInt delta)])"

datatype wallet_request =
    SendProvision string
  | SendLookup string
  | SendFaucet string
  | SendWithdrawal string string int
  | SendListDeposits string
  | SendListWithdrawals string

fun sent_to_wallet :: "wallet_request \<Rightarrow> api_request" where
  "sent_to_wallet (SendProvision accountID) = api_post (''/accounts/'' @ accountID @ ''/provision'') None"
| "sent_to_wallet (SendLookup accountID) = api_get (''/accounts/'' @ accountID @ ''/address'')"
| "sent_to_wallet (SendFaucet accountID) = api_post (''/accounts/'' @ accountID @ ''/faucet'') None"
| "sent_to_wallet (SendWithdrawal accountID dest amountReais) = api_post (''/accounts/'' @ accountID @ ''/withdraw'')
     (Some [(''dest_address'', JString dest), (''amount_reais'', JInt amountReais)])"
| "sent_to_wallet (SendListDeposits accountID) = api_get (''/accounts/'' @ accountID @ ''/deposits'')"
| "sent_to_wallet (SendListWithdrawals accountID) = api_get (''/accounts/'' @ accountID @ ''/withdrawals'')"

text \<open>The handler the model of \<open>walletclient\<close> calls for it.\<close>

fun wallet_client :: "Service \<Rightarrow> wallet_request \<Rightarrow> wallet_handler" where
  "wallet_client s (SendProvision accountID) = provision s accountID"
| "wallet_client s (SendLookup accountID) = getAddress accountID"
| "wallet_client s (SendFaucet accountID) = faucet s accountID"
| "wallet_client s (SendWithdrawal accountID dest amountReais) =
     withdraw s accountID (Some \<lparr>Withdraw_DestAddress = dest, Withdraw_AmountReais = amountReais\<rparr>)"
| "wallet_client s (SendListDeposits accountID) = listDeposits accountID"
| "wallet_client s (SendListWithdrawals accountID) = listWithdrawals accountID"

text \<open>What a caller has to see to: identifiers that stay one segment of a path, and \<open>int64\<close>s.\<close>

definition path_safe :: "string \<Rightarrow> bool" where
  "path_safe i \<longleftrightarrow> i \<noteq> [] \<and>
     list_all (\<lambda>c. c \<in> set ''abcdefghijklmnopqrstuvwxyzABCDEFGHIJKLMNOPQRSTUVWXYZ0123456789-_'') i"

fun sendable :: "engine_request \<Rightarrow> bool" where
  "sendable (SendSyncUser i balance) = in_int64 balance"
| "sendable (SendGetUser i) = path_safe i"
| "sendable (SendCreateMarket question outcomes seed) = in_int64 seed"
| "sendable (SendGetMarket i) = path_safe i"
| "sendable SendListMarkets = True"
| "sendable (SendListMarketBets i) = path_safe i"
| "sendable (SendListUserBets i) = path_safe i"
| "sendable (SendPlaceBet i userID outcome stake) = (path_safe i \<and> in_int64 stake)"
| "sendable (SendLockMarket i) = path_safe i"
| "sendable (SendResolveMarket i winner) = path_safe i"
| "sendable (SendCancelMarket i) = path_safe i"
| "sendable (SendListBetForSale i sellerID price) = (path_safe i \<and> in_int64 price)"
| "sendable (SendCancelListing i sellerID) = path_safe i"
| "sendable (SendBuyListing i buyerID) = path_safe i"
| "sendable (SendListMarketListings i) = path_safe i"
| "sendable (SendListUserListings i) = path_safe i"

fun sendable_wallet :: "wallet_request \<Rightarrow> bool" where
  "sendable_wallet (SendProvision i) = path_safe i"
| "sendable_wallet (SendLookup i) = path_safe i"
| "sendable_wallet (SendFaucet i) = path_safe i"
| "sendable_wallet (SendWithdrawal i dest amount) = (path_safe i \<and> in_int64 amount)"
| "sendable_wallet (SendListDeposits i) = path_safe i"
| "sendable_wallet (SendListWithdrawals i) = path_safe i"


section \<open>Where the requests arrive\<close>

lemma segments_append: "CHR ''/'' \<notin> set i \<Longrightarrow> segments (i @ CHR ''/'' # s) = i # segments s"
  by (induction i) auto

lemma segments_plain: "CHR ''/'' \<notin> set i \<Longrightarrow> segments i = [i]"
  by (induction i) auto

lemma path_safeD: "path_safe i \<Longrightarrow> i \<noteq> [] \<and> CHR ''/'' \<notin> set i"
proof -
  have "CHR ''/'' \<notin> set ''abcdefghijklmnopqrstuvwxyzABCDEFGHIJKLMNOPQRSTUVWXYZ0123456789-_''" by code_simp
  then show "path_safe i \<Longrightarrow> ?thesis" unfolding path_safe_def list_all_iff by blast
qed

text \<open>The routes with their patterns cut into segments.\<close>

fun seg_matching :: "nat \<Rightarrow> (string \<times> string list) list \<Rightarrow> string \<Rightarrow> string list \<Rightarrow> (nat \<times> string) list" where
  "seg_matching k [] m ss = []"
| "seg_matching k (r # rs) m ss =
     (case (if fst r = m then match_segments (snd r) ss else None) of
        None \<Rightarrow> seg_matching (Suc k) rs m ss
      | Some i \<Rightarrow> (k, i) # seg_matching (Suc k) rs m ss)"

lemma matching_segments: "matching k rs m path = seg_matching k (map (\<lambda>(m, p). (m, segments p)) rs) m (segments path)"
  by (induction rs arbitrary: k) (auto simp: match_path_def split: option.splits)

definition table_segments :: "'h route_table \<Rightarrow> (string \<times> string list) list" where
  "table_segments table = map (\<lambda>(m, p, h). (m, segments p)) table"

lemma dispatch_segments:
  assumes "gin_ok G" and "seg_matching 0 (table_segments table) (Api_Method q) (segments (Api_Path q)) = [(k, i)]"
  shows "dispatch G table q = Some (snd (snd (table ! k)) i (Api_Body q))"
proof -
  have "map (\<lambda>(m, p). (m, segments p)) (map (\<lambda>(m, p, h). (m, p)) table) = table_segments table"
    by (simp add: table_segments_def split_def)
  then show ?thesis
    using assms by (simp add: dispatch_def gin_ok_def matching_segments)
qed

definition engine_segments :: "(string \<times> string list) list" where
  "engine_segments = map (\<lambda>(m, p). (m, segments p))
     [(''POST'', ''/users/sync''), (''GET'', ''/users/:id''), (''POST'', ''/users/:id/adjust''), (''POST'', ''/markets''),
      (''GET'', ''/markets''), (''GET'', ''/markets/:id''), (''GET'', ''/markets/:id/bets''), (''POST'', ''/markets/:id/bet''),
      (''POST'', ''/markets/:id/lock''), (''POST'', ''/markets/:id/resolve''), (''POST'', ''/markets/:id/cancel''),
      (''GET'', ''/users/:id/bets''), (''POST'', ''/bets/:id/listings''), (''POST'', ''/listings/:id/cancel''),
      (''POST'', ''/listings/:id/buy''), (''GET'', ''/markets/:id/listings''), (''GET'', ''/users/:id/listings'')]"

lemma table_engine: "table_segments (bet_routes iu drv @ listing_routes iu drv) = engine_segments"
  by (simp only: table_segments_def bet_routes_def listing_routes_def engine_segments_def list.map append.simps prod.case)

lemma engine_segments: "engine_segments =
   [(''POST'', [[], ''users'', ''sync'']), (''GET'', [[], ''users'', '':id'']), (''POST'', [[], ''users'', '':id'', ''adjust'']),
    (''POST'', [[], ''markets'']), (''GET'', [[], ''markets'']), (''GET'', [[], ''markets'', '':id'']),
    (''GET'', [[], ''markets'', '':id'', ''bets'']), (''POST'', [[], ''markets'', '':id'', ''bet'']),
    (''POST'', [[], ''markets'', '':id'', ''lock'']), (''POST'', [[], ''markets'', '':id'', ''resolve'']),
    (''POST'', [[], ''markets'', '':id'', ''cancel'']), (''GET'', [[], ''users'', '':id'', ''bets'']),
    (''POST'', [[], ''bets'', '':id'', ''listings'']), (''POST'', [[], ''listings'', '':id'', ''cancel'']),
    (''POST'', [[], ''listings'', '':id'', ''buy'']), (''GET'', [[], ''markets'', '':id'', ''listings'']),
    (''GET'', [[], ''users'', '':id'', ''listings''])]"
  by code_simp

lemma wallet_segments: "table_segments (wallet_routes s) =
   [(''GET'', [[], ''health'']), (''GET'', [[], ''accounts'', '':id'', ''address'']),
    (''POST'', [[], ''accounts'', '':id'', ''provision'']), (''POST'', [[], ''accounts'', '':id'', ''faucet'']),
    (''POST'', [[], ''accounts'', '':id'', ''withdraw'']), (''GET'', [[], ''accounts'', '':id'', ''deposits'']),
    (''GET'', [[], ''accounts'', '':id'', ''withdrawals''])]"
proof -
  have "map (\<lambda>(m, p). (m, segments p))
     [(''GET'', ''/health''), (''GET'', ''/accounts/:id/address''), (''POST'', ''/accounts/:id/provision''),
      (''POST'', ''/accounts/:id/faucet''), (''POST'', ''/accounts/:id/withdraw''), (''GET'', ''/accounts/:id/deposits''),
      (''GET'', ''/accounts/:id/withdrawals'')] =
   [(''GET'', [[], ''health'']), (''GET'', [[], ''accounts'', '':id'', ''address'']),
    (''POST'', [[], ''accounts'', '':id'', ''provision'']), (''POST'', [[], ''accounts'', '':id'', ''faucet'']),
    (''POST'', [[], ''accounts'', '':id'', ''withdraw'']), (''GET'', [[], ''accounts'', '':id'', ''deposits'']),
    (''GET'', [[], ''accounts'', '':id'', ''withdrawals''])]" by code_simp
  then show ?thesis
    by (simp only: table_segments_def wallet_routes_def list.map prod.case)
qed

lemma bet_dispatch_at:
  assumes "gin_ok G" and "seg_matching 0 engine_segments (Api_Method q) (segments (Api_Path q)) = [(k, i)]"
  shows "bet_dispatch G iu drv q = Some (snd (snd ((bet_routes iu drv @ listing_routes iu drv) ! k)) i (Api_Body q))"
  unfolding bet_dispatch_def by (rule dispatch_segments [OF assms(1)]) (simp only: table_engine assms(2))

lemma wallet_dispatch_at:
  assumes "gin_ok G" and "seg_matching 0 (table_segments (wallet_routes s)) (Api_Method q) (segments (Api_Path q)) = [(k, i)]"
  shows "wallet_dispatch G s q = Some (snd (snd (wallet_routes s ! k)) i (Api_Body q))"
  unfolding wallet_dispatch_def by (rule dispatch_segments [OF assms])

text \<open>The number of the route of each request, and the value of its parameter.\<close>

fun engine_route :: "engine_request \<Rightarrow> nat \<times> string" where
  "engine_route (SendSyncUser i balance) = (0, [])"
| "engine_route (SendGetUser i) = (1, i)"
| "engine_route (SendCreateMarket q outs n) = (3, [])"
| "engine_route SendListMarkets = (4, [])"
| "engine_route (SendGetMarket i) = (5, i)"
| "engine_route (SendListMarketBets i) = (6, i)"
| "engine_route (SendPlaceBet i u out n) = (7, i)"
| "engine_route (SendLockMarket i) = (8, i)"
| "engine_route (SendResolveMarket i winner) = (9, i)"
| "engine_route (SendCancelMarket i) = (10, i)"
| "engine_route (SendListUserBets i) = (11, i)"
| "engine_route (SendListBetForSale i u n) = (12, i)"
| "engine_route (SendCancelListing i u) = (13, i)"
| "engine_route (SendBuyListing i u) = (14, i)"
| "engine_route (SendListMarketListings i) = (15, i)"
| "engine_route (SendListUserListings i) = (16, i)"

lemma engine_route: "sendable c \<Longrightarrow>
    seg_matching 0 engine_segments (Api_Method (sent_to_engine c)) (segments (Api_Path (sent_to_engine c))) = [engine_route c]"
  by (cases c) (auto dest!: path_safeD simp: engine_segments api_get_def api_post_def segments_append segments_plain)

text \<open>What the clients put into a body is what the handlers' structs read.\<close>

lemmas field_defs = string_field_def int64_field_def strings_field_def bind_SyncUser_def bind_CreateMarket_def
  bind_PlaceBet_def bind_Listing_def bind_Withdraw_def

lemmas bc_defs = bc_SyncUser_def bc_GetUserRaw_def bc_CreateMarket_def bc_GetMarket_def bc_ListMarketsRaw_def
  bc_ListMarketBetsRaw_def bc_ListUserBetsRaw_def bc_PlaceBet_def bc_LockMarket_def bc_ResolveMarket_def
  bc_CancelMarket_def bc_ListBetForSale_def bc_CancelListing_def bc_BuyListing_def bc_ListMarketListingsRaw_def
  bc_ListUserListingsRaw_def

lemma engine_binds: "sendable c \<Longrightarrow>
    engine_client E c = to_engine (snd (snd ((bet_routes (bb_is_uuid E) (bb_drv E) @
      listing_routes (bb_is_uuid E) (bb_drv E)) ! fst (engine_route c))) (snd (engine_route c)) (Api_Body (sent_to_engine c)))"
  by (cases c) (simp_all add: bet_routes_def listing_routes_def api_get_def api_post_def field_defs bc_defs)

lemma engine_reached:
  assumes "gin_ok G" and "sendable c"
  shows "\<exists>h. bet_dispatch G (bb_is_uuid E) (bb_drv E) (sent_to_engine c) = Some h \<and> engine_client E c = to_engine h"
proof -
  obtain k i where r: "engine_route c = (k, i)" by fastforce
  show ?thesis
    using bet_dispatch_at [OF assms(1) engine_route [OF assms(2), unfolded r]] engine_binds [OF assms(2), of E]
    by (simp add: r)
qed

lemma adjust_reached:
  assumes "gin_ok G" and "path_safe u" and "in_int64 delta"
  shows "bet_dispatch G iu drv (sent_adjust u delta) = Some (AdjustBalance_handler drv u (Some delta))"
proof -
  have "seg_matching 0 engine_segments (Api_Method (sent_adjust u delta)) (segments (Api_Path (sent_adjust u delta))) = [(2, u)]"
    using path_safeD [OF assms(2)] by (simp add: engine_segments sent_adjust_def api_post_def segments_append segments_plain)
  from bet_dispatch_at [OF assms(1) this] show ?thesis
    using assms(3) by (simp add: bet_routes_def sent_adjust_def api_post_def field_defs)
qed

lemma wallet_reached:
  assumes "gin_ok G" and "sendable_wallet c"
  shows "wallet_dispatch G s (sent_to_wallet c) = Some (wallet_client s c)"
proof -
  define k where "k = (case c of SendProvision i \<Rightarrow> (2::nat, i) | SendLookup i \<Rightarrow> (1, i) | SendFaucet i \<Rightarrow> (3, i)
    | SendWithdrawal i d n \<Rightarrow> (4, i) | SendListDeposits i \<Rightarrow> (5, i) | SendListWithdrawals i \<Rightarrow> (6, i))"
  have "seg_matching 0 (table_segments (wallet_routes s)) (Api_Method (sent_to_wallet c)) (segments (Api_Path (sent_to_wallet c)))
      = [(fst k, snd k)]"
    using assms(2) by (cases c)
      (auto dest!: path_safeD simp: k_def wallet_segments api_get_def api_post_def segments_append segments_plain)
  from wallet_dispatch_at [OF assms(1) this] show ?thesis
    using assms(2) by (cases c) (simp_all add: k_def wallet_routes_def api_get_def api_post_def field_defs)
qed

text \<open>The handlers behind the calls of \<open>walletclient\<close>.\<close>

lemma wallet_client_calls:
  "wc_ProvisionAccount E i = wc_do as_address (wallet_client (wb_service E) (SendProvision i))"
  "wc_ListDeposits i = wc_do as_deposits (wallet_client s (SendListDeposits i))"
  "wc_ListWithdrawals i = wc_do as_withdrawals (wallet_client s (SendListWithdrawals i))"
  "\<exists>k. wc_LookupDepositAddress i = bindE (doStatus as_address (wallet_client s (SendLookup i))) k"
  "\<exists>k. wc_Faucet E i = bindE (doStatus as_signature (wallet_client (wb_service E) (SendFaucet i))) k"
  "\<exists>k. wc_RequestWithdrawal E i d n = bindE (doStatus as_withdrawal (wallet_client (wb_service E) (SendWithdrawal i d n))) k"
  by (auto simp: wc_ProvisionAccount_def wc_ListDeposits_def wc_ListWithdrawals_def wc_LookupDepositAddress_def
      wc_Faucet_def wc_RequestWithdrawal_def)

end
