(* ===== verification/Api_Properties.thy ===== *)
theory Api_Properties
  imports Api_Clients
begin

text \<open>The property of the wire between the services.\<close>

text \<open>
  C22: Every request of the clients reaches the handler it is meant for, with the arguments that
  were sent. For each of the sixteen requests of \<open>general-backend/betclient\<close>, the one of
  \<open>wallet-backend/betclient\<close> and the six of \<open>walletclient\<close>, with identifiers that are one
  segment of a path and amounts in \<open>int64\<close>: the router that is handed the routes the backends
  register finds exactly one, takes \<open>:id\<close> from the path, and the handler's struct reads
  from the JSON what the client put in, so that the exchange is the call of the client's model.
\<close>

theorem clients_reach:
  assumes "gin_ok G"
  shows "(\<forall>c. sendable c \<longrightarrow> (\<exists>h. bet_dispatch G (bb_is_uuid E) (bb_drv E) (sent_to_engine c) = Some h \<and>
      engine_client E c = to_engine h)) \<and>
    (\<forall>u delta. path_safe u \<and> in_int64 delta \<longrightarrow>
      bet_dispatch G is_uuid drv (sent_adjust u delta) = Some (AdjustBalance_handler drv u (Some delta))) \<and>
    (\<forall>c. sendable_wallet c \<longrightarrow> wallet_dispatch G s (sent_to_wallet c) = Some (wallet_client s c))"
  using engine_reached [OF assms] adjust_reached [OF assms] wallet_reached [OF assms] by blast

text \<open>A router that takes the first route that matches, and a bet, a debit and a withdrawal.\<close>

definition first_match :: gin_router where
  "first_match rs m path = (case matching 0 rs m path of [] \<Rightarrow> None | r # _ \<Rightarrow> Some r)"

lemma first_match_ok: "gin_ok first_match"
  by (simp add: gin_ok_def first_match_def)

lemma demo_ids: "path_safe ''7c9e6679-7425''" "in_int64 (- 25)"
  by code_simp+

theorem clients_reach_witness:
  "\<forall>(E :: general_lib) iu drv (s :: Service). (\<exists>h.
      bet_dispatch first_match (bb_is_uuid E) (bb_drv E) \<lparr>Api_Method = ''POST'', Api_Path = ''/markets/7c9e6679-7425/bet'',
        Api_Body = Some [(''user_id'', JString ''u''), (''outcome'', JString ''SIM''), (''stake'', JInt 5)]\<rparr> = Some h \<and>
      bc_PlaceBet E ''7c9e6679-7425'' ''u'' ''SIM'' 5 = to_engine h) \<and>
    bet_dispatch first_match iu drv \<lparr>Api_Method = ''POST'', Api_Path = ''/users/7c9e6679-7425/adjust'',
        Api_Body = Some [(''delta'', JInt (- 25))]\<rparr> = Some (AdjustBalance_handler drv ''7c9e6679-7425'' (Some (- 25))) \<and>
    wallet_dispatch first_match s \<lparr>Api_Method = ''GET'', Api_Path = ''/accounts/7c9e6679-7425/deposits'', Api_Body = None\<rparr>
      = Some (listDeposits ''7c9e6679-7425'')"
proof (intro allI)
  fix E :: general_lib and iu :: "string \<Rightarrow> bool" and drv and s :: Service
  let ?i = "''7c9e6679-7425''"
  note r = clients_reach [OF first_match_ok, of E iu drv s]
  have b: "sendable (SendPlaceBet ?i ''u'' ''SIM'' 5)"
    using demo_ids(1) by (simp add: in_int64_def int64_min_def int64_max_def)
  show "(\<exists>h.
      bet_dispatch first_match (bb_is_uuid E) (bb_drv E) \<lparr>Api_Method = ''POST'', Api_Path = ''/markets/7c9e6679-7425/bet'',
        Api_Body = Some [(''user_id'', JString ''u''), (''outcome'', JString ''SIM''), (''stake'', JInt 5)]\<rparr> = Some h \<and>
      bc_PlaceBet E ?i ''u'' ''SIM'' 5 = to_engine h) \<and>
    bet_dispatch first_match iu drv \<lparr>Api_Method = ''POST'', Api_Path = ''/users/7c9e6679-7425/adjust'',
        Api_Body = Some [(''delta'', JInt (- 25))]\<rparr> = Some (AdjustBalance_handler drv ?i (Some (- 25))) \<and>
    wallet_dispatch first_match s \<lparr>Api_Method = ''GET'', Api_Path = ''/accounts/7c9e6679-7425/deposits'', Api_Body = None\<rparr>
      = Some (listDeposits ?i)"
    using r [THEN conjunct1, THEN spec, THEN mp, OF b]
      r [THEN conjunct2, THEN conjunct1, THEN spec, THEN spec, THEN mp, OF conjI [OF demo_ids]]
      r [THEN conjunct2, THEN conjunct2, THEN spec, THEN mp, of "SendListDeposits ?i"] demo_ids(1)
    by (simp add: api_post_def api_get_def sent_adjust_def)
qed

end
