(* ===== verification/Spec2Isabelle.thy ===== *)
theory Spec2Isabelle
  imports Bet_Properties Wallet_Properties General_Properties Proxy_Properties
    Startup_Properties General_Races Api_Properties
begin

text \<open>
  Tchebets: a pari-mutuel betting platform in three Go services and a proxy. Paths are under \<open>src/\<close>.

  \<^bold>\<open>The program.\<close> \<^verbatim>\<open>bet-backend\<close> is the engine: users with a balance in whole
  reais, markets with one pool per outcome, bets, the settlement of a market, and the resale of
  bets; its tables are in Postgres, odds are cached in Redis. \<^verbatim>\<open>wallet-backend\<close> brings
  money in and out through Solana: it derives a deposit address per account, scans and ingests
  deposits, converts between USDC and reais, pays withdrawals and runs a test faucet; it keeps
  no balances, it asks the engine to adjust them over HTTP. \<^verbatim>\<open>general-backend\<close> is what
  browsers talk to: accounts, sessions, pages and a JSON relay; it calls the other two over HTTP.

  \<^bold>\<open>How Go is modelled.\<close> A function that returns \<open>(T, error)\<close> and touches a store is a
  value of the monad \<open>('world, 'error, 'a) io\<close> of \<^verbatim>\<open>Prelude\<close>: a function from
  the world to \<open>Inl error\<close> or \<open>Inr result\<close> with the new world. Every early return is
  a branch of it. \<open>int64\<close> is \<open>int\<close> with \<open>i64\<close> written where Go wraps;
  \<open>uint64\<close>, \<open>uint32\<close> and bytes are words; \<open>float64\<close> is IEEE binary64 on
  rationals (\<^verbatim>\<open>Float64\<close>), with round-to-nearest-even spelled out. A Go string is its
  bytes. Struct types are records with the source's field names, prefixed by the type where two
  clash.

  \<^bold>\<open>Databases and transactions.\<close> A table is the list of its rows in insertion order. An SQL
  statement is a function on the tables that fails where the schema's constraints make Postgres
  fail. A transaction runs on a copy of the tables and either commits or leaves none of its
  effects; the statements that take row locks log them, in order, so that lock orders can be
  compared. In the engine a fault plan says which of the next calls to Postgres or Redis fail, a
  commit included. In the wallet and in the web server each statement is its own transaction
  and takes the next \<open>fate\<close> of a list: \<open>Answered\<close>, \<open>RequestLost\<close> (an error,
  nothing done) or \<open>ReplyLost\<close> (an error, but it was done); the HTTP calls to other
  services take theirs from a second list. An exhausted list answers. The Solana network is
  any function of the calls made so far. Theorems quantify over plans, lists and networks, so
  they cover every placement of failures.

  \<^bold>\<open>Parameters.\<close> Code that is not under \<open>src/\<close> is an argument: the drivers' error
  texts, the uuid parser (the text of a uuid is its canonical one), bcrypt, Ed25519, HMAC and the
  hash functions (\<open>crypto_lib\<close>), the Solana network (\<open>solana\<close>), the Jupiter service,
  the QR encoder, the Unicode case tables and the e-mail pattern (\<open>general_lib\<close>). What a
  property needs of one is a hypothesis of that property, such as \<open>bcrypt\<close> accepting its own
  hashes, and its witness instantiates it. JSON between the services carries bodies unchanged:
  the clients of \<^verbatim>\<open>General_Clients\<close> call the handlers and read their bodies field by field;
  \<^verbatim>\<open>Api_Routes\<close> and \<^verbatim>\<open>Api_Clients\<close> show that the paths and the JSON they send
  lead there, for any router that does what \<^verbatim>\<open>gin\<close> documents (\<open>gin_ok\<close>).

  \<^bold>\<open>The engine.\<close> \<^verbatim>\<open>Bet_Models\<close> (\<open>models/models.go\<close>), \<^verbatim>\<open>Bet_Db\<close>
  (the schema and statements, \<open>db/db.go\<close>), \<^verbatim>\<open>Bet_Cache\<close> (\<open>cache/redis.go\<close>),
  \<^verbatim>\<open>Bet_Market\<close> (\<open>service/market_service.go\<close>), \<^verbatim>\<open>Bet_Listing\<close>
  (\<open>service/listing_service.go\<close>), \<^verbatim>\<open>Bet_Handlers\<close> (\<open>handlers/\<close>).
  \<^verbatim>\<open>Bet_Inv\<close> states the invariant of the tables (keys, foreign keys, non-negative balances
  and stakes, each pool the sum of its stakes, at most one active listing per bet) and
  \<^verbatim>\<open>Bet_Steps\<close> what each statement does to it. \<^verbatim>\<open>Bet_Settlement\<close> specifies
  settlement over unbounded integers with no database; \<^verbatim>\<open>Bet_Market_Correct\<close>,
  \<^verbatim>\<open>Bet_Creation\<close>, \<^verbatim>\<open>Bet_Listing_Correct\<close>, \<^verbatim>\<open>Bet_Reads\<close> and
  \<^verbatim>\<open>Bet_Results\<close> show what each operation does on success, on each guard's failure and
  under faults. \<^verbatim>\<open>Bet_Engine\<close> states the contracts as locales: \<open>engine_op\<close> (an error
  changes no table, a success keeps the invariant), \<open>money_op\<close> and \<open>conserving_op\<close>
  (what the call does to the total of money), interpreted on each operation of the service.
  \<^verbatim>\<open>Bet_System\<close> closes them over any sequence of calls.

  \<^bold>\<open>The wallet.\<close> \<^verbatim>\<open>Wallet_Models\<close>, \<^verbatim>\<open>Wallet_Store\<close> (\<open>store/\<close>
  over the schema of \<open>db/\<close>), \<^verbatim>\<open>Wallet_Crypto\<close> (\<open>crypto/derivation.go\<close>),
  \<^verbatim>\<open>Wallet_Chain\<close> (\<open>chain/\<close>: the RPC client, the Jupiter swapper, the scanner),
  \<^verbatim>\<open>Wallet_Ledger\<close> (\<open>betclient/\<close>, over the engine's adjust handler),
  \<^verbatim>\<open>Wallet_Service\<close> (\<open>service/service.go\<close> and \<open>poller/poller.go\<close>),
  \<^verbatim>\<open>Wallet_Handlers\<close>, \<^verbatim>\<open>Wallet_Config\<close>, and \<^verbatim>\<open>Wallet_Main\<close>
  (\<open>main.go\<close>, \<open>cmd/\<close>), where the service started is shown to be a live one. The Go interfaces are locales:
  \<open>chain_contract\<close>, \<open>swap_contract\<close>, \<open>scan_contract\<close> in
  \<^verbatim>\<open>Wallet_Contracts\<close>, \<open>ledger_client\<close> and \<open>working_ledger\<close> in
  \<^verbatim>\<open>Wallet_Ledger\<close>, and \<open>once_guard\<close> for the two idempotence keys. The client of
  them all is \<open>wallet_service\<close> (\<^verbatim>\<open>Wallet_Correct\<close>, \<^verbatim>\<open>Wallet_Money\<close>,
  \<^verbatim>\<open>Wallet_System\<close>), interpreted on \<open>live_service\<close>, the service with the
  implementations of the repository. \<^verbatim>\<open>Triples\<close> has the rules, \<^verbatim>\<open>Wallet_Frames\<close>,
  \<^verbatim>\<open>Wallet_Effects\<close>, \<^verbatim>\<open>Wallet_Scan\<close> and \<^verbatim>\<open>Wallet_Status\<close> the lemmas
  on operations.

  \<^bold>\<open>The web server.\<close> \<^verbatim>\<open>General_Text\<close> (Go's text packages), \<^verbatim>\<open>General_Sanitize\<close>
  (\<open>sanitize/\<close>), \<^verbatim>\<open>General_Store\<close> (\<open>store/\<close>, \<open>auth/password.go\<close>),
  \<^verbatim>\<open>General_Clients\<close> (\<open>betclient/\<close> and \<open>walletclient/\<close>),
  \<^verbatim>\<open>General_Views\<close> (\<open>views/viewmodels.go\<close>, \<open>handlers/viewbuild.go\<close>,
  \<open>handlers/teams.go\<close>), \<^verbatim>\<open>General_Handlers\<close> (\<open>handlers/handlers.go\<close>),
  \<^verbatim>\<open>General_Pages\<close> (\<open>auth/session.go\<close>, \<open>nav.go\<close>, and the auth, public,
  listing and admin handlers), \<^verbatim>\<open>General_Profile\<close> (\<open>profile_handlers.go\<close>),
  \<^verbatim>\<open>General_System\<close> (\<open>main.go\<close>: routes and middleware, a request as one step).
  \<^verbatim>\<open>General_Templates\<close> is the HTML of the pages (\<open>views/*_templ.go\<close>), literal by literal, over
  a writer that can fail; the functions of the \<^verbatim>\<open>templ\<close> library are the fields of
  \<open>templ_lib\<close>. \<^verbatim>\<open>General_Markup\<close> shows that a page's angle brackets and quotes depend on
  its shape only, and that a page is written to its end when nothing fails.
  \<^verbatim>\<open>General_Frames\<close> states what an invariant of the server needs
  (\<open>general_invariant\<close>, \<open>admin_invariant\<close>); the interpretations in
  \<^verbatim>\<open>General_Correct\<close> are the composition with the two services, the schema of the
  accounts, the stability of an account and of the set of administrators.
  \<^verbatim>\<open>General_Effects\<close> follows the forms down to the table that changes,
  \<^verbatim>\<open>General_Format\<close> has the texts. \<^verbatim>\<open>General_Races\<close> takes the play-money
  deposit apart into its two exchanges, with calls of the engine in between.

  \<^bold>\<open>Starting.\<close> \<^verbatim>\<open>Startup\<close> is \<open>InitDB\<close> of the three services
  (\<open>bet-backend/db/db.go\<close>, \<open>wallet-backend/db/db.go\<close>, \<open>general-backend/store/db.go\<close>),
  \<open>InitRedis\<close> and the \<open>main\<close> functions up to the call that listens, over a server that
  is its databases' schemas and the fates of the next pings and statements.
  \<^verbatim>\<open>Startup_Correct\<close> shows that a migration that has run finds nothing left to do in any
  later schema; the locale \<open>migration\<close> takes a list of such statements through the loop, failures
  included, and is interpreted on the three lists. \<^verbatim>\<open>Startup_Properties\<close> has what follows for
  a service that is started again and again.

  \<^bold>\<open>The proxy.\<close> \<^verbatim>\<open>Proxy\<close> is \<open>solana-rpc-proxy/main.go\<close> with the parsers of
  Go's \<open>net\<close> and \<open>netip\<close> it rests on; \<^verbatim>\<open>Proxy_Properties\<close> shows which clients it admits.

  \<^bold>\<open>What is shown.\<close> \<^verbatim>\<open>Bet_Properties\<close>, \<^verbatim>\<open>Wallet_Properties\<close>,
  \<^verbatim>\<open>General_Properties\<close>, with \<^verbatim>\<open>Proxy_Properties\<close>, \<^verbatim>\<open>Startup_Properties\<close>,
  \<^verbatim>\<open>General_Races\<close> and \<^verbatim>\<open>Api_Properties\<close>; each theorem is preceded by its statement in words, and each
  with a hypothesis is followed by a witness on the runs of the \<open>Demo\<close> theories. In the
  large: the engine's invariant and its money account hold in every state any sequence of calls
  and faults can reach; a settlement pays what its specification says; a deposit is credited at
  most once, a faucet grant claimed at most once, a withdrawal debited exactly when it
  stands and paid at most once; whatever the web server is asked, the services behind it stay
  in those states, administrators are made only by administrators, and what the withdrawal
  page reports is what happened; a start completes whatever schema broken starts left. Some theorems state what a reader of the code would not
  expect: products that wrap, a withdrawal refunded after its payment went out, a rounding that
  favours the depositor, a public route that sets balances, a deposit that undoes what happened
  while it ran.

  \<^bold>\<open>Bounds.\<close> \<open>fits\<close> says that the square of a market's pot is within
  \<open>int64\<close> (a pot of up to 3,037,000,499 reais), so that no product of its settlement
  wraps; \<open>in_range\<close> collects this and the two other products and sums of the engine that
  can wrap, per call. Integers convert to \<open>float64\<close> exactly below \<open>2^53\<close>.
  \<open>confirmSignature\<close> polls until its context expires: how many polls that allows is given by
  the network (\<open>ctx_polls\<close>) and the recursion is on it, so it ends for every value. The
  ten attempts to connect are the code's own bound. No other loop of the program needs fuel. Times are microseconds.

  \<^bold>\<open>What is not modelled.\<close> Calls on one service are sequential: the effect of an
  interleaving of two transactions is Postgres's, only their lock orders are compared; the web
  server's deposit, two calls, is also studied with other calls between them. Rows
  and bets of one time, whose order Postgres and \<open>sort.Slice\<close> leave open, are sorted stably.
  A request is answered with a page's view model, and the page's HTML is a function of it; the
  places of a template's errors are left out. The proxy's rewriting of a forwarded request is the
  library's, and so are the texts of JSON.
  Starting works on schemas only, the rows a migration writes being those of
  \<open>Bet_Handlers.runMigrations\<close>; the pools of connections, two processes that start at the same
  time, listening, logging, the tests, the assets and the deployment files are left out.
\<close>

end
